(* ===== verification/Prelude.thy ===== *)
theory Prelude
  imports Main "HOL-Library.Word" "HOL-Library.Signed_Division"
begin

unbundle bit_operations_syntax

text \<open>
  Shared vocabulary of the development: the machine integers of the program
  (\<open>uint8_t\<close>, \<open>uint16_t\<close>, \<open>int16_t\<close> as words, \<open>int\<close> as HOL integers), the
  interaction trace with the outside world, the collections of rewrite rules the
  component theories extend, and generic lemmas on lists and bytes.
\<close>

section \<open>Machine integers\<close>

type_synonym u8 = "8 word"
type_synonym u16 = "16 word"

text \<open>
  C++ integer division and remainder truncate towards zero: \<open>sdiv\<close> and \<open>smod\<close> of the
  library. The implicit conversion of an \<open>int\<close> to \<open>uint8_t\<close> keeps the low byte.
\<close>

abbreviation u8_of_int :: "int \<Rightarrow> u8" where
  "u8_of_int i \<equiv> word_of_int i"

abbreviation u16_of_int :: "int \<Rightarrow> u16" where
  "u16_of_int i \<equiv> word_of_int i"

named_theorems frame_rules \<open>which component of a state an operation leaves alone\<close>
named_theorems inv_rules \<open>operations that keep an invariant\<close>

text \<open>\<open>std::to_string\<close> of an unsigned number.\<close>

fun decimal :: "nat \<Rightarrow> string" where
  "decimal n = (if n < 10 then [char_of (48 + n)] else decimal (n div 10) @ [char_of (48 + n mod 10)])"

text \<open>\<open>text.find(word) != npos\<close>.\<close>

fun occurs_in :: "string \<Rightarrow> string \<Rightarrow> bool" where
  "occurs_in w [] = (w = [])"
| "occurs_in w (c # cs) = (take (length w) (c # cs) = w \<or> occurs_in w cs)"

section \<open>Generic lemmas\<close>

lemma uint_u8_of_int [simp]: "uint (u8_of_int i) = i mod 256"
  by (simp add: uint_word_of_int)

lemma uint_u8_small: "0 \<le> i \<Longrightarrow> i < 256 \<Longrightarrow> uint (u8_of_int i) = i"
  by simp

lemma uint_u8_range: "0 \<le> uint (b :: u8)" "uint (b :: u8) < 256"
  using uint_lt2p [of b] by simp_all

lemma uint_u16_range: "0 \<le> uint (b :: u16)" "uint (b :: u16) < 65536"
  using uint_lt2p [of b] by simp_all

lemma sdiv_nonneg: "0 \<le> a \<Longrightarrow> 0 < b \<Longrightarrow> a sdiv b = a div (b :: int)"
  by (cases "a = 0") (simp_all add: signed_divide_int_def)

lemma smod_nonneg: "0 \<le> a \<Longrightarrow> 0 < b \<Longrightarrow> a smod b = a mod (b :: int)"
  by (cases "a = 0") (simp_all add: signed_modulo_int_def)

lemma smod_neg: "a \<le> 0 \<Longrightarrow> 0 < b \<Longrightarrow> a smod b = - ((- a) mod (b :: int))"
  by (cases "a = 0") (simp_all add: signed_modulo_int_def)

text \<open>Combine two optional values; undefined when either is.\<close>

fun lift2 :: "('a \<Rightarrow> 'b \<Rightarrow> 'c) \<Rightarrow> 'a option \<Rightarrow> 'b option \<Rightarrow> 'c option" where
  "lift2 f (Some a) (Some b) = Some (f a b)"
| "lift2 f _ _ = None"

lemma fold_preserves:
  assumes "\<And>x s. x \<in> set xs \<Longrightarrow> P s \<Longrightarrow> P (f x s)" and "P s"
  shows "P (fold f xs s)"
  using assms by (induction xs arbitrary: s) simp_all

lemma fold_unchanged:
  assumes "\<And>x s. x \<in> set xs \<Longrightarrow> g (f x s) = g s"
  shows "g (fold f xs s) = g s"
  using assms by (induction xs arbitrary: s) simp_all

text \<open>Read one entry of an evaluated table of multiples.\<close>

lemma table_entry:
  assumes "map f (map (\<lambda>i. c * int i) [0..<n]) = map g [0..<n]" and "0 \<le> k" and "k < int n"
  shows "f (c * k) = g (nat k)"
proof -
  have "\<forall>i \<in> set [0..<n]. f (c * int i) = g i"
    using assms(1) by (simp add: o_def)
  moreover have "nat k \<in> set [0..<n]" using assms(2,3) by auto
  ultimately have "f (c * int (nat k)) = g (nat k)" by blast
  then show ?thesis using assms(2) by simp
qed

lemma occurs_in_append: "occurs_in w t \<Longrightarrow> occurs_in w (s @ t)"
  by (induction s) simp_all

section \<open>Runs of a step function\<close>

text \<open>
  A component with several threads is a step function: an action of one thread changes the state,
  or is blocked (\<open>None\<close>). A run performs a list of actions.
\<close>

fun run_actions :: "('a \<Rightarrow> 's \<Rightarrow> 's option) \<Rightarrow> 'a list \<Rightarrow> 's \<Rightarrow> 's option" where
  "run_actions step [] s = Some s"
| "run_actions step (a # as) s = Option.bind (step a s) (run_actions step as)"

lemma run_actions_append:
  "run_actions step (as @ bs) s = Option.bind (run_actions step as s) (run_actions step bs)"
  by (induction as arbitrary: s) (auto split: bind_split)

text \<open>A condition that every allowed action keeps holds after every run of allowed actions.\<close>

locale stable_condition =
  fixes step :: "'a \<Rightarrow> 's \<Rightarrow> 's option"
    and allowed :: "'a \<Rightarrow> bool"
    and cond :: "'s \<Rightarrow> bool"
  assumes kept: "cond s \<Longrightarrow> allowed a \<Longrightarrow> step a s = Some s' \<Longrightarrow> cond s'"
begin

lemma kept_run:
  "run_actions step as s = Some s' \<Longrightarrow> \<forall>a \<in> set as. allowed a \<Longrightarrow> cond s \<Longrightarrow> cond s'"
  by (induction as arbitrary: s) (auto simp: bind_eq_Some_conv dest: kept)

end

end
