(* ===== verification/Binary_Float.thy ===== *)
theory Binary_Float
  imports Prelude Complex_Main "HOL-Library.Log_Nat"
begin

text \<open>
  The floating-point arithmetic the program uses, exact to the last bit: IEEE 754 binary
  formats of a given precision (53 for \<open>double\<close>, 24 for \<open>float\<close>) with rounding to
  nearest, ties to even. A finite value is \<open>m * 2 ^ e\<close>. Overflow to infinity, subnormal
  results and NaN are outside the model: no operation modelled here comes near them, the
  operands being small integers, byte and word readings and literal constants.
\<close>

section \<open>Values and rounding\<close>

datatype flt = Flt (fmant: int) (fexp: int)

definition dbl_prec :: int where "dbl_prec = 53"
definition flt_prec :: int where "flt_prec = 24"

definition round_even :: "int \<Rightarrow> int \<Rightarrow> int" where
  "round_even n d =
     (let q = n div d; r = n mod d
      in if 2 * r < d \<or> (2 * r = d \<and> even q) then q else q + 1)"

definition round_scaled :: "int \<Rightarrow> int \<Rightarrow> int \<Rightarrow> int" where
  "round_scaled n d s =
     (if 0 \<le> s then round_even (n * 2 ^ nat s) d else round_even n (d * 2 ^ nat (- s)))"

definition fits_scaled :: "int \<Rightarrow> int \<Rightarrow> int \<Rightarrow> int \<Rightarrow> bool" where
  "fits_scaled p n d s =
     (if 0 \<le> s then \<bar>n\<bar> * 2 ^ nat s < d * 2 ^ nat p else \<bar>n\<bar> < d * 2 ^ nat (- s) * 2 ^ nat p)"

text \<open>\<open>fround p n d e\<close> is the \<open>p\<close>-bit number nearest to \<open>n / d * 2 ^ e\<close>.\<close>

definition fround :: "int \<Rightarrow> int \<Rightarrow> int \<Rightarrow> int \<Rightarrow> flt" where
  "fround p n d e =
     (if n = 0 then Flt 0 0
      else let s0 = p - (bitlen \<bar>n\<bar> - bitlen d);
               s = (if fits_scaled p n d s0 then s0 else s0 - 1)
           in Flt (round_scaled n d s) (e - s))"

section \<open>Arithmetic\<close>

definition fof_int :: "int \<Rightarrow> int \<Rightarrow> flt" where
  "fof_int p i = fround p i 1 0"

text \<open>A decimal literal \<open>n / d\<close> (for example \<open>0.001f\<close>) is its nearest value.\<close>

definition flit :: "int \<Rightarrow> int \<Rightarrow> int \<Rightarrow> flt" where
  "flit p n d = fround p n d 0"

definition fmul :: "int \<Rightarrow> flt \<Rightarrow> flt \<Rightarrow> flt" where
  "fmul p a b = fround p (fmant a * fmant b) 1 (fexp a + fexp b)"

definition fdiv :: "int \<Rightarrow> flt \<Rightarrow> flt \<Rightarrow> flt" where
  "fdiv p a b =
     (if fmant b < 0 then fround p (- fmant a) (- fmant b) (fexp a - fexp b)
      else fround p (fmant a) (fmant b) (fexp a - fexp b))"

definition aligned :: "flt \<Rightarrow> int \<Rightarrow> int" where
  "aligned a e = fmant a * 2 ^ nat (fexp a - e)"

definition fadd :: "int \<Rightarrow> flt \<Rightarrow> flt \<Rightarrow> flt" where
  "fadd p a b =
     (let e = min (fexp a) (fexp b) in fround p (aligned a e + aligned b e) 1 e)"

definition fneg :: "flt \<Rightarrow> flt" where
  "fneg a = Flt (- fmant a) (fexp a)"

definition fsub :: "int \<Rightarrow> flt \<Rightarrow> flt \<Rightarrow> flt" where
  "fsub p a b = fadd p a (fneg b)"

definition flt_less :: "flt \<Rightarrow> flt \<Rightarrow> bool" where
  "flt_less a b = (let e = min (fexp a) (fexp b) in aligned a e < aligned b e)"

text \<open>Conversion between the formats (\<open>double\<close> to \<open>float\<close> rounds, the other way is exact).\<close>

definition fcast :: "int \<Rightarrow> flt \<Rightarrow> flt" where
  "fcast p a = fround p (fmant a) 1 (fexp a)"

text \<open>Conversion to \<open>int\<close> drops the fraction.\<close>

definition ftrunc :: "flt \<Rightarrow> int" where
  "ftrunc a =
     (if 0 \<le> fexp a then fmant a * 2 ^ nat (fexp a)
      else fmant a sdiv 2 ^ nat (- fexp a))"

definition ffloor :: "flt \<Rightarrow> int" where
  "ffloor a =
     (if 0 \<le> fexp a then fmant a * 2 ^ nat (fexp a)
      else fmant a div 2 ^ nat (- fexp a))"

section \<open>The value of a result and its rounding error\<close>

definition fval :: "flt \<Rightarrow> real" where
  "fval a = of_int (fmant a) * 2 powi fexp a"

lemma round_even_error:
  assumes "0 < d"
  shows "\<bar>real_of_int (round_even n d) - of_int n / of_int d\<bar> \<le> 1 / 2"
proof -
  let ?q = "n div d" and ?r = "n mod d"
  have n: "real_of_int n = of_int d * of_int ?q + of_int ?r"
    by (metis mult_div_mod_eq of_int_add of_int_mult)
  have r: "0 \<le> ?r" "?r < d" using assms by simp_all
  have "real_of_int n / of_int d = of_int ?q + of_int ?r / of_int d"
    using assms by (simp add: n field_simps)
  moreover have "0 \<le> real_of_int ?r / of_int d" "real_of_int ?r / of_int d < 1"
    using r assms by (simp_all add: field_simps)
  moreover have "2 * ?r \<le> d \<Longrightarrow> real_of_int ?r / of_int d \<le> 1 / 2"
    using assms by (simp add: field_simps)
  moreover have "d \<le> 2 * ?r \<Longrightarrow> 1 / 2 \<le> real_of_int ?r / of_int d"
    using assms by (simp add: field_simps)
  ultimately show ?thesis
    by (auto simp: round_even_def Let_def abs_le_iff not_less)
qed

lemma round_scaled_error:
  assumes "0 < d"
  shows "\<bar>real_of_int (round_scaled n d s) - of_int n / of_int d * 2 powi s\<bar> \<le> 1 / 2"
proof (cases "0 \<le> s")
  case True
  then show ?thesis
    using round_even_error [OF assms, of "n * 2 ^ nat s"]
    by (simp add: round_scaled_def power_int_def mult.commute)
next
  case False
  then show ?thesis
    using round_even_error [of "d * 2 ^ nat (- s)" n] assms
    by (simp add: round_scaled_def power_int_def field_simps)
qed

lemma fits_scaled_iff:
  assumes "0 < d" and "0 \<le> p"
  shows "fits_scaled p n d s \<longleftrightarrow> of_int \<bar>n\<bar> / of_int d * 2 powi s < (2 powi p :: real)"
proof (cases "0 \<le> s")
  case True
  have "fits_scaled p n d s \<longleftrightarrow>
      real_of_int (\<bar>n\<bar> * 2 ^ nat s) < real_of_int (d * 2 ^ nat p)"
    using True unfolding of_int_less_iff by (simp add: fits_scaled_def)
  also have "\<dots> \<longleftrightarrow> of_int \<bar>n\<bar> / of_int d * 2 powi s < (2 powi p :: real)"
    using True assms by (simp add: power_int_def field_simps)
  finally show ?thesis .
next
  case False
  have "fits_scaled p n d s \<longleftrightarrow>
      real_of_int \<bar>n\<bar> < real_of_int (d * 2 ^ nat (- s) * 2 ^ nat p)"
    using False unfolding of_int_less_iff by (simp add: fits_scaled_def)
  also have "\<dots> \<longleftrightarrow> of_int \<bar>n\<bar> / of_int d * 2 powi s < (2 powi p :: real)"
    using False assms by (simp add: power_int_def field_simps)
  finally show ?thesis .
qed

lemma bitlen_real_bounds:
  assumes "0 < n"
  shows "2 powi (bitlen n - 1) \<le> real_of_int n" and "real_of_int n < 2 powi bitlen n"
proof -
  have b: "2 ^ nat (bitlen n - 1) \<le> n" "n < 2 ^ nat (bitlen n)" "0 < bitlen n"
    using bitlen_bounds [OF assms] bitlen_nonneg [of n] bitlen_eq_zero_iff [of n] assms
    by linarith+
  have "real_of_int (2 ^ nat (bitlen n - 1)) \<le> real_of_int n"
    using b(1) of_int_le_iff by blast
  then show "2 powi (bitlen n - 1) \<le> real_of_int n"
    using b(3) by (simp add: power_int_def)
  have "real_of_int n < real_of_int (2 ^ nat (bitlen n))"
    using b(2) of_int_less_iff by blast
  then show "real_of_int n < 2 powi bitlen n"
    using b(3) by (simp add: power_int_def)
qed

lemma two_powi_pred: "(2 :: real) powi k = 2 * 2 powi (k - 1)"
  using power_int_add [of "2 :: real" "k - 1" 1] by simp

text \<open>The chosen scale leaves at least \<open>p\<close> bits before the point.\<close>

lemma scale_enough:
  assumes "n \<noteq> 0" and "0 < d" and "0 \<le> p"
    and "s = (if fits_scaled p n d s0 then s0 else s0 - 1)"
    and "s0 = p - (bitlen \<bar>n\<bar> - bitlen d)"
  shows "2 powi (p - 1) \<le> real_of_int \<bar>n\<bar> / of_int d * 2 powi s"
proof (cases "fits_scaled p n d s0")
  case True
  have n: "2 powi (bitlen \<bar>n\<bar> - 1) \<le> real_of_int \<bar>n\<bar>"
    using assms(1) bitlen_real_bounds(1) [of "\<bar>n\<bar>"] by simp
  have d: "real_of_int d \<le> 2 powi bitlen d" "0 < real_of_int d"
    using assms(2) bitlen_real_bounds(2) [of d] by simp_all
  have "2 powi (p - 1) = 2 powi (bitlen \<bar>n\<bar> - 1) / 2 powi bitlen d * (2 powi s0 :: real)"
    by (simp add: assms(5) flip: power_int_add power_int_diff)
  also have "\<dots> \<le> real_of_int \<bar>n\<bar> / of_int d * 2 powi s0"
    using n d by (intro mult_right_mono frac_le) simp_all
  finally show ?thesis using True assms(4) by simp
next
  case False
  then have "2 powi p \<le> real_of_int \<bar>n\<bar> / of_int d * 2 powi s0"
    using fits_scaled_iff [OF assms(2,3)] by (simp add: not_less)
  then have "2 * 2 powi (p - 1) \<le>
      real_of_int \<bar>n\<bar> / of_int d * (2 * 2 powi (s0 - 1))"
    using two_powi_pred [of p] two_powi_pred [of s0] by simp
  then have "2 powi (p - 1) \<le> real_of_int \<bar>n\<bar> / of_int d * 2 powi (s0 - 1)"
    by (simp only: mult.left_commute [of _ 2] mult_le_cancel_left_pos zero_less_numeral)
  then show ?thesis using False assms(4) by simp
qed

lemma abs_error_scale:
  fixes m x u c :: real
  assumes "\<bar>m - x\<bar> \<le> \<bar>x\<bar> * u" and "0 < c"
  shows "\<bar>m * c - x * c\<bar> \<le> \<bar>x * c\<bar> * u"
proof -
  have "\<bar>m - x\<bar> * c \<le> \<bar>x\<bar> * u * c"
    using assms by (intro mult_right_mono) simp_all
  moreover have "\<bar>m * c - x * c\<bar> = \<bar>m - x\<bar> * c" "\<bar>x * c\<bar> = \<bar>x\<bar> * c"
    using assms(2) by (simp_all add: abs_mult flip: left_diff_distrib)
  ultimately show ?thesis by (simp add: ac_simps)
qed

lemma fround_error:
  assumes "0 < d" and "0 \<le> p"
  shows "\<bar>fval (fround p n d e) - of_int n / of_int d * 2 powi e\<bar> \<le>
         \<bar>of_int n / of_int d * 2 powi e\<bar> * 2 powi (- p)"
proof (cases "n = 0")
  case True
  then show ?thesis by (simp add: fround_def fval_def)
next
  case False
  define s0 where "s0 = p - (bitlen \<bar>n\<bar> - bitlen d)"
  define s where "s = (if fits_scaled p n d s0 then s0 else s0 - 1)"
  let ?x = "real_of_int n / of_int d" and ?m = "real_of_int (round_scaled n d s)"
  have m: "fval (fround p n d e) = ?m * 2 powi (e - s)"
    using False by (simp add: fround_def fval_def Let_def s_def s0_def)
  have x: "?x * 2 powi e = (?x * 2 powi s) * 2 powi (e - s)"
    by (simp add: mult.assoc flip: power_int_add)
  have "2 powi (p - 1) \<le> \<bar>?x * 2 powi s\<bar>"
    using scale_enough [OF False assms s_def s0_def] assms(1) by (simp add: abs_mult)
  then have "2 powi (p - 1) * 2 powi (- p) \<le> \<bar>?x * 2 powi s\<bar> * 2 powi (- p)"
    by (rule mult_right_mono) simp
  moreover have "2 powi (p - 1) * 2 powi (- p) = (1 / 2 :: real)"
    using power_int_add [of "2 :: real" "p - 1" "- p"] by (simp add: power_int_minus)
  ultimately have "\<bar>?m - ?x * 2 powi s\<bar> \<le> \<bar>?x * 2 powi s\<bar> * 2 powi (- p)"
    using round_scaled_error [OF assms(1), of n s] by linarith
  then show ?thesis
    unfolding m x by (rule abs_error_scale) simp
qed

lemma fval_Flt: "fval (Flt m e) = of_int m * 2 powi e"
  by (simp add: fval_def)

lemma fmul_error:
  assumes "0 \<le> p"
  shows "\<bar>fval (fmul p a b) - fval a * fval b\<bar> \<le> \<bar>fval a * fval b\<bar> * 2 powi (- p)"
  using fround_error [of 1 p "fmant a * fmant b" "fexp a + fexp b"] assms
  by (simp add: fmul_def fval_def power_int_add ac_simps)

lemma fdiv_error:
  assumes "0 \<le> p" and "0 < fmant b"
  shows "\<bar>fval (fdiv p a b) - fval a / fval b\<bar> \<le> \<bar>fval a / fval b\<bar> * 2 powi (- p)"
  using fround_error [of "fmant b" p "fmant a" "fexp a - fexp b"] assms
  by (simp add: fdiv_def fval_def power_int_diff)

lemma fval_aligned:
  assumes "e \<le> fexp a"
  shows "fval a = of_int (aligned a e) * 2 powi e"
proof -
  have "(2 :: real) powi fexp a = 2 powi (fexp a - e) * 2 powi e"
    by (simp flip: power_int_add)
  then show ?thesis using assms by (simp add: fval_def aligned_def power_int_def)
qed

lemma fadd_error:
  assumes "0 \<le> p"
  shows "\<bar>fval (fadd p a b) - (fval a + fval b)\<bar> \<le> \<bar>fval a + fval b\<bar> * 2 powi (- p)"
proof -
  let ?e = "min (fexp a) (fexp b)"
  have "fval a + fval b = of_int (aligned a ?e + aligned b ?e) * 2 powi ?e"
    using fval_aligned [of ?e a] fval_aligned [of ?e b] by (simp add: distrib_right)
  then show ?thesis
    using fround_error [of 1 p "aligned a ?e + aligned b ?e" ?e] assms
    by (simp add: fadd_def Let_def)
qed

lemma flt_less_iff: "flt_less a b \<longleftrightarrow> fval a < fval b"
proof -
  let ?e = "min (fexp a) (fexp b)"
  have "fval a < fval b \<longleftrightarrow> of_int (aligned a ?e) < real_of_int (aligned b ?e)"
    using fval_aligned [of ?e a] fval_aligned [of ?e b] by simp
  then show ?thesis by (simp add: flt_less_def Let_def)
qed

lemma round_scaled_exact:
  assumes "0 < d" and "real_of_int n / of_int d * 2 powi s = of_int z"
  shows "round_scaled n d s = z"
proof (cases "0 \<le> s")
  case True
  then have "real_of_int (n * 2 ^ nat s) = real_of_int (z * d)"
    using assms by (simp add: power_int_def field_simps)
  then have "n * 2 ^ nat s = z * d" by (simp only: of_int_eq_iff)
  then show ?thesis using True assms(1) by (simp add: round_scaled_def round_even_def)
next
  case False
  then have "real_of_int n = real_of_int (z * (d * 2 ^ nat (- s)))"
    using assms by (simp add: power_int_def field_simps)
  then have "n = z * (d * 2 ^ nat (- s))" by (simp only: of_int_eq_iff)
  then show ?thesis using False assms(1) by (simp add: round_scaled_def round_even_def)
qed

text \<open>A result that is an integer of at most \<open>p\<close> bits is exact.\<close>

lemma fround_exact:
  assumes "0 < d" and "0 \<le> p" and "real_of_int n / of_int d * 2 powi e = of_int k" and "\<bar>k\<bar> < 2 ^ nat p"
  shows "fval (fround p n d e) = of_int k"
proof (cases "n = 0")
  case True
  then show ?thesis using assms(3) by (simp add: fround_def fval_def)
next
  case False
  define s0 where "s0 = p - (bitlen \<bar>n\<bar> - bitlen d)"
  define s where "s = (if fits_scaled p n d s0 then s0 else s0 - 1)"
  have nd: "real_of_int n / of_int d = of_int k * 2 powi (- e)"
    using assms(3) by (simp add: power_int_minus field_simps)
  have "2 powi (p - 1) \<le> real_of_int \<bar>n\<bar> / of_int d * 2 powi s"
    by (rule scale_enough [OF False assms(1,2) s_def s0_def])
  also have "\<dots> = \<bar>real_of_int n / of_int d\<bar> * 2 powi s" using assms(1) by simp
  also have "\<dots> = of_int \<bar>k\<bar> * 2 powi (s - e)"
    by (simp add: nd abs_mult flip: power_int_add)
  finally have big: "2 powi (p - 1) \<le> real_of_int \<bar>k\<bar> * 2 powi (s - e)" .
  have small: "real_of_int \<bar>k\<bar> < 2 powi p"
    using assms(2,4) of_int_less_iff [where 'a = real, of "\<bar>k\<bar>" "2 ^ nat p"] by (simp add: power_int_def)
  have "0 \<le> s - e"
  proof (rule ccontr)
    assume "\<not> 0 \<le> s - e"
    then have "(2 :: real) powi (s - e) \<le> 2 powi (- 1)" by (intro power_int_increasing) simp_all
    then have "real_of_int \<bar>k\<bar> * 2 powi (s - e) \<le> real_of_int \<bar>k\<bar> * 2 powi (- 1)"
      by (intro mult_left_mono) simp_all
    with big have "2 * 2 powi (p - 1) \<le> real_of_int \<bar>k\<bar>" by (simp add: power_int_minus)
    with small two_powi_pred [of p] show False by simp
  qed
  have "real_of_int n / of_int d * 2 powi s = of_int k * 2 powi (s - e)"
    by (simp add: nd mult.assoc flip: power_int_add)
  also have "\<dots> = of_int (k * 2 ^ nat (s - e))"
    using \<open>0 \<le> s - e\<close> by (simp add: power_int_def)
  finally have "real_of_int n / of_int d * 2 powi s = of_int (k * 2 ^ nat (s - e))" .
  then have "round_scaled n d s = k * 2 ^ nat (s - e)" by (rule round_scaled_exact [OF assms(1)])
  then have "fround p n d e = Flt (k * 2 ^ nat (s - e)) (e - s)"
    using False by (simp add: fround_def Let_def flip: s0_def s_def)
  moreover have "(2 :: real) ^ nat (s - e) * 2 powi (e - s) = 1"
    using \<open>0 \<le> s - e\<close> by (simp add: power_int_def flip: power_mult_distrib)
  ultimately show ?thesis by (simp add: fval_def mult.assoc)
qed

lemma fadd_exact:
  assumes "0 \<le> p" and "fval a + fval b = of_int k" and "\<bar>k\<bar> < 2 ^ nat p"
  shows "fval (fadd p a b) = of_int k"
proof -
  let ?e = "min (fexp a) (fexp b)"
  have "fval a + fval b = of_int (aligned a ?e + aligned b ?e) * 2 powi ?e"
    using fval_aligned [of ?e a] fval_aligned [of ?e b] by (simp add: distrib_right)
  then show ?thesis
    using fround_exact [of 1 p "aligned a ?e + aligned b ?e" ?e k] assms by (simp add: fadd_def Let_def)
qed

lemma fdiv_exact:
  assumes "0 \<le> p" and "0 < fmant b" and "fval a / fval b = of_int k" and "\<bar>k\<bar> < 2 ^ nat p"
  shows "fval (fdiv p a b) = of_int k"
  using fround_exact [of "fmant b" p "fmant a" "fexp a - fexp b" k] assms
  by (simp add: fdiv_def fval_def power_int_diff)

lemma fval_fneg [simp]: "fval (fneg a) = - fval a"
  by (simp add: fneg_def fval_def)

lemma fsub_exact:
  assumes "0 \<le> p" and "fval a - fval b = of_int k" and "\<bar>k\<bar> < 2 ^ nat p"
  shows "fval (fsub p a b) = of_int k"
  using fadd_exact [of p a "fneg b" k] assms by (simp add: fsub_def)

lemma fval_fof_int: "0 \<le> p \<Longrightarrow> \<bar>i\<bar> < 2 ^ nat p \<Longrightarrow> fval (fof_int p i) = of_int i"
  using fround_exact [of 1 p i 0 i] by (simp add: fof_int_def)

text \<open>Truncation of a value that is not negative is its floor.\<close>

lemma ftrunc_floor:
  assumes "0 \<le> fval a"
  shows "ftrunc a = \<lfloor>fval a\<rfloor>"
proof (cases "0 \<le> fexp a")
  case True
  then have "fval a = of_int (fmant a * 2 ^ nat (fexp a))"
    by (simp add: fval_def power_int_def)
  then show ?thesis
    using True by (simp only: ftrunc_def floor_of_int if_True)
next
  case False
  have "0 \<le> fmant a"
  proof (rule ccontr)
    assume "\<not> 0 \<le> fmant a"
    then have "fval a < 0" unfolding fval_def by (intro mult_neg_pos) simp_all
    with assms show False by simp
  qed
  moreover have "fval a = real_of_int (fmant a) / real_of_int (2 ^ nat (- fexp a))"
    using False by (simp add: fval_def power_int_def field_simps)
  ultimately show ?thesis
    using False floor_divide_of_int_eq [where 'a = real, of "fmant a" "2 ^ nat (- fexp a)"]
    by (simp add: ftrunc_def sdiv_nonneg)
qed

text \<open>
  A computed value close to a fraction that is no integer has the same floor: rounding can
  only change a truncated result where the exact one is an integer.
\<close>

lemma floor_near_fraction:
  fixes v :: real
  assumes "0 < d" and "n mod d \<noteq> 0" and "\<bar>v - of_int n / of_int d\<bar> < 1 / of_int d"
  shows "\<lfloor>v\<rfloor> = n div d"
proof -
  have r: "1 \<le> n mod d" "n mod d \<le> d - 1"
    using assms(1,2) pos_mod_sign [of d n] pos_mod_bound [of d n] by linarith+
  have n: "real_of_int n = of_int d * of_int (n div d) + of_int (n mod d)"
    by (metis mult_div_mod_eq of_int_add of_int_mult)
  have d: "0 < real_of_int d" using assms(1) by simp
  have eq: "real_of_int n / of_int d = of_int (n div d) + of_int (n mod d) / of_int d"
    using d by (simp add: n field_simps)
  have "1 / of_int d \<le> real_of_int (n mod d) / of_int d"
    "real_of_int (n mod d) / of_int d \<le> (of_int d - 1) / of_int d"
    using r d by (intro divide_right_mono; linarith)+
  moreover have "(of_int d - 1) / of_int d = 1 - 1 / real_of_int d"
    using d by (simp add: field_simps)
  ultimately show ?thesis
    using assms(3) eq by (intro floor_unique) (simp_all add: abs_less_iff)
qed

definition dbl_eps :: real where
  "dbl_eps = 1 / 10 ^ 15"

lemma dbl_eps_bounds: "0 < dbl_eps" "10000 * (11000 * dbl_eps) \<le> 1"
  by (simp_all add: dbl_eps_def)

lemma dbl_unit: "(2 :: real) powi (- dbl_prec) \<le> dbl_eps"
  by (simp add: dbl_prec_def dbl_eps_def power_int_def power_one_over)

lemma dbl_prec_nonneg [simp]: "0 \<le> dbl_prec"
  by (simp add: dbl_prec_def)

text \<open>The error of one \<open>double\<close> operation, with a decimal bound on the unit.\<close>

lemma dbl_error_bound:
  fixes v x :: real
  assumes "\<bar>v - x\<bar> \<le> \<bar>x\<bar> * 2 powi (- dbl_prec)" and "\<bar>x\<bar> \<le> b"
  shows "\<bar>v - x\<bar> \<le> b * dbl_eps"
proof -
  have "\<bar>x\<bar> * 2 powi (- dbl_prec) \<le> b * dbl_eps"
    using assms(2) dbl_unit by (intro mult_mono) simp_all
  then show ?thesis using assms(1) by simp
qed

lemma fval_dbl_int: "\<bar>i\<bar> < 2 ^ 53 \<Longrightarrow> fval (fof_int dbl_prec i) = of_int i"
  by (rule fval_fof_int) (simp_all add: dbl_prec_def)

end
