(* ===== verification/Data_Types.thy ===== *)
theory Data_Types
  imports Binary_Float
begin

text \<open>
  The data the components exchange: the enumerations and structs of
  \<open>controllers/controller_data_structures.h\<close>, \<open>gesture_defs.h\<close>,
  \<open>public_data_messages.h\<close> and \<open>statemachines/event.h\<close>, in the order of the sources.
  Constructors carry a prefix because the C++ enumerations reuse names
  (\<open>none\<close>, \<open>control\<close>, \<open>forward\<close>).
\<close>

section \<open>Controllers (controller_data_structures.h)\<close>

datatype DCMotorDirection = Dir_forward | Dir_backward

datatype DCMotor = Motor_left | Motor_right

record DCMotorState =
  leftMotorMagnitude :: int
  leftMotorDirection :: DCMotorDirection
  rightMotorMagnitude :: int
  rightMotorDirection :: DCMotorDirection

record CompassData =
  cd_angle :: u16
  cd_magnetX :: u16
  cd_magnetY :: u16

record DistanceData =
  dd_distance :: int
  dd_strength :: int
  dd_temperature :: int

record PowerData =
  pd_busVoltage :: flt
  pd_shuntVoltage :: flt
  pd_current :: flt
  pd_power :: flt

datatype ServoMotorJoint =
    J_rightArm | J_leftArm | J_neck | J_headLeftRight | J_headUpDown | J_eyeRight | J_eyeLeft

text \<open>
  The numeric value of a joint is its servo channel. A \<open>std::map\<close> over joints is walked
  in the order of these values; \<open>joints\<close> lists them.
\<close>

fun joint_index :: "ServoMotorJoint \<Rightarrow> int" where
  "joint_index J_rightArm = 0"
| "joint_index J_leftArm = 1"
| "joint_index J_neck = 2"
| "joint_index J_headLeftRight = 3"
| "joint_index J_headUpDown = 4"
| "joint_index J_eyeRight = 5"
| "joint_index J_eyeLeft = 6"

definition joints :: "ServoMotorJoint list" where
  "joints = [J_rightArm, J_leftArm, J_neck, J_headLeftRight, J_headUpDown, J_eyeRight, J_eyeLeft]"

instantiation ServoMotorJoint :: linorder
begin

definition less_eq_ServoMotorJoint :: "ServoMotorJoint \<Rightarrow> ServoMotorJoint \<Rightarrow> bool" where
  "a \<le> b \<longleftrightarrow> joint_index a \<le> joint_index b"

definition less_ServoMotorJoint :: "ServoMotorJoint \<Rightarrow> ServoMotorJoint \<Rightarrow> bool" where
  "a < b \<longleftrightarrow> joint_index a < joint_index b"

instance
proof
  fix x y :: ServoMotorJoint
  show "x \<le> y \<Longrightarrow> y \<le> x \<Longrightarrow> x = y"
    by (cases x; cases y) (simp_all add: less_eq_ServoMotorJoint_def)
qed (auto simp: less_eq_ServoMotorJoint_def less_ServoMotorJoint_def)

end

lemma joint_index_inj [simp]: "joint_index a = joint_index b \<longleftrightarrow> a = b"
  by (cases a; cases b) simp_all

lemma joint_index_range: "0 \<le> joint_index j" "joint_index j < 7"
  by (cases j, simp_all)+

lemma joints_complete [simp]: "j \<in> set joints"
  by (cases j) (simp_all add: joints_def)

lemma joints_sorted: "sorted joints \<and> distinct joints"
  by (simp add: joints_def less_eq_ServoMotorJoint_def)

fun Servo_Motor_Joint_Names :: "ServoMotorJoint \<Rightarrow> string" where
  "Servo_Motor_Joint_Names J_rightArm = ''Right Arm''"
| "Servo_Motor_Joint_Names J_leftArm = ''Left Arm''"
| "Servo_Motor_Joint_Names J_neck = ''Neck''"
| "Servo_Motor_Joint_Names J_headUpDown = ''Head Up-Down''"
| "Servo_Motor_Joint_Names J_headLeftRight = ''Head Left-Right''"
| "Servo_Motor_Joint_Names J_eyeRight = ''Eye Right''"
| "Servo_Motor_Joint_Names J_eyeLeft = ''Eye Left''"

lemma Servo_Motor_Joint_Names_inj [simp]:
  "Servo_Motor_Joint_Names a = Servo_Motor_Joint_Names b \<longleftrightarrow> a = b"
  by (cases a; cases b) simp_all

type_synonym joint_angles = "ServoMotorJoint \<rightharpoonup> u8"

definition Default_Joint_Angles :: joint_angles where
  "Default_Joint_Angles =
     [J_rightArm \<mapsto> 15, J_leftArm \<mapsto> 170, J_neck \<mapsto> 78, J_headUpDown \<mapsto> 15,
      J_headLeftRight \<mapsto> 90, J_eyeRight \<mapsto> 160, J_eyeLeft \<mapsto> 20]"

section \<open>Gestures (gesture_defs.h)\<close>

datatype GestureJointState = Js_fulldown | Js_fullup | Js_halfdown | Js_halfup | Js_middle

record GestureJointAngle =
  gja_angle :: int
  gja_symbol :: string

datatype EmotionType =
    Em_happy | Em_angry | Em_funny | Em_serious | Em_curious | Em_worried | Em_surprised
  | Em_confident

datatype ReactionType =
    Re_greeting | Re_listening | Re_talking | Re_accepting | Re_rejecting | Re_thinking
  | Re_agreeing

datatype DirectiveType = Di_followFinger | Di_stopFollow

type_synonym joint_position_list =
  "ServoMotorJoint \<Rightarrow> GestureJointState \<rightharpoonup> GestureJointAngle"

record MotionSequenceItem =
  msi_time :: int
  msi_joints :: "ServoMotorJoint \<rightharpoonup> GestureJointState"

record Motion =
  mo_name :: string
  mo_description :: string
  mo_duration :: int
  mo_joints :: "ServoMotorJoint \<rightharpoonup> GestureJointState"
  mo_sequence :: "MotionSequenceItem list"

record FaceReaction =
  fr_emotion :: string
  fr_reaction :: string

section \<open>Messages (public_data_messages.h, event.h)\<close>

text \<open>The angle thresholds of the body joystick.\<close>

definition RIGHT_MIN :: int where "RIGHT_MIN = -45"
definition RIGHT_MAX :: int where "RIGHT_MAX = 45"
definition UP_MIN :: int where "UP_MIN = 45"
definition UP_MAX :: int where "UP_MAX = 135"
definition LEFT_MIN :: int where "LEFT_MIN = 135"
definition LEFT_MAX :: int where "LEFT_MAX = -135"
definition DOWN_MIN :: int where "DOWN_MIN = -135"
definition DOWN_MAX :: int where "DOWN_MAX = -45"

lemmas direction_thresholds =
  RIGHT_MIN_def RIGHT_MAX_def UP_MIN_def UP_MAX_def LEFT_MIN_def LEFT_MAX_def DOWN_MIN_def
  DOWN_MAX_def

datatype SourceService =
    Src_none | Src_expressionService | Src_perceptionService | Src_landmarkTrackerService
  | Src_mappingService | Src_tuiService | Src_remoteControllerService
  | Src_remoteConnectionService | Src_interactiveChatService

datatype EventType =
    Ev_none | Ev_critical_error | Ev_stop | Ev_timeout | Ev_control | Ev_listen_voice

datatype MessageType =
    Msg_VideoFrame | Msg_SensorData | Msg_ControlData | Msg_DatabaseInsertData | Msg_LLMQuery
  | Msg_RecognizedSpeech | Msg_LLMResponse | Msg_EngageReaction | Msg_RecognizedGesture
  | Msg_GesturePerformanceCompleted | Msg_InteractiveChatStarted | Msg_SensorReadRequest
  | Msg_SpeakRequest | Msg_UpdateRAGDatabaseRequest | Msg_ClearRAGDatabaseRequest
  | Msg_ShowRAGDatabaseRequest | Msg_AIModeOnCall | Msg_AIModeOffCall
  | Msg_StopPerceptionRequest | Msg_StartPerceptionRequest | Msg_CameraSnapShotRequest
  | Msg_CameraSnapShotResponse

record JoyStickData =
  js_angle :: int
  js_strength :: int

record ControlData =
  ctl_source :: "SourceService option"
  ctl_jointAngle :: "(ServoMotorJoint \<times> u8) option"
  ctl_jointAngles :: "joint_angles option"
  ctl_dcMotorState :: "DCMotorState option"
  ctl_headJoystick :: "JoyStickData option"
  ctl_bodyJoystick :: "JoyStickData option"
  ctl_leftArmAngle :: "int option"
  ctl_rightArmAngle :: "int option"
  ctl_leftEye :: "bool option"
  ctl_rightEye :: "bool option"

definition ControlData_empty :: ControlData where
  "ControlData_empty =
     \<lparr>ctl_source = None, ctl_jointAngle = None, ctl_jointAngles = None, ctl_dcMotorState = None,
      ctl_headJoystick = None, ctl_bodyJoystick = None, ctl_leftArmAngle = None,
      ctl_rightArmAngle = None, ctl_leftEye = None, ctl_rightEye = None\<rparr>"

record ControlEvent =
  ev_type :: EventType
  ev_source :: SourceService
  ev_controlData :: ControlData

text \<open>The constructor's default arguments: \<open>ControlEvent(type)\<close> and \<open>ControlEvent()\<close>.\<close>

definition event_of_type :: "EventType \<Rightarrow> ControlEvent" where
  "event_of_type t = \<lparr>ev_type = t, ev_source = Src_none, ev_controlData = ControlData_empty\<rparr>"

record SensorData =
  sd_compassData :: "CompassData option"
  sd_distanceData :: "DistanceData option"
  sd_powerData :: "PowerData option"
  sd_currentJointAngles :: "joint_angles option"
  sd_dcMotorState :: "DCMotorState option"

record BoundingBox =
  bb_xmin :: int
  bb_ymin :: int
  bb_xmax :: int
  bb_ymax :: int
  bb_valid :: bool

definition BoundingBox_none :: BoundingBox where
  "BoundingBox_none = \<lparr>bb_xmin = 0, bb_ymin = 0, bb_xmax = 0, bb_ymax = 0, bb_valid = False\<rparr>"

definition BoundingBox_of :: "int \<Rightarrow> int \<Rightarrow> int \<Rightarrow> int \<Rightarrow> BoundingBox" where
  "BoundingBox_of x1 y1 x2 y2 =
     \<lparr>bb_xmin = x1, bb_ymin = y1, bb_xmax = x2, bb_ymax = y2, bb_valid = True\<rparr>"

record Landmark =
  lm_id :: int
  lm_cx :: int
  lm_cy :: int

end
