(* ===== verification/World.thy ===== *)
theory World
  imports Data_Types
begin

text \<open>
  The boundary of the program. Every call that leaves the program (wiringPi I2C, the UART,
  the clock, sleeping, the saved-angles file) is an entry of a trace, newest first. What
  the outside answers is not code of the repository: it is the parameter \<open>environ\<close>, an
  arbitrary function of the whole trace up to and including the request, so every device
  and every scheduling of the clock is covered.
\<close>

section \<open>Requests and their answers\<close>

datatype io =
    I2C_setup int
  | I2C_write8 int u8 u8
  | I2C_read8 int u8
  | I2C_write16 int u8 u16
  | I2C_read16 int u8
  | Fd_close int
  | Sleep_us int
  | Clock_now
  | Uart_open
  | Uart_tcgetattr int
  | Uart_tcsetattr int
  | Uart_select int
  | Uart_read int
  | Uart_flush int
  | File_create
  | File_save "(ServoMotorJoint \<times> u8) list"

type_synonym world = "io list"

record environ =
  env_reply :: "world \<Rightarrow> int"
  env_bytes :: "world \<Rightarrow> u8 list"

text \<open>The C mathematics library: its functions are parameters.\<close>

record libm =
  lib_sin :: "flt \<Rightarrow> flt"
  lib_cos :: "flt \<Rightarrow> flt"
  lib_atan2 :: "flt \<Rightarrow> flt \<Rightarrow> flt"

definition M_PI :: flt where
  "M_PI = flit dbl_prec 314159265358979323846 100000000000000000000"

definition ask :: "environ \<Rightarrow> io \<Rightarrow> world \<Rightarrow> int \<times> world" where
  "ask E q w = (env_reply E (q # w), q # w)"

definition tell :: "io \<Rightarrow> world \<Rightarrow> world" where
  "tell q w = q # w"

section \<open>What a register of an I2C device was last set to\<close>

fun last_write :: "int \<Rightarrow> u8 \<Rightarrow> world \<Rightarrow> u8 option" where
  "last_write fd r [] = None"
| "last_write fd r (q # w) =
     (case q of
        I2C_write8 fd' r' v \<Rightarrow> if fd' = fd \<and> r' = r then Some v else last_write fd r w
      | _ \<Rightarrow> last_write fd r w)"

text \<open>Requests that write no register.\<close>

fun is_write8 :: "io \<Rightarrow> bool" where
  "is_write8 (I2C_write8 _ _ _) = True"
| "is_write8 _ = False"

lemma last_write_skip [simp]: "\<not> is_write8 q \<Longrightarrow> last_write fd r (q # w) = last_write fd r w"
  by (cases q) simp_all

lemma last_write_tell [simp]: "\<not> is_write8 q \<Longrightarrow> last_write fd r (tell q w) = last_write fd r w"
  by (cases q) (simp_all add: tell_def)

text \<open>The I2C traffic of a trace: a step that adds none touches no actuator and no sensor.\<close>

fun is_i2c :: "io \<Rightarrow> bool" where
  "is_i2c (I2C_setup _) = True"
| "is_i2c (I2C_write8 _ _ _) = True"
| "is_i2c (I2C_read8 _ _) = True"
| "is_i2c (I2C_write16 _ _ _) = True"
| "is_i2c (I2C_read16 _ _) = True"
| "is_i2c _ = False"

definition i2c_traffic :: "world \<Rightarrow> world" where
  "i2c_traffic w = filter is_i2c w"

lemma i2c_traffic_simps [simp]:
  "i2c_traffic [] = []"
  "i2c_traffic (q # w) = (if is_i2c q then q # i2c_traffic w else i2c_traffic w)"
  by (simp_all add: i2c_traffic_def)

lemma last_write_i2c_traffic: "last_write fd r (i2c_traffic w) = last_write fd r w"
proof (induction w)
  case Nil
  show ?case by simp
next
  case (Cons q w)
  then show ?case by (cases q) simp_all
qed

lemma snd_ask [simp]: "snd (ask E q w) = q # w"
  by (simp add: ask_def)

lemma fst_ask [simp]: "fst (ask E q w) = env_reply E (q # w)"
  by (simp add: ask_def)

end
