(* ===== verification/I2C_Drivers.thy ===== *)
theory I2C_Drivers
  imports World
begin

text \<open>
  \<open>drivers/i2c_device.cpp\<close>, the base of every I2C driver, and
  \<open>drivers/pca9685_driver.cpp\<close>, the PWM chip both motor controllers drive. A device is its
  file descriptor and address; a call returns its result, the device and the trace.
  The interface \<open>pwm_chip\<close> says what the motor controllers rely on: setting a channel is
  read back from that channel and leaves every other channel alone.
\<close>

section \<open>I2CDevice\<close>

record i2c_device =
  i2cFd :: int
  i2cAddress :: int

definition I2CDevice_new :: i2c_device where
  "I2CDevice_new = \<lparr>i2cFd = -1, i2cAddress = -1\<rparr>"

definition I2CDevice_isReady :: "i2c_device \<Rightarrow> bool" where
  "I2CDevice_isReady d \<longleftrightarrow> i2cFd d \<noteq> -1"

definition openDevice ::
    "environ \<Rightarrow> int \<Rightarrow> i2c_device \<Rightarrow> world \<Rightarrow> bool \<times> i2c_device \<times> world" where
  "openDevice E address d w =
     (let (fd, w') = ask E (I2C_setup address) w; d' = d\<lparr>i2cFd := fd\<rparr>
      in if fd = -1 then (False, d', w')
         else (True, d'\<lparr>i2cAddress := address\<rparr>, w'))"

definition closeDevice :: "i2c_device \<Rightarrow> world \<Rightarrow> i2c_device \<times> world" where
  "closeDevice d w =
     (if i2cFd d \<noteq> -1
      then (d\<lparr>i2cFd := -1, i2cAddress := -1\<rparr>, tell (Fd_close (i2cFd d)) w)
      else (d\<lparr>i2cAddress := -1\<rparr>, w))"

definition I2CDevice_shutdown :: "i2c_device \<Rightarrow> world \<Rightarrow> i2c_device \<times> world" where
  "I2CDevice_shutdown d w = closeDevice d w"

definition writeByte :: "environ \<Rightarrow> u8 \<Rightarrow> u8 \<Rightarrow> i2c_device \<Rightarrow> world \<Rightarrow> bool \<times> world" where
  "writeByte E reg v d w =
     (let (r, w') = ask E (I2C_write8 (i2cFd d) reg v) w in (0 \<le> r, w'))"

definition readByte :: "environ \<Rightarrow> u8 \<Rightarrow> i2c_device \<Rightarrow> world \<Rightarrow> int \<times> world" where
  "readByte E reg d w = ask E (I2C_read8 (i2cFd d) reg) w"

text \<open>
  \<open>writeWord\<close> returns the \<open>int\<close> of \<open>wiringPiI2CWriteReg16\<close> as a \<open>bool\<close>, without the
  comparison \<open>writeByte\<close> makes.
\<close>

definition writeWord :: "environ \<Rightarrow> u8 \<Rightarrow> u16 \<Rightarrow> i2c_device \<Rightarrow> world \<Rightarrow> bool \<times> world" where
  "writeWord E reg v d w =
     (let (r, w') = ask E (I2C_write16 (i2cFd d) reg v) w in (r \<noteq> 0, w'))"

definition readWord :: "environ \<Rightarrow> u8 \<Rightarrow> i2c_device \<Rightarrow> world \<Rightarrow> int \<times> world" where
  "readWord E reg d w = ask E (I2C_read16 (i2cFd d) reg) w"

lemma snd_writeByte [simp]: "snd (writeByte E r v d w) = I2C_write8 (i2cFd d) r v # w"
  by (simp add: writeByte_def ask_def)

lemma snd_readByte [simp]: "snd (readByte E r d w) = I2C_read8 (i2cFd d) r # w"
  by (simp add: readByte_def)

lemma openDevice_ready:
  "openDevice E a d w = (ok, d', w') \<Longrightarrow> ok = I2CDevice_isReady d'"
  by (auto simp: openDevice_def I2CDevice_isReady_def ask_def Let_def split: if_splits)

lemma closeDevice_closed:
  "\<not> I2CDevice_isReady (fst (closeDevice d w)) \<and> i2cAddress (fst (closeDevice d w)) = -1"
  by (simp add: closeDevice_def I2CDevice_isReady_def)

text \<open>Closing twice closes the descriptor once.\<close>

lemma closeDevice_twice:
  "closeDevice (fst (closeDevice d w)) (snd (closeDevice d w)) = closeDevice d w"
  by (cases d) (simp add: closeDevice_def)

section \<open>PCA9685Driver\<close>

definition PCA_MODE1 :: u8 where "PCA_MODE1 = 0x00"
definition PCA_PRESCALE :: u8 where "PCA_PRESCALE = 0xFE"
definition LED0_ON_L :: int where "LED0_ON_L = 0x06"
definition LED0_ON_H :: int where "LED0_ON_H = 0x07"
definition LED0_OFF_L :: int where "LED0_OFF_L = 0x08"
definition LED0_OFF_H :: int where "LED0_OFF_H = 0x09"

lemmas led_registers = LED0_ON_L_def LED0_ON_H_def LED0_OFF_L_def LED0_OFF_H_def

definition initPCA9685 ::
    "environ \<Rightarrow> int \<Rightarrow> i2c_device \<Rightarrow> world \<Rightarrow> bool \<times> i2c_device \<times> world" where
  "initPCA9685 E address d w =
     (let (ret, d', w') = openDevice E address d w
      in (ret, d', if ret then snd (writeByte E PCA_MODE1 0x00 d' w') else w'))"

definition setDutyCycle ::
    "environ \<Rightarrow> i2c_device \<Rightarrow> int \<Rightarrow> int \<Rightarrow> int \<Rightarrow> world \<Rightarrow> world" where
  "setDutyCycle E d channel on off w =
     (let w1 = snd (writeByte E (u8_of_int (LED0_ON_L + 4 * channel)) (u8_of_int on) d w);
          w2 = snd (writeByte E (u8_of_int (LED0_ON_H + 4 * channel)) (u8_of_int (on div 256)) d w1);
          w3 = snd (writeByte E (u8_of_int (LED0_OFF_L + 4 * channel)) (u8_of_int off) d w2)
      in snd (writeByte E (u8_of_int (LED0_OFF_H + 4 * channel)) (u8_of_int (off div 256)) d w3))"

definition setDutyCyclePulse :: "environ \<Rightarrow> i2c_device \<Rightarrow> int \<Rightarrow> int \<Rightarrow> world \<Rightarrow> world" where
  "setDutyCyclePulse E d channel pulse w =
     setDutyCycle E d channel 0 ((pulse * 4096) sdiv 20000) w"

definition setDutyCyclePercent :: "environ \<Rightarrow> i2c_device \<Rightarrow> int \<Rightarrow> int \<Rightarrow> world \<Rightarrow> world" where
  "setDutyCyclePercent E d channel duty w =
     setDutyCycle E d channel 0 ((duty * 4096) sdiv 100) w"

definition setChannelLevel :: "environ \<Rightarrow> i2c_device \<Rightarrow> int \<Rightarrow> int \<Rightarrow> world \<Rightarrow> world" where
  "setChannelLevel E d channel level w =
     (if level = 1 then setDutyCycle E d channel 0 4095 w else setDutyCycle E d channel 0 0 w)"

text \<open>The prescaler of a PWM frequency, in \<open>double\<close> arithmetic.\<close>

definition prescale_of :: "int \<Rightarrow> int" where
  "prescale_of freq =
     (let p1 = fdiv dbl_prec (fof_int dbl_prec 25000000) (fof_int dbl_prec 4096);
          p2 = fdiv dbl_prec p1 (fof_int flt_prec freq);
          p3 = fsub dbl_prec p2 (fof_int dbl_prec 1)
      in ffloor (fadd dbl_prec p3 (flit dbl_prec 1 2)))"

definition setPWMFrequency :: "environ \<Rightarrow> i2c_device \<Rightarrow> int \<Rightarrow> world \<Rightarrow> world" where
  "setPWMFrequency E d freq w =
     (let (r, w1) = readByte E PCA_MODE1 d w;
          oldmode = u8_of_int r;
          newmode = (oldmode AND 0x7F) OR 0x10;
          w2 = snd (writeByte E PCA_MODE1 newmode d w1);
          w3 = snd (writeByte E PCA_PRESCALE (u8_of_int (prescale_of freq)) d w2);
          w4 = snd (writeByte E PCA_MODE1 oldmode d w3);
          w5 = tell (Sleep_us 5000) w4
      in snd (writeByte E PCA_MODE1 (oldmode OR 0x80) d w5))"

lemma prescale_50: "prescale_of 50 = 121"
  by code_simp

section \<open>What a PWM channel was last set to\<close>

text \<open>
  The abstract view of the chip: the on and off counts of a channel, read back from the
  trace. \<open>None\<close> is a channel not written yet.
\<close>

definition channel_word :: "int \<Rightarrow> int \<Rightarrow> int \<Rightarrow> world \<Rightarrow> int option" where
  "channel_word fd lo hi w =
     lift2 (\<lambda>l h. uint l + 256 * uint h)
       (last_write fd (u8_of_int lo) w) (last_write fd (u8_of_int hi) w)"

definition channel_duty :: "int \<Rightarrow> int \<Rightarrow> world \<Rightarrow> (int \<times> int) option" where
  "channel_duty fd channel w =
     lift2 Pair
       (channel_word fd (LED0_ON_L + 4 * channel) (LED0_ON_H + 4 * channel) w)
       (channel_word fd (LED0_OFF_L + 4 * channel) (LED0_OFF_H + 4 * channel) w)"

definition pwm_channel :: "int \<Rightarrow> bool" where
  "pwm_channel c \<longleftrightarrow> 0 \<le> c \<and> c < 16"

lemma setDutyCycle_trace:
  "setDutyCycle E d c on off w =
     I2C_write8 (i2cFd d) (u8_of_int (LED0_OFF_H + 4 * c)) (u8_of_int (off div 256)) #
     I2C_write8 (i2cFd d) (u8_of_int (LED0_OFF_L + 4 * c)) (u8_of_int off) #
     I2C_write8 (i2cFd d) (u8_of_int (LED0_ON_H + 4 * c)) (u8_of_int (on div 256)) #
     I2C_write8 (i2cFd d) (u8_of_int (LED0_ON_L + 4 * c)) (u8_of_int on) # w"
  by (simp add: setDutyCycle_def Let_def)

lemma low_high_byte: "x mod 256 + 256 * (x div 256 mod 256) = x mod (65536 :: int)"
  using zmod_zmult2_eq [of 256 x 256] by simp

lemma reg_eq_iff:
  "pwm_channel c \<Longrightarrow> pwm_channel c' \<Longrightarrow> a \<in> {6..9} \<Longrightarrow> b \<in> {6..9} \<Longrightarrow>
   (u8_of_int (a + 4 * c) = u8_of_int (b + 4 * c')) = (a = b \<and> c = c')"
proof -
  assume *: "pwm_channel c" "pwm_channel c'" "a \<in> {6..9}" "b \<in> {6..9}"
  have "u8_of_int (a + 4 * c) = u8_of_int (b + 4 * c') \<longleftrightarrow>
        (a + 4 * c) mod 256 = (b + 4 * c') mod 256"
    by (metis uint_u8_of_int word_uint_eq_iff)
  also have "\<dots> \<longleftrightarrow> a + 4 * c = b + 4 * c'"
    using * by (simp add: pwm_channel_def)
  also have "\<dots> \<longleftrightarrow> a = b \<and> c = c'"
    using *(3,4) unfolding atLeastAtMost_iff by presburger
  finally show ?thesis .
qed

lemma channel_duty_setDutyCycle:
  assumes "pwm_channel c" and "pwm_channel c'"
  shows "channel_duty (i2cFd d) c' (setDutyCycle E d c on off w) =
         (if c' = c then Some (on mod 65536, off mod 65536) else channel_duty (i2cFd d) c' w)"
  using assms
  by (simp add: channel_duty_def channel_word_def setDutyCycle_trace led_registers reg_eq_iff
      low_high_byte del: of_int_add of_int_mult)

end
