(* ===== verification/Sensor_Drivers.thy ===== *)
theory Sensor_Drivers
  imports I2C_Drivers
begin

text \<open>
  \<open>drivers/ina219_driver.cpp\<close> (the power sensor's configuration word, byte order, float
  scaling), \<open>drivers/median_filter.cpp\<close>, and the register protocol of
  \<open>drivers/hmc5883l_driver.cpp\<close> and \<open>drivers/qmc5883l_driver.cpp\<close>.
\<close>

section \<open>INA219: enumerations and registers\<close>

datatype BusVoltageRange = BUS_VOL_RANGE_16V | BUS_VOL_RANGE_32V
datatype PGABits = PGA_BITS_1 | PGA_BITS_2 | PGA_BITS_4 | PGA_BITS_8
datatype ADCBits = ADC_BITS_9 | ADC_BITS_10 | ADC_BITS_11 | ADC_BITS_12
datatype ADCSample =
    ADC_SAMPLE_1 | ADC_SAMPLE_2 | ADC_SAMPLE_4 | ADC_SAMPLE_8 | ADC_SAMPLE_16 | ADC_SAMPLE_32
  | ADC_SAMPLE_64 | ADC_SAMPLE_128
datatype Mode =
    POWER_DOWN | SHUNT_VOL_TRIG | BUS_VOL_TRIG | SHUNT_AND_BUS_VOL_TRIG | ADC_OFF
  | SHUNT_VOL_CON | BUS_VOL_CON | SHUNT_AND_BUS_VOL_CON

primrec range_code :: "BusVoltageRange \<Rightarrow> u16" where
  "range_code BUS_VOL_RANGE_16V = 0"
| "range_code BUS_VOL_RANGE_32V = 1"

primrec pga_code :: "PGABits \<Rightarrow> u16" where
  "pga_code PGA_BITS_1 = 0"
| "pga_code PGA_BITS_2 = 1"
| "pga_code PGA_BITS_4 = 2"
| "pga_code PGA_BITS_8 = 3"

primrec adc_bits_code :: "ADCBits \<Rightarrow> u16" where
  "adc_bits_code ADC_BITS_9 = 0"
| "adc_bits_code ADC_BITS_10 = 1"
| "adc_bits_code ADC_BITS_11 = 2"
| "adc_bits_code ADC_BITS_12 = 3"

primrec adc_sample_code :: "ADCSample \<Rightarrow> u16" where
  "adc_sample_code ADC_SAMPLE_1 = 0"
| "adc_sample_code ADC_SAMPLE_2 = 1"
| "adc_sample_code ADC_SAMPLE_4 = 2"
| "adc_sample_code ADC_SAMPLE_8 = 3"
| "adc_sample_code ADC_SAMPLE_16 = 4"
| "adc_sample_code ADC_SAMPLE_32 = 5"
| "adc_sample_code ADC_SAMPLE_64 = 6"
| "adc_sample_code ADC_SAMPLE_128 = 7"

primrec mode_code :: "Mode \<Rightarrow> u16" where
  "mode_code POWER_DOWN = 0"
| "mode_code SHUNT_VOL_TRIG = 1"
| "mode_code BUS_VOL_TRIG = 2"
| "mode_code SHUNT_AND_BUS_VOL_TRIG = 3"
| "mode_code ADC_OFF = 4"
| "mode_code SHUNT_VOL_CON = 5"
| "mode_code BUS_VOL_CON = 6"
| "mode_code SHUNT_AND_BUS_VOL_CON = 7"

definition REG_CONFIG :: u8 where "REG_CONFIG = 0x00"
definition REG_SHUNTVOLTAGE :: u8 where "REG_SHUNTVOLTAGE = 0x01"
definition REG_BUSVOLTAGE :: u8 where "REG_BUSVOLTAGE = 0x02"
definition REG_POWER :: u8 where "REG_POWER = 0x03"
definition REG_CURRENT :: u8 where "REG_CURRENT = 0x04"
definition REG_CALIBRATION :: u8 where "REG_CALIBRATION = 0x05"
definition CONFIG_RESET :: u16 where "CONFIG_RESET = 0x8000"

record ina219 =
  ina_device :: i2c_device
  ina_currentLSB :: flt
  ina_calValue :: u16

section \<open>Register access\<close>

definition swap_bytes :: "u16 \<Rightarrow> u16" where
  "swap_bytes v = push_bit 8 (v AND 0xFF) OR drop_bit 8 (v AND 0xFF00)"

definition writeRegister :: "environ \<Rightarrow> u8 \<Rightarrow> u16 \<Rightarrow> i2c_device \<Rightarrow> world \<Rightarrow> world" where
  "writeRegister E reg v d w = snd (writeWord E reg (swap_bytes v) d w)"

text \<open>
  \<open>readRegister\<close> returns an \<open>int16_t\<close>: the byte-swapped word read as two's complement, 0 on
  a negative reply. The result is kept as the 16-bit pattern; \<open>sint\<close> reads it signed.
\<close>

definition readRegister :: "environ \<Rightarrow> u8 \<Rightarrow> i2c_device \<Rightarrow> world \<Rightarrow> u16 \<times> world" where
  "readRegister E reg d w =
     (let (result, w') = readWord E reg d w
      in if result < 0 then (0, w') else (swap_bytes (u16_of_int result), w'))"

definition ina_scan :: "environ \<Rightarrow> i2c_device \<Rightarrow> world \<Rightarrow> bool \<times> world" where
  "ina_scan E d w = (let (result, w') = readWord E REG_CONFIG d w in (\<not> result < 0, w'))"

definition ina_reset :: "environ \<Rightarrow> i2c_device \<Rightarrow> world \<Rightarrow> world" where
  "ina_reset E d w = tell (Sleep_us 10000) (writeRegister E REG_CONFIG CONFIG_RESET d w)"

section \<open>Configuration\<close>

text \<open>The new configuration word each setter computes from the one it reads.\<close>

definition conf_bus_range :: "BusVoltageRange \<Rightarrow> u16 \<Rightarrow> u16" where
  "conf_bus_range rng conf = (conf AND NOT (push_bit 13 0x01)) OR push_bit 13 (range_code rng)"

definition conf_pga :: "PGABits \<Rightarrow> u16 \<Rightarrow> u16" where
  "conf_pga bits conf = (conf AND NOT (push_bit 11 0x03)) OR push_bit 11 (pga_code bits)"

definition adc_valid :: "ADCBits \<Rightarrow> ADCSample \<Rightarrow> bool" where
  "adc_valid bits sample \<longleftrightarrow> \<not> (bits \<noteq> ADC_BITS_12 \<and> sample \<noteq> ADC_SAMPLE_1)"

definition adc_value :: "ADCBits \<Rightarrow> ADCSample \<Rightarrow> u16" where
  "adc_value bits sample =
     (if bits \<noteq> ADC_BITS_12 then adc_bits_code bits else 0x80 OR adc_sample_code sample)"

definition conf_bus_adc :: "ADCBits \<Rightarrow> ADCSample \<Rightarrow> u16 \<Rightarrow> u16" where
  "conf_bus_adc bits sample conf =
     (conf AND NOT (push_bit 7 0x0F)) OR push_bit 7 (adc_value bits sample)"

definition conf_shunt_adc :: "ADCBits \<Rightarrow> ADCSample \<Rightarrow> u16 \<Rightarrow> u16" where
  "conf_shunt_adc bits sample conf =
     (conf AND NOT (push_bit 3 0x0F)) OR push_bit 3 (adc_value bits sample)"

definition conf_mode :: "Mode \<Rightarrow> u16 \<Rightarrow> u16" where
  "conf_mode mode conf = (conf AND NOT 0x07) OR mode_code mode"

definition update_config :: "environ \<Rightarrow> (u16 \<Rightarrow> u16) \<Rightarrow> i2c_device \<Rightarrow> world \<Rightarrow> world" where
  "update_config E f d w =
     (let (conf, w') = readRegister E REG_CONFIG d w in writeRegister E REG_CONFIG (f conf) d w')"

definition setBusRange :: "environ \<Rightarrow> BusVoltageRange \<Rightarrow> i2c_device \<Rightarrow> world \<Rightarrow> world" where
  "setBusRange E rng d w = update_config E (conf_bus_range rng) d w"

definition setPGA :: "environ \<Rightarrow> PGABits \<Rightarrow> i2c_device \<Rightarrow> world \<Rightarrow> world" where
  "setPGA E bits d w = update_config E (conf_pga bits) d w"

definition setBusADC :: "environ \<Rightarrow> ADCBits \<Rightarrow> ADCSample \<Rightarrow> i2c_device \<Rightarrow> world \<Rightarrow> world" where
  "setBusADC E bits sample d w =
     (if \<not> adc_valid bits sample then w else update_config E (conf_bus_adc bits sample) d w)"

definition setShuntADC :: "environ \<Rightarrow> ADCBits \<Rightarrow> ADCSample \<Rightarrow> i2c_device \<Rightarrow> world \<Rightarrow> world" where
  "setShuntADC E bits sample d w =
     (if \<not> adc_valid bits sample then w else update_config E (conf_shunt_adc bits sample) d w)"

definition setMode :: "environ \<Rightarrow> Mode \<Rightarrow> i2c_device \<Rightarrow> world \<Rightarrow> world" where
  "setMode E mode d w = update_config E (conf_mode mode) d w"

text \<open>
  \<open>setCalibration(shuntResistor_ohms, maxCurrent_A)\<close>, in \<open>float\<close>: the calibration word and
  the current per bit in milliamperes.
\<close>

definition calibration :: "flt \<Rightarrow> flt \<Rightarrow> u16 \<times> flt" where
  "calibration shunt maxCurrent =
     (let lsb = fdiv flt_prec maxCurrent (fof_int flt_prec 32768);
          cal = ftrunc (fdiv flt_prec (flit flt_prec 4096 100000) (fmul flt_prec lsb shunt))
      in (u16_of_int cal AND 0xFFFE, fmul flt_prec lsb (fof_int flt_prec 1000)))"

definition setCalibration :: "environ \<Rightarrow> flt \<Rightarrow> flt \<Rightarrow> ina219 \<Rightarrow> world \<Rightarrow> ina219 \<times> world" where
  "setCalibration E shunt maxCurrent s w =
     (let (cal, lsb) = calibration shunt maxCurrent
      in (s\<lparr>ina_calValue := cal, ina_currentLSB := lsb\<rparr>,
          writeRegister E REG_CALIBRATION cal (ina_device s) w))"

definition INA219_I2C_ADDRESS3 :: int where "INA219_I2C_ADDRESS3 = 0x44"

definition initINA219 :: "environ \<Rightarrow> int \<Rightarrow> ina219 \<Rightarrow> world \<Rightarrow> bool \<times> ina219 \<times> world" where
  "initINA219 E address s w =
     (let (opened, d, w1) = openDevice E address (ina_device s) w; s1 = s\<lparr>ina_device := d\<rparr>
      in if \<not> opened then (False, s1, w1)
         else let (found, w2) = ina_scan E d w1
              in if \<not> found then (False, s1, w2)
                 else let w3 = setBusRange E BUS_VOL_RANGE_32V d w2;
                          w4 = setPGA E PGA_BITS_8 d w3;
                          w5 = setBusADC E ADC_BITS_12 ADC_SAMPLE_8 d w4;
                          w6 = setShuntADC E ADC_BITS_12 ADC_SAMPLE_8 d w5;
                          w7 = setMode E SHUNT_AND_BUS_VOL_CON d w6;
                          (s2, w8) = setCalibration E (flit flt_prec 1 10) (flit flt_prec 32 10) s1 w7
                      in (True, s2, w8))"

definition ina_shutdown :: "ina219 \<Rightarrow> world \<Rightarrow> ina219 \<times> world" where
  "ina_shutdown s w =
     (let (d, w1) = I2CDevice_shutdown (ina_device s) w
      in (\<lparr>ina_device = d, ina_currentLSB = Flt 0 0, ina_calValue = 0\<rparr>, w1))"

section \<open>Measurements\<close>

definition getBusVoltageV :: "environ \<Rightarrow> ina219 \<Rightarrow> world \<Rightarrow> flt \<times> world" where
  "getBusVoltageV E s w =
     (let (v, w') = readRegister E REG_BUSVOLTAGE (ina_device s) w
      in (fmul flt_prec (fof_int flt_prec (sint v div 2)) (flit flt_prec 1 1000), w'))"

definition getShuntVoltageMV :: "environ \<Rightarrow> ina219 \<Rightarrow> world \<Rightarrow> flt \<times> world" where
  "getShuntVoltageMV E s w =
     (let (v, w') = readRegister E REG_SHUNTVOLTAGE (ina_device s) w
      in (fof_int flt_prec (sint v), w'))"

definition getCurrentMA :: "environ \<Rightarrow> ina219 \<Rightarrow> world \<Rightarrow> flt \<times> world" where
  "getCurrentMA E s w =
     (let (v, w') = readRegister E REG_CURRENT (ina_device s) w
      in (fmul flt_prec (fof_int flt_prec (sint v)) (ina_currentLSB s), w'))"

definition getPowerMW :: "environ \<Rightarrow> ina219 \<Rightarrow> world \<Rightarrow> flt \<times> world" where
  "getPowerMW E s w =
     (let (v, w') = readRegister E REG_POWER (ina_device s) w
      in (fmul flt_prec (fof_int flt_prec (sint v)) (fof_int flt_prec 20), w'))"

text \<open>
  \<open>readINA219\<close> fills voltage, current and power. The struct's \<open>shunt_voltage\<close> is left
  uninitialised by the code; what it happens to hold is the argument \<open>garbage\<close>.
\<close>

definition readINA219 :: "environ \<Rightarrow> flt \<Rightarrow> ina219 \<Rightarrow> world \<Rightarrow> PowerData \<times> world" where
  "readINA219 E garbage s w =
     (let (v, w1) = getBusVoltageV E s w;
          (c, w2) = getCurrentMA E s w1;
          (p, w3) = getPowerMW E s w2
      in (\<lparr>pd_busVoltage = v, pd_shuntVoltage = garbage, pd_current = c, pd_power = p\<rparr>, w3))"

section \<open>HMC5883L\<close>

text \<open>
  The driver of the compass in use. A reading is converted to \<open>int16_t\<close>, corrected by an offset
  and a scale in \<open>double\<close> and stored as \<open>float\<close>. \<open>Axis\<close> is the struct of
  \<open>driver_data.h\<close>. Its copy constructor leaves the heading \<open>t\<close> out; a reading is a local variable
  returned by name, taken to be built in place, as the compilers in use do.
\<close>

record Axis =
  ax_x :: flt
  ax_y :: flt
  ax_z :: flt
  ax_t :: flt

definition HMC5883L_ADDRESS :: int where "HMC5883L_ADDRESS = 0x1E"
definition HMC5883L_CONFIG_A :: u8 where "HMC5883L_CONFIG_A = 0x00"
definition HMC5883L_CONFIG_B :: u8 where "HMC5883L_CONFIG_B = 0x01"
definition HMC5883L_MODE :: u8 where "HMC5883L_MODE = 0x02"
definition HMC5883L_X_MSB :: u8 where "HMC5883L_X_MSB = 0x03"
definition HMC5883L_Z_MSB :: u8 where "HMC5883L_Z_MSB = 0x05"
definition HMC5883L_Y_MSB :: u8 where "HMC5883L_Y_MSB = 0x07"

definition initHMC5883l ::
    "environ \<Rightarrow> i2c_device \<Rightarrow> world \<Rightarrow> bool \<times> i2c_device \<times> world" where
  "initHMC5883l E d w =
     (let (ret, d1, w1) = openDevice E HMC5883L_ADDRESS d w
      in if \<not> ret then (False, d1, w1)
         else let w2 = snd (writeByte E HMC5883L_CONFIG_A 0x70 d1 w1);
                  w3 = snd (writeByte E HMC5883L_CONFIG_B 0x20 d1 w2);
                  w4 = snd (writeByte E HMC5883L_MODE 0x00 d1 w3)
              in (True, d1, tell (Sleep_us 10000) w4))"

text \<open>\<open>read_x\<close>, \<open>read_y\<close>, \<open>read_z\<close>: the low 16 bits of the answer as two's complement.\<close>

definition read_axis :: "environ \<Rightarrow> u8 \<Rightarrow> i2c_device \<Rightarrow> world \<Rightarrow> int \<times> world" where
  "read_axis E reg d w = (let (r, w') = readWord E reg d w in (sint (u16_of_int r), w'))"

definition scale_axis :: "int \<Rightarrow> flt \<Rightarrow> flt \<Rightarrow> flt" where
  "scale_axis raw offset scale =
     fcast flt_prec (fmul dbl_prec (fsub dbl_prec (fof_int dbl_prec raw) offset) scale)"

definition compute_heading :: "libm \<Rightarrow> flt \<Rightarrow> flt \<Rightarrow> flt" where
  "compute_heading L x y =
     (let two_pi = fmul dbl_prec (fof_int dbl_prec 2) M_PI;
          h0 = fadd dbl_prec (lib_atan2 L y x) (flit dbl_prec 22 100);
          h1 = (if flt_less h0 (Flt 0 0) then fadd dbl_prec h0 two_pi else h0);
          h2 = (if flt_less two_pi h1 then fsub dbl_prec h1 two_pi else h1)
      in fmul dbl_prec h2 (fdiv dbl_prec (fof_int dbl_prec 180) M_PI))"

definition readHMC5883l :: "environ \<Rightarrow> libm \<Rightarrow> i2c_device \<Rightarrow> world \<Rightarrow> Axis \<times> world" where
  "readHMC5883l E L d w =
     (let (raw_x, w1) = read_axis E HMC5883L_X_MSB d w;
          (raw_y, w2) = read_axis E HMC5883L_Y_MSB d w1;
          x = scale_axis raw_x (flit dbl_prec (-1685) 10) (flit dbl_prec 981647 1000000);
          y = scale_axis raw_y (fof_int dbl_prec (-1227)) (flit dbl_prec 1019052 1000000);
          (raw_z, w3) = read_axis E HMC5883L_Z_MSB d w2
      in (\<lparr>ax_x = x, ax_y = y, ax_z = fof_int flt_prec raw_z,
           ax_t = fcast flt_prec (compute_heading L x y)\<rparr>, w3))"

section \<open>QMC5883L\<close>

definition QMC_ADDRESS :: int where "QMC_ADDRESS = 0x0D"
definition REG_XOUT_LSB :: u8 where "REG_XOUT_LSB = 0x00"
definition REG_YOUT_LSB :: u8 where "REG_YOUT_LSB = 0x02"
definition REG_ZOUT_LSB :: u8 where "REG_ZOUT_LSB = 0x04"
definition REG_STATUS_1 :: u8 where "REG_STATUS_1 = 0x06"
definition REG_CONTROL_1 :: u8 where "REG_CONTROL_1 = 0x09"
definition REG_CONTROL_2 :: u8 where "REG_CONTROL_2 = 0x0A"
definition REG_RST_PERIOD :: u8 where "REG_RST_PERIOD = 0x0B"

record qmc5883l =
  qmc_device :: i2c_device
  qmc_mode_cont :: u8
  qmc_mode_stby :: u8

definition qmc_mode :: "environ \<Rightarrow> u8 \<Rightarrow> i2c_device \<Rightarrow> world \<Rightarrow> world" where
  "qmc_mode E mode d w =
     (let w1 = snd (writeByte E REG_CONTROL_2 0x80 d w);
          w2 = snd (writeByte E REG_CONTROL_2 0x00 d w1);
          w3 = snd (writeByte E REG_RST_PERIOD 0x01 d w2)
      in snd (writeByte E REG_CONTROL_1 mode d w3))"

text \<open>
  \<open>MODE_CONT | ODR_10HZ | RNG_2G | OSR_512\<close> and \<open>MODE_STBY | ODR_10HZ | RNG_2G | OSR_64\<close>;
  the mode is programmed even when the device did not open.
\<close>

definition initQMC5883l :: "environ \<Rightarrow> qmc5883l \<Rightarrow> world \<Rightarrow> bool \<times> qmc5883l \<times> world" where
  "initQMC5883l E q w =
     (let (ret, d, w1) = openDevice E QMC_ADDRESS (qmc_device q) w;
          q1 = \<lparr>qmc_device = d, qmc_mode_cont = 0x01 OR 0x00 OR 0x00 OR 0x00,
                qmc_mode_stby = 0x00 OR 0x00 OR 0x00 OR 0xC0\<rparr>
      in (ret, q1, qmc_mode E (qmc_mode_cont q1) d w1))"

definition qmc_shutdown :: "environ \<Rightarrow> qmc5883l \<Rightarrow> world \<Rightarrow> qmc5883l \<times> world" where
  "qmc_shutdown E q w =
     (let w1 = (if I2CDevice_isReady (qmc_device q)
                then qmc_mode E (qmc_mode_stby q) (qmc_device q) w else w);
          (d, w2) = I2CDevice_shutdown (qmc_device q) w1
      in (q\<lparr>qmc_device := d\<rparr>, w2))"

text \<open>
  Reading, with the calibration that initialisation stores. A status without data leaves the axes 0,
  and calibration is applied all the same; the y axis is corrected by the x axis already corrected.
\<close>

definition qmc_calibrated :: "Axis \<Rightarrow> Axis" where
  "qmc_calibrated a =
     (let sum = (\<lambda>x cx y cy c. fcast flt_prec (fadd dbl_prec (fadd dbl_prec (fmul dbl_prec x cx) (fmul dbl_prec y cy)) c));
          a = a\<lparr>ax_x := sum (ax_x a) (flit dbl_prec 1054714385985517 1000000000000000)
                            (ax_y a) (flit dbl_prec 75999534062283075 10000000000000000000)
                            (flit dbl_prec 7132896257128381 10000000000000)\<rparr>
      in a\<lparr>ax_y := sum (ax_x a) (flit dbl_prec 7599953406228315 1000000000000000000)
                       (ax_y a) (flit dbl_prec 1001055650917697 1000000000000000)
                       (flit dbl_prec 5294850645299709 10000000000000)\<rparr>)"

definition readQMC5883l :: "environ \<Rightarrow> flt \<Rightarrow> qmc5883l \<Rightarrow> world \<Rightarrow> Axis \<times> world" where
  "readQMC5883l E garbage q w =
     (let d = qmc_device q;
          (status, w) = readByte E REG_STATUS_1 d w;
          data = \<lparr>ax_x = Flt 0 0, ax_y = Flt 0 0, ax_z = Flt 0 0, ax_t = garbage\<rparr>;
          (data, w) =
            (if status AND 4 \<noteq> 0 \<or> status AND 1 \<noteq> 0
             then let (x, w) = readWord E REG_XOUT_LSB d w;
                      (y, w) = readWord E REG_YOUT_LSB d w;
                      (z, w) = readWord E REG_ZOUT_LSB d w
                  in (data\<lparr>ax_x := fof_int flt_prec x, ax_y := fof_int flt_prec y, ax_z := fof_int flt_prec z\<rparr>, w)
             else (data, w))
      in (qmc_calibrated data, w))"

text \<open>\<open>_getMagnet\<close> calibrates a second time, unless both axes are 0.\<close>

definition qmc_getMagnet :: "environ \<Rightarrow> flt \<Rightarrow> qmc5883l \<Rightarrow> world \<Rightarrow> Axis \<times> world" where
  "qmc_getMagnet E garbage q w =
     (let (data, w) = readQMC5883l E garbage q w
      in (if fmant (ax_x data) = 0 \<and> fmant (ax_y data) = 0 then data else qmc_calibrated data, w))"

definition qmc_applyCalibration :: "int list \<Rightarrow> flt list" where
  "qmc_applyCalibration raw =
     map2 (\<lambda>r (offset, scale). fdiv dbl_prec (fsub dbl_prec (fof_int dbl_prec r) offset) scale) raw
       [(flit dbl_prec 309695455451 100000000, flit dbl_prec 1663936998797 100000000),
        (flit dbl_prec (-745284550654) 100000000, flit dbl_prec 1851463340064 100000000),
        (flit dbl_prec 8402791695 10000000, flit dbl_prec 1697220317855 100000000)]"

text \<open>\<open>_getBearing\<close>; the axes are finite, so its test for NaN fails.\<close>

definition qmc_getBearing :: "environ \<Rightarrow> libm \<Rightarrow> flt \<Rightarrow> qmc5883l \<Rightarrow> world \<Rightarrow> flt \<times> world" where
  "qmc_getBearing E L garbage q w =
     (let (data, w) = qmc_getMagnet E garbage q w;
          full = fof_int dbl_prec 360;
          bearing = fmul dbl_prec (lib_atan2 L (ax_y data) (ax_x data)) (fdiv dbl_prec (fof_int dbl_prec 180) M_PI);
          bearing = (if flt_less bearing (Flt 0 0) then fadd dbl_prec bearing full else bearing);
          bearing = fadd dbl_prec bearing (flit dbl_prec 61 10);
          bearing = (if flt_less bearing (Flt 0 0) then fadd dbl_prec bearing full
                     else if \<not> flt_less bearing full then fsub dbl_prec bearing full else bearing)
      in (bearing, w))"

end
