(* ===== verification/DC_Motor.thy ===== *)
theory DC_Motor
  imports I2C_Drivers
begin

text \<open>
  \<open>controllers/controller.h\<close> and \<open>controllers/dc_motor_controller.cpp\<close>. The controller writes
  six PWM channels: speed and two direction pins for each wheel. The interface
  \<open>pwm_chip\<close> is what it needs of the driver; the wheels' state is read back through it.
\<close>

section \<open>The interface of a PWM chip\<close>

text \<open>
  A client programs a chip by a list of channel settings. The last setting of a channel is
  what the chip holds, and channels not in the program keep what they had.
\<close>

locale pwm_chip =
  fixes set_duty :: "int \<Rightarrow> int \<Rightarrow> int \<Rightarrow> 'w \<Rightarrow> 'w"
    and duty :: "int \<Rightarrow> 'w \<Rightarrow> (int \<times> int) option"
  assumes duty_set:
    "pwm_channel c \<Longrightarrow> pwm_channel c' \<Longrightarrow>
     duty c' (set_duty c on off w) =
       (if c' = c then Some (on mod 65536, off mod 65536) else duty c' w)"
begin

fun program :: "(int \<times> int) list \<Rightarrow> 'w \<Rightarrow> 'w" where
  "program [] w = w"
| "program ((c, off) # ps) w = program ps (set_duty c 0 off w)"

lemma program_frame:
  "pwm_channel c \<Longrightarrow> \<forall>p \<in> set ps. pwm_channel (fst p) \<Longrightarrow> c \<notin> fst ` set ps \<Longrightarrow>
   duty c (program ps w) = duty c w"
  by (induction ps w rule: program.induct) (auto simp: duty_set)

lemma program_last:
  "pwm_channel c \<Longrightarrow> \<forall>p \<in> set ps \<union> set qs. pwm_channel (fst p) \<Longrightarrow> c \<notin> fst ` set qs \<Longrightarrow>
   duty c (program (ps @ (c, off) # qs) w) = Some (0, off mod 65536)"
proof (induction ps w rule: program.induct)
  case (1 w)
  then show ?case by (simp add: program_frame duty_set)
next
  case (2 c' off' ps w)
  then show ?case by simp
qed

end

interpretation pca: pwm_chip "setDutyCycle E d" "channel_duty (i2cFd d)" for E d
  by unfold_locales (rule channel_duty_setDutyCycle)

section \<open>Controller: the enable and initialised flags\<close>

record controller =
  ct_enable :: bool
  ct_initialized :: bool

definition setEnable :: "bool \<Rightarrow> 'a controller_scheme \<Rightarrow> 'a controller_scheme" where
  "setEnable b c = c\<lparr>ct_enable := b\<rparr>"

definition isEnabled :: "'a controller_scheme \<Rightarrow> bool" where
  "isEnabled c \<longleftrightarrow> ct_enable c"

definition isReady :: "'a controller_scheme \<Rightarrow> bool" where
  "isReady c \<longleftrightarrow> ct_initialized c"

definition active :: "'a controller_scheme \<Rightarrow> bool" where
  "active c \<longleftrightarrow> isEnabled c \<and> isReady c"

lemma active_simps [simp]:
  "active (setEnable b c) \<longleftrightarrow> b \<and> ct_initialized c"
  "ct_enable (setEnable b c) = b"
  "ct_initialized (setEnable b c) = ct_initialized c"
  by (auto simp: active_def setEnable_def isEnabled_def isReady_def)

section \<open>DCMotorController\<close>

definition PWMA :: int where "PWMA = 0"
definition AIN1 :: int where "AIN1 = 1"
definition AIN2 :: int where "AIN2 = 2"
definition PWMB :: int where "PWMB = 5"
definition BIN1 :: int where "BIN1 = 3"
definition BIN2 :: int where "BIN2 = 4"

lemmas motor_pins = PWMA_def AIN1_def AIN2_def PWMB_def BIN1_def BIN2_def

record dc_motor = controller +
  dc_address :: int
  dc_driver :: i2c_device
  dc_currentState :: DCMotorState

definition getCurrentState :: "dc_motor \<Rightarrow> DCMotorState" where
  "getCurrentState m = dc_currentState m"

definition dc_initialize :: "environ \<Rightarrow> dc_motor \<Rightarrow> world \<Rightarrow> bool \<times> dc_motor \<times> world" where
  "dc_initialize E m w =
     (let (ret, d, w1) = initPCA9685 E (dc_address m) (dc_driver m) w
      in if ret
         then (True, m\<lparr>dc_driver := d, ct_initialized := True\<rparr>, setPWMFrequency E d 50 w1)
         else (False, m\<lparr>dc_driver := d, ct_initialized := False\<rparr>, w1))"

definition dc_setDirection ::
    "environ \<Rightarrow> i2c_device \<Rightarrow> int \<Rightarrow> int \<Rightarrow> DCMotorDirection \<Rightarrow> world \<Rightarrow> world" where
  "dc_setDirection E d pin1 pin2 direction w =
     (if direction = Dir_forward
      then setChannelLevel E d pin2 1 (setChannelLevel E d pin1 0 w)
      else if direction = Dir_backward
      then setChannelLevel E d pin2 0 (setChannelLevel E d pin1 1 w)
      else w)"

definition dc_run ::
    "environ \<Rightarrow> dc_motor \<Rightarrow> DCMotor \<Rightarrow> DCMotorDirection \<Rightarrow> int \<Rightarrow> world \<Rightarrow> world" where
  "dc_run E m motor direction speed w =
     (if \<not> isEnabled m \<or> \<not> isReady m then w
      else if motor = Motor_left
      then let direction' = (if direction = Dir_forward then Dir_backward else Dir_forward)
           in dc_setDirection E (dc_driver m) AIN1 AIN2 direction'
                (setDutyCyclePercent E (dc_driver m) PWMA speed w)
      else dc_setDirection E (dc_driver m) BIN1 BIN2 direction
             (setDutyCyclePercent E (dc_driver m) PWMB speed w))"

definition dc_forward :: "environ \<Rightarrow> dc_motor \<Rightarrow> int \<Rightarrow> world \<Rightarrow> world" where
  "dc_forward E m magnitude w =
     (if \<not> isEnabled m \<or> \<not> isReady m then w
      else dc_run E m Motor_left Dir_forward magnitude
             (dc_run E m Motor_right Dir_forward magnitude w))"

definition dc_backward :: "environ \<Rightarrow> dc_motor \<Rightarrow> int \<Rightarrow> world \<Rightarrow> world" where
  "dc_backward E m magnitude w =
     (if \<not> isEnabled m \<or> \<not> isReady m then w
      else dc_run E m Motor_left Dir_backward magnitude
             (dc_run E m Motor_right Dir_backward magnitude w))"

definition dc_turnRight :: "environ \<Rightarrow> dc_motor \<Rightarrow> int \<Rightarrow> world \<Rightarrow> world" where
  "dc_turnRight E m magnitude w =
     (if \<not> isEnabled m \<or> \<not> isReady m then w
      else dc_run E m Motor_left Dir_backward magnitude
             (dc_run E m Motor_right Dir_forward magnitude w))"

definition dc_turnLeft :: "environ \<Rightarrow> dc_motor \<Rightarrow> int \<Rightarrow> world \<Rightarrow> world" where
  "dc_turnLeft E m magnitude w =
     (if \<not> isEnabled m \<or> \<not> isReady m then w
      else dc_run E m Motor_left Dir_forward magnitude
             (dc_run E m Motor_right Dir_backward magnitude w))"

definition dc_stop :: "environ \<Rightarrow> dc_motor \<Rightarrow> world \<Rightarrow> world" where
  "dc_stop E m w =
     (if \<not> isEnabled m \<or> \<not> isReady m then w
      else setDutyCyclePercent E (dc_driver m) PWMB 0
             (setDutyCyclePercent E (dc_driver m) PWMA 0 w))"

definition dc_shutdown :: "environ \<Rightarrow> dc_motor \<Rightarrow> world \<Rightarrow> dc_motor \<times> world" where
  "dc_shutdown E m w =
     (let w1 = (if ct_initialized m then dc_stop E m w else w);
          (d, w2) = I2CDevice_shutdown (dc_driver m) w1
      in (m\<lparr>dc_driver := d, ct_initialized := False\<rparr>, w2))"

section \<open>What the wheels were last told\<close>

text \<open>
  The abstract drive: each wheel has a PWM count and a level on each of its two direction
  pins. The left wheel is mounted mirrored, so the controller swaps its direction.
\<close>

type_synonym wheel = "(int \<times> int) option \<times> (int \<times> int) option \<times> (int \<times> int) option"

definition left_wheel :: "int \<Rightarrow> world \<Rightarrow> wheel" where
  "left_wheel fd w = (channel_duty fd PWMA w, channel_duty fd AIN1 w, channel_duty fd AIN2 w)"

definition right_wheel :: "int \<Rightarrow> world \<Rightarrow> wheel" where
  "right_wheel fd w = (channel_duty fd PWMB w, channel_duty fd BIN1 w, channel_duty fd BIN2 w)"

definition speed_count :: "int \<Rightarrow> int" where
  "speed_count magnitude = ((magnitude * 4096) sdiv 100) mod 65536"

definition wheel_spec :: "DCMotorDirection \<Rightarrow> int \<Rightarrow> wheel" where
  "wheel_spec dir magnitude =
     (Some (0, speed_count magnitude),
      if dir = Dir_forward then (Some (0, 0), Some (0, 4095)) else (Some (0, 4095), Some (0, 0)))"

lemma motor_channels [simp]:
  "pwm_channel PWMA" "pwm_channel AIN1" "pwm_channel AIN2"
  "pwm_channel PWMB" "pwm_channel BIN1" "pwm_channel BIN2"
  by (simp_all add: pwm_channel_def motor_pins)

lemma motor_pins_distinct [simp]:
  "PWMA \<noteq> AIN1" "PWMA \<noteq> AIN2" "PWMA \<noteq> PWMB" "PWMA \<noteq> BIN1" "PWMA \<noteq> BIN2"
  "AIN1 \<noteq> PWMA" "AIN1 \<noteq> AIN2" "AIN1 \<noteq> PWMB" "AIN1 \<noteq> BIN1" "AIN1 \<noteq> BIN2"
  "AIN2 \<noteq> PWMA" "AIN2 \<noteq> AIN1" "AIN2 \<noteq> PWMB" "AIN2 \<noteq> BIN1" "AIN2 \<noteq> BIN2"
  "PWMB \<noteq> PWMA" "PWMB \<noteq> AIN1" "PWMB \<noteq> AIN2" "PWMB \<noteq> BIN1" "PWMB \<noteq> BIN2"
  "BIN1 \<noteq> PWMA" "BIN1 \<noteq> AIN1" "BIN1 \<noteq> AIN2" "BIN1 \<noteq> PWMB" "BIN1 \<noteq> BIN2"
  "BIN2 \<noteq> PWMA" "BIN2 \<noteq> AIN1" "BIN2 \<noteq> AIN2" "BIN2 \<noteq> PWMB" "BIN2 \<noteq> BIN1"
  by (simp_all add: motor_pins)

lemmas wheel_defs = left_wheel_def right_wheel_def wheel_spec_def speed_count_def active_def

lemmas motor_writes = setDutyCyclePercent_def setChannelLevel_def dc_setDirection_def

lemma left_wheel_run:
  assumes "active m"
  shows "left_wheel (i2cFd (dc_driver m)) (dc_run E m Motor_left dir s w) =
           wheel_spec (if dir = Dir_forward then Dir_backward else Dir_forward) s"
    and "right_wheel (i2cFd (dc_driver m)) (dc_run E m Motor_left dir s w) =
           right_wheel (i2cFd (dc_driver m)) w"
  using assms
  by (cases dir; simp add: wheel_defs dc_run_def motor_writes pca.duty_set)+

lemma right_wheel_run:
  assumes "active m"
  shows "right_wheel (i2cFd (dc_driver m)) (dc_run E m Motor_right dir s w) = wheel_spec dir s"
    and "left_wheel (i2cFd (dc_driver m)) (dc_run E m Motor_right dir s w) =
           left_wheel (i2cFd (dc_driver m)) w"
  using assms
  by (cases dir; simp add: wheel_defs dc_run_def motor_writes pca.duty_set)+

lemmas wheel_runs = left_wheel_run right_wheel_run

lemma activeD: "active c \<Longrightarrow> isEnabled c" "active c \<Longrightarrow> isReady c"
  by (simp_all add: active_def)

text \<open>The four motions, wheel by wheel.\<close>

lemma dc_motion_wheels:
  assumes "active m" and "fd = i2cFd (dc_driver m)"
  shows "(left_wheel fd (dc_forward E m s w), right_wheel fd (dc_forward E m s w)) =
           (wheel_spec Dir_backward s, wheel_spec Dir_forward s)"
    and "(left_wheel fd (dc_backward E m s w), right_wheel fd (dc_backward E m s w)) =
           (wheel_spec Dir_forward s, wheel_spec Dir_backward s)"
    and "(left_wheel fd (dc_turnRight E m s w), right_wheel fd (dc_turnRight E m s w)) =
           (wheel_spec Dir_forward s, wheel_spec Dir_forward s)"
    and "(left_wheel fd (dc_turnLeft E m s w), right_wheel fd (dc_turnLeft E m s w)) =
           (wheel_spec Dir_backward s, wheel_spec Dir_backward s)"
  using assms
  by (simp_all add: dc_forward_def dc_backward_def dc_turnRight_def dc_turnLeft_def activeD
      wheel_runs)

lemma dc_stop_wheels:
  assumes "active m" and "fd = i2cFd (dc_driver m)"
  shows "channel_duty fd PWMA (dc_stop E m w) = Some (0, 0)"
    and "channel_duty fd PWMB (dc_stop E m w) = Some (0, 0)"
  using assms
  by (simp_all add: dc_stop_def activeD setDutyCyclePercent_def pca.duty_set)

text \<open>A controller that is disabled or not initialised does nothing, \<open>stop\<close> included.\<close>

lemma dc_inactive:
  assumes "\<not> active m"
  shows "dc_run E m mo dir s w = w" "dc_forward E m s w = w" "dc_backward E m s w = w"
    "dc_turnRight E m s w = w" "dc_turnLeft E m s w = w" "dc_stop E m w = w"
  using assms
  by (auto simp: active_def dc_run_def dc_forward_def dc_backward_def dc_turnRight_def
      dc_turnLeft_def dc_stop_def)

lemma speed_count_bound:
  "0 \<le> s \<Longrightarrow> s < 100 \<Longrightarrow> 0 \<le> speed_count s \<and> speed_count s < 4096"
proof -
  assume s: "0 \<le> s" "s < 100"
  have "(s * 4096) div 100 \<ge> 0" using s by simp
  moreover have "(s * 4096) div 100 < 4096"
    using s zdiv_mono1 [of "s * 4096" "99 * 4096" 100] by simp
  ultimately show ?thesis using s by (simp add: speed_count_def sdiv_nonneg)
qed

text \<open>At 100 percent the count is 4096, the full-off bit of the chip's \<open>OFF_H\<close> register.\<close>

lemma speed_count_100: "speed_count 100 = 4096"
  by (simp add: speed_count_def signed_divide_int_def)

lemma dc_run_trace_i2c_only:
  "i2c_traffic (dc_run E m mo dir s w) = i2c_traffic w \<longleftrightarrow> \<not> active m"
  by (auto simp: dc_run_def active_def motor_writes setDutyCycle_trace Let_def)

end
