(* ===== verification/Sensors.thy ===== *)
theory Sensors
  imports Sensor_Drivers DC_Motor
begin

text \<open>
  The three sensor controllers, \<open>controllers/distance_controller.cpp\<close> (the UART frame of the
  lidar), \<open>controllers/compass_controller.cpp\<close> and \<open>controllers/power_controller.cpp\<close>, and
  \<open>drivers/median_filter.cpp\<close>. A controller that is disabled or not initialised answers with
  zeros and produces no traffic.
\<close>

section \<open>DistanceController\<close>

record distance = controller +
  uart_fd :: int

definition DistanceData_zero :: DistanceData where
  "DistanceData_zero = \<lparr>dd_distance = 0, dd_strength = 0, dd_temperature = 0\<rparr>"

definition distance_initialize :: "environ \<Rightarrow> distance \<Rightarrow> world \<Rightarrow> bool \<times> distance \<times> world" where
  "distance_initialize E s w =
     (if 0 \<le> uart_fd s then (True, s\<lparr>ct_initialized := True\<rparr>, w)
      else let (fd, w1) = ask E Uart_open w; s1 = s\<lparr>uart_fd := fd\<rparr>
           in if fd < 0 then (False, s1\<lparr>ct_initialized := False\<rparr>, w1)
              else let (r, w2) = ask E (Uart_tcgetattr fd) w1
                   in if r \<noteq> 0
                      then (False, s1\<lparr>uart_fd := -1, ct_initialized := False\<rparr>, tell (Fd_close fd) w2)
                      else let (r', w3) = ask E (Uart_tcsetattr fd) w2
                           in if r' \<noteq> 0
                              then (False, s1\<lparr>uart_fd := -1, ct_initialized := False\<rparr>,
                                    tell (Fd_close fd) w3)
                              else (True, s1\<lparr>ct_initialized := True\<rparr>, w3))"

definition distance_shutdown :: "distance \<Rightarrow> world \<Rightarrow> distance \<times> world" where
  "distance_shutdown s w =
     (if 0 \<le> uart_fd s
      then (s\<lparr>uart_fd := -1, ct_initialized := False\<rparr>, tell (Fd_close (uart_fd s)) w)
      else (s\<lparr>ct_initialized := False\<rparr>, w))"

definition distance_isReady :: "distance \<Rightarrow> bool" where
  "distance_isReady s \<longleftrightarrow> ct_initialized s \<and> 0 \<le> uart_fd s"

definition flush_input_buffer :: "distance \<Rightarrow> world \<Rightarrow> world" where
  "flush_input_buffer s w = (if 0 \<le> uart_fd s then tell (Uart_flush (uart_fd s)) w else w)"

text \<open>A complete nine-byte frame: two \<open>'Y'\<close> bytes, then three little-endian words.\<close>

definition decode_frame :: "u8 list \<Rightarrow> DistanceData option" where
  "decode_frame b =
     (if b ! 0 = 0x59 \<and> b ! 1 = 0x59
      then Some
        \<lparr>dd_distance = uint (b ! 2) + push_bit 8 (uint (b ! 3)),
         dd_strength = uint (b ! 4) + push_bit 8 (uint (b ! 5)),
         dd_temperature = (uint (b ! 6) + push_bit 8 (uint (b ! 7))) sdiv 8 - 256\<rparr>
      else None)"

text \<open>The buffer is zeroed before the read, which fills at most its nine bytes.\<close>

definition read_buffer :: "u8 list \<Rightarrow> u8 list" where
  "read_buffer bs = take 9 (bs @ replicate 9 0)"

definition get_distance :: "environ \<Rightarrow> distance \<Rightarrow> world \<Rightarrow> DistanceData \<times> world" where
  "get_distance E s w =
     (if \<not> isEnabled s then (DistanceData_zero, w)
      else if \<not> distance_isReady s then (DistanceData_zero, w)
      else let (sel, w1) = ask E (Uart_select (uart_fd s)) w
           in if 0 < sel
              then let (bytes_read, w2) = ask E (Uart_read (uart_fd s)) w1;
                       buffer = read_buffer (env_bytes E w2)
                   in if bytes_read < 9 then (DistanceData_zero, flush_input_buffer s w2)
                      else (case decode_frame buffer of
                              Some d \<Rightarrow> (d, flush_input_buffer s w2)
                            | None \<Rightarrow> (DistanceData_zero, flush_input_buffer s w2))
              else (DistanceData_zero, w1))"

text \<open>The frame a lidar sends for given words, and what the code makes of it.\<close>

definition encode_frame :: "int \<Rightarrow> int \<Rightarrow> int \<Rightarrow> u8 \<Rightarrow> u8 list" where
  "encode_frame dval strength temp checksum =
     [0x59, 0x59, u8_of_int dval, u8_of_int (dval div 256), u8_of_int strength,
      u8_of_int (strength div 256), u8_of_int temp, u8_of_int (temp div 256), checksum]"

lemma little_endian: "0 \<le> x \<Longrightarrow> x < 65536 \<Longrightarrow> x mod 256 + push_bit 8 (x div 256) = (x :: int)"
  by (simp add: push_bit_eq_mult)

lemma decode_encode_frame:
  assumes "0 \<le> dval" "dval < 65536" "0 \<le> str" "str < 65536" "0 \<le> temp" "temp < 65536"
  shows "decode_frame (encode_frame dval str temp cs) =
    Some \<lparr>dd_distance = dval, dd_strength = str, dd_temperature = temp div 8 - 256\<rparr>"
  using assms by (simp add: decode_frame_def encode_frame_def little_endian sdiv_nonneg)

lemma read_buffer_length [simp]: "length (read_buffer bs) = 9"
  by (simp add: read_buffer_def)

lemma decode_frame_bounds:
  "decode_frame b = Some d \<Longrightarrow>
   0 \<le> dd_distance d \<and> dd_distance d < 65536 \<and> 0 \<le> dd_strength d \<and> dd_strength d < 65536 \<and>
   -256 \<le> dd_temperature d \<and> dd_temperature d < 7936"
proof -
  have *: "0 \<le> uint (l :: u8) + push_bit 8 (uint (h :: u8)) \<and>
      uint l + push_bit 8 (uint h) < 65536" for l h
    using uint_u8_range [of l] uint_u8_range [of h] by (simp add: push_bit_eq_mult)
  assume "decode_frame b = Some d"
  then show ?thesis
    using * [of "b ! 2" "b ! 3"] * [of "b ! 4" "b ! 5"] * [of "b ! 6" "b ! 7"]
    by (auto simp: decode_frame_def sdiv_nonneg pos_imp_zdiv_nonneg_iff split: if_splits)
qed

section \<open>CompassController\<close>

record compass = controller +
  cp_sensor :: i2c_device

definition compass_initialize :: "environ \<Rightarrow> compass \<Rightarrow> world \<Rightarrow> bool \<times> compass \<times> world" where
  "compass_initialize E s w =
     (let (ret, d, w1) = initHMC5883l E (cp_sensor s) w
      in (ret, s\<lparr>cp_sensor := d, ct_initialized := ret\<rparr>, w1))"

definition compass_shutdown :: "compass \<Rightarrow> world \<Rightarrow> compass \<times> world" where
  "compass_shutdown s w =
     (let (d, w1) = I2CDevice_shutdown (cp_sensor s) w
      in (s\<lparr>cp_sensor := d, ct_initialized := False\<rparr>, w1))"

definition getCompassData :: "environ \<Rightarrow> libm \<Rightarrow> compass \<Rightarrow> world \<Rightarrow> CompassData \<times> world" where
  "getCompassData E L s w =
     (if \<not> isEnabled s \<or> \<not> isReady s then (\<lparr>cd_angle = 0, cd_magnetX = 0, cd_magnetY = 0\<rparr>, w)
      else let (a, w1) = readHMC5883l E L (cp_sensor s) w
           in (\<lparr>cd_angle = u16_of_int (ftrunc (ax_t a)), cd_magnetX = u16_of_int (ftrunc (ax_x a)),
                cd_magnetY = u16_of_int (ftrunc (ax_y a))\<rparr>, w1))"

section \<open>PowerController\<close>

record power = controller +
  pw_ina :: ina219

definition PowerData_zero :: PowerData where
  "PowerData_zero =
     \<lparr>pd_busVoltage = Flt 0 0, pd_shuntVoltage = Flt 0 0, pd_current = Flt 0 0, pd_power = Flt 0 0\<rparr>"

definition power_initialize :: "environ \<Rightarrow> power \<Rightarrow> world \<Rightarrow> bool \<times> power \<times> world" where
  "power_initialize E s w =
     (let (ret, ina, w1) = initINA219 E INA219_I2C_ADDRESS3 (pw_ina s) w
      in (ret, s\<lparr>pw_ina := ina, ct_initialized := ret\<rparr>, w1))"

definition power_shutdown :: "power \<Rightarrow> world \<Rightarrow> power \<times> world" where
  "power_shutdown s w =
     (let (ina, w1) = ina_shutdown (pw_ina s) w
      in (s\<lparr>pw_ina := ina, ct_initialized := False\<rparr>, w1))"

definition getConsumption :: "environ \<Rightarrow> flt \<Rightarrow> power \<Rightarrow> world \<Rightarrow> PowerData \<times> world" where
  "getConsumption E garbage s w =
     (if \<not> isEnabled s \<or> \<not> isReady s then (PowerData_zero, w)
      else readINA219 E garbage (pw_ina s) w)"

text \<open>The interface the robot relies on: a switched-off sensor answers zeros, silently.\<close>

lemma sensors_silent:
  "\<not> ct_enable d \<Longrightarrow> get_distance E d w = (DistanceData_zero, w)"
  "\<not> ct_enable c \<Longrightarrow> snd (getCompassData E L c w) = w"
  "\<not> ct_enable p \<Longrightarrow> getConsumption E g p w = (PowerData_zero, w)"
  by (simp_all add: get_distance_def getCompassData_def getConsumption_def isEnabled_def)

section \<open>MedianFilter\<close>

record median_filter =
  mf_values :: "flt list"
  mf_window_size :: nat

text \<open>\<open>std::sort\<close> by \<open><\<close> of \<open>double\<close>.\<close>

fun flt_insert :: "flt \<Rightarrow> flt list \<Rightarrow> flt list" where
  "flt_insert x [] = [x]"
| "flt_insert x (y # ys) = (if flt_less y x then y # flt_insert x ys else x # y # ys)"

definition flt_sort :: "flt list \<Rightarrow> flt list" where
  "flt_sort xs = foldr flt_insert xs []"

text \<open>On an empty window the code reads before the vector: no value.\<close>

definition compute_median :: "flt list \<Rightarrow> flt option" where
  "compute_median vs =
     (let s = flt_sort vs; n = length s
      in if n = 0 then None
         else if n mod 2 = 0
         then Some (fdiv dbl_prec (fadd dbl_prec (s ! (n div 2 - 1)) (s ! (n div 2)))
                     (fof_int dbl_prec 2))
         else Some (s ! (n div 2)))"

definition median_apply :: "flt \<Rightarrow> median_filter \<Rightarrow> flt option \<times> median_filter" where
  "median_apply v m =
     (let vs = mf_values m @ [v];
          vs' = (if mf_window_size m < length vs then tl vs else vs)
      in (compute_median vs', m\<lparr>mf_values := vs'\<rparr>))"

text \<open>After any inputs the window holds the newest ones, at most \<open>window_size\<close> of them.\<close>

definition median_feed :: "flt list \<Rightarrow> median_filter \<Rightarrow> median_filter" where
  "median_feed xs m = fold (\<lambda>v m. snd (median_apply v m)) xs m"

definition newest :: "nat \<Rightarrow> 'a list \<Rightarrow> 'a list" where
  "newest n xs = rev (take n (rev xs))"

lemma newest_snoc: "newest n (newest n xs @ [x]) = newest n (xs @ [x])"
  by (cases n) (simp_all add: newest_def)

lemma slide_window:
  assumes "length vs \<le> n"
  shows "(if n < length (vs @ [x]) then tl (vs @ [x]) else vs @ [x]) = newest n (vs @ [x])"
proof (cases "length vs = n")
  case True
  show ?thesis
  proof (cases n)
    case 0
    with True show ?thesis by (simp add: newest_def)
  next
    case (Suc k)
    have "tl vs = rev (take k (rev vs))"
      using True Suc by (simp add: rev_take drop_Suc)
    with True Suc show ?thesis by (cases vs) (simp_all add: newest_def)
  qed
next
  case False
  with assms show ?thesis by (simp add: newest_def)
qed

lemma median_window:
  "mf_values m = newest (mf_window_size m) hist \<Longrightarrow>
   mf_values (median_feed xs m) = newest (mf_window_size m) (hist @ xs)"
proof (induction xs arbitrary: m hist)
  case Nil
  then show ?case by (simp add: median_feed_def)
next
  case (Cons x xs)
  let ?m = "snd (median_apply x m)"
  have size: "mf_window_size ?m = mf_window_size m"
    by (simp add: median_apply_def Let_def)
  have "length (mf_values m) \<le> mf_window_size m"
    using Cons.prems by (simp add: newest_def)
  then have "mf_values ?m = newest (mf_window_size m) (mf_values m @ [x])"
    using slide_window [of "mf_values m" "mf_window_size m" x]
    by (simp add: median_apply_def Let_def)
  then have "mf_values ?m = newest (mf_window_size ?m) (hist @ [x])"
    using Cons.prems size by (simp add: newest_snoc)
  from Cons.IH [OF this] show ?case
    by (simp add: median_feed_def size)
qed

lemma length_flt_insert [simp]: "length (flt_insert x ys) = Suc (length ys)"
  by (induction ys) simp_all

lemma set_flt_insert [simp]: "set (flt_insert x ys) = insert x (set ys)"
  by (induction ys) auto

lemma length_flt_sort [simp]: "length (flt_sort xs) = length xs"
  by (induction xs) (simp_all add: flt_sort_def)

lemma set_flt_sort [simp]: "set (flt_sort xs) = set xs"
  by (induction xs) (simp_all add: flt_sort_def)

lemma flt_sort_empty [simp]: "flt_sort xs = [] \<longleftrightarrow> xs = []"
  by (metis length_0_conv length_flt_sort)

lemma sorted_flt_insert:
  "sorted (map fval ys) \<Longrightarrow> sorted (map fval (flt_insert x ys))"
  by (induction ys) (auto simp: flt_less_iff)

lemma sorted_flt_sort: "sorted (map fval (flt_sort xs))"
  by (induction xs) (simp_all add: flt_sort_def sorted_flt_insert)

lemma compute_median_some: "vs \<noteq> [] \<Longrightarrow> compute_median vs \<noteq> None"
  by (auto simp: compute_median_def Let_def flt_sort_empty)

lemma compute_median_odd:
  "odd (length vs) \<Longrightarrow> compute_median vs = Some (flt_sort vs ! (length vs div 2)) \<and>
     flt_sort vs ! (length vs div 2) \<in> set vs"
proof -
  assume *: "odd (length vs)"
  then have "length vs div 2 < length (flt_sort vs)"
    by (cases vs) auto
  then have "flt_sort vs ! (length vs div 2) \<in> set (flt_sort vs)"
    by (rule nth_mem)
  with * show ?thesis
    by (cases "vs = []") (simp_all add: compute_median_def Let_def odd_iff_mod_2_eq_one)
qed

section \<open>INA219: what the setters do to the configuration word\<close>

lemma swap_bytes_shift: "swap_bytes v = push_bit 8 v OR drop_bit 8 v"
proof -
  have *: "(0xFF :: u16) = mask 8" "(0xFF00 :: u16) = push_bit 8 (mask 8)"
    by (simp_all add: mask_eq_exp_minus_1 push_bit_eq_mult)
  show ?thesis
    unfolding swap_bytes_def * 
    by (intro bit_word_eqI) (auto simp: bit_simps simp del: mask_numeral dest: bit_imp_le_length)
qed

lemma swap_bytes_twice: "swap_bytes (swap_bytes v) = v"
  by (rule bit_word_eqI) (auto simp: swap_bytes_shift bit_simps)

end
