(* ===== verification/Sensor_Properties.thy ===== *)
theory Sensor_Properties
  imports Sensors
begin

text \<open>
  What the sensor controllers report: the lidar frame, the power sensor's configuration,
  calibration and voltage, the median window.
\<close>

section \<open>The lidar\<close>

definition sample_lidar :: distance where
  "sample_lidar = \<lparr>ct_enable = True, ct_initialized = True, uart_fd = 3\<rparr>"

definition sample_uart :: environ where
  "sample_uart = \<lparr>env_reply = (\<lambda>w. 9), env_bytes = (\<lambda>w. encode_frame 300 1000 2400 0)\<rparr>"

text \<open>C20: when the UART delivers a nine-byte frame, an enabled controller reports exactly the
distance and strength words the frame encodes and the temperature word as an eighth less 256,
and flushes the input.\<close>

theorem lidar_frame_roundtrip:
  assumes "ct_enable s" and "ct_initialized s" and "0 \<le> uart_fd s"
    and "0 < env_reply E (Uart_select (uart_fd s) # w)"
    and "9 \<le> env_reply E (Uart_read (uart_fd s) # Uart_select (uart_fd s) # w)"
    and "env_bytes E (Uart_read (uart_fd s) # Uart_select (uart_fd s) # w) = encode_frame d st t cs"
    and "0 \<le> d" "d < 65536" "0 \<le> st" "st < 65536" "0 \<le> t" "t < 65536"
  shows "get_distance E s w =
    (\<lparr>dd_distance = d, dd_strength = st, dd_temperature = t div 8 - 256\<rparr>,
     Uart_flush (uart_fd s) # Uart_read (uart_fd s) # Uart_select (uart_fd s) # w)"
proof -
  have "read_buffer (encode_frame d st t cs) = encode_frame d st t cs"
    by (simp add: read_buffer_def encode_frame_def)
  then show ?thesis
    using assms
    by (simp add: get_distance_def isEnabled_def distance_isReady_def ask_def decode_encode_frame
        flush_input_buffer_def tell_def)
qed

lemma lidar_frame_roundtrip_witness:
  "fst (get_distance sample_uart sample_lidar []) =
     \<lparr>dd_distance = 300, dd_strength = 1000, dd_temperature = 44\<rparr>"
  using lidar_frame_roundtrip [of sample_lidar sample_uart "[]" 300 1000 2400 0]
  by (simp add: sample_lidar_def sample_uart_def)

lemma get_distance_range:
  "0 \<le> dd_distance (fst (get_distance E s w)) \<and> dd_distance (fst (get_distance E s w)) < 65536 \<and>
   0 \<le> dd_strength (fst (get_distance E s w)) \<and> dd_strength (fst (get_distance E s w)) < 65536 \<and>
   -256 \<le> dd_temperature (fst (get_distance E s w)) \<and> dd_temperature (fst (get_distance E s w)) < 7936"
  by (auto simp: get_distance_def DistanceData_zero_def case_prod_beta Let_def
      dest: decode_frame_bounds split: option.split)

text \<open>Whatever the serial line delivers, also short reads, timeouts and garbage, a reading
stays in the range of the frame's words, and the descriptor is never closed by reading.\<close>

lemma lidar_reading_bounds:
  "(let (r, w') = get_distance E s w
    in 0 \<le> dd_distance r \<and> dd_distance r < 65536 \<and> 0 \<le> dd_strength r \<and> dd_strength r < 65536 \<and>
       -256 \<le> dd_temperature r \<and> dd_temperature r < 7936 \<and>
       filter (\<lambda>q. q = Fd_close (uart_fd s)) w' = filter (\<lambda>q. q = Fd_close (uart_fd s)) w)"
proof -
  have "filter (\<lambda>q. q = Fd_close (uart_fd s)) (snd (get_distance E s w)) =
      filter (\<lambda>q. q = Fd_close (uart_fd s)) w"
    by (simp add: get_distance_def ask_def flush_input_buffer_def tell_def Let_def split: option.split)
  then show ?thesis
    using get_distance_range [of E s w] by (simp add: case_prod_beta Let_def)
qed

section \<open>The power sensor's configuration\<close>

text \<open>The word a 16-bit register was last set to.\<close>

fun last_word :: "int \<Rightarrow> u8 \<Rightarrow> u16 \<Rightarrow> world \<Rightarrow> u16" where
  "last_word fd r v0 [] = v0"
| "last_word fd r v0 (q # w) =
     (case q of
        I2C_write16 fd' r' v \<Rightarrow> if fd' = fd \<and> r' = r then v else last_word fd r v0 w
      | _ \<Rightarrow> last_word fd r v0 w)"

text \<open>A chip that reads back its configuration register as it was written, from \<open>cfg\<close> on.\<close>

definition reads_back :: "environ \<Rightarrow> int \<Rightarrow> u16 \<Rightarrow> bool" where
  "reads_back E fd cfg \<longleftrightarrow>
     (\<forall>w. env_reply E (I2C_read16 fd REG_CONFIG # w) = uint (last_word fd REG_CONFIG (swap_bytes cfg) w))"

definition config_of :: "int \<Rightarrow> u16 \<Rightarrow> world \<Rightarrow> u16" where
  "config_of fd cfg w = swap_bytes (last_word fd REG_CONFIG (swap_bytes cfg) w)"

lemma update_config_config:
  assumes "reads_back E (i2cFd d) cfg"
  shows "config_of (i2cFd d) cfg (update_config E f d w) = f (config_of (i2cFd d) cfg w)"
  using assms
  by (simp add: update_config_def readRegister_def readWord_def ask_def reads_back_def config_of_def
      writeRegister_def writeWord_def swap_bytes_twice Let_def)

definition init_config :: "u16 \<Rightarrow> u16" where
  "init_config v =
     conf_mode SHUNT_AND_BUS_VOL_CON (conf_shunt_adc ADC_BITS_12 ADC_SAMPLE_8
       (conf_bus_adc ADC_BITS_12 ADC_SAMPLE_8 (conf_pga PGA_BITS_8 (conf_bus_range BUS_VOL_RANGE_32V v))))"

lemma below_four: "i < 4 \<Longrightarrow> i = 0 \<or> i = 1 \<or> i = 2 \<or> i = (3 :: nat)"
  by presburger

lemma nibbles:
  assumes "n < 16"
  obtains i j where "n = i + 4 * j" "i \<in> {0, 1, 2, 3}" "j \<in> {0, 1, 2, 3 :: nat}"
proof -
  have "n mod 4 < 4" "n div 4 < 4" using assms by simp_all
  then show thesis
    using below_four [of "n mod 4"] below_four [of "n div 4"] by (intro that [of "n mod 4" "n div 4"]) auto
qed

lemma init_config_const: "init_config v = (v AND 0x8000) OR 0x7D9F"
proof (rule bit_word_eqI)
  fix n assume "n < LENGTH(16)"
  then have len16: "n < 16" by simp
  obtain i j where "n = i + 4 * j" "i \<in> {0, 1, 2, 3}" "j \<in> {0, 1, 2, 3}"
    by (rule nibbles [OF len16])
  then show "bit (init_config v) n = bit ((v AND 0x8000) OR 0x7D9F) n"
    unfolding init_config_def conf_mode_def conf_shunt_adc_def conf_bus_adc_def adc_value_def conf_pga_def
      conf_bus_range_def
    by (elim insertE emptyE) (simp_all add: bit_simps)
qed

lemma update_config_fd_only:
  "config_of fd cfg (writeRegister E REG_CALIBRATION v d w) = config_of fd cfg w"
  by (simp add: config_of_def writeRegister_def writeWord_def ask_def REG_CALIBRATION_def REG_CONFIG_def Let_def)

text \<open>On a chip whose configuration register reads back as written, the initialisation leaves
the word 0x7D9F whatever the register held (only the reset bit is kept): 32 V, gain 8, bus ADC
at 8 samples and continuous mode as asked, but the shunt ADC at a single 12-bit sample and the
reserved bit 14 set, because the sample codes carry 0x80 into four-bit fields.\<close>

lemma power_sensor_configuration:
  assumes "env_reply E (I2C_setup a # w) = fd" and "fd \<noteq> -1"
    and "reads_back E fd cfg" and "initINA219 E a s w = (ok, s', w')"
  shows "ok \<and> config_of fd cfg w' = (config_of fd cfg w AND 0x8000) OR 0x7D9F \<and>
    ina_currentLSB s' = snd (calibration (flit flt_prec 1 10) (flit flt_prec 32 10))"
proof -
  define d where "d = (ina_device s)\<lparr>i2cFd := fd, i2cAddress := a\<rparr>"
  have fd: "i2cFd d = fd" by (simp add: d_def)
  note rb = assms(3) [folded fd]
  define w0 where "w0 = I2C_read16 fd REG_CONFIG # I2C_setup a # w"
  have scan: "ina_scan E d (I2C_setup a # w) = (True, w0)"
    using rb by (simp add: ina_scan_def readWord_def ask_def fd reads_back_def w0_def)
  have opened: "openDevice E a (ina_device s) w = (True, d, I2C_setup a # w)"
    using assms(1,2) by (simp add: openDevice_def ask_def d_def)
  have valid: "adc_valid ADC_BITS_12 ADC_SAMPLE_8" by (simp add: adc_valid_def)
  have w0': "config_of fd cfg w0 = config_of fd cfg w"
    by (simp add: config_of_def w0_def)
  show ?thesis
    using assms(4) opened scan init_config_const [of "config_of fd cfg w"] w0'
    by (auto simp: initINA219_def Let_def setBusRange_def setPGA_def setBusADC_def setShuntADC_def setMode_def
        valid setCalibration_def case_prod_beta init_config_def
        update_config_config [OF rb, unfolded fd] update_config_fd_only)
qed

definition sample_chip :: environ where
  "sample_chip = \<lparr>env_reply = (\<lambda>w. case w of I2C_read16 fd r # w' \<Rightarrow> uint (last_word fd REG_CONFIG (swap_bytes 0x399F) w')
     | _ \<Rightarrow> 3), env_bytes = (\<lambda>w. [])\<rparr>"

definition sample_ina :: ina219 where
  "sample_ina = \<lparr>ina_device = I2CDevice_new, ina_currentLSB = Flt 0 0, ina_calValue = 0\<rparr>"

lemma power_sensor_configuration_witness:
  "config_of 3 0x399F (snd (snd (initINA219 sample_chip 0x44 sample_ina []))) = 0x7D9F"
proof -
  have "reads_back sample_chip 3 0x399F"
    by (simp add: reads_back_def sample_chip_def)
  moreover have "env_reply sample_chip [I2C_setup 0x44] = 3"
    by (simp add: sample_chip_def)
  moreover have "config_of 3 0x399F [] = 0x399F"
    by (simp add: config_of_def swap_bytes_twice)
  moreover obtain ok s' w' where r: "initINA219 sample_chip 0x44 sample_ina [] = (ok, s', w')"
    by (cases "initINA219 sample_chip 0x44 sample_ina []")
  ultimately show ?thesis
    using power_sensor_configuration [of sample_chip "0x44" "[]" 3 "0x399F" sample_ina ok s' w'] by simp
qed

text \<open>The calibration of the 0.1 Ohm shunt for 3.2 A, computed in float, programs the word
4194 with a clear lowest bit, and takes one bit of the current register as exactly 25/256
milliamperes.\<close>

lemma power_sensor_calibration:
  "calibration (flit flt_prec 1 10) (flit flt_prec 32 10) = (4194, flit flt_prec 25 256)"
  by code_simp

section \<open>The bus voltage\<close>

lemma bus_register_value:
  assumes "env_reply E (I2C_read16 (i2cFd (ina_device s)) REG_BUSVOLTAGE # w) = uint (swap_bytes v)"
  shows "fst (readRegister E REG_BUSVOLTAGE (ina_device s) w) = v"
  using assms by (simp add: readRegister_def readWord_def ask_def swap_bytes_twice Let_def)

lemma sint_negative: "sint (v :: u16) < 0 \<longleftrightarrow> 0x8000 \<le> v"
proof -
  have *: "sint v = uint v - (if bit v 15 then 65536 else 0)"
    using uint_u16_range [of v]
    by (simp add: sint_uint signed_take_bit_eq_take_bit_minus take_bit_int_eq_self bit_uint_iff)
  have "bit v 15 \<longleftrightarrow> odd (uint v div 32768)"
    using bit_iff_odd [of "uint v" 15] by (simp add: bit_uint_iff)
  also have "\<dots> \<longleftrightarrow> 32768 \<le> uint v"
  proof (cases "32768 \<le> uint v")
    case True
    have "uint v div 32768 = 1"
      by (rule int_div_pos_eq [where r = "uint v - 32768"]) (use True uint_u16_range [of v] in simp_all)
    with True show ?thesis by simp
  next
    case False
    then have "uint v div 32768 = 0" using uint_u16_range [of v] by simp
    with False show ?thesis by simp
  qed
  finally have "bit v 15 \<longleftrightarrow> 32768 \<le> uint v" .
  then show ?thesis using * uint_u16_range [of v] by (simp add: word_le_def)
qed

text \<open>The bus voltage of a register word is, to within a millionth, half the word read as a
signed number, in millivolts. From the word 0x8000 up, which the chip uses above 16.38 V in the
32 V range the code selects, the voltage comes out negative.\<close>

lemma bus_voltage_reading:
  assumes "env_reply E (I2C_read16 (i2cFd (ina_device s)) REG_BUSVOLTAGE # w) = uint (swap_bytes v)"
  shows "\<bar>fval (fst (getBusVoltageV E s w)) - real_of_int (sint v div 2) / 1000\<bar> \<le>
      \<bar>real_of_int (sint v div 2)\<bar> / 1000000000 \<and>
    (0x8000 \<le> v \<longleftrightarrow> flt_less (fst (getBusVoltageV E s w)) (Flt 0 0))"
proof -
  define x where "x = sint v div 2"
  define m where "m = flit flt_prec 1 1000"
  define r where "r = fmul flt_prec (fof_int flt_prec x) m"
  have res: "fst (getBusVoltageV E s w) = r"
    using bus_register_value [OF assms] by (simp add: getBusVoltageV_def case_prod_beta x_def m_def r_def)
  have range: "-32768 \<le> sint v" "sint v < 32768"
    using sint_greater_eq [of v] sint_lt [of v] by simp_all
  then have x: "\<bar>x\<bar> \<le> 16384" by (simp add: x_def abs_le_iff) linarith
  have eps: "(2 :: real) powi (- flt_prec) \<le> 6 / 100000000" "0 \<le> flt_prec"
    by (simp_all add: flt_prec_def power_int_def power_one_over)
  have fx: "fval (fof_int flt_prec x) = of_int x"
    using x by (intro fval_fof_int) (simp_all add: flt_prec_def)
  have "\<bar>fval m - 1 / 1000\<bar> \<le> 1 / 1000 * 2 powi (- flt_prec)"
    using fround_error [of 1000 flt_prec 1 0] eps(2) by (simp add: m_def flit_def)
  also have "\<dots> \<le> 1 / 1000 * (6 / 100000000)" using eps(1) by (intro mult_left_mono) simp_all
  finally have m: "\<bar>fval m - 1 / 1000\<bar> \<le> 6 / 100000000000" by simp
  then have mpos: "0 < fval m" "fval m \<le> 2 / 1000" unfolding abs_le_iff by linarith+
  have re: "\<bar>fval r - of_int x * fval m\<bar> \<le> \<bar>of_int x * fval m\<bar> * (6 / 100000000)"
    using fmul_error [OF eps(2), of "fof_int flt_prec x" m] eps(1)
      mult_left_mono [OF eps(1), of "\<bar>of_int x * fval m\<bar>"]
    unfolding r_def fx by linarith
  have near: "\<bar>fval r - of_int x / 1000\<bar> \<le> \<bar>of_int x\<bar> / 1000000000"
  proof -
    have "\<bar>of_int x * fval m - of_int x / 1000\<bar> = \<bar>of_int x\<bar> * \<bar>fval m - 1 / 1000\<bar>"
      by (simp add: right_diff_distrib flip: abs_mult)
    also have "\<dots> \<le> \<bar>of_int x\<bar> * (6 / 100000000000)" by (rule mult_left_mono [OF m]) simp
    finally have 1: "\<bar>of_int x * fval m - of_int x / 1000\<bar> \<le> \<bar>of_int x\<bar> * (6 / 100000000000)" .
    have "\<bar>of_int x * fval m\<bar> \<le> \<bar>of_int x\<bar> * (2 / 1000)"
      using mult_left_mono [OF mpos(2), of "\<bar>of_int x\<bar>"] mpos(1) by (simp add: abs_mult)
    with 1 re show ?thesis unfolding abs_le_iff by linarith
  qed
  have sign: "fval r < 0 \<longleftrightarrow> x < 0"
  proof (cases "x < 0")
    case True
    then have "of_int x * fval m < 0" using mpos(1) by (simp add: mult_less_0_iff)
    with re True show ?thesis unfolding abs_le_iff by linarith
  next
    case False
    then have "0 \<le> of_int x * fval m" using mpos(1) by simp
    with re False show ?thesis unfolding abs_le_iff by linarith
  qed
  have "x < 0 \<longleftrightarrow> sint v < 0" unfolding x_def by linarith
  also have "\<dots> \<longleftrightarrow> 0x8000 \<le> v" by (rule sint_negative)
  finally show ?thesis using near sign by (simp add: res x_def flt_less_iff fval_Flt)
qed

definition sample_bus :: environ where
  "sample_bus = \<lparr>env_reply = (\<lambda>w. uint (swap_bytes 0x9C40)), env_bytes = (\<lambda>w. [])\<rparr>"

lemma bus_voltage_reading_witness:
  "flt_less (fst (getBusVoltageV sample_bus sample_ina [])) (Flt 0 0)"
  using bus_voltage_reading [of sample_bus sample_ina "[]" "0x9C40"] by (simp add: sample_bus_def)

section \<open>The median filter\<close>

text \<open>After any sequence of readings the window holds the newest ones in order, at most the
window size of them.\<close>

lemma median_window_newest:
  assumes "mf_values m = []"
  shows "mf_values (median_feed xs m) = newest (mf_window_size m) xs"
  using median_window [of m "[]" xs] assms by (simp add: newest_def)

lemma median_window_newest_witness:
  "mf_values (median_feed [Flt 1 0, Flt 5 0, Flt 3 0, Flt 4 0] \<lparr>mf_values = [], mf_window_size = 3\<rparr>) =
     [Flt 5 0, Flt 3 0, Flt 4 0]"
  using median_window_newest [of "\<lparr>mf_values = [], mf_window_size = 3\<rparr>" "[Flt 1 0, Flt 5 0, Flt 3 0, Flt 4 0]"]
  by (simp add: newest_def)

end
