(* ===== verification/Json_Value.thy ===== *)
theory Json_Value
  imports Binary_Float "HOL-Library.List_Lexorder" "HOL-Library.Char_ord"
begin

text \<open>
  The JSON values the program reads and writes (\<open>nlohmann::json\<close>): the tagged union, member
  lookup and the conversions the program calls, with the exceptions of the library as
  values; \<open>Undefined\<close> marks an access the library leaves undefined. Objects are the association list of a \<open>std::map\<close>: distinct keys in increasing
  order. Parsing text is not modelled: a parsed document is an input of the definitions.
\<close>

section \<open>Values, errors, conversions\<close>

datatype json =
    JNull
  | JBool bool
  | JInt int
  | JFloat flt
  | JString string
  | JArray "json list"
  | JObject "(string \<times> json) list"

datatype json_error = Type_error | Parse_error | Out_of_range | Undefined

fun is_object :: "json \<Rightarrow> bool" where
  "is_object (JObject _) = True"
| "is_object _ = False"

text \<open>\<open>j.contains(key)\<close> is false on anything but an object.\<close>

fun json_contains :: "json \<Rightarrow> string \<Rightarrow> bool" where
  "json_contains (JObject ms) k = (map_of ms k \<noteq> None)"
| "json_contains _ k = False"

text \<open>\<open>get<int>\<close>, \<open>get<uint8_t>\<close>: every number converts, a boolean counts as 0 or 1. The numbers of a
document are taken to be in the range of \<open>int\<close>, where the conversion keeps them.\<close>

fun json_get_int :: "json \<Rightarrow> json_error + int" where
  "json_get_int (JInt i) = Inr i"
| "json_get_int (JFloat f) = Inr (ftrunc f)"
| "json_get_int (JBool b) = Inr (of_bool b)"
| "json_get_int _ = Inl Type_error"

fun json_get_string :: "json \<Rightarrow> json_error + string" where
  "json_get_string (JString s) = Inr s"
| "json_get_string _ = Inl Type_error"

text \<open>
  \<open>j[key]\<close> on a mutable value: a missing member of an object (or of null, which becomes an
  object) is created as null; any other value raises \<open>type_error\<close>.
\<close>

fun json_index :: "json \<Rightarrow> string \<Rightarrow> json_error + json" where
  "json_index (JObject ms) k = Inr (case map_of ms k of None \<Rightarrow> JNull | Some v \<Rightarrow> v)"
| "json_index JNull k = Inr JNull"
| "json_index _ k = Inl Type_error"

text \<open>
  \<open>j.value(key, default)\<close>: the default for a missing member, an exception when \<open>j\<close> is not
  an object or the member does not convert.
\<close>

fun json_value :: "(json \<Rightarrow> json_error + 'a) \<Rightarrow> json \<Rightarrow> string \<Rightarrow> 'a \<Rightarrow> json_error + 'a" where
  "json_value conv (JObject ms) k d =
     (case map_of ms k of None \<Rightarrow> Inr d | Some v \<Rightarrow> conv v)"
| "json_value conv _ k d = Inl Type_error"

text \<open>Comparison with an integer literal: numbers by value, everything else differs.\<close>

fun json_equals_int :: "json \<Rightarrow> int \<Rightarrow> bool" where
  "json_equals_int (JInt i) n = (i = n)"
| "json_equals_int (JFloat f) n = (\<not> flt_less f (Flt n 0) \<and> \<not> flt_less (Flt n 0) f)"
| "json_equals_int _ n = False"

section \<open>Sequencing computations that may raise\<close>

fun bind_err :: "'e + 'a \<Rightarrow> ('a \<Rightarrow> 'e + 'b) \<Rightarrow> 'e + 'b" where
  "bind_err (Inl e) f = Inl e"
| "bind_err (Inr a) f = f a"

lemma bind_err_Inr_iff:
  "bind_err m f = Inr b \<longleftrightarrow> (\<exists>a. m = Inr a \<and> f a = Inr b)"
  by (cases m) auto

section \<open>Building objects\<close>

text \<open>An object from its members, in the order of a \<open>std::map\<close>.\<close>

definition json_object :: "(string \<times> json) list \<Rightarrow> json" where
  "json_object ms = JObject (sort_key fst ms)"

lemma map_of_sort_key:
  assumes "distinct (map fst xs)"
  shows "map_of (sort_key fst xs) = map_of xs"
proof -
  have "distinct (map fst (sort_key fst xs))"
    using assms by (simp add: distinct_map)
  then show ?thesis
    using assms map_of_inject_set [of "sort_key fst xs" xs] by simp
qed

lemma json_object_lookup:
  "distinct (map fst ms) \<Longrightarrow>
   json_value conv (json_object ms) k d = (case map_of ms k of None \<Rightarrow> Inr d | Some v \<Rightarrow> conv v)"
  by (simp add: json_object_def map_of_sort_key)

lemma json_object_is_object [simp]: "is_object (json_object ms)"
  by (simp add: json_object_def)

text \<open>\<open>get<bool>\<close> and \<open>get<float>\<close>.\<close>

fun json_get_bool :: "json \<Rightarrow> json_error + bool" where
  "json_get_bool (JBool b) = Inr b"
| "json_get_bool _ = Inl Type_error"

fun json_get_flt :: "int \<Rightarrow> json \<Rightarrow> json_error + flt" where
  "json_get_flt p (JFloat f) = Inr (fcast p f)"
| "json_get_flt p (JInt i) = Inr (fof_int p i)"
| "json_get_flt p (JBool b) = Inr (fof_int p (of_bool b))"
| "json_get_flt p _ = Inl Type_error"

text \<open>\<open>get<double>\<close>: \<open>double\<close> is the number type of the library itself, and its conversion takes no boolean.\<close>

fun json_get_dbl :: "json \<Rightarrow> json_error + flt" where
  "json_get_dbl (JBool b) = Inl Type_error"
| "json_get_dbl v = json_get_flt dbl_prec v"

end
