(* ===== verification/Messages.thy ===== *)
theory Messages
  imports Json_Value Data_Types
begin

text \<open>
  The messages of \<open>public_data_messages.h\<close> that carry their own JSON form: the command read from
  a client, the sensor report, the language model's response and the camera snapshot. A
  constructor that raises is \<open>Inl\<close>. Text is parsed outside the model: a constructor receives
  the parsed document, and printing gives the document before it is dumped.
\<close>

section \<open>ControlData(Json)\<close>

definition json_member_int :: "json \<Rightarrow> string \<Rightarrow> string \<Rightarrow> json_error + int" where
  "json_member_int data obj key =
     bind_err (json_index data obj) (\<lambda>inner. bind_err (json_index inner key) json_get_int)"

definition json_member_is :: "json \<Rightarrow> string \<Rightarrow> string \<Rightarrow> int \<Rightarrow> json_error + bool" where
  "json_member_is data obj key n =
     bind_err (json_index data obj)
       (\<lambda>inner. bind_err (json_index inner key) (\<lambda>v. Inr (json_equals_int v n)))"

definition read_joystick :: "json \<Rightarrow> string \<Rightarrow> json_error + JoyStickData" where
  "read_joystick data obj =
     bind_err (json_member_int data obj ''Angle'')
       (\<lambda>a. bind_err (json_member_int data obj ''Strength'') (\<lambda>s. Inr \<lparr>js_angle = a, js_strength = s\<rparr>))"

fun first_key :: "json \<Rightarrow> string option" where
  "first_key (JObject ((k, v) # ms)) = Some k"
| "first_key _ = None"

text \<open>Only the first member of the object, in key order, is read.\<close>

definition ControlData_of_json :: "json \<Rightarrow> json_error + ControlData" where
  "ControlData_of_json data =
     (case first_key data of
        None \<Rightarrow> Inr ControlData_empty
      | Some k \<Rightarrow>
          if k = ''body_joystick''
          then bind_err (read_joystick data k) (\<lambda>j. Inr (ControlData_empty\<lparr>ctl_bodyJoystick := Some j\<rparr>))
          else if k = ''head_joystick''
          then bind_err (read_joystick data k) (\<lambda>j. Inr (ControlData_empty\<lparr>ctl_headJoystick := Some j\<rparr>))
          else if k = ''right_arm''
          then bind_err (json_member_int data k ''Angle'')
                 (\<lambda>a. Inr (ControlData_empty\<lparr>ctl_rightArmAngle := Some a\<rparr>))
          else if k = ''left_arm''
          then bind_err (json_member_int data k ''Angle'')
                 (\<lambda>a. Inr (ControlData_empty\<lparr>ctl_leftArmAngle := Some a\<rparr>))
          else if k = ''left_eye''
          then bind_err (json_member_is data k ''Angle'' 180)
                 (\<lambda>b. Inr (ControlData_empty\<lparr>ctl_leftEye := Some b\<rparr>))
          else if k = ''right_eye''
          then bind_err (json_member_is data k ''Angle'' 180)
                 (\<lambda>b. Inr (ControlData_empty\<lparr>ctl_rightEye := Some b\<rparr>))
          else Inr ControlData_empty)"

section \<open>SensorData::to_json\<close>

text \<open>
  The empty string when a reading is missing. \<open>None\<close> is the access of joint angles that are not
  there: the optional is not tested, and \<open>at\<close> raises for a joint that is missing.
\<close>

definition report_joints :: "(string \<times> ServoMotorJoint) list" where
  "report_joints =
     [(''right_arm'', J_rightArm), (''left_arm'', J_leftArm), (''neck_down'', J_neck),
      (''neck_up'', J_headUpDown), (''neck_right'', J_headLeftRight), (''eye_right'', J_eyeRight),
      (''eye_left'', J_eyeLeft)]"

fun joints_json :: "joint_angles \<Rightarrow> (string \<times> ServoMotorJoint) list \<Rightarrow> (string \<times> json) list option" where
  "joints_json m [] = Some []"
| "joints_json m ((name, j) # ps) = lift2 (\<lambda>a rest. (name, JInt (uint a)) # rest) (m j) (joints_json m ps)"

definition compass_json :: "CompassData \<Rightarrow> json" where
  "compass_json c =
     json_object
       [(''angle'', JInt (uint (cd_angle c))),
        (''magnet'', json_object [(''magnet_x'', JInt (sint (cd_magnetX c))),
                                  (''magnet_y'', JInt (sint (cd_magnetY c)))])]"

definition distance_json :: "DistanceData \<Rightarrow> json" where
  "distance_json d =
     json_object [(''Distance'', JInt (dd_distance d)), (''Strength'', JInt (dd_strength d)),
       (''Temperature'', JInt (dd_temperature d))]"

definition power_json :: "PowerData \<Rightarrow> json" where
  "power_json p =
     json_object [(''BusVoltage'', JFloat (pd_busVoltage p)), (''BusCurrent'', JFloat (pd_current p)),
       (''Power'', JFloat (pd_power p)), (''ShuntVoltage'', JFloat (pd_shuntVoltage p))]"

definition SensorData_to_json :: "SensorData \<Rightarrow> json option option" where
  "SensorData_to_json s =
     (case (sd_compassData s, sd_distanceData s, sd_powerData s) of
        (Some c, Some d, Some p) \<Rightarrow>
          map_option
            (\<lambda>js. Some (json_object [(''joint_angles'', json_object js), (''compass'', compass_json c),
                                     (''distance'', distance_json d), (''power'', power_json p)]))
            (Option.bind (sd_currentJointAngles s) (\<lambda>m. joints_json m report_joints))
      | _ \<Rightarrow> Some None)"

section \<open>LLMResponseData\<close>

text \<open>The enumerations travel as numbers; a number that names no gesture is kept as it is.\<close>

fun emotion_number :: "EmotionType \<Rightarrow> int" where
  "emotion_number Em_happy = 0"
| "emotion_number Em_angry = 1"
| "emotion_number Em_funny = 2"
| "emotion_number Em_serious = 3"
| "emotion_number Em_curious = 4"
| "emotion_number Em_worried = 5"
| "emotion_number Em_surprised = 6"
| "emotion_number Em_confident = 7"

fun reaction_number :: "ReactionType \<Rightarrow> int" where
  "reaction_number Re_greeting = 0"
| "reaction_number Re_listening = 1"
| "reaction_number Re_talking = 2"
| "reaction_number Re_accepting = 3"
| "reaction_number Re_rejecting = 4"
| "reaction_number Re_thinking = 5"
| "reaction_number Re_agreeing = 6"

record LLMResponseData =
  lr_sentence :: string
  lr_emotion :: int
  lr_reaction :: int
  lr_directive :: string
  lr_endMarker :: bool
  lr_emotionSimilarity :: flt
  lr_reactionSimilarity :: flt
  lr_directiveSimilarity :: flt

definition LLMResponse_to_json :: "LLMResponseData \<Rightarrow> json" where
  "LLMResponse_to_json r =
     json_object
       [(''sentence'', JString (lr_sentence r)), (''emotional_gesture'', JInt (lr_emotion r)),
        (''reactional_gesture'', JInt (lr_reaction r)), (''directive'', JString (lr_directive r)),
        (''end_marker'', JBool (lr_endMarker r)), (''emotion_similarity'', JFloat (lr_emotionSimilarity r)),
        (''directive_similarity'', JFloat (lr_directiveSimilarity r)),
        (''reaction_similarity'', JFloat (lr_reactionSimilarity r))]"

text \<open>On a document that is no object the constructor returns early, leaving \<open>blank\<close>.\<close>

definition LLMResponse_of_json :: "LLMResponseData \<Rightarrow> json \<Rightarrow> json_error + LLMResponseData" where
  "LLMResponse_of_json blank j =
     (if \<not> is_object j then Inr blank
      else bind_err (json_value json_get_string j ''sentence'' '''') (\<lambda>sentence.
           bind_err (json_value json_get_int j ''emotional_gesture'' 255) (\<lambda>emotion.
           bind_err (json_value json_get_int j ''reactional_gesture'' 255) (\<lambda>reaction.
           bind_err (json_value json_get_string j ''directive'' '''') (\<lambda>directive.
           bind_err (json_value json_get_bool j ''end_marker'' False) (\<lambda>end_marker.
           bind_err (json_value (json_get_flt flt_prec) j ''emotion_similarity'' (Flt 0 0)) (\<lambda>es.
           bind_err (json_value (json_get_flt flt_prec) j ''reaction_similarity'' (Flt 0 0)) (\<lambda>rs.
           bind_err (json_value (json_get_flt flt_prec) j ''directive_similarity'' (Flt 0 0)) (\<lambda>ds.
             Inr \<lparr>lr_sentence = sentence, lr_emotion = emotion, lr_reaction = reaction,
                  lr_directive = directive, lr_endMarker = end_marker, lr_emotionSimilarity = es,
                  lr_reactionSimilarity = rs, lr_directiveSimilarity = ds\<rparr>)))))))))"

section \<open>CameraSnapShotResponseData\<close>

record FaceInfo =
  fi_left_ear :: flt
  fi_right_ear :: flt
  fi_avg_ear :: flt
  fi_mar :: flt
  fi_eyebrow_height :: flt

definition FaceInfo_zero :: FaceInfo where
  "FaceInfo_zero =
     \<lparr>fi_left_ear = Flt 0 0, fi_right_ear = Flt 0 0, fi_avg_ear = Flt 0 0, fi_mar = Flt 0 0,
      fi_eyebrow_height = Flt 0 0\<rparr>"

record Snapshot =
  sn_imagePath :: string
  sn_faceEmotion :: string
  sn_faceInfo :: FaceInfo
  sn_handGesture :: string
  sn_handBbox :: BoundingBox

definition Snapshot_blank :: Snapshot where
  "Snapshot_blank =
     \<lparr>sn_imagePath = '''', sn_faceEmotion = '''', sn_faceInfo = FaceInfo_zero, sn_handGesture = '''',
      sn_handBbox = BoundingBox_none\<rparr>"

definition snapshot_members :: "Snapshot \<Rightarrow> (string \<times> json) list" where
  "snapshot_members s =
     (let f = sn_faceInfo s; b = sn_handBbox s
      in [(''image_path'', JString (sn_imagePath s)), (''face_emotion'', JString (sn_faceEmotion s)),
          (''face_left_ear'', JFloat (fi_left_ear f)), (''face_right_ear'', JFloat (fi_right_ear f)),
          (''face_avg_ear'', JFloat (fi_avg_ear f)), (''face_mar'', JFloat (fi_mar f)),
          (''face_eyebrow_height'', JFloat (fi_eyebrow_height f)),
          (''hand_gesture'', JString (sn_handGesture s)), (''hand_bbox_xmin'', JInt (bb_xmin b)),
          (''hand_bbox_ymin'', JInt (bb_ymin b)), (''hand_bbox_xmax'', JInt (bb_xmax b)),
          (''hand_bbox_ymax'', JInt (bb_ymax b)), (''hand_bbox_valid'', JBool (bb_valid b))])"

definition Snapshot_to_json :: "Snapshot \<Rightarrow> json" where
  "Snapshot_to_json s = json_object (snapshot_members s)"

text \<open>The face measurements are read into a local variable that shadows the member.\<close>

definition Snapshot_of_json :: "json \<Rightarrow> json_error + Snapshot" where
  "Snapshot_of_json j =
     (if \<not> is_object j then Inr Snapshot_blank
      else bind_err (json_value json_get_string j ''image_path'' '''') (\<lambda>path.
           bind_err (json_value json_get_string j ''face_emotion'' '''') (\<lambda>emotion.
           bind_err (json_value json_get_dbl j ''face_left_ear'' (Flt 0 0)) (\<lambda>l.
           bind_err (json_value json_get_dbl j ''face_right_ear'' (Flt 0 0)) (\<lambda>r.
           bind_err (json_value json_get_dbl j ''face_avg_ear'' (Flt 0 0)) (\<lambda>a.
           bind_err (json_value json_get_dbl j ''face_mar'' (Flt 0 0)) (\<lambda>m.
           bind_err (json_value json_get_dbl j ''face_eyebrow_height'' (Flt 0 0)) (\<lambda>e.
           bind_err (json_value json_get_string j ''hand_gesture'' '''') (\<lambda>hand.
           bind_err (json_value json_get_int j ''hand_bbox_xmin'' 0) (\<lambda>x1.
           bind_err (json_value json_get_int j ''hand_bbox_ymin'' 0) (\<lambda>y1.
           bind_err (json_value json_get_int j ''hand_bbox_xmax'' 0) (\<lambda>x2.
           bind_err (json_value json_get_int j ''hand_bbox_ymax'' 0) (\<lambda>y2.
           bind_err (json_value json_get_bool j ''hand_bbox_valid'' False) (\<lambda>valid.
             let faceInfo = \<lparr>fi_left_ear = l, fi_right_ear = r, fi_avg_ear = a, fi_mar = m,
                             fi_eyebrow_height = e\<rparr>
             in Inr (Snapshot_blank\<lparr>sn_imagePath := path, sn_faceEmotion := emotion,
                       sn_handGesture := hand,
                       sn_handBbox := \<lparr>bb_xmin = x1, bb_ymin = y1, bb_xmax = x2, bb_ymax = y2,
                                      bb_valid = valid\<rparr>\<rparr>)))))))))))))))"

section \<open>RecognizedGestureData\<close>

record RecognizedGesture =
  rg_faceEmotion :: string
  rg_faceInfo :: FaceInfo
  rg_faceLandmarks :: "Landmark list"
  rg_handGesture :: string
  rg_handBbox :: BoundingBox
  rg_handLandmarks :: "Landmark list"

section \<open>Properties\<close>

text \<open>A command has at most one part: the parts a document can set are exclusive.\<close>

definition command_parts :: "ControlData \<Rightarrow> nat" where
  "command_parts c =
     of_bool (ctl_bodyJoystick c \<noteq> None) + of_bool (ctl_headJoystick c \<noteq> None) +
     of_bool (ctl_rightArmAngle c \<noteq> None) + of_bool (ctl_leftArmAngle c \<noteq> None) +
     of_bool (ctl_leftEye c \<noteq> None) + of_bool (ctl_rightEye c \<noteq> None)"

text \<open>What the part of one key leaves in the empty command.\<close>

inductive one_part :: "string \<Rightarrow> ControlData \<Rightarrow> bool" where
  "one_part ''body_joystick'' (ControlData_empty\<lparr>ctl_bodyJoystick := Some x0\<rparr>)"
| "one_part ''head_joystick'' (ControlData_empty\<lparr>ctl_headJoystick := Some x1\<rparr>)"
| "one_part ''right_arm'' (ControlData_empty\<lparr>ctl_rightArmAngle := Some x2\<rparr>)"
| "one_part ''left_arm'' (ControlData_empty\<lparr>ctl_leftArmAngle := Some x3\<rparr>)"
| "one_part ''left_eye'' (ControlData_empty\<lparr>ctl_leftEye := Some x4\<rparr>)"
| "one_part ''right_eye'' (ControlData_empty\<lparr>ctl_rightEye := Some x5\<rparr>)"

lemma command_parts_one: "one_part k c \<Longrightarrow> command_parts c = 1"
  by (induction rule: one_part.induct) (simp_all add: command_parts_def ControlData_empty_def)

lemma one_part_frame:
  "one_part k c \<Longrightarrow> ctl_jointAngle c = None \<and> ctl_jointAngles c = None \<and> ctl_source c = None"
  by (induction rule: one_part.induct) (simp_all add: ControlData_empty_def)

lemma if_InrE:
  assumes "(if b then x else y) = Inr c"
  obtains "b" and "x = Inr c" | "\<not> b" and "y = Inr c"
  using assms by (cases b) simp_all

lemma bind_err_InrE:
  assumes "bind_err m f = Inr c"
  obtains a where "m = Inr a" and "f a = Inr c"
  using assms by (cases m) simp_all

lemma ControlData_of_json_cases:
  assumes "ControlData_of_json data = Inr c"
  obtains "c = ControlData_empty" | k where "first_key data = Some k" and "one_part k c"
proof (cases "first_key data")
  case None
  then show thesis using assms that(1) by (simp add: ControlData_of_json_def)
next
  case (Some k)
  have "c = ControlData_empty \<or> one_part k c"
    using assms unfolding ControlData_of_json_def Some option.case
    by (elim if_InrE bind_err_InrE) (simp_all only: sum.inject, (drule sym, simp only: one_part.intros simp_thms)+)
  then show thesis using that Some by blast
qed

text \<open>C21: a command read from a document never has a joint map, a single joint or a source, and
has at most one of the six parts; when it has one, the first key of the document names it.\<close>

theorem control_data_single_part:
  assumes "ControlData_of_json data = Inr c"
  shows "ctl_jointAngle c = None \<and> ctl_jointAngles c = None \<and> ctl_source c = None \<and> command_parts c \<le> 1 \<and>
    (command_parts c = 1 \<longrightarrow> (\<exists>k. first_key data = Some k \<and> one_part k c))"
  using assms
proof (cases rule: ControlData_of_json_cases)
  case 1
  then show ?thesis by (simp add: command_parts_def ControlData_empty_def)
next
  case (2 k)
  then show ?thesis using command_parts_one [OF 2(2)] one_part_frame [OF 2(2)] by simp
qed

lemma control_data_single_part_witness:
  "\<exists>c. ControlData_of_json (JObject [(''left_arm'', JObject [(''Angle'', JInt 40)])]) = Inr c \<and>
     ctl_jointAngles c = None"
proof -
  have "ControlData_of_json (JObject [(''left_arm'', JObject [(''Angle'', JInt 40)])]) =
      Inr (ControlData_empty\<lparr>ctl_leftArmAngle := Some 40\<rparr>)"
    by (simp add: ControlData_of_json_def json_member_int_def)
  then show ?thesis using control_data_single_part by blast
qed

lemma fcast_fround_exact: "fcast p (Flt 0 e) = Flt 0 0"
  by (simp add: fcast_def fround_def)

lemma llm_response_reread:
  assumes "fcast flt_prec (lr_emotionSimilarity r) = lr_emotionSimilarity r"
    and "fcast flt_prec (lr_reactionSimilarity r) = lr_reactionSimilarity r"
    and "fcast flt_prec (lr_directiveSimilarity r) = lr_directiveSimilarity r"
  shows "LLMResponse_of_json blank (LLMResponse_to_json r) = Inr r"
  using assms by (simp add: LLMResponse_of_json_def LLMResponse_to_json_def json_object_lookup)

text \<open>A language model's response, printed and read back, is the same response, for
similarities that are float values.\<close>

lemma llm_response_roundtrip:
  assumes "fcast flt_prec (lr_emotionSimilarity r) = lr_emotionSimilarity r"
    and "fcast flt_prec (lr_reactionSimilarity r) = lr_reactionSimilarity r"
    and "fcast flt_prec (lr_directiveSimilarity r) = lr_directiveSimilarity r"
  shows "LLMResponse_of_json blank (LLMResponse_to_json r) = Inr r"
  using assms by (rule llm_response_reread)

lemma llm_response_roundtrip_witness:
  "\<exists>r. lr_sentence r = ''hi'' \<and> LLMResponse_of_json r (LLMResponse_to_json r) = Inr r"
proof -
  let ?r = "\<lparr>lr_sentence = ''hi'', lr_emotion = 1, lr_reaction = 2, lr_directive = '''', lr_endMarker = True,
      lr_emotionSimilarity = Flt 0 0, lr_reactionSimilarity = Flt 0 0, lr_directiveSimilarity = Flt 0 0\<rparr>"
  have "LLMResponse_of_json ?r (LLMResponse_to_json ?r) = Inr ?r"
    using llm_response_roundtrip [of ?r ?r] by (simp add: fcast_fround_exact)
  then show ?thesis by (intro exI [of _ ?r]) simp
qed

lemma snapshot_value:
  "json_value conv (Snapshot_to_json s) k d =
     (case map_of (snapshot_members s) k of None \<Rightarrow> Inr d | Some v \<Rightarrow> conv v)"
  unfolding Snapshot_to_json_def by (rule json_object_lookup) (simp add: snapshot_members_def Let_def)

lemma snapshot_is_object: "is_object (Snapshot_to_json s)"
  by (simp add: Snapshot_to_json_def)

text \<open>A camera snapshot, printed and read back, keeps its path, emotion, gesture and box,
but every face measurement comes back as zero.\<close>

lemma snapshot_roundtrip_loses_face:
  "Snapshot_of_json (Snapshot_to_json s) = Inr (s\<lparr>sn_faceInfo := FaceInfo_zero\<rparr>)"
  by (cases s) (simp add: Snapshot_of_json_def snapshot_is_object snapshot_value snapshot_members_def
      Snapshot_blank_def Let_def)

text \<open>The sensor report is never lost to a missing joint when all joints are known: with the
three readings there it is an object that lists the angle of each of the seven joints.\<close>

lemma sensor_report_complete:
  assumes "sd_compassData s = Some c" and "sd_distanceData s = Some d" and "sd_powerData s = Some p"
    and "sd_currentJointAngles s = Some m" and "\<forall>j. m j \<noteq> None"
  shows "\<exists>js. SensorData_to_json s =
      Some (Some (json_object [(''joint_angles'', json_object js), (''compass'', compass_json c),
        (''distance'', distance_json d), (''power'', power_json p)])) \<and>
    (\<forall>(name, j) \<in> set report_joints. \<exists>a. m j = Some a \<and> map_of js name = Some (JInt (uint a)))"
proof -
  have all: "\<exists>js. joints_json m ps = Some js \<and> map fst js = map fst ps \<and>
      (distinct (map fst ps) \<longrightarrow> (\<forall>(name, j) \<in> set ps. \<exists>a. m j = Some a \<and> map_of js name = Some (JInt (uint a))))"
    for ps
  proof (induction ps)
    case Nil
    show ?case by simp
  next
    case (Cons p ps)
    obtain name j where p: "p = (name, j)" by (cases p)
    obtain a where a: "m j = Some a" using assms(5) by blast
    from Cons obtain js where "joints_json m ps = Some js" "map fst js = map fst ps"
      "distinct (map fst ps) \<longrightarrow>
        (\<forall>(name, j) \<in> set ps. \<exists>a. m j = Some a \<and> map_of js name = Some (JInt (uint a)))"
      by blast
    with p a show ?case by (auto simp: image_iff split: prod.splits)
  qed
  have "distinct (map fst report_joints)" by (simp add: report_joints_def)
  with all [of report_joints] obtain js where "joints_json m report_joints = Some js"
    "\<forall>(name, j) \<in> set report_joints. \<exists>a. m j = Some a \<and> map_of js name = Some (JInt (uint a))"
    by blast
  then show ?thesis
    using assms(1-4) by (intro exI [of _ js]) (simp add: SensorData_to_json_def)
qed

lemma sensor_report_complete_witness:
  "\<exists>s. sd_compassData s \<noteq> None \<and> (\<exists>j. SensorData_to_json s = Some (Some j))"
proof -
  let ?c = "\<lparr>cd_angle = 40, cd_magnetX = 1, cd_magnetY = 2\<rparr>"
  let ?d = "\<lparr>dd_distance = 1, dd_strength = 2, dd_temperature = 3\<rparr>"
  let ?p = "\<lparr>pd_busVoltage = Flt 0 0, pd_shuntVoltage = Flt 0 0, pd_current = Flt 0 0, pd_power = Flt 0 0\<rparr>"
  let ?s = "\<lparr>sd_compassData = Some ?c, sd_distanceData = Some ?d, sd_powerData = Some ?p,
      sd_currentJointAngles = Some (\<lambda>j. Some 90), sd_dcMotorState = None\<rparr>"
  have "\<exists>js. SensorData_to_json ?s = Some (Some (json_object [(''joint_angles'', json_object js),
      (''compass'', compass_json ?c), (''distance'', distance_json ?d), (''power'', power_json ?p)]))"
    using sensor_report_complete [of ?s ?c ?d ?p "\<lambda>j. Some 90"] by auto
  then show ?thesis by (intro exI [of _ ?s]) auto
qed

end
