(* ===== verification/Config_Parser.thy ===== *)
theory Config_Parser
  imports Messages
begin

text \<open>
  \<open>operators/json_parser_operator.cpp\<close>: the configuration files. Opening and parsing a file is
  outside the model: a document is \<open>None\<close> when the stream gives no JSON, a file of lines is the
  list of its parsed lines. A load that stops half way keeps what it stored before. Reading a
  member that is missing from a constant object is undefined in the library and is the error
  \<open>Undefined\<close>, which no handler catches.
\<close>

section \<open>Files and steps\<close>

record config_files =
  cf_document :: "string \<Rightarrow> json option"
  cf_lines :: "string \<Rightarrow> json option list option"

type_synonym 'c loader = "'c \<Rightarrow> json_error + 'c"

text \<open>Statements in order, up to the first that raises; what was stored stays stored.\<close>

fun run_until :: "'c loader list \<Rightarrow> 'c \<Rightarrow> json_error option \<times> 'c" where
  "run_until [] c = (None, c)"
| "run_until (f # fs) c = (case f c of Inl err \<Rightarrow> (Some err, c) | Inr c' \<Rightarrow> run_until fs c')"

definition set_member ::
    "(json \<Rightarrow> json_error + 'a) \<Rightarrow> json \<Rightarrow> string \<Rightarrow> 'a \<Rightarrow> ('a \<Rightarrow> 'c \<Rightarrow> 'c) \<Rightarrow> 'c loader" where
  "set_member conv j k d upd c = bind_err (json_value conv j k d) (\<lambda>v. Inr (upd v c))"

text \<open>\<open>j[key]\<close> on a constant value, the members \<open>items()\<close> walks, and the elements of a range loop.\<close>

fun json_at :: "json \<Rightarrow> string \<Rightarrow> json_error + json" where
  "json_at (JObject ms) k = (case map_of ms k of None \<Rightarrow> Inl Undefined | Some v \<Rightarrow> Inr v)"
| "json_at _ k = Inl Type_error"

fun json_items :: "json \<Rightarrow> (string \<times> json) list" where
  "json_items (JObject ms) = ms"
| "json_items (JArray xs) = zip (map decimal [0..<length xs]) xs"
| "json_items JNull = []"
| "json_items v = [('''', v)]"

fun json_elements :: "json \<Rightarrow> json list" where
  "json_elements (JObject ms) = map snd ms"
| "json_elements (JArray xs) = xs"
| "json_elements JNull = []"
| "json_elements v = [v]"

text \<open>A member known to be there.\<close>

definition json_member :: "json \<Rightarrow> string \<Rightarrow> json" where
  "json_member j k = (case json_index j k of Inr v \<Rightarrow> v | Inl err \<Rightarrow> JNull)"

section \<open>Names of enumerators\<close>

fun emotion_name :: "EmotionType \<Rightarrow> string" where
  "emotion_name Em_happy = ''happy''"
| "emotion_name Em_angry = ''angry''"
| "emotion_name Em_funny = ''funny''"
| "emotion_name Em_serious = ''serious''"
| "emotion_name Em_curious = ''curious''"
| "emotion_name Em_worried = ''worried''"
| "emotion_name Em_surprised = ''surprised''"
| "emotion_name Em_confident = ''confident''"

fun reaction_name :: "ReactionType \<Rightarrow> string" where
  "reaction_name Re_greeting = ''greeting''"
| "reaction_name Re_listening = ''listening''"
| "reaction_name Re_talking = ''talking''"
| "reaction_name Re_accepting = ''accepting''"
| "reaction_name Re_rejecting = ''rejecting''"
| "reaction_name Re_thinking = ''thinking''"
| "reaction_name Re_agreeing = ''agreeing''"

fun directive_name :: "DirectiveType \<Rightarrow> string" where
  "directive_name Di_followFinger = ''followFinger''"
| "directive_name Di_stopFollow = ''stopFollow''"

fun joint_name :: "ServoMotorJoint \<Rightarrow> string" where
  "joint_name J_leftArm = ''leftArm''"
| "joint_name J_rightArm = ''rightArm''"
| "joint_name J_neck = ''neck''"
| "joint_name J_headUpDown = ''headUpDown''"
| "joint_name J_headLeftRight = ''headLeftRight''"
| "joint_name J_eyeLeft = ''eyeLeft''"
| "joint_name J_eyeRight = ''eyeRight''"

fun state_name :: "GestureJointState \<Rightarrow> string" where
  "state_name Js_fullup = ''fullup''"
| "state_name Js_halfup = ''halfup''"
| "state_name Js_middle = ''middle''"
| "state_name Js_halfdown = ''halfdown''"
| "state_name Js_fulldown = ''fulldown''"

definition emotions :: "EmotionType list" where
  "emotions = [Em_happy, Em_angry, Em_funny, Em_serious, Em_curious, Em_worried, Em_surprised, Em_confident]"

definition reactions :: "ReactionType list" where
  "reactions = [Re_greeting, Re_listening, Re_talking, Re_accepting, Re_rejecting, Re_thinking, Re_agreeing]"

definition directives :: "DirectiveType list" where
  "directives = [Di_followFinger, Di_stopFollow]"

definition joint_states :: "GestureJointState list" where
  "joint_states = [Js_fullup, Js_halfup, Js_middle, Js_halfdown, Js_fulldown]"

text \<open>A chain of comparisons against the names, then the default.\<close>

definition from_name :: "('a \<Rightarrow> string) \<Rightarrow> 'a list \<Rightarrow> 'a \<Rightarrow> string \<Rightarrow> 'a" where
  "from_name name xs d s = (case find (\<lambda>x. name x = s) xs of Some x \<Rightarrow> x | None \<Rightarrow> d)"

definition emotionTypeFromString :: "string \<Rightarrow> EmotionType" where
  "emotionTypeFromString = from_name emotion_name emotions Em_angry"

definition reactionTypeFromString :: "string \<Rightarrow> ReactionType" where
  "reactionTypeFromString = from_name reaction_name reactions Re_greeting"

definition directiveTypeFromString :: "string \<Rightarrow> DirectiveType" where
  "directiveTypeFromString = from_name directive_name directives Di_followFinger"

definition servoJointFromString :: "string \<Rightarrow> ServoMotorJoint" where
  "servoJointFromString =
     from_name joint_name
       [J_leftArm, J_rightArm, J_neck, J_headUpDown, J_headLeftRight, J_eyeLeft, J_eyeRight] J_eyeLeft"

definition gestureStateFromString :: "string \<Rightarrow> GestureJointState" where
  "gestureStateFromString = from_name state_name joint_states Js_fulldown"

lemma from_name_inverse:
  assumes "x \<in> set xs" and "inj_on name (set xs)"
  shows "from_name name xs d (name x) = x"
proof -
  obtain y where y: "find (\<lambda>z. name z = name x) xs = Some y"
    using assms(1) by (cases "find (\<lambda>z. name z = name x) xs") (auto simp: find_None_iff)
  then have "name y = name x" "y \<in> set xs" by (auto simp: find_Some_iff)
  then have "y = x" using assms by (auto dest: inj_onD)
  then show ?thesis using y by (simp add: from_name_def)
qed

lemma emotions_complete [simp]: "em \<in> set emotions"
  by (cases em) (simp_all add: emotions_def)

lemma reactions_complete [simp]: "re \<in> set reactions"
  by (cases re) (simp_all add: reactions_def)

lemma directives_complete [simp]: "di \<in> set directives"
  by (cases di) (simp_all add: directives_def)

lemma joint_states_complete [simp]: "js \<in> set joint_states"
  by (cases js) (simp_all add: joint_states_def)

lemma emotion_name_inject [simp]: "emotion_name a = emotion_name b \<longleftrightarrow> a = b"
  by (cases a; cases b) simp_all

lemma reaction_name_inject [simp]: "reaction_name a = reaction_name b \<longleftrightarrow> a = b"
  by (cases a; cases b) simp_all

lemma directive_name_inject [simp]: "directive_name a = directive_name b \<longleftrightarrow> a = b"
  by (cases a; cases b) simp_all

lemma joint_name_inject [simp]: "joint_name a = joint_name b \<longleftrightarrow> a = b"
  by (cases a; cases b) simp_all

lemma state_name_inject [simp]: "state_name a = state_name b \<longleftrightarrow> a = b"
  by (cases a; cases b) simp_all

lemma names_roundtrip [simp]:
  "emotionTypeFromString (emotion_name em) = em"
  "reactionTypeFromString (reaction_name re) = re"
  "directiveTypeFromString (directive_name di) = di"
  "servoJointFromString (joint_name jo) = jo"
  "gestureStateFromString (state_name js) = js"
  unfolding emotionTypeFromString_def reactionTypeFromString_def directiveTypeFromString_def
    servoJointFromString_def gestureStateFromString_def
  by (rule from_name_inverse; cases jo; simp add: inj_on_def)+

section \<open>Paths and AI settings\<close>

record ConfigPaths =
  cp_ai_config :: string
  cp_gesture_config :: string
  cp_joint_angles :: string
  cp_motion_definitions :: string
  cp_rag_dataset :: string
  cp_reaction_set :: string

definition ConfigPaths_empty :: ConfigPaths where
  "ConfigPaths_empty =
     \<lparr>cp_ai_config = [], cp_gesture_config = [], cp_joint_angles = [], cp_motion_definitions = [],
      cp_rag_dataset = [], cp_reaction_set = []\<rparr>"

definition loadConfigPaths :: "json option \<Rightarrow> ConfigPaths \<Rightarrow> ConfigPaths" where
  "loadConfigPaths file paths =
     (case file of
        None \<Rightarrow> paths
      | Some j \<Rightarrow>
          snd (run_until
            [set_member json_get_string j ''ai_config'' [] (\<lambda>v c. c\<lparr>cp_ai_config := v\<rparr>),
             set_member json_get_string j ''gesture_config'' [] (\<lambda>v c. c\<lparr>cp_gesture_config := v\<rparr>),
             set_member json_get_string j ''joint_angles'' [] (\<lambda>v c. c\<lparr>cp_joint_angles := v\<rparr>),
             set_member json_get_string j ''motion_definitions'' [] (\<lambda>v c. c\<lparr>cp_motion_definitions := v\<rparr>),
             set_member json_get_string j ''rag_dataset'' [] (\<lambda>v c. c\<lparr>cp_rag_dataset := v\<rparr>),
             set_member json_get_string j ''reaction_set'' [] (\<lambda>v c. c\<lparr>cp_reaction_set := v\<rparr>)]
            paths))"

record LlmSettings =
  ls_ngl :: string
  ls_nThreads :: int
  ls_n_ctx :: int
  ls_minP :: flt
  ls_temp :: flt
  ls_topK :: int
  ls_topP :: flt
  ls_templateName :: string

record SpeechRecognizerConfig =
  sr_modelPath :: string
  sr_command :: string
  sr_voice :: string
  sr_timeOut :: int
  sr_silenceThreshold :: "32 word"
  sr_sampleRate :: "32 word"
  sr_framesPerBuffer :: "32 word"
  sr_maxSilenceDurationSec :: "32 word"
  sr_listenTimeoutMs :: "32 word"

record LlmChatConfig =
  lc_modelPath :: string
  lc_systemMessage :: string
  lc_llmSettings :: LlmSettings

record LlmEmbeddingConfig =
  le_modelPath :: string
  le_poolingType :: int

record AiConfig =
  ai_speechProcessorModelPath :: string
  ai_speechRecognizerConfig :: SpeechRecognizerConfig
  ai_llmChatConfig :: LlmChatConfig
  ai_llmEmbeddingConfig :: LlmEmbeddingConfig
  ai_mediapipeModelPath :: string

definition speechRecognizer_steps :: "json \<Rightarrow> AiConfig loader list" where
  "speechRecognizer_steps sr =
     (let upd = (\<lambda>f c. c\<lparr>ai_speechRecognizerConfig := f (ai_speechRecognizerConfig c)\<rparr>)
      in [set_member json_get_string sr ''modelPath'' [] (\<lambda>v. upd (\<lambda>r. r\<lparr>sr_modelPath := v\<rparr>)),
          set_member json_get_string sr ''command'' [] (\<lambda>v. upd (\<lambda>r. r\<lparr>sr_command := v\<rparr>)),
          set_member json_get_string sr ''voice'' [] (\<lambda>v. upd (\<lambda>r. r\<lparr>sr_voice := v\<rparr>)),
          set_member json_get_int sr ''timeOut'' 0 (\<lambda>v. upd (\<lambda>r. r\<lparr>sr_timeOut := v\<rparr>)),
          set_member json_get_int sr ''silenceThreshold'' 0 (\<lambda>v. upd (\<lambda>r. r\<lparr>sr_silenceThreshold := word_of_int v\<rparr>)),
          set_member json_get_int sr ''sampleRate'' 0 (\<lambda>v. upd (\<lambda>r. r\<lparr>sr_sampleRate := word_of_int v\<rparr>)),
          set_member json_get_int sr ''framesPerBuffer'' 0 (\<lambda>v. upd (\<lambda>r. r\<lparr>sr_framesPerBuffer := word_of_int v\<rparr>)),
          set_member json_get_int sr ''maxSilenceDurationSec'' 0
            (\<lambda>v. upd (\<lambda>r. r\<lparr>sr_maxSilenceDurationSec := word_of_int v\<rparr>)),
          set_member json_get_int sr ''listenTimeoutMs'' 0 (\<lambda>v. upd (\<lambda>r. r\<lparr>sr_listenTimeoutMs := word_of_int v\<rparr>))])"

definition llmChat_steps :: "json \<Rightarrow> AiConfig loader list" where
  "llmChat_steps lc =
     (let chat = (\<lambda>f c. c\<lparr>ai_llmChatConfig := f (ai_llmChatConfig c)\<rparr>);
          upd = (\<lambda>f. chat (\<lambda>r. r\<lparr>lc_llmSettings := f (lc_llmSettings r)\<rparr>));
          s = json_member lc ''settings''
      in [set_member json_get_string lc ''modelPath'' [] (\<lambda>v. chat (\<lambda>r. r\<lparr>lc_modelPath := v\<rparr>)),
          set_member json_get_string lc ''systemMessage'' [] (\<lambda>v. chat (\<lambda>r. r\<lparr>lc_systemMessage := v\<rparr>))] @
         (if json_contains lc ''settings''
          then [set_member json_get_string s ''ngl'' [] (\<lambda>v. upd (\<lambda>r. r\<lparr>ls_ngl := v\<rparr>)),
                set_member json_get_int s ''nThreads'' 0 (\<lambda>v. upd (\<lambda>r. r\<lparr>ls_nThreads := v\<rparr>)),
                set_member json_get_int s ''n_ctx'' 0 (\<lambda>v. upd (\<lambda>r. r\<lparr>ls_n_ctx := v\<rparr>)),
                set_member json_get_dbl s ''minP'' (Flt 0 0) (\<lambda>v. upd (\<lambda>r. r\<lparr>ls_minP := v\<rparr>)),
                set_member json_get_dbl s ''temp'' (Flt 0 0) (\<lambda>v. upd (\<lambda>r. r\<lparr>ls_temp := v\<rparr>)),
                set_member json_get_int s ''topK'' 0 (\<lambda>v. upd (\<lambda>r. r\<lparr>ls_topK := v\<rparr>)),
                set_member json_get_dbl s ''topP'' (Flt 0 0) (\<lambda>v. upd (\<lambda>r. r\<lparr>ls_topP := v\<rparr>)),
                set_member json_get_string s ''template'' [] (\<lambda>v. upd (\<lambda>r. r\<lparr>ls_templateName := v\<rparr>))]
          else []))"

text \<open>Each part is read only when its key is there; the first key keeps the source's spelling.\<close>

definition loadAiConfig :: "json option \<Rightarrow> AiConfig \<Rightarrow> AiConfig" where
  "loadAiConfig file config =
     (case file of
        None \<Rightarrow> config
      | Some j \<Rightarrow>
          (let part = (\<lambda>k steps. if json_contains j k then steps (json_member j k) else [])
           in snd (run_until
                (part ''speechPrecessor''
                   (\<lambda>sp. [set_member json_get_string sp ''modelPath'' [] (\<lambda>v c. c\<lparr>ai_speechProcessorModelPath := v\<rparr>)]) @
                 part ''speechRecognizer'' speechRecognizer_steps @
                 part ''llmChat'' llmChat_steps @
                 part ''llmEmbedding''
                   (\<lambda>le. [set_member json_get_string le ''modelPath'' []
                            (\<lambda>v c. c\<lparr>ai_llmEmbeddingConfig := (ai_llmEmbeddingConfig c)\<lparr>le_modelPath := v\<rparr>\<rparr>),
                          set_member json_get_int le ''poolingType'' 0
                            (\<lambda>v c. c\<lparr>ai_llmEmbeddingConfig := (ai_llmEmbeddingConfig c)\<lparr>le_poolingType := v\<rparr>\<rparr>)]) @
                 part ''mediapipe''
                   (\<lambda>mp. [set_member json_get_string mp ''modelPath'' [] (\<lambda>v c. c\<lparr>ai_mediapipeModelPath := v\<rparr>)]))
                config)))"

section \<open>Files of lines\<close>

record DatasetRow =
  dr_input :: string
  dr_output :: string
  dr_inputEmbedding :: "flt list"

text \<open>
  A line that is no JSON is skipped; a line whose conversion raises ends the reading, and the
  rows before it stay.
\<close>

fun read_lines :: "(json \<Rightarrow> json_error + 'a) \<Rightarrow> json option list \<Rightarrow> 'a list" where
  "read_lines conv [] = []"
| "read_lines conv (None # ls) = read_lines conv ls"
| "read_lines conv (Some j # ls) = (case conv j of Inl err \<Rightarrow> [] | Inr row \<Rightarrow> row # read_lines conv ls)"

definition two_members :: "string \<Rightarrow> string \<Rightarrow> json \<Rightarrow> json_error + string \<times> string" where
  "two_members k1 k2 j =
     bind_err (json_value json_get_string j k1 []) (\<lambda>a.
     bind_err (json_value json_get_string j k2 []) (\<lambda>b. Inr (a, b)))"

definition loadRagDataset :: "json option list option \<Rightarrow> DatasetRow list \<Rightarrow> DatasetRow list" where
  "loadRagDataset file rows =
     (case file of
        None \<Rightarrow> rows
      | Some ls \<Rightarrow> rows @ map (\<lambda>(input, output). \<lparr>dr_input = input, dr_output = output, dr_inputEmbedding = []\<rparr>)
          (read_lines (two_members ''input'' ''output'') ls))"

definition loadFaceReactions :: "json option list option \<Rightarrow> FaceReaction list \<Rightarrow> FaceReaction list" where
  "loadFaceReactions file list =
     (case file of
        None \<Rightarrow> list
      | Some ls \<Rightarrow> list @ map (\<lambda>(gesture, reaction). \<lparr>fr_emotion = gesture, fr_reaction = reaction\<rparr>)
          (read_lines (two_members ''gesture'' ''reaction'') ls))"

section \<open>Motions\<close>

type_synonym positions = "ServoMotorJoint \<rightharpoonup> GestureJointState"

fun joint_entries :: "(string \<times> json) list \<Rightarrow> positions \<Rightarrow> json_error + positions" where
  "joint_entries [] m = Inr m"
| "joint_entries ((jointKey, stateKey) # ps) m =
     bind_err (json_get_string stateKey)
       (\<lambda>s. joint_entries ps (m(servoJointFromString jointKey \<mapsto> gestureStateFromString s)))"

definition parseJointPositions :: "json \<Rightarrow> json_error + positions" where
  "parseJointPositions jointsJson = joint_entries (json_items jointsJson) Map.empty"

definition parseMotionSequenceItem :: "json \<Rightarrow> json_error + MotionSequenceItem" where
  "parseMotionSequenceItem sequenceJson =
     bind_err (bind_err (json_at sequenceJson ''time'') json_get_int) (\<lambda>time.
     bind_err (bind_err (json_at sequenceJson ''joints'') parseJointPositions) (\<lambda>joints.
       Inr \<lparr>msi_time = time, msi_joints = joints\<rparr>))"

fun all_or_error :: "('a \<Rightarrow> 'e + 'b) \<Rightarrow> 'a list \<Rightarrow> 'e + 'b list" where
  "all_or_error f [] = Inr []"
| "all_or_error f (x # xs) = bind_err (f x) (\<lambda>y. bind_err (all_or_error f xs) (\<lambda>ys. Inr (y # ys)))"

definition parseEmotionalMotion :: "json \<Rightarrow> json_error + Motion" where
  "parseEmotionalMotion motionJson =
     bind_err (bind_err (json_at motionJson ''name'') json_get_string) (\<lambda>name.
     bind_err (bind_err (json_at motionJson ''description'') json_get_string) (\<lambda>description.
     bind_err (bind_err (json_at motionJson ''duration'') json_get_int) (\<lambda>duration.
     bind_err (bind_err (json_at motionJson ''joints'') parseJointPositions) (\<lambda>joints.
     bind_err (if json_contains motionJson ''sequence''
               then all_or_error parseMotionSequenceItem (json_elements (json_member motionJson ''sequence''))
               else Inr []) (\<lambda>items.
       Inr \<lparr>mo_name = name, mo_description = description, mo_duration = duration, mo_joints = joints,
            mo_sequence = items\<rparr>)))))"

text \<open>The same code is written once per kind of motion; the three kinds have the same members.\<close>

definition parseReactionalMotion :: "json \<Rightarrow> json_error + Motion" where
  "parseReactionalMotion motionJson = parseEmotionalMotion motionJson"

definition parseDirectiveMotion :: "json \<Rightarrow> json_error + Motion" where
  "parseDirectiveMotion motionJson = parseEmotionalMotion motionJson"

record motion_set =
  ms_emotional :: "EmotionType \<rightharpoonup> Motion"
  ms_reactional :: "ReactionType \<rightharpoonup> Motion"
  ms_directive :: "DirectiveType \<rightharpoonup> Motion"
  ms_idle :: positions

definition motion_set_empty :: motion_set where
  "motion_set_empty =
     \<lparr>ms_emotional = Map.empty, ms_reactional = Map.empty, ms_directive = Map.empty, ms_idle = Map.empty\<rparr>"

definition emotional_step :: "string \<times> json \<Rightarrow> motion_set loader" where
  "emotional_step p s =
     bind_err (parseEmotionalMotion (snd p))
       (\<lambda>m. Inr (s\<lparr>ms_emotional := (ms_emotional s)(emotionTypeFromString (fst p) \<mapsto> m)\<rparr>))"

definition reactional_step :: "string \<times> json \<Rightarrow> motion_set loader" where
  "reactional_step p s =
     bind_err (parseReactionalMotion (snd p))
       (\<lambda>m. Inr (s\<lparr>ms_reactional := (ms_reactional s)(reactionTypeFromString (fst p) \<mapsto> m)\<rparr>))"

definition directive_step :: "string \<times> json \<Rightarrow> motion_set loader" where
  "directive_step p s =
     bind_err (parseDirectiveMotion (snd p))
       (\<lambda>m. Inr (s\<lparr>ms_directive := (ms_directive s)(directiveTypeFromString (fst p) \<mapsto> m)\<rparr>))"

text \<open>The members of \<open>j[a][b]\<close> when both keys are there.\<close>

definition section_items :: "json \<Rightarrow> string \<Rightarrow> string \<Rightarrow> (string \<times> json) list" where
  "section_items j a b =
     (if json_contains j a \<and> json_contains (json_member j a) b
      then json_items (json_member (json_member j a) b) else [])"

definition idle_step :: "json \<Rightarrow> motion_set loader" where
  "idle_step j s =
     (if json_contains j ''default_idle'' \<and> json_contains (json_member j ''default_idle'') ''joints''
      then bind_err (parseJointPositions (json_member (json_member j ''default_idle'') ''joints''))
             (\<lambda>m. Inr (s\<lparr>ms_idle := m\<rparr>))
      else Inr s)"

text \<open>\<open>None\<close>: the read of a missing member, which is not an exception. Exceptions are caught.\<close>

definition loadMotionsFromFile :: "json option \<Rightarrow> motion_set \<Rightarrow> motion_set option" where
  "loadMotionsFromFile file s =
     (case file of
        None \<Rightarrow> Some s
      | Some j \<Rightarrow>
          (let (err, s') = run_until
             (map emotional_step (section_items j ''motions'' ''emotional_gestures'') @
              map reactional_step (section_items j ''motions'' ''reactional_gestures'') @
              map directive_step (section_items j ''motions'' ''directives'') @
              [idle_step j]) s
           in if err = Some Undefined then None else Some s'))"

section \<open>Writing motions\<close>

text \<open>Members \<open>j[key]\<close> assigned in a loop exist only when the loop runs.\<close>

definition positions_members :: "positions \<Rightarrow> (string \<times> json) list" where
  "positions_members m =
     (let entries = List.map_filter (\<lambda>j. map_option (\<lambda>s. (joint_name j, JString (state_name s))) (m j)) joints
      in if entries = [] then [] else [(''joints'', json_object entries)])"

definition sequence_item_json :: "MotionSequenceItem \<Rightarrow> json" where
  "sequence_item_json item =
     json_object ((''time'', JInt (msi_time item)) # positions_members (msi_joints item))"

definition motion_json :: "Motion \<Rightarrow> json" where
  "motion_json m =
     json_object
       ([(''name'', JString (mo_name m)), (''description'', JString (mo_description m)),
         (''duration'', JInt (mo_duration m))] @
        positions_members (mo_joints m) @
        (if mo_sequence m \<noteq> [] then [(''sequence'', JArray (map sequence_item_json (mo_sequence m)))] else []))"

definition section_member :: "string \<Rightarrow> ('a \<Rightarrow> string) \<Rightarrow> 'a list \<Rightarrow> ('a \<rightharpoonup> Motion) \<Rightarrow> (string \<times> json) list" where
  "section_member key name xs m =
     (let entries = List.map_filter (\<lambda>x. map_option (\<lambda>mo. (name x, motion_json mo)) (m x)) xs
      in if entries = [] then [] else [(key, json_object entries)])"

definition writeMotionsToFile :: "motion_set \<Rightarrow> json" where
  "writeMotionsToFile s =
     (let sections = section_member ''emotional_gestures'' emotion_name emotions (ms_emotional s) @
                     section_member ''reactional_gestures'' reaction_name reactions (ms_reactional s) @
                     section_member ''directives'' directive_name directives (ms_directive s)
      in json_object
           ((if sections = [] then [] else [(''motions'', json_object sections)]) @
            [(''default_idle'', json_object
                (positions_members (ms_idle s) @
                 [(''name'', JString ''idle''), (''description'', JString ''Neutral resting position'')])),
             (''transition_settings'', json_object
                [(''default_transition_time'', JInt 500), (''smooth_interpolation'', JBool True),
                 (''ease_type'', JString ''ease-in-out'')])]))"

section \<open>Reading back what was written\<close>

lemma set_map_filter: "set (List.map_filter f xs) = {y. \<exists>x \<in> set xs. f x = Some y}"
  by (force simp: List.map_filter_def)

lemma map_filter_Nil_iff: "List.map_filter f xs = [] \<longleftrightarrow> (\<forall>x \<in> set xs. f x = None)"
  by (auto simp: List.map_filter_def filter_empty_conv)

lemma json_items_object [simp]: "set (json_items (json_object ms)) = set ms"
  by (simp add: json_object_def)

lemma json_at_object:
  "distinct (map fst ms) \<Longrightarrow>
   json_at (json_object ms) k = (case map_of ms k of None \<Rightarrow> Inl Undefined | Some v \<Rightarrow> Inr v)"
  by (simp add: json_object_def map_of_sort_key)

lemma json_contains_object:
  "distinct (map fst ms) \<Longrightarrow> json_contains (json_object ms) k = (map_of ms k \<noteq> None)"
  by (simp add: json_object_def map_of_sort_key)

lemma json_member_object:
  "distinct (map fst ms) \<Longrightarrow>
   json_member (json_object ms) k = (case map_of ms k of None \<Rightarrow> JNull | Some v \<Rightarrow> v)"
  by (simp add: json_member_def json_object_def map_of_sort_key split: option.split)

lemmas object_access = json_at_object json_contains_object json_member_object

lemma joint_entries_written:
  assumes "\<forall>p \<in> set ps. \<exists>j s. m j = Some s \<and> p = (joint_name j, JString (state_name s))"
  shows "joint_entries ps acc = Inr (\<lambda>j. if joint_name j \<in> fst ` set ps then m j else acc j)"
  using assms
proof (induction ps arbitrary: acc)
  case Nil
  show ?case by simp
next
  case (Cons p ps)
  then obtain j s where p: "m j = Some s" "p = (joint_name j, JString (state_name s))" by auto
  have "joint_entries ps (acc(j \<mapsto> s)) =
      Inr (\<lambda>i. if joint_name i \<in> fst ` set ps then m i else (acc(j \<mapsto> s)) i)"
    using Cons by simp
  moreover have "(\<lambda>i. if joint_name i \<in> fst ` set ps then m i else (acc(j \<mapsto> s)) i) =
      (\<lambda>i. if joint_name i \<in> fst ` set (p # ps) then m i else acc i)"
    using p by (auto simp: fun_eq_iff)
  ultimately show ?case using p by simp
qed

definition joint_members :: "positions \<Rightarrow> (string \<times> json) list" where
  "joint_members m = List.map_filter (\<lambda>j. map_option (\<lambda>s. (joint_name j, JString (state_name s))) (m j)) joints"

lemma parseJointPositions_written: "parseJointPositions (json_object (joint_members m)) = Inr m"
proof -
  let ?ps = "json_items (json_object (joint_members m))"
  have ps: "set ?ps = {(joint_name j, JString (state_name s)) | j s. m j = Some s}"
    by (auto simp: joint_members_def set_map_filter)
  have "joint_entries ?ps Map.empty = Inr (\<lambda>j. if joint_name j \<in> fst ` set ?ps then m j else None)"
    by (rule joint_entries_written) (simp only: ps, blast)
  moreover have "(\<lambda>j. if joint_name j \<in> fst ` set ?ps then m j else None) = m"
  proof
    fix j
    show "(if joint_name j \<in> fst ` set ?ps then m j else None) = m j"
      unfolding ps by (cases "m j") (simp, force)
  qed
  ultimately show ?thesis by (simp add: parseJointPositions_def)
qed

lemma positions_members_eq:
  "positions_members m = (if m = Map.empty then [] else [(''joints'', json_object (joint_members m))])"
proof -
  have "joint_members m = [] \<longleftrightarrow> m = Map.empty"
    by (auto simp: joint_members_def map_filter_Nil_iff fun_eq_iff)
  then show ?thesis by (simp add: positions_members_def joint_members_def Let_def)
qed

lemma sequence_item_written:
  "msi_joints item \<noteq> Map.empty \<Longrightarrow> parseMotionSequenceItem (sequence_item_json item) = Inr item"
  by (simp add: parseMotionSequenceItem_def sequence_item_json_def positions_members_eq object_access
      parseJointPositions_written)

lemma all_or_error_map:
  "\<forall>x \<in> set xs. f (g x) = Inr x \<Longrightarrow> all_or_error f (map g xs) = Inr xs"
  by (induction xs) simp_all

text \<open>A motion whose joints and whose items' joints are never empty.\<close>

definition motion_complete :: "Motion \<Rightarrow> bool" where
  "motion_complete m \<longleftrightarrow> mo_joints m \<noteq> Map.empty \<and> (\<forall>item \<in> set (mo_sequence m). msi_joints item \<noteq> Map.empty)"

lemma motion_written:
  assumes "motion_complete m"
  shows "parseEmotionalMotion (motion_json m) = Inr m"
proof -
  define ms where "ms = [(''name'', JString (mo_name m)), (''description'', JString (mo_description m)),
      (''duration'', JInt (mo_duration m)), (''joints'', json_object (joint_members (mo_joints m)))] @
      (if mo_sequence m \<noteq> [] then [(''sequence'', JArray (map sequence_item_json (mo_sequence m)))] else [])"
  have j: "motion_json m = json_object ms"
    using assms by (simp add: motion_json_def positions_members_eq motion_complete_def ms_def)
  have d: "distinct (map fst ms)" by (simp add: ms_def)
  note acc = object_access [OF d]
  have "all_or_error parseMotionSequenceItem (map sequence_item_json (mo_sequence m)) = Inr (mo_sequence m)"
    using assms by (intro all_or_error_map) (simp add: motion_complete_def sequence_item_written)
  then show ?thesis
    unfolding j parseEmotionalMotion_def acc
    by (cases "mo_sequence m = []") (simp_all add: ms_def parseJointPositions_written)
qed

lemma all_or_error_fails:
  assumes "\<forall>x \<in> set xs. f (g x) = Inr x \<or> f (g x) = Inl err" and "\<exists>x \<in> set xs. f (g x) = Inl err"
  shows "all_or_error f (map g xs) = Inl err"
  using assms
proof (induction xs)
  case Nil
  then show ?case by simp
next
  case (Cons a xs)
  show ?case
  proof (cases "f (g a) = Inl err")
    case False
    then have "f (g a) = Inr a" "\<exists>x \<in> set xs. f (g x) = Inl err" using Cons(2,3) by auto
    then show ?thesis using Cons by simp
  qed simp
qed

lemma sequence_item_undefined:
  "msi_joints item = Map.empty \<Longrightarrow> parseMotionSequenceItem (sequence_item_json item) = Inl Undefined"
  by (simp add: parseMotionSequenceItem_def sequence_item_json_def positions_members_eq object_access)

lemma motion_undefined:
  assumes "\<not> motion_complete m"
  shows "parseEmotionalMotion (motion_json m) = Inl Undefined"
proof (cases "mo_joints m = Map.empty")
  case True
  define ms where "ms = [(''name'', JString (mo_name m)), (''description'', JString (mo_description m)),
      (''duration'', JInt (mo_duration m))] @
      (if mo_sequence m \<noteq> [] then [(''sequence'', JArray (map sequence_item_json (mo_sequence m)))] else [])"
  have "motion_json m = json_object ms" "distinct (map fst ms)"
    using True by (simp_all add: motion_json_def positions_members_eq ms_def)
  then show ?thesis by (simp add: parseEmotionalMotion_def json_at_object) (simp add: ms_def)
next
  case False
  define ms where "ms = [(''name'', JString (mo_name m)), (''description'', JString (mo_description m)),
      (''duration'', JInt (mo_duration m)), (''joints'', json_object (joint_members (mo_joints m))),
      (''sequence'', JArray (map sequence_item_json (mo_sequence m)))]"
  have empty: "\<exists>item \<in> set (mo_sequence m). msi_joints item = Map.empty"
    using assms False by (auto simp: motion_complete_def)
  then have j: "motion_json m = json_object ms" and d: "distinct (map fst ms)"
    using False by (auto simp: motion_json_def positions_members_eq ms_def)
  have "all_or_error parseMotionSequenceItem (map sequence_item_json (mo_sequence m)) = Inl Undefined"
    using empty sequence_item_written sequence_item_undefined by (intro all_or_error_fails) blast+
  then show ?thesis
    unfolding j parseEmotionalMotion_def object_access [OF d] by (simp add: ms_def parseJointPositions_written)
qed

text \<open>
  One kind of motion in the motion file: how its map sits in the loaded set, how a key is named
  and read, and the step that stores one entry. The three kinds of the code are instances.
\<close>

locale motion_kind =
  fixes key :: "'a \<Rightarrow> string" and of_key :: "string \<Rightarrow> 'a" and keys :: "'a list"
    and stored :: "motion_set \<Rightarrow> 'a \<rightharpoonup> Motion" and store :: "('a \<rightharpoonup> Motion) \<Rightarrow> motion_set \<Rightarrow> motion_set"
    and step :: "string \<times> json \<Rightarrow> motion_set loader"
  assumes of_key: "of_key (key x) = x" and complete: "x \<in> set keys"
    and store_same: "store (stored s) s = s" and store_store: "store f (store g s) = store f s"
    and stored_store: "stored (store f s) = f"
    and step_def: "step p s = bind_err (parseEmotionalMotion (snd p)) (\<lambda>m. Inr (store ((stored s)(of_key (fst p) \<mapsto> m)) s))"
begin

lemma run_entries:
  assumes "\<forall>p \<in> set ps. \<exists>x mo. m x = Some mo \<and> motion_complete mo \<and> p = (key x, motion_json mo)"
  shows "run_until (map step ps @ rest) s =
    run_until rest (store (\<lambda>x. if key x \<in> fst ` set ps then m x else stored s x) s)"
  using assms
proof (induction ps arbitrary: s)
  case Nil
  then show ?case by (simp add: store_same)
next
  case (Cons p ps)
  then obtain x mo where p: "m x = Some mo" "motion_complete mo" "p = (key x, motion_json mo)" by auto
  have inj: "key y = key x \<Longrightarrow> y = x" for y by (metis of_key)
  let ?s = "store ((stored s)(x \<mapsto> mo)) s"
  have "step p s = Inr ?s" using p by (simp add: step_def motion_written of_key)
  moreover have "(\<lambda>y. if key y \<in> fst ` set ps then m y else stored ?s y) =
      (\<lambda>y. if key y \<in> fst ` set (p # ps) then m y else stored s y)"
    using p inj by (auto simp: fun_eq_iff stored_store)
  ultimately show ?case using Cons by (simp add: store_store)
qed

lemma run_undefined:
  assumes "\<forall>p \<in> set ps. \<exists>x mo. p = (key x, motion_json mo)"
    and "\<exists>x mo. \<not> motion_complete mo \<and> (key x, motion_json mo) \<in> set ps"
  shows "fst (run_until (map step ps @ rest) s) = Some Undefined"
  using assms
proof (induction ps arbitrary: s)
  case Nil
  then show ?case by simp
next
  case (Cons p ps)
  then obtain x mo where p: "p = (key x, motion_json mo)" by auto
  show ?case
  proof (cases "motion_complete mo")
    case True
    then obtain s' where "step p s = Inr s'" by (simp add: p step_def motion_written)
    moreover have "\<exists>x mo. \<not> motion_complete mo \<and> (key x, motion_json mo) \<in> set ps"
      using Cons(3) True motion_undefined motion_written p by fastforce
    ultimately show ?thesis using Cons by simp
  next
    case False
    then show ?thesis by (simp add: p step_def motion_undefined)
  qed
qed

lemma section_read:
  assumes "\<forall>x mo. m x = Some mo \<longrightarrow> motion_complete mo" and "stored s = Map.empty"
    and "set ps = set (List.map_filter (\<lambda>x. map_option (\<lambda>mo. (key x, motion_json mo)) (m x)) keys)"
  shows "run_until (map step ps @ rest) s = run_until rest (store m s)"
proof -
  have ps: "set ps = {(key x, motion_json mo) | x mo. m x = Some mo}"
    using complete by (auto simp: assms(3) set_map_filter)
  have "run_until (map step ps @ rest) s =
      run_until rest (store (\<lambda>x. if key x \<in> fst ` set ps then m x else stored s x) s)"
    by (rule run_entries) (simp only: ps, use assms(1) in blast)
  moreover have "(\<lambda>x. if key x \<in> fst ` set ps then m x else stored s x) = m"
  proof
    fix x
    show "(if key x \<in> fst ` set ps then m x else stored s x) = m x"
      unfolding ps by (cases "m x") (simp add: assms(2), force)
  qed
  ultimately show ?thesis by simp
qed

lemma section_undefined:
  assumes "m x = Some mo" and "\<not> motion_complete mo"
    and "set ps = set (List.map_filter (\<lambda>x. map_option (\<lambda>mo. (key x, motion_json mo)) (m x)) keys)"
  shows "fst (run_until (map step ps @ rest) s) = Some Undefined"
proof -
  have ps: "set ps = {(key x, motion_json mo) | x mo. m x = Some mo}"
    using complete by (auto simp: assms(3) set_map_filter)
  show ?thesis by (rule run_undefined) (use ps assms(1,2) in blast)+
qed

end

interpretation em: motion_kind emotion_name emotionTypeFromString emotions ms_emotional
    "\<lambda>f s. s\<lparr>ms_emotional := f\<rparr>" emotional_step
  by unfold_locales (simp_all add: emotional_step_def)

interpretation re: motion_kind reaction_name reactionTypeFromString reactions ms_reactional
    "\<lambda>f s. s\<lparr>ms_reactional := f\<rparr>" reactional_step
  by unfold_locales (simp_all add: reactional_step_def parseReactionalMotion_def)

interpretation di: motion_kind directive_name directiveTypeFromString directives ms_directive
    "\<lambda>f s. s\<lparr>ms_directive := f\<rparr>" directive_step
  by unfold_locales (simp_all add: directive_step_def parseDirectiveMotion_def)

definition section_entries :: "('a \<Rightarrow> string) \<Rightarrow> 'a list \<Rightarrow> ('a \<rightharpoonup> Motion) \<Rightarrow> (string \<times> json) list" where
  "section_entries name xs m = List.map_filter (\<lambda>x. map_option (\<lambda>mo. (name x, motion_json mo)) (m x)) xs"

definition written_sections :: "motion_set \<Rightarrow> (string \<times> json) list" where
  "written_sections s =
     section_member ''emotional_gestures'' emotion_name emotions (ms_emotional s) @
     section_member ''reactional_gestures'' reaction_name reactions (ms_reactional s) @
     section_member ''directives'' directive_name directives (ms_directive s)"

lemma section_member_eq:
  "section_member k name xs m =
     (if section_entries name xs m = [] then [] else [(k, json_object (section_entries name xs m))])"
  by (simp add: section_member_def section_entries_def Let_def)

lemma written_sections_distinct: "distinct (map fst (written_sections s))"
  by (simp add: written_sections_def section_member_eq)

lemma written_sections_lookup:
  "map_of (written_sections s) ''emotional_gestures'' =
     (let es = section_entries emotion_name emotions (ms_emotional s) in if es = [] then None else Some (json_object es))"
  "map_of (written_sections s) ''reactional_gestures'' =
     (let es = section_entries reaction_name reactions (ms_reactional s) in if es = [] then None else Some (json_object es))"
  "map_of (written_sections s) ''directives'' =
     (let es = section_entries directive_name directives (ms_directive s) in if es = [] then None else Some (json_object es))"
  by (simp_all add: written_sections_def section_member_eq Let_def)

definition written_members :: "motion_set \<Rightarrow> (string \<times> json) list" where
  "written_members s =
     (if written_sections s = [] then [] else [(''motions'', json_object (written_sections s))]) @
     [(''default_idle'', json_object
         (positions_members (ms_idle s) @
          [(''name'', JString ''idle''), (''description'', JString ''Neutral resting position'')])),
      (''transition_settings'', json_object
         [(''default_transition_time'', JInt 500), (''smooth_interpolation'', JBool True),
          (''ease_type'', JString ''ease-in-out'')])]"

lemma writeMotionsToFile_eq: "writeMotionsToFile s = json_object (written_members s)"
  by (simp add: writeMotionsToFile_def written_members_def written_sections_def Let_def)

lemma written_members_distinct: "distinct (map fst (written_members s))"
  by (simp add: written_members_def)

lemma section_items_of_written:
  "set (section_items (writeMotionsToFile s) ''motions'' k) =
     (case map_of (written_sections s) k of None \<Rightarrow> {} | Some v \<Rightarrow> set (json_items v))"
proof -
  have "map_of (written_members s) ''motions'' =
      (if written_sections s = [] then None else Some (json_object (written_sections s)))"
    by (simp add: written_members_def)
  then show ?thesis
    by (cases "map_of (written_sections s) k"; cases "written_sections s = []")
      (simp_all add: section_items_def writeMotionsToFile_eq object_access written_members_distinct
        written_sections_distinct)
qed

lemma section_items_entries:
  "set (section_items (writeMotionsToFile s) ''motions'' ''emotional_gestures'') =
     set (section_entries emotion_name emotions (ms_emotional s))"
  "set (section_items (writeMotionsToFile s) ''motions'' ''reactional_gestures'') =
     set (section_entries reaction_name reactions (ms_reactional s))"
  "set (section_items (writeMotionsToFile s) ''motions'' ''directives'') =
     set (section_entries directive_name directives (ms_directive s))"
  by (simp_all add: section_items_of_written written_sections_lookup Let_def)

lemma idle_step_written:
  "idle_step (writeMotionsToFile s) t = Inr (if ms_idle s = Map.empty then t else t\<lparr>ms_idle := ms_idle s\<rparr>)"
proof -
  let ?idle = "positions_members (ms_idle s) @
      [(''name'', JString ''idle''), (''description'', JString ''Neutral resting position'')]"
  have "map_of (written_members s) ''default_idle'' = Some (json_object ?idle)"
    by (simp add: written_members_def)
  moreover have "distinct (map fst ?idle)" by (simp add: positions_members_eq)
  moreover have "map_of ?idle ''joints'' =
      (if ms_idle s = Map.empty then None else Some (json_object (joint_members (ms_idle s))))"
    by (simp add: positions_members_eq)
  ultimately show ?thesis
    by (simp add: idle_step_def writeMotionsToFile_eq object_access written_members_distinct
        parseJointPositions_written)
qed

definition motion_set_complete :: "motion_set \<Rightarrow> bool" where
  "motion_set_complete s \<longleftrightarrow>
     (\<forall>x m. ms_emotional s x = Some m \<longrightarrow> motion_complete m) \<and>
     (\<forall>x m. ms_reactional s x = Some m \<longrightarrow> motion_complete m) \<and>
     (\<forall>x m. ms_directive s x = Some m \<longrightarrow> motion_complete m)"

definition load_steps :: "json \<Rightarrow> motion_set loader list" where
  "load_steps j =
     map emotional_step (section_items j ''motions'' ''emotional_gestures'') @
     map reactional_step (section_items j ''motions'' ''reactional_gestures'') @
     map directive_step (section_items j ''motions'' ''directives'') @ [idle_step j]"

lemma run_complete_set:
  assumes True: "motion_set_complete s"
  shows "run_until (load_steps (writeMotionsToFile s)) motion_set_empty = (None, s)"
proof -
  let ?j = "writeMotionsToFile s"
  let ?es = "section_items ?j ''motions'' ''emotional_gestures''"
  let ?rs = "section_items ?j ''motions'' ''reactional_gestures''"
  let ?ds = "section_items ?j ''motions'' ''directives''"
  let ?run = "run_until (map emotional_step ?es @ map reactional_step ?rs @ map directive_step ?ds @ [idle_step ?j])
      motion_set_empty"
  note entries = section_items_entries [unfolded section_entries_def]
    let ?s1 = "motion_set_empty\<lparr>ms_emotional := ms_emotional s\<rparr>"
    let ?s2 = "?s1\<lparr>ms_reactional := ms_reactional s\<rparr>"
    let ?s3 = "?s2\<lparr>ms_directive := ms_directive s\<rparr>"
    have "?run = run_until (map reactional_step ?rs @ map directive_step ?ds @ [idle_step ?j]) ?s1"
      by (rule em.section_read [OF _ _ entries(1)]) (use True in \<open>simp_all add: motion_set_complete_def motion_set_empty_def\<close>)
    also have "\<dots> = run_until (map directive_step ?ds @ [idle_step ?j]) ?s2"
      by (rule re.section_read [OF _ _ entries(2)]) (use True in \<open>simp_all add: motion_set_complete_def motion_set_empty_def\<close>)
    also have "\<dots> = run_until [idle_step ?j] ?s3"
      by (rule di.section_read [OF _ _ entries(3)]) (use True in \<open>simp_all add: motion_set_complete_def motion_set_empty_def\<close>)
    finally have "?run = (None, if ms_idle s = Map.empty then ?s3 else ?s3\<lparr>ms_idle := ms_idle s\<rparr>)"
      by (simp add: idle_step_written)
    then show ?thesis by (cases s) (simp add: motion_set_empty_def load_steps_def)
qed

lemma run_incomplete_set:
  assumes False: "\<not> motion_set_complete s"
  shows "fst (run_until (load_steps (writeMotionsToFile s)) motion_set_empty) = Some Undefined"
proof -
  let ?j = "writeMotionsToFile s"
  let ?es = "section_items ?j ''motions'' ''emotional_gestures''"
  let ?rs = "section_items ?j ''motions'' ''reactional_gestures''"
  let ?ds = "section_items ?j ''motions'' ''directives''"
  let ?run = "run_until (map emotional_step ?es @ map reactional_step ?rs @ map directive_step ?ds @ [idle_step ?j])
      motion_set_empty"
  note entries = section_items_entries [unfolded section_entries_def]
    from False consider x m where "ms_emotional s x = Some m" "\<not> motion_complete m"
      | x m where "\<forall>x m. ms_emotional s x = Some m \<longrightarrow> motion_complete m" "ms_reactional s x = Some m"
          "\<not> motion_complete m"
      | x m where "\<forall>x m. ms_emotional s x = Some m \<longrightarrow> motion_complete m"
          "\<forall>x m. ms_reactional s x = Some m \<longrightarrow> motion_complete m" "ms_directive s x = Some m" "\<not> motion_complete m"
      unfolding motion_set_complete_def by blast
    then have "fst ?run = Some Undefined"
    proof cases
      case 1
      then show ?thesis by (rule em.section_undefined [OF _ _ entries(1)])
    next
      case 2
      then show ?thesis
        by (subst em.section_read [OF _ _ entries(1)])
          (simp_all add: motion_set_empty_def re.section_undefined [OF 2(2,3) entries(2)])
    next
      case 3
      then show ?thesis
        by (subst em.section_read [OF _ _ entries(1)], simp_all add: motion_set_empty_def)
          (subst re.section_read [OF _ _ entries(2)], simp_all add: di.section_undefined [OF 3(3,4) entries(3)])
    qed
    then show ?thesis by (simp add: load_steps_def)
qed

text \<open>C24: the motions written to a file load back as they were when every motion and every item
of a sequence moves some joint; if one moves none, its member is not written, and loading the
file reads a member that is not there.\<close>

theorem motions_load_back:
  "loadMotionsFromFile (Some (writeMotionsToFile s)) motion_set_empty =
     (if motion_set_complete s then Some s else None)"
  using run_complete_set [of s] run_incomplete_set [of s]
  by (simp add: loadMotionsFromFile_def load_steps_def case_prod_beta Let_def)

section \<open>Gestures and joint angles\<close>

record EmotionalGesture =
  eg_emotion :: EmotionType
  eg_symbol :: string
  eg_description :: string
  eg_motorPos :: joint_angles
  eg_embedding :: "flt list"

record ReactionalGesture =
  re_reaction :: ReactionType
  re_antiReaction :: ReactionType
  re_symbol :: string
  re_description :: string
  re_embedding :: "flt list"

record Directive =
  dv_directive :: DirectiveType
  dv_symbol :: string
  dv_description :: string
  dv_embedding :: "flt list"

definition string_at :: "json \<Rightarrow> string \<Rightarrow> json_error + string" where
  "string_at j k = bind_err (json_at j k) json_get_string"

definition read_emotional :: "json \<Rightarrow> json_error + EmotionalGesture" where
  "read_emotional item =
     bind_err (string_at item ''type'') (\<lambda>type.
     bind_err (string_at item ''tag'') (\<lambda>tag.
     bind_err (string_at item ''description'') (\<lambda>description.
       Inr \<lparr>eg_emotion = emotionTypeFromString type, eg_symbol = tag, eg_description = description,
            eg_motorPos = Map.empty, eg_embedding = []\<rparr>)))"

definition read_reactional :: "json \<Rightarrow> json_error + ReactionalGesture" where
  "read_reactional item =
     bind_err (string_at item ''type'') (\<lambda>type.
     bind_err (string_at item ''reply'') (\<lambda>reply.
     bind_err (string_at item ''tag'') (\<lambda>tag.
     bind_err (string_at item ''description'') (\<lambda>description.
       Inr \<lparr>re_reaction = reactionTypeFromString type, re_antiReaction = reactionTypeFromString reply,
            re_symbol = tag, re_description = description, re_embedding = []\<rparr>))))"

definition read_directive :: "json \<Rightarrow> json_error + Directive" where
  "read_directive item =
     bind_err (string_at item ''type'') (\<lambda>type.
     bind_err (string_at item ''tag'') (\<lambda>tag.
     bind_err (string_at item ''description'') (\<lambda>description.
       Inr \<lparr>dv_directive = directiveTypeFromString type, dv_symbol = tag, dv_description = description,
            dv_embedding = []\<rparr>)))"

text \<open>Nothing is caught here: a file that does not parse raises as well.\<close>

definition loadGesturesFromFile ::
    "json option \<Rightarrow> json_error + EmotionalGesture list \<times> ReactionalGesture list \<times> Directive list" where
  "loadGesturesFromFile file =
     (case file of
        None \<Rightarrow> Inl Parse_error
      | Some j \<Rightarrow>
          bind_err (json_index j ''emotional_gestures'') (\<lambda>es.
          bind_err (all_or_error read_emotional (json_elements es)) (\<lambda>emotional.
          bind_err (json_index j ''reactional_gestures'') (\<lambda>rs.
          bind_err (all_or_error read_reactional (json_elements rs)) (\<lambda>reactional.
          bind_err (json_index j ''directives'') (\<lambda>ds.
          bind_err (all_or_error read_directive (json_elements ds)) (\<lambda>directive.
            Inr (emotional, reactional, directive))))))))"

fun state_entries ::
    "ServoMotorJoint \<Rightarrow> (string \<times> json) list \<Rightarrow> joint_position_list \<Rightarrow> json_error + joint_position_list" where
  "state_entries joint [] m = Inr m"
| "state_entries joint ((stateKey, v) # ps) m =
     bind_err (bind_err (json_index v ''angle'') json_get_int) (\<lambda>angle.
     bind_err (bind_err (json_index v ''name'') json_get_string) (\<lambda>name.
       state_entries joint ps
         (m(joint := (m joint)(gestureStateFromString stateKey \<mapsto> \<lparr>gja_angle = angle, gja_symbol = name\<rparr>)))))"

fun joint_angle_entries :: "(string \<times> json) list \<Rightarrow> joint_position_list \<Rightarrow> json_error + joint_position_list" where
  "joint_angle_entries [] m = Inr m"
| "joint_angle_entries ((jointKey, stateMap) # ps) m =
     bind_err (state_entries (servoJointFromString jointKey) (json_items stateMap) m) (joint_angle_entries ps)"

definition loadJointAnglesFromJson :: "json option \<Rightarrow> json_error + joint_position_list" where
  "loadJointAnglesFromJson file =
     (case file of
        None \<Rightarrow> Inl Parse_error
      | Some j \<Rightarrow> joint_angle_entries (json_items j) (\<lambda>_. Map.empty))"

section \<open>The operator\<close>

record config_operator =
  co_ragDataset :: "DatasetRow list option"
  co_emotionalMotions :: "(EmotionType \<rightharpoonup> Motion) option"
  co_reactionalMotions :: "(ReactionType \<rightharpoonup> Motion) option"
  co_directiveMotions :: "(DirectiveType \<rightharpoonup> Motion) option"
  co_idlePosition :: "positions option"
  co_emotionalList :: "EmotionalGesture list option"
  co_reactionalList :: "ReactionalGesture list option"
  co_directiveList :: "Directive list option"
  co_faceReactionList :: "FaceReaction list option"
  co_jointAngles :: "joint_position_list option"
  co_configPaths :: "ConfigPaths option"
  co_aiConfig :: "AiConfig option"

definition config_shutdown :: "config_operator \<Rightarrow> config_operator" where
  "config_shutdown c =
     \<lparr>co_ragDataset = None, co_emotionalMotions = None, co_reactionalMotions = None,
      co_directiveMotions = None, co_idlePosition = None, co_emotionalList = None,
      co_reactionalList = None, co_directiveList = None, co_faceReactionList = None,
      co_jointAngles = None, co_configPaths = None, co_aiConfig = None\<rparr>"

definition config_isReady :: "config_operator \<Rightarrow> bool" where
  "config_isReady c \<longleftrightarrow>
     co_ragDataset c \<noteq> None \<and> co_emotionalMotions c \<noteq> None \<and> co_reactionalMotions c \<noteq> None \<and>
     co_directiveMotions c \<noteq> None \<and> co_idlePosition c \<noteq> None \<and> co_emotionalList c \<noteq> None \<and>
     co_reactionalList c \<noteq> None \<and> co_directiveList c \<noteq> None \<and> co_faceReactionList c \<noteq> None \<and>
     co_jointAngles c \<noteq> None \<and> co_configPaths c \<noteq> None \<and> co_aiConfig c \<noteq> None"

definition AiConfig_empty :: AiConfig where
  "AiConfig_empty =
     \<lparr>ai_speechProcessorModelPath = [],
      ai_speechRecognizerConfig =
        \<lparr>sr_modelPath = [], sr_command = [], sr_voice = [], sr_timeOut = 0, sr_silenceThreshold = 0,
         sr_sampleRate = 0, sr_framesPerBuffer = 0, sr_maxSilenceDurationSec = 0, sr_listenTimeoutMs = 0\<rparr>,
      ai_llmChatConfig =
        \<lparr>lc_modelPath = [], lc_systemMessage = [],
         lc_llmSettings = \<lparr>ls_ngl = [], ls_nThreads = 0, ls_n_ctx = 0, ls_minP = Flt 0 0, ls_temp = Flt 0 0,
                          ls_topK = 0, ls_topP = Flt 0 0, ls_templateName = []\<rparr>\<rparr>,
      ai_llmEmbeddingConfig = \<lparr>le_modelPath = [], le_poolingType = 0\<rparr>,
      ai_mediapipeModelPath = []\<rparr>"

definition no_motions :: "(EmotionType \<rightharpoonup> Motion) \<Rightarrow> bool" where
  "no_motions m = list_all (\<lambda>e. m e = None) emotions"

definition no_joint_angles :: "joint_position_list \<Rightarrow> bool" where
  "no_joint_angles m = list_all (\<lambda>j. list_all (\<lambda>s. m j s = None) joint_states) joints"

text \<open>
  \<open>initialize\<close> with the file of paths. \<open>None\<close>: it ends in an uncaught exception or in an access
  the library leaves undefined. After loading the gestures the code tests the emotional motions
  once more, which it has just reset if there are none.
\<close>

definition config_initialize :: "config_files \<Rightarrow> string \<Rightarrow> config_operator \<Rightarrow> (bool \<times> config_operator) option" where
  "config_initialize F paths_file c =
     (let c = config_shutdown c;
          paths = loadConfigPaths (cf_document F paths_file) ConfigPaths_empty
      in if cp_ai_config paths = [] then Some (False, c)
         else let c = c\<lparr>co_configPaths := Some paths,
                        co_ragDataset := Some (loadRagDataset (cf_lines F (cp_rag_dataset paths)) []),
                        co_faceReactionList := Some (loadFaceReactions (cf_lines F (cp_reaction_set paths)) [])\<rparr>
              in case loadMotionsFromFile (cf_document F (cp_motion_definitions paths)) motion_set_empty of
                   None \<Rightarrow> None
                 | Some ms \<Rightarrow>
                     let c = (if no_motions (ms_emotional ms) then c
                              else c\<lparr>co_emotionalMotions := Some (ms_emotional ms),
                                     co_reactionalMotions := Some (ms_reactional ms),
                                     co_directiveMotions := Some (ms_directive ms),
                                     co_idlePosition := Some (ms_idle ms)\<rparr>)
                     in case (loadGesturesFromFile (cf_document F (cp_gesture_config paths)), co_emotionalMotions c) of
                          (Inr (es, rs, ds), Some m) \<Rightarrow>
                            let c = (if no_motions m then c
                                     else c\<lparr>co_emotionalList := Some es, co_reactionalList := Some rs,
                                            co_directiveList := Some ds\<rparr>)
                            in (case loadJointAnglesFromJson (cf_document F (cp_joint_angles paths)) of
                                  Inl err \<Rightarrow> None
                                | Inr angles \<Rightarrow>
                                    let c = (if no_joint_angles angles then c else c\<lparr>co_jointAngles := Some angles\<rparr>);
                                        ai = loadAiConfig (cf_document F (cp_ai_config paths)) AiConfig_empty;
                                        c = (if ai_speechProcessorModelPath ai = [] then c
                                             else c\<lparr>co_aiConfig := Some ai\<rparr>)
                                    in Some (config_isReady c, c))
                        | _ \<Rightarrow> None)"

section \<open>Properties of the operator\<close>

lemma no_motionsD: "no_motions m \<Longrightarrow> m e = None"
  by (simp add: no_motions_def list_all_iff)

text \<open>When the motion file gives no emotional motion (it is missing, is no JSON, or lists none),
initialisation dereferences the optional it has just reset, whatever the other files hold.\<close>

lemma config_without_motions_undefined:
  assumes "cp_ai_config (loadConfigPaths (cf_document F p) ConfigPaths_empty) \<noteq> []"
    and "loadMotionsFromFile (cf_document F (cp_motion_definitions (loadConfigPaths (cf_document F p) ConfigPaths_empty)))
      motion_set_empty = Some ms"
    and "no_motions (ms_emotional ms)"
  shows "config_initialize F p c = None"
  using assms by (simp add: config_initialize_def config_shutdown_def Let_def split: sum.split)

text \<open>When initialisation returns, readiness is decided by three of the twelve parts, and a
ready operator has at least one emotional motion and one joint angle.\<close>

lemma config_ready_iff:
  assumes "config_initialize F p c = Some (ok, c')"
  shows "ok = config_isReady c' \<and>
    (ok \<longleftrightarrow> co_configPaths c' \<noteq> None \<and> co_jointAngles c' \<noteq> None \<and> co_aiConfig c' \<noteq> None) \<and>
    (ok \<longrightarrow> (\<exists>m. co_emotionalMotions c' = Some m \<and> \<not> no_motions m) \<and>
            (\<exists>a. co_jointAngles c' = Some a \<and> \<not> no_joint_angles a))"
  using assms
  by (auto simp: config_initialize_def config_shutdown_def config_isReady_def Let_def
      split: if_splits option.splits sum.splits prod.splits)

section \<open>The properties at concrete inputs\<close>

definition sample_documents :: "(string \<times> json) list" where
  "sample_documents =
     [(''paths'', JObject [(''ai_config'', JString ''ai''), (''gesture_config'', JString ''g''),
         (''joint_angles'', JString ''j''), (''motion_definitions'', JString ''m'')]),
      (''ai'', JObject [(''speechPrecessor'', JObject [(''modelPath'', JString ''model'')])]),
      (''g'', JObject []),
      (''j'', JObject [(''neck'', JObject [(''middle'', JObject [(''angle'', JInt 90), (''name'', JString ''M'')])])])]"

definition sample_motions :: json where
  "sample_motions =
     JObject [(''motions'', JObject [(''emotional_gestures'', JObject [(''happy'',
       JObject [(''description'', JString ''d''), (''duration'', JInt 100),
         (''joints'', JObject [(''neck'', JString ''middle'')]), (''name'', JString ''n'')])])])]"

definition sample_files :: "(string \<times> json) list \<Rightarrow> config_files" where
  "sample_files ds = \<lparr>cf_document = map_of ds, cf_lines = (\<lambda>_. Some [])\<rparr>"

definition sample_config_paths :: ConfigPaths where
  "sample_config_paths =
     \<lparr>cp_ai_config = ''ai'', cp_gesture_config = ''g'', cp_joint_angles = ''j'', cp_motion_definitions = ''m'',
      cp_rag_dataset = [], cp_reaction_set = []\<rparr>"

lemma sample_paths_loaded:
  "loadConfigPaths (map_of sample_documents ''paths'') ConfigPaths_empty = sample_config_paths"
  by (simp add: sample_documents_def loadConfigPaths_def set_member_def ConfigPaths_empty_def
      sample_config_paths_def)

definition blank_operator :: config_operator where
  "blank_operator =
     \<lparr>co_ragDataset = None, co_emotionalMotions = None, co_reactionalMotions = None,
      co_directiveMotions = None, co_idlePosition = None, co_emotionalList = None,
      co_reactionalList = None, co_directiveList = None, co_faceReactionList = None,
      co_jointAngles = None, co_configPaths = None, co_aiConfig = None\<rparr>"

lemma config_without_motions_undefined_witness:
  "config_initialize (sample_files sample_documents) ''paths'' blank_operator = None"
proof -
  have "map_of sample_documents ''m'' = None" by (simp add: sample_documents_def)
  then show ?thesis
    using config_without_motions_undefined [of "sample_files sample_documents" "''paths''" motion_set_empty]
    by (simp add: sample_files_def sample_paths_loaded) (simp add: sample_config_paths_def loadMotionsFromFile_def
        motion_set_empty_def no_motions_def emotions_def)
qed

lemma sample_motions_loaded:
  "\<exists>ms m. loadMotionsFromFile (Some sample_motions) motion_set_empty = Some ms \<and> ms_emotional ms Em_happy = Some m"
  by (simp add: sample_motions_def loadMotionsFromFile_def section_items_def json_member_def emotional_step_def
      parseEmotionalMotion_def parseJointPositions_def idle_step_def motion_set_empty_def emotionTypeFromString_def
      from_name_def emotions_def)

lemma sample_angles_loaded:
  "\<exists>a. loadJointAnglesFromJson (map_of sample_documents ''j'') = Inr a \<and> \<not> no_joint_angles a"
  by (simp add: sample_documents_def loadJointAnglesFromJson_def servoJointFromString_def from_name_def
      gestureStateFromString_def joint_states_def no_joint_angles_def joints_def)

lemma sample_gestures_loaded: "loadGesturesFromFile (map_of sample_documents ''g'') = Inr ([], [], [])"
  by (simp add: sample_documents_def loadGesturesFromFile_def)

lemma sample_ai_loaded:
  "ai_speechProcessorModelPath (loadAiConfig (map_of sample_documents ''ai'') AiConfig_empty) = ''model''"
  by (simp add: sample_documents_def loadAiConfig_def set_member_def json_member_def AiConfig_empty_def)

lemma config_ready_iff_witness:
  "\<exists>c'. config_initialize (sample_files (sample_documents @ [(''m'', sample_motions)])) ''paths'' blank_operator = Some (True, c') \<and>
     config_isReady c'"
proof -
  let ?F = "sample_files (sample_documents @ [(''m'', sample_motions)])"
  have docs: "cf_document ?F n = (if n = ''m'' then Some sample_motions else map_of sample_documents n)" for n
    by (simp add: sample_files_def map_add_def sample_documents_def split: option.split)
  obtain ms m where ms: "loadMotionsFromFile (Some sample_motions) motion_set_empty = Some ms" "ms_emotional ms Em_happy = Some m"
    using sample_motions_loaded by blast
  obtain a where a: "loadJointAnglesFromJson (map_of sample_documents ''j'') = Inr a" "\<not> no_joint_angles a"
    using sample_angles_loaded by blast
  have nm: "\<not> no_motions (ms_emotional ms)" using no_motionsD [of "ms_emotional ms" Em_happy] ms(2) by auto
  have paths: "loadConfigPaths (cf_document ?F ''paths'') ConfigPaths_empty = sample_config_paths"
    using sample_paths_loaded by (simp add: docs)
  have "\<exists>c'. config_initialize ?F ''paths'' blank_operator = Some (True, c')"
    using ms nm a sample_gestures_loaded sample_ai_loaded
    by (simp add: config_initialize_def paths Let_def) (simp add: sample_config_paths_def docs config_shutdown_def
        config_isReady_def)
  then obtain c' where c': "config_initialize ?F ''paths'' blank_operator = Some (True, c')" by blast
  show ?thesis using c' config_ready_iff [OF c'] by blast
qed

end
