(* ===== verification/Web_Socket.thy ===== *)
theory Web_Socket
  imports Prelude
begin

text \<open>
  \<open>operators/web_socket_operator.cpp\<close>: the WebSocket server of the remote connection. Its threads
  are explicit: the server thread (\<open>runServer\<close>), the thread answering discovery broadcasts, and any
  number of callers of \<open>start\<close>, \<open>stop\<close>, \<open>sendText\<close> and \<open>sendBinary\<close>, which share \<open>_serverMutex\<close>.
  The server object is websocketpp's: of it the code relies on \<open>run()\<close> returning once \<open>stop()\<close> was
  called on it or when it throws, and not before, as accepting connections is pending work.
\<close>

section \<open>Threads and state\<close>

text \<open>
  Positions of the server thread: not created or joined; before the first lock; in the first
  locked block; before setting \<open>_ready\<close>; before the second lock; in \<open>run()\<close> inside the second
  locked block; before clearing \<open>_ready\<close>; ended.
\<close>

datatype server_position =
    Server_none | Server_entry | Server_listen | Server_ready | Server_lock | Server_run
  | Server_clear | Server_done

text \<open>Positions of a caller: outside, or before the given lock or join of the function it called.\<close>

datatype caller_position =
    Outside | Start_lock | Start_threads | Send_lock | Stop_lock | Stop_join_server
  | Stop_join_broadcast | Stop_reset

text \<open>\<open>ws_server\<close> is the server object: null, or whether \<open>stop()\<close> was called on it.\<close>

record web_socket =
  ws_running :: bool
  ws_ready :: bool
  ws_server :: "bool option"
  ws_server_at :: server_position
  ws_broadcast :: bool
  ws_callers :: "nat \<Rightarrow> caller_position"
  ws_results :: "(nat \<times> bool) list"
  ws_terminated :: bool

definition web_socket_new :: web_socket where
  "web_socket_new =
     \<lparr>ws_running = False, ws_ready = False, ws_server = None, ws_server_at = Server_none,
      ws_broadcast = False, ws_callers = (\<lambda>_. Outside), ws_results = [], ws_terminated = False\<rparr>"

text \<open>
  The blocks that lock \<open>_serverMutex\<close> on a caller's thread do not wait inside and are single steps;
  between steps the mutex is held exactly by the server thread in one of its two blocks.
\<close>

definition serverMutex_free :: "web_socket \<Rightarrow> bool" where
  "serverMutex_free s \<longleftrightarrow> ws_server_at s \<noteq> Server_listen \<and> ws_server_at s \<noteq> Server_run"

definition goes_to :: "nat \<Rightarrow> caller_position \<Rightarrow> web_socket \<Rightarrow> web_socket" where
  "goes_to c p s = s\<lparr>ws_callers := (ws_callers s)(c := p)\<rparr>"

section \<open>The operations, step by step\<close>

text \<open>\<open>runServer\<close>; \<open>ok\<close> says whether the call of the server object succeeds or throws.\<close>

definition runServer :: "bool \<Rightarrow> web_socket \<Rightarrow> web_socket option" where
  "runServer ok s =
     (case ws_server_at s of
        Server_none \<Rightarrow> None
      | Server_entry \<Rightarrow> Some (s\<lparr>ws_server_at := Server_listen\<rparr>)
      | Server_listen \<Rightarrow>
          Some (s\<lparr>ws_server_at := (if ws_server s = None then Server_done
                                  else if ok then Server_ready else Server_clear)\<rparr>)
      | Server_ready \<Rightarrow> Some (s\<lparr>ws_ready := True, ws_server_at := Server_lock\<rparr>)
      | Server_lock \<Rightarrow>
          Some (s\<lparr>ws_server_at := (if ws_server s = None then Server_clear else Server_run)\<rparr>)
      | Server_run \<Rightarrow>
          if ok \<and> ws_server s = Some False then None
          else Some (s\<lparr>ws_server_at := Server_clear\<rparr>)
      | Server_clear \<Rightarrow> Some (s\<lparr>ws_ready := False, ws_server_at := Server_done\<rparr>)
      | Server_done \<Rightarrow> None)"

text \<open>\<open>runBroadcastResponder\<close> ends when \<open>_running\<close> is false, or at once when its socket fails.\<close>

definition runBroadcastResponder :: "bool \<Rightarrow> web_socket \<Rightarrow> web_socket option" where
  "runBroadcastResponder ok s =
     (if ws_broadcast s \<and> (\<not> ok \<or> \<not> ws_running s) then Some (s\<lparr>ws_broadcast := False\<rparr>) else None)"

definition socket_start :: "nat \<Rightarrow> web_socket \<Rightarrow> web_socket" where
  "socket_start c s = (if ws_running s then s else goes_to c Start_lock (s\<lparr>ws_running := True\<rparr>))"

definition socket_stop :: "nat \<Rightarrow> web_socket \<Rightarrow> web_socket" where
  "socket_stop c s = (if ws_running s then goes_to c Stop_lock (s\<lparr>ws_running := False\<rparr>) else s)"

text \<open>\<open>sendText\<close> and \<open>sendBinary\<close> begin with the lock.\<close>

definition socket_send :: "nat \<Rightarrow> web_socket \<Rightarrow> web_socket" where
  "socket_send c s = goes_to c Send_lock s"

text \<open>
  A caller's next step. Assigning to a thread object that is still joinable terminates the program;
  a thread that ended is joined, \<open>Server_none\<close> being the object after it.
\<close>

definition caller_step :: "nat \<Rightarrow> bool \<Rightarrow> web_socket \<Rightarrow> web_socket option" where
  "caller_step c ok s =
     (case ws_callers s c of
        Outside \<Rightarrow> None
      | Start_lock \<Rightarrow>
          if serverMutex_free s then Some (goes_to c Start_threads (s\<lparr>ws_server := Some False\<rparr>)) else None
      | Start_threads \<Rightarrow>
          Some (if ws_server_at s = Server_none
                then goes_to c Outside (s\<lparr>ws_broadcast := True, ws_server_at := Server_entry\<rparr>)
                else s\<lparr>ws_terminated := True\<rparr>)
      | Send_lock \<Rightarrow>
          if serverMutex_free s
          then Some (goes_to c Outside
                 (s\<lparr>ws_results := (c, ws_server s \<noteq> None \<and> ws_ready s \<and> ok) # ws_results s\<rparr>))
          else None
      | Stop_lock \<Rightarrow>
          if serverMutex_free s
          then Some (goes_to c Stop_join_server (s\<lparr>ws_server := map_option (\<lambda>_. True) (ws_server s)\<rparr>))
          else None
      | Stop_join_server \<Rightarrow>
          if ws_server_at s = Server_none \<or> ws_server_at s = Server_done
          then Some (goes_to c Stop_join_broadcast (s\<lparr>ws_server_at := Server_none\<rparr>)) else None
      | Stop_join_broadcast \<Rightarrow> if ws_broadcast s then None else Some (goes_to c Stop_reset s)
      | Stop_reset \<Rightarrow>
          if serverMutex_free s
          then Some (goes_to c Outside (s\<lparr>ws_server := None, ws_ready := False\<rparr>)) else None)"

section \<open>The step function\<close>

datatype socket_action =
    Call_start nat | Call_stop nat | Call_send nat
  | Server_steps bool | Broadcast_steps bool | Caller_steps nat bool

fun socket_step :: "socket_action \<Rightarrow> web_socket \<Rightarrow> web_socket option" where
  "socket_step a s =
     (if ws_terminated s then None
      else case a of
        Call_start c \<Rightarrow> if ws_callers s c = Outside then Some (socket_start c s) else None
      | Call_stop c \<Rightarrow> if ws_callers s c = Outside then Some (socket_stop c s) else None
      | Call_send c \<Rightarrow> if ws_callers s c = Outside then Some (socket_send c s) else None
      | Server_steps ok \<Rightarrow> runServer ok s
      | Broadcast_steps ok \<Rightarrow> runBroadcastResponder ok s
      | Caller_steps c ok \<Rightarrow> caller_step c ok s)"

lemmas socket_defs =
  socket_start_def socket_stop_def socket_send_def runServer_def runBroadcastResponder_def
  caller_step_def goes_to_def serverMutex_free_def

section \<open>Serving connections shuts everybody else out\<close>

text \<open>The server thread is in \<open>run()\<close> on a server nobody stopped.\<close>

definition serving :: "web_socket \<Rightarrow> bool" where
  "serving s \<longleftrightarrow> ws_server_at s = Server_run \<and> ws_server s = Some False"

definition waits_for_mutex :: "nat \<Rightarrow> web_socket \<Rightarrow> bool" where
  "waits_for_mutex c s \<longleftrightarrow>
     ws_callers s c \<in> {Start_lock, Send_lock, Stop_lock, Stop_reset}"

definition shut_out :: "web_socket \<Rightarrow> web_socket \<Rightarrow> bool" where
  "shut_out s0 s \<longleftrightarrow>
     serving s \<and> ws_results s = ws_results s0 \<and>
     (\<forall>c. waits_for_mutex c s0 \<longrightarrow> ws_callers s c = ws_callers s0 c)"

lemma serving_shut_out: "serving s \<Longrightarrow> shut_out s s"
  by (simp add: shut_out_def)

interpretation serving_run: stable_condition socket_step "\<lambda>a. a \<noteq> Server_steps False" "shut_out s0" for s0
proof
  fix s a s'
  assume s: "shut_out s0 s" and a: "a \<noteq> Server_steps False" and step: "socket_step a s = Some s'"
  have pos: "ws_server_at s = Server_run" "ws_server s = Some False"
    using s by (simp_all add: shut_out_def serving_def)
  show "shut_out s0 s'"
  proof (cases a)
    case (Caller_steps c ok)
    with s step pos show ?thesis
      by (cases "ws_callers s c")
        (auto simp: shut_out_def serving_def waits_for_mutex_def socket_defs split: if_splits)
  qed (use s a step pos in \<open>auto simp: shut_out_def serving_def waits_for_mutex_def socket_defs split: if_splits\<close>)
qed

text \<open>C11: while the server thread serves connections it holds the mutex the other functions lock:
whatever the threads do, no send returns, and a caller that waits to send, to stop the server or to
start it waits on, unless the run of the server object throws.\<close>

theorem serving_blocks_callers:
  assumes "serving s" and "Server_steps False \<notin> set as"
    and "run_actions socket_step as s = Some s'"
  shows "serving s' \<and> ws_results s' = ws_results s \<and>
    (\<forall>c. waits_for_mutex c s \<longrightarrow> ws_callers s' c = ws_callers s c)"
  using serving_run.kept_run [OF assms(3) _ serving_shut_out [OF assms(1)]] assms(2)
  by (fastforce simp: shut_out_def)

text \<open>The server started the usual way, a client frame to send and then the request to stop.\<close>

definition serving_actions :: "socket_action list" where
  "serving_actions =
     [Call_start 0, Caller_steps 0 True, Caller_steps 0 True, Server_steps True, Server_steps True,
      Server_steps True, Server_steps True, Call_send 1, Call_stop 0]"

definition serving_state :: web_socket where
  "serving_state =
     \<lparr>ws_running = False, ws_ready = True, ws_server = Some False, ws_server_at = Server_run,
      ws_broadcast = True, ws_callers = (\<lambda>_. Outside)(1 := Send_lock, 0 := Stop_lock), ws_results = [],
      ws_terminated = False\<rparr>"

lemma serving_reached: "run_actions socket_step serving_actions web_socket_new = Some serving_state"
  by (simp add: serving_actions_def serving_state_def web_socket_new_def socket_defs fun_upd_twist)

lemma serving_blocks_callers_witness:
  "\<exists>s. run_actions socket_step serving_actions web_socket_new = Some s \<and>
     (\<forall>as s'. Server_steps False \<notin> set as \<longrightarrow> run_actions socket_step as s = Some s' \<longrightarrow>
        ws_callers s' 0 = Stop_lock \<and> ws_callers s' 1 = Send_lock \<and> ws_results s' = [])"
proof -
  have "serving serving_state" and "waits_for_mutex 0 serving_state" and "waits_for_mutex 1 serving_state"
    by (simp_all add: serving_def serving_state_def waits_for_mutex_def)
  then have "ws_callers s' 0 = Stop_lock \<and> ws_callers s' 1 = Send_lock \<and> ws_results s' = []"
    if "Server_steps False \<notin> set as" "run_actions socket_step as serving_state = Some s'" for as s'
    using serving_blocks_callers [OF _ that] by (simp add: serving_state_def)
  then show ?thesis using serving_reached by blast
qed

end
