(* ===== verification/Services.thy ===== *)
theory Services
  imports Prelude
begin

text \<open>
  \<open>publisher.cpp\<close> and \<open>services/service.cpp\<close>: the publish-subscribe fabric all services hang on,
  and the life cycle of a service. Services are identified by an arbitrary type; the net maps
  each to its subscriber list, the services it subscribed to and its flags. Publishing returns
  the deliveries in order. The interface \<open>service_operation\<close> says what an operation on the net
  keeps; every operation of the code is shown to be one.
\<close>

section \<open>State\<close>

text \<open>The services of the program.\<close>

datatype service_id =
    ExpressionService | PerceptionService | LandmarkTrackerService | MappingService | TuiService
  | RobotControllerService | RemoteConnectionService | InteractiveChatService | RagService
  | VoiceAgentService

record 's service =
  sc_subscribers :: "'s list"
  sc_subscribedServices :: "'s list"
  sc_running :: bool
  sc_initialized :: bool
  sc_disabled :: bool

type_synonym 's net = "'s \<Rightarrow> 's service"

definition service_new :: "'s service" where
  "service_new =
     \<lparr>sc_subscribers = [], sc_subscribedServices = [], sc_running = False, sc_initialized = False,
      sc_disabled = False\<rparr>"

section \<open>Publisher\<close>

definition subscribe :: "'s \<Rightarrow> 's \<Rightarrow> 's net \<Rightarrow> 's net" where
  "subscribe p subscriber n =
     n(p := (n p)\<lparr>sc_subscribers := sc_subscribers (n p) @ [subscriber]\<rparr>)"

definition un_subscribe :: "'s \<Rightarrow> 's \<Rightarrow> 's net \<Rightarrow> 's net" where
  "un_subscribe p subscriber n =
     n(p := (n p)\<lparr>sc_subscribers := filter (\<lambda>s. s \<noteq> subscriber) (sc_subscribers (n p))\<rparr>)"

text \<open>The deliveries of one \<open>publish\<close>: to every subscriber in list order.\<close>

definition publish :: "'s \<Rightarrow> 'm \<Rightarrow> 's net \<Rightarrow> ('s \<times> 'm) list" where
  "publish p msg n = map (\<lambda>s. (s, msg)) (sc_subscribers (n p))"

section \<open>Service: subscriptions\<close>

definition subscribe_to_service :: "'s \<Rightarrow> 's \<Rightarrow> 's net \<Rightarrow> 's net" where
  "subscribe_to_service self p n =
     (if p \<notin> set (sc_subscribedServices (n self))
      then let n1 = subscribe p self n
           in n1(self := (n1 self)\<lparr>sc_subscribedServices := sc_subscribedServices (n1 self) @ [p]\<rparr>)
      else n)"

definition unsubscribe_from_service :: "'s \<Rightarrow> 's \<Rightarrow> 's net \<Rightarrow> 's net" where
  "unsubscribe_from_service self p n =
     (if p \<in> set (sc_subscribedServices (n self))
      then let n1 = un_subscribe p self n
           in n1(self := (n1 self)\<lparr>sc_subscribedServices :=
                filter (\<lambda>q. q \<noteq> p) (sc_subscribedServices (n1 self))\<rparr>)
      else n)"

definition unsubscribe_all_services :: "'s \<Rightarrow> 's net \<Rightarrow> 's net" where
  "unsubscribe_all_services self n =
     (let n1 = fold (\<lambda>p m. un_subscribe p self m) (sc_subscribedServices (n self)) n
      in n1(self := (n1 self)\<lparr>sc_subscribedServices := []\<rparr>))"

section \<open>Service: life cycle\<close>

text \<open>
  The virtual \<open>initialize()\<close> of the service is the argument \<open>init\<close>: it may subscribe to
  services and says whether it succeeded.
\<close>

definition service_start :: "('s net \<Rightarrow> bool \<times> 's net) \<Rightarrow> 's \<Rightarrow> 's net \<Rightarrow> bool \<times> 's net" where
  "service_start init self n =
     (if \<not> sc_disabled (n self)
      then if \<not> sc_running (n self)
           then if \<not> sc_initialized (n self)
                then let (ret, n1) = init n
                     in if \<not> ret then (False, n1(self := (n1 self)\<lparr>sc_initialized := False\<rparr>))
                        else (True, n1(self := (n1 self)\<lparr>sc_initialized := True, sc_running := True\<rparr>))
                else (True, n(self := (n self)\<lparr>sc_running := True\<rparr>))
           else (False, n)
      else (False, n))"

text \<open>\<open>run()\<close> executes the service function on the caller's thread; only its guard is shared state.\<close>

definition service_run :: "'s \<Rightarrow> 's net \<Rightarrow> 's net" where
  "service_run self n =
     (if \<not> sc_disabled (n self) \<and> \<not> sc_running (n self)
      then n(self := (n self)\<lparr>sc_running := True\<rparr>) else n)"

definition service_stop :: "'s \<Rightarrow> 's net \<Rightarrow> bool \<times> 's net" where
  "service_stop self n =
     (if sc_running (n self) then (True, n(self := (n self)\<lparr>sc_running := False\<rparr>)) else (True, n))"

definition service_disable :: "'s \<Rightarrow> 's net \<Rightarrow> 's net" where
  "service_disable self n =
     (if sc_running (n self) then n else n(self := (n self)\<lparr>sc_disabled := True\<rparr>))"

definition service_enable :: "'s \<Rightarrow> 's net \<Rightarrow> 's net" where
  "service_enable self n = n(self := (n self)\<lparr>sc_disabled := False\<rparr>)"

definition is_running :: "'s \<Rightarrow> 's net \<Rightarrow> bool" where
  "is_running self n = sc_running (n self)"

section \<open>The two lists agree\<close>

text \<open>
  A service is in a publisher's list exactly when the publisher is in the service's, and
  neither list repeats an entry. This is the contract publishing relies on.
\<close>

definition net_ok :: "'s net \<Rightarrow> bool" where
  "net_ok n \<longleftrightarrow>
     (\<forall>p s. s \<in> set (sc_subscribers (n p)) \<longleftrightarrow> p \<in> set (sc_subscribedServices (n s))) \<and>
     (\<forall>p. distinct (sc_subscribers (n p)) \<and> distinct (sc_subscribedServices (n p)))"

definition subscribed :: "'s net \<Rightarrow> ('s \<times> 's) set" where
  "subscribed n = {(s, p). p \<in> set (sc_subscribedServices (n s))}"

lemma sc_lists_subscribe [simp]:
  "sc_subscribers (subscribe p s n q) = sc_subscribers (n q) @ (if q = p then [s] else [])"
  "sc_subscribedServices (subscribe p s n q) = sc_subscribedServices (n q)"
  by (simp_all add: subscribe_def)

lemma sc_lists_un_subscribe [simp]:
  "sc_subscribers (un_subscribe p s n q) =
     (if q = p then filter (\<lambda>x. x \<noteq> s) (sc_subscribers (n q)) else sc_subscribers (n q))"
  "sc_subscribedServices (un_subscribe p s n q) = sc_subscribedServices (n q)"
  by (simp_all add: un_subscribe_def)

lemma fold_un_subscribe:
  "sc_subscribers (fold (\<lambda>p m. un_subscribe p s m) ps n q) =
     (if q \<in> set ps then filter (\<lambda>x. x \<noteq> s) (sc_subscribers (n q)) else sc_subscribers (n q))"
  "sc_subscribedServices (fold (\<lambda>p m. un_subscribe p s m) ps n q) = sc_subscribedServices (n q)"
  by (induction ps arbitrary: n) auto

lemma net_ok_subscribe_to:
  assumes "net_ok n"
  shows "net_ok (subscribe_to_service self p n)"
    and "subscribed (subscribe_to_service self p n) = insert (self, p) (subscribed n)"
  using assms
  by (auto simp: net_ok_def subscribe_to_service_def Let_def subscribed_def split: if_splits)

lemma net_ok_unsubscribe_from:
  assumes "net_ok n"
  shows "net_ok (unsubscribe_from_service self p n)"
    and "subscribed (unsubscribe_from_service self p n) = subscribed n - {(self, p)}"
  using assms
  by (auto simp: net_ok_def unsubscribe_from_service_def Let_def subscribed_def split: if_splits)

lemma net_ok_unsubscribe_all:
  assumes "net_ok n"
  shows "net_ok (unsubscribe_all_services self n)"
    and "subscribed (unsubscribe_all_services self n) = subscribed n - {self} \<times> UNIV"
  using assms
  by (auto simp: net_ok_def unsubscribe_all_services_def Let_def subscribed_def fold_un_subscribe
      split: if_splits)

text \<open>An operation of the net keeps the contract, and the life-cycle operations keep the lists.\<close>

locale service_operation =
  fixes oper :: "'s net \<Rightarrow> 's net"
  assumes keeps_ok: "net_ok n \<Longrightarrow> net_ok (oper n)"
begin

lemma repeated: "net_ok n \<Longrightarrow> net_ok ((oper ^^ k) n)"
  by (induction k) (simp_all add: keeps_ok)

lemma publish_once:
  "net_ok n \<Longrightarrow> publish p msg (oper n) = ds \<Longrightarrow>
   distinct ds \<and> set ds = {(s, msg) | s. (s, p) \<in> subscribed (oper n)}"
  using keeps_ok [of n]
  by (auto simp: net_ok_def publish_def subscribed_def distinct_map inj_on_def)

end

lemma net_ok_lists:
  assumes "\<And>q. sc_subscribers (n' q) = sc_subscribers (n q)"
    and "\<And>q. sc_subscribedServices (n' q) = sc_subscribedServices (n q)"
  shows "net_ok n' = net_ok n"
  unfolding net_ok_def assms ..

lemma net_ok_flags [simp]:
  "net_ok (n(q := (n q)\<lparr>sc_running := b\<rparr>)) = net_ok n"
  "net_ok (n(q := (n q)\<lparr>sc_initialized := b\<rparr>)) = net_ok n"
  "net_ok (n(q := (n q)\<lparr>sc_disabled := b\<rparr>)) = net_ok n"
  "net_ok (n(q := (n q)\<lparr>sc_initialized := b, sc_running := c\<rparr>)) = net_ok n"
  by (rule net_ok_lists; simp)+

interpretation sub_op: service_operation "subscribe_to_service self p" for self p
  by unfold_locales (rule net_ok_subscribe_to)

interpretation unsub_op: service_operation "unsubscribe_from_service self p" for self p
  by unfold_locales (rule net_ok_unsubscribe_from)

interpretation unsub_all_op: service_operation "unsubscribe_all_services self" for self
  by unfold_locales (rule net_ok_unsubscribe_all)

interpretation stop_op: service_operation "\<lambda>n. snd (service_stop self n)" for self
  by unfold_locales (simp add: service_stop_def)

interpretation disable_op: service_operation "service_disable self" for self
  by unfold_locales (simp add: service_disable_def)

interpretation enable_op: service_operation "service_enable self" for self
  by unfold_locales (simp add: service_enable_def)

interpretation run_op: service_operation "service_run self" for self
  by unfold_locales (simp add: service_run_def)

text \<open>Starting keeps the contract when the service's own initialisation does.\<close>

lemma start_keeps_ok:
  assumes "service_operation (\<lambda>n. snd (init n))"
  shows "service_operation (\<lambda>n. snd (service_start init self n))"
proof
  fix n :: "'a net"
  assume "net_ok n"
  then have "net_ok (snd (init n))"
    by (rule service_operation.keeps_ok [OF assms])
  with \<open>net_ok n\<close> show "net_ok (snd (service_start init self n))"
    by (simp add: service_start_def case_prod_beta Let_def)
qed

section \<open>A session of operations\<close>

datatype 's operation =
    Op_subscribe 's 's | Op_unsubscribe 's 's | Op_unsubscribe_all 's
  | Op_start 's | Op_stop 's | Op_disable 's | Op_enable 's

text \<open>The operations in any order, with an initialisation per service that subscribes to a list.\<close>

definition init_by_list :: "('s \<Rightarrow> 's list) \<Rightarrow> ('s \<Rightarrow> bool) \<Rightarrow> 's \<Rightarrow> 's net \<Rightarrow> bool \<times> 's net" where
  "init_by_list targets ok self n = (ok self, fold (subscribe_to_service self) (targets self) n)"

fun perform_operation ::
    "('s \<Rightarrow> 's list) \<Rightarrow> ('s \<Rightarrow> bool) \<Rightarrow> 's operation \<Rightarrow> 's net \<Rightarrow> 's net" where
  "perform_operation targets ok (Op_subscribe s p) n = subscribe_to_service s p n"
| "perform_operation targets ok (Op_unsubscribe s p) n = unsubscribe_from_service s p n"
| "perform_operation targets ok (Op_unsubscribe_all s) n = unsubscribe_all_services s n"
| "perform_operation targets ok (Op_start s) n = snd (service_start (init_by_list targets ok s) s n)"
| "perform_operation targets ok (Op_stop s) n = snd (service_stop s n)"
| "perform_operation targets ok (Op_disable s) n = service_disable s n"
| "perform_operation targets ok (Op_enable s) n = service_enable s n"

lemma init_by_list_operation: "service_operation (\<lambda>n. snd (init_by_list targets ok s n))"
proof
  fix n :: "'a net"
  assume "net_ok n"
  then show "net_ok (snd (init_by_list targets ok s n))"
    by (simp add: init_by_list_def) (rule fold_preserves [where P = net_ok], rule net_ok_subscribe_to)
qed

lemma perform_operation_ok: "net_ok n \<Longrightarrow> net_ok (perform_operation targets ok a n)"
  using service_operation.keeps_ok [OF start_keeps_ok [OF init_by_list_operation]]
  by (cases a)
    (simp_all add: net_ok_subscribe_to net_ok_unsubscribe_from net_ok_unsubscribe_all stop_op.keeps_ok
      disable_op.keeps_ok enable_op.keeps_ok)

interpretation session: service_operation "\<lambda>n. fold (perform_operation targets ok) ops n" for targets ok ops
proof
  show "net_ok n \<Longrightarrow> net_ok (fold (perform_operation targets ok) ops n)" for n
    by (rule fold_preserves [where P = net_ok]) (simp_all add: perform_operation_ok)
qed

lemma net_ok_new: "net_ok (\<lambda>_. service_new)"
  by (simp add: net_ok_def service_new_def)

section \<open>Properties\<close>

text \<open>C16: after any sequence of subscribing, unsubscribing, starting, stopping, enabling and
disabling, a published message reaches exactly the services subscribed to the publisher, each
of them once.\<close>

theorem publish_reaches_subscribers_once:
  assumes "n = fold (perform_operation targets ok) ops (\<lambda>_. service_new)"
  shows "distinct (publish p msg n) \<and> set (publish p msg n) = {(s, msg) | s. (s, p) \<in> subscribed n}"
  using session.publish_once [OF net_ok_new refl] unfolding assms .

lemma subscribed_new: "subscribed (\<lambda>_. service_new) = {}"
  by (simp add: subscribed_def service_new_def)

lemma publish_reaches_subscribers_once_witness:
  "set (publish (1 :: nat) ''hi'' (fold (perform_operation (\<lambda>_. []) (\<lambda>_. True))
     [Op_subscribe 2 1, Op_subscribe 3 1, Op_unsubscribe 3 1] (\<lambda>_. service_new))) = {(2, ''hi'')}"
  using publish_reaches_subscribers_once [OF refl, of "1 :: nat" "''hi''" "\<lambda>_. []" "\<lambda>_. True"
      "[Op_subscribe 2 1, Op_subscribe 3 1, Op_unsubscribe 3 1]"]
  by (auto simp: net_ok_subscribe_to net_ok_unsubscribe_from net_ok_new subscribed_new)

text \<open>A start reports success exactly when the service is enabled, not running, and either
initialised before or its initialisation succeeds now; then it runs and is initialised, and a
service once initialised is never initialised again.\<close>

lemma start_succeeds_iff:
  assumes "service_start init self n = (ok, n')"
  shows "(ok \<longleftrightarrow> \<not> sc_disabled (n self) \<and> \<not> sc_running (n self) \<and>
            (sc_initialized (n self) \<or> fst (init n))) \<and>
    (ok \<longrightarrow> sc_running (n' self) \<and> sc_initialized (n' self)) \<and>
    (sc_initialized (n self) \<longrightarrow> (\<forall>init'. service_start init' self n = (ok, n')))"
  using assms by (auto simp: service_start_def case_prod_beta Let_def split: if_splits)

lemma start_succeeds_iff_witness:
  "fst (service_start (init_by_list (\<lambda>_. []) (\<lambda>_. True) (7 :: nat)) 7 (\<lambda>_. service_new))"
  using start_succeeds_iff [OF prod.collapse [symmetric], of "init_by_list (\<lambda>_. []) (\<lambda>_. True) (7 :: nat)" 7
      "\<lambda>_. service_new"]
  by (simp add: service_new_def init_by_list_def)

end
