(* ===== verification/Servo.thy ===== *)
theory Servo
  imports DC_Motor Json_Value
begin

text \<open>
  \<open>controllers/servo_motor_controller.cpp\<close>. A joint is moved in steps: each step sends a
  pulse, sleeps, records the angle as a byte and saves all angles to a file. The loop is
  \<open>servo_loop\<close>, which need not end for a step below 1 (\<open>None\<close>); for a positive step it is
  shown to walk exactly the list \<open>servo_path\<close>.
\<close>

section \<open>State\<close>

record servo = controller +
  sv_address :: int
  sv_driver :: i2c_device
  sv_angles :: joint_angles

definition servo_initial_angles :: joint_angles where
  "servo_initial_angles =
     [J_rightArm \<mapsto> 15, J_leftArm \<mapsto> 170, J_neck \<mapsto> 30, J_headUpDown \<mapsto> 15,
      J_headLeftRight \<mapsto> 90, J_eyeRight \<mapsto> 160, J_eyeLeft \<mapsto> 20]"

text \<open>\<open>map[joint]\<close> on a \<open>std::map\<close> creates a missing entry as 0.\<close>

definition angle_of :: "joint_angles \<Rightarrow> ServoMotorJoint \<Rightarrow> u8" where
  "angle_of m j = (case m j of None \<Rightarrow> 0 | Some a \<Rightarrow> a)"

definition angle_list :: "joint_angles \<Rightarrow> (ServoMotorJoint \<times> u8) list" where
  "angle_list m = [(j, angle_of m j). j \<leftarrow> joints, m j \<noteq> None]"

section \<open>Saving and loading the angles\<close>

text \<open>What the saved-angles file holds when it is read back.\<close>

datatype saved_file = File_unopened | File_empty | File_invalid | File_json json

definition initSaveFile :: "environ \<Rightarrow> world \<Rightarrow> world" where
  "initSaveFile E w = snd (ask E File_create w)"

definition saveJointAngles :: "servo \<Rightarrow> world \<Rightarrow> world" where
  "saveJointAngles s w = tell (File_save (angle_list (sv_angles s))) w"

definition angles_json :: "joint_angles \<Rightarrow> json" where
  "angles_json m =
     JObject (sort_key fst (map (\<lambda>(j, a). (Servo_Motor_Joint_Names j, JInt (uint a))) (angle_list m)))"

text \<open>
  Loading replaces the angle of each joint of the map by the file's, in joint order; an
  exception leaves the joints loaded so far and is caught.
\<close>

fun load_joints :: "json \<Rightarrow> ServoMotorJoint list \<Rightarrow> joint_angles \<Rightarrow> joint_angles" where
  "load_joints data [] m = m"
| "load_joints data (j # js) m =
     (case m j of
        None \<Rightarrow> load_joints data js m
      | Some a \<Rightarrow>
          (case json_value json_get_int data (Servo_Motor_Joint_Names j) (uint a) of
             Inl e \<Rightarrow> m
           | Inr v \<Rightarrow> load_joints data js (m(j \<mapsto> u8_of_int v))))"

fun loadJointAngles :: "saved_file \<Rightarrow> servo \<Rightarrow> servo" where
  "loadJointAngles (File_json data) s = s\<lparr>sv_angles := load_joints data joints (sv_angles s)\<rparr>"
| "loadJointAngles _ s = s"

definition servo_initialize ::
    "environ \<Rightarrow> saved_file \<Rightarrow> servo \<Rightarrow> world \<Rightarrow> bool \<times> servo \<times> world" where
  "servo_initialize E file s w =
     (let (ret, d, w1) = initPCA9685 E (sv_address s) (sv_driver s) w
      in if ret
         then let w2 = setPWMFrequency E d 50 w1;
                  s1 = s\<lparr>sv_driver := d, sv_angles := servo_initial_angles, ct_initialized := True\<rparr>;
                  w3 = initSaveFile E w2
              in (True, loadJointAngles file s1, w3)
         else (False, s\<lparr>sv_driver := d, ct_initialized := False\<rparr>, w1))"

definition servo_shutdown :: "servo \<Rightarrow> world \<Rightarrow> servo \<times> world" where
  "servo_shutdown s w =
     (let (d, w1) = I2CDevice_shutdown (sv_driver s) w
      in (s\<lparr>sv_driver := d, ct_initialized := False\<rparr>, w1))"

section \<open>Moving a joint\<close>

text \<open>\<open>int pulse = 500 + (currentAngle / 180.0) * 2000;\<close>\<close>

definition servo_pulse :: "int \<Rightarrow> int" where
  "servo_pulse currentAngle =
     ftrunc (fadd dbl_prec (fof_int dbl_prec 500)
       (fmul dbl_prec (fdiv dbl_prec (fof_int dbl_prec currentAngle) (fof_int dbl_prec 180))
          (fof_int dbl_prec 2000)))"

text \<open>One pass of the loop body for the (already clamped) angle.\<close>

definition servo_step ::
    "environ \<Rightarrow> ServoMotorJoint \<Rightarrow> int \<Rightarrow> int \<Rightarrow> servo \<times> world \<Rightarrow> servo \<times> world" where
  "servo_step E joint delayMs currentAngle sw =
     (let (s, w) = sw;
          w1 = setDutyCyclePulse E (sv_driver s) (joint_index joint) (servo_pulse currentAngle) w;
          w2 = tell (Sleep_us (delayMs * 1000)) w1;
          s1 = s\<lparr>sv_angles := (sv_angles s)(joint \<mapsto> u8_of_int currentAngle)\<rparr>
      in (s1, saveJointAngles s1 w2))"

definition servo_next :: "int \<Rightarrow> int \<Rightarrow> int \<Rightarrow> int \<Rightarrow> int" where
  "servo_next targetAngle direction step currentAngle =
     (let c = currentAngle + direction * step
      in if (direction = 1 \<and> c > targetAngle) \<or> (direction = -1 \<and> c < targetAngle)
         then targetAngle else c)"

partial_function (option) servo_loop ::
    "environ \<Rightarrow> ServoMotorJoint \<Rightarrow> int \<Rightarrow> int \<Rightarrow> int \<Rightarrow> int \<Rightarrow> int \<Rightarrow> servo \<times> world \<Rightarrow>
     (servo \<times> world) option" where
  "servo_loop E joint targetAngle direction step delayMs currentAngle sw =
     (if currentAngle = targetAngle then Some sw
      else let c = servo_next targetAngle direction step currentAngle
           in servo_loop E joint targetAngle direction step delayMs c
                (servo_step E joint delayMs c sw))"

definition setJointAngle ::
    "environ \<Rightarrow> ServoMotorJoint \<Rightarrow> int \<Rightarrow> int \<Rightarrow> int \<Rightarrow> servo \<Rightarrow> world \<Rightarrow>
     (servo \<times> world) option" where
  "setJointAngle E joint targetAngle step delayMs s w =
     (if \<not> isEnabled s \<or> \<not> isReady s then Some (s, w)
      else let currentAngle = uint (angle_of (sv_angles s) joint);
               direction = (if targetAngle > currentAngle then 1 else -1)
           in map_option
                (\<lambda>(s', w'). (s'\<lparr>sv_angles := (sv_angles s')(joint \<mapsto> u8_of_int targetAngle)\<rparr>, w'))
                (servo_loop E joint targetAngle direction step delayMs currentAngle (s, w)))"

text \<open>The default arguments \<open>step = 1\<close>, \<open>delayMs = 5\<close>.\<close>

definition setJoint ::
    "environ \<Rightarrow> ServoMotorJoint \<Rightarrow> int \<Rightarrow> servo \<Rightarrow> world \<Rightarrow> (servo \<times> world) option" where
  "setJoint E joint targetAngle s w = setJointAngle E joint targetAngle 1 5 s w"

definition getAllJointsAngle :: "servo \<Rightarrow> joint_angles" where
  "getAllJointsAngle s = sv_angles s"

fun set_joints ::
    "environ \<Rightarrow> (ServoMotorJoint \<times> u8) list \<Rightarrow> servo \<Rightarrow> world \<Rightarrow> (servo \<times> world) option" where
  "set_joints E [] s w = Some (s, w)"
| "set_joints E ((j, a) # ps) s w =
     (case setJoint E j (uint a) s w of None \<Rightarrow> None | Some (s', w') \<Rightarrow> set_joints E ps s' w')"

definition setAllJointsAngle ::
    "environ \<Rightarrow> joint_angles \<Rightarrow> servo \<Rightarrow> world \<Rightarrow> (servo \<times> world) option" where
  "setAllJointsAngle E angles s w = set_joints E (angle_list angles) s w"

section \<open>The loop walks the path\<close>

lemma servo_next_eq:
  "servo_next t direction step c =
     (if (direction = 1 \<and> c + direction * step > t) \<or> (direction = -1 \<and> c + direction * step < t)
      then t else c + direction * step)"
  by (simp add: servo_next_def Let_def)

function servo_path :: "int \<Rightarrow> int \<Rightarrow> int \<Rightarrow> int list" where
  "servo_path targetAngle step c =
     (if c = targetAngle \<or> step < 1 then []
      else let n = servo_next targetAngle (if targetAngle > c then 1 else -1) step c
           in n # servo_path targetAngle step n)"
  by pat_completeness auto
termination
  by (relation "measure (\<lambda>(t, step, c). nat \<bar>t - c\<bar>)") (auto simp: servo_next_eq)

declare servo_path.simps [simp del]

lemma servo_path_done [simp]: "servo_path t step t = []"
  by (simp add: servo_path.simps)

lemma servo_path_step:
  "c \<noteq> t \<Longrightarrow> 1 \<le> step \<Longrightarrow>
   servo_path t step c =
     (let n = servo_next t (if t > c then 1 else -1) step c in n # servo_path t step n)"
  by (subst servo_path.simps) simp

lemma servo_next_direction:
  "1 \<le> step \<Longrightarrow> c \<noteq> t \<Longrightarrow> n = servo_next t (if t > c then 1 else -1) step c \<Longrightarrow> n \<noteq> t \<Longrightarrow>
   (if t > n then 1 else -1 :: int) = (if t > c then 1 else -1)"
  by (auto simp: servo_next_eq split: if_splits)

lemma servo_loop_path:
  "1 \<le> step \<Longrightarrow> direction = (if t > c then 1 else -1) \<Longrightarrow>
   servo_loop E j t direction step ms c sw = Some (fold (servo_step E j ms) (servo_path t step c) sw)"
proof (induction t step c arbitrary: direction sw rule: servo_path.induct)
  case (1 t step c)
  show ?case
  proof (cases "c = t")
    case True
    then show ?thesis by (simp add: servo_loop.simps)
  next
    case False
    define n where "n = servo_next t direction step c"
    have "servo_loop E j t direction step ms n sw' =
        Some (fold (servo_step E j ms) (servo_path t step n) sw')" for sw'
    proof (cases "n = t")
      case True
      then show ?thesis by (simp add: servo_loop.simps)
    next
      case n: False
      have "direction = (if t > n then 1 else -1)"
        using servo_next_direction [OF "1.prems"(1) False] n "1.prems" n_def by simp
      then show ?thesis
        using "1.IH" False "1.prems" n_def by simp
    qed
    then show ?thesis
      using False "1.prems" n_def by (subst servo_loop.simps) (simp add: servo_path_step Let_def)
  qed
qed

lemma servo_path_between:
  "x \<in> set (servo_path t step c) \<Longrightarrow> min c t \<le> x \<and> x \<le> max c t"
proof (induction t step c rule: servo_path.induct)
  case (1 t step c)
  define n where "n = servo_next t (if t > c then 1 else -1) step c"
  have c: "c \<noteq> t" "1 \<le> step"
    using "1.prems" by (auto simp: servo_path.simps [of t step c] split: if_splits)
  then have n: "min c t \<le> n \<and> n \<le> max c t"
    by (auto simp: n_def servo_next_eq)
  from "1.prems" c have "x = n \<or> x \<in> set (servo_path t step n)"
    by (simp add: servo_path_step Let_def n_def)
  then show ?case
    using n "1.IH" [OF _ n_def] c by auto
qed

lemma servo_path_last: "1 \<le> step \<Longrightarrow> last (c # servo_path t step c) = t"
proof (induction t step c rule: servo_path.induct)
  case (1 t step c)
  show ?case
  proof (cases "c = t")
    case False
    with 1 show ?thesis by (simp add: servo_path_step Let_def)
  qed simp
qed

lemma servo_path_smooth:
  "1 \<le> step \<Longrightarrow> successively (\<lambda>a b. \<bar>b - a\<bar> \<le> step) (c # servo_path t step c)"
proof (induction t step c rule: servo_path.induct)
  case (1 t step c)
  show ?case
  proof (cases "c = t")
    case False
    define n where "n = servo_next t (if t > c then 1 else -1) step c"
    have "\<bar>n - c\<bar> \<le> step"
      using "1.prems" False by (auto simp: n_def servo_next_eq)
    with 1 False show ?thesis
      by (simp add: servo_path_step Let_def flip: n_def)
  qed simp
qed

lemma servo_path_length_1: "length (servo_path t 1 c) = nat \<bar>t - c\<bar>"
proof (induction t "1 :: int" c rule: servo_path.induct)
  case (1 t c)
  show ?case
  proof (cases "c = t")
    case False
    have "servo_next t (if t > c then 1 else -1) 1 c = (if t > c then c + 1 else c - 1)"
      using False by (simp add: servo_next_eq)
    with 1 False show ?thesis
      by (auto simp: servo_path_step Let_def Suc_nat_eq_nat_zadd1)
  qed simp
qed

section \<open>The effect of a call\<close>

lemma servo_step_frame:
  "sv_driver (fst (servo_step E j ms a sw)) = sv_driver (fst sw)"
  "ct_enable (fst (servo_step E j ms a sw)) = ct_enable (fst sw)"
  "ct_initialized (fst (servo_step E j ms a sw)) = ct_initialized (fst sw)"
  "sv_address (fst (servo_step E j ms a sw)) = sv_address (fst sw)"
  "sv_angles (fst (servo_step E j ms a sw)) = (sv_angles (fst sw))(j \<mapsto> u8_of_int a)"
  by (simp_all add: servo_step_def Let_def split: prod.split)

lemma servo_fold_frame:
  "sv_driver (fst (fold (servo_step E j ms) as sw)) = sv_driver (fst sw)"
  "ct_enable (fst (fold (servo_step E j ms) as sw)) = ct_enable (fst sw)"
  "ct_initialized (fst (fold (servo_step E j ms) as sw)) = ct_initialized (fst sw)"
  "sv_address (fst (fold (servo_step E j ms) as sw)) = sv_address (fst sw)"
  "k \<noteq> j \<Longrightarrow> sv_angles (fst (fold (servo_step E j ms) as sw)) k = sv_angles (fst sw) k"
  by (rule fold_unchanged, simp add: servo_step_frame)+

lemma joint_channel [simp]: "pwm_channel (joint_index j)"
  using joint_index_range [of j] by (simp add: pwm_channel_def)

text \<open>The count a servo channel holds for an angle.\<close>

definition servo_count :: "int \<Rightarrow> int" where
  "servo_count a = ((servo_pulse a * 4096) sdiv 20000) mod 65536"

lemma channel_duty_tell [simp]:
  "\<not> is_write8 q \<Longrightarrow> channel_duty fd c (tell q w) = channel_duty fd c w"
  by (simp add: channel_duty_def channel_word_def)

lemma servo_step_duty:
  "pwm_channel c \<Longrightarrow> fd = i2cFd (sv_driver (fst sw)) \<Longrightarrow>
   channel_duty fd c (snd (servo_step E j ms a sw)) =
     (if c = joint_index j then Some (0, servo_count a) else channel_duty fd c (snd sw))"
  by (cases sw)
    (simp add: servo_step_def Let_def saveJointAngles_def setDutyCyclePulse_def pca.duty_set
      servo_count_def)

lemma servo_fold_duty:
  "pwm_channel c \<Longrightarrow>
   channel_duty (i2cFd (sv_driver (fst sw))) c (snd (fold (servo_step E j ms) as sw)) =
     (if c = joint_index j \<and> as \<noteq> [] then Some (0, servo_count (last as))
      else channel_duty (i2cFd (sv_driver (fst sw))) c (snd sw))"
proof (induction as arbitrary: sw)
  case Nil
  then show ?case by simp
next
  case (Cons a as)
  from Cons.IH [of "servo_step E j ms a sw"] Cons.prems show ?case
    by (simp add: servo_step_frame servo_step_duty)
qed

definition joint_path :: "servo \<Rightarrow> ServoMotorJoint \<Rightarrow> int \<Rightarrow> int \<Rightarrow> int list" where
  "joint_path s joint targetAngle step =
     servo_path targetAngle step (uint (angle_of (sv_angles s) joint))"

lemma setJointAngle_inactive: "\<not> active s \<Longrightarrow> setJointAngle E j t step ms s w = Some (s, w)"
  by (auto simp: setJointAngle_def active_def)

lemma setJointAngle_active:
  assumes "active s" and "1 \<le> step"
  shows "setJointAngle E j t step ms s w =
     (let (s', w') = fold (servo_step E j ms) (joint_path s j t step) (s, w)
      in Some (s'\<lparr>sv_angles := (sv_angles s')(j \<mapsto> u8_of_int t)\<rparr>, w'))"
  using assms
  by (simp add: setJointAngle_def joint_path_def activeD servo_loop_path case_prod_beta Let_def)

text \<open>With a positive step a call always returns.\<close>

lemma setJointAngle_returns: "1 \<le> step \<Longrightarrow> \<exists>s' w'. setJointAngle E j t step ms s w = Some (s', w')"
  by (cases "active s") (simp_all add: setJointAngle_active setJointAngle_inactive case_prod_beta Let_def)

lemma setJointAngle_frame:
  assumes "setJointAngle E j t step ms s w = Some (s', w')" and "1 \<le> step"
  shows "sv_driver s' = sv_driver s" "ct_enable s' = ct_enable s"
    "ct_initialized s' = ct_initialized s" "sv_address s' = sv_address s"
    "k \<noteq> j \<Longrightarrow> sv_angles s' k = sv_angles s k"
    "active s \<Longrightarrow> sv_angles s' j = Some (u8_of_int t)"
    "dom (sv_angles s) \<subseteq> dom (sv_angles s')"
proof -
  let ?r = "fold (servo_step E j ms) (joint_path s j t step) (s, w)"
  note fr = servo_fold_frame [where E = E and j = j and ms = ms and sw = "(s, w)" and
    as = "joint_path s j t step"]
  have *: "s' = s \<and> \<not> active s \<or>
     s' = (fst ?r)\<lparr>sv_angles := (sv_angles (fst ?r))(j \<mapsto> u8_of_int t)\<rparr>"
    using assms by (cases "active s")
      (auto simp: setJointAngle_inactive setJointAngle_active case_prod_beta Let_def)
  then show "sv_driver s' = sv_driver s" "ct_enable s' = ct_enable s"
    "ct_initialized s' = ct_initialized s" "sv_address s' = sv_address s"
    using fr by auto
  show k: "k \<noteq> j \<Longrightarrow> sv_angles s' k = sv_angles s k" for k
    using * fr by auto
  show "active s \<Longrightarrow> sv_angles s' j = Some (u8_of_int t)"
    using * by auto
  show "dom (sv_angles s) \<subseteq> dom (sv_angles s')"
  proof
    fix k assume "k \<in> dom (sv_angles s)"
    then show "k \<in> dom (sv_angles s')"
      using * k [of k] by (cases "k = j") (auto simp: dom_def)
  qed
qed

lemma setJointAngle_duty:
  assumes "setJointAngle E j t step ms s w = Some (s', w')" and "1 \<le> step" and "pwm_channel c"
  shows "channel_duty (i2cFd (sv_driver s)) c w' =
     (if c = joint_index j \<and> active s \<and> uint (angle_of (sv_angles s) j) \<noteq> t
      then Some (0, servo_count t) else channel_duty (i2cFd (sv_driver s)) c w)"
proof (cases "active s")
  case False
  with assms show ?thesis by (simp add: setJointAngle_inactive)
next
  case True
  let ?c = "uint (angle_of (sv_angles s) j)"
  have "last (servo_path t step ?c) = t" "servo_path t step ?c \<noteq> []" if "?c \<noteq> t"
    using servo_path_last [of step ?c t] assms(2) that
    by (simp_all add: servo_path_step Let_def split: if_splits)
  then show ?thesis
    using assms True servo_fold_duty [of c "(s, w)" E j ms "joint_path s j t step"]
    by (auto simp: setJointAngle_active joint_path_def case_prod_beta Let_def)
qed

section \<open>Every count stays inside the servo's range\<close>

text \<open>
  The pulse is computed in \<open>double\<close>. For angles that are no multiple of 9 the exact pulse
  is no integer and the rounding errors, below \<open>11000 * dbl_eps\<close>, cannot move the truncated
  result; the 21 multiples of 9 are evaluated.
\<close>

lemma fmant_180: "0 < fmant (fof_int dbl_prec 180)"
  by code_simp

lemma servo_pulse_error:
  assumes "0 \<le> a" and "a \<le> 180"
  defines "v \<equiv> fval (fadd dbl_prec (fof_int dbl_prec 500)
       (fmul dbl_prec (fdiv dbl_prec (fof_int dbl_prec a) (fof_int dbl_prec 180))
          (fof_int dbl_prec 2000)))"
  shows "\<bar>v - of_int (4500 + a * 100) / of_int 9\<bar> \<le> 11000 * dbl_eps"
proof -
  define q where "q = fdiv dbl_prec (fof_int dbl_prec a) (fof_int dbl_prec 180)"
  define m where "m = fmul dbl_prec q (fof_int dbl_prec 2000)"
  have ints: "fval (fof_int dbl_prec a) = of_int a" "fval (fof_int dbl_prec 180) = 180"
    "fval (fof_int dbl_prec 2000) = 2000" "fval (fof_int dbl_prec 500) = 500"
    using assms(1,2) by (simp_all add: fval_dbl_int)
  have q: "\<bar>fval q - of_int a / 180\<bar> \<le> 1 * dbl_eps"
    using assms(1,2) fdiv_error [OF dbl_prec_nonneg fmant_180, of "fof_int dbl_prec a"] ints
    unfolding q_def by (intro dbl_error_bound) simp_all
  have a: "0 \<le> real_of_int a / 180" "real_of_int a / 180 \<le> 1"
    using assms(1,2) by simp_all
  note eps = dbl_eps_bounds
  have qb: "\<bar>fval q * 2000\<bar> \<le> 4000"
    using q a eps unfolding abs_le_iff by linarith
  have m: "\<bar>fval m - fval q * 2000\<bar> \<le> 4000 * dbl_eps"
    using fmul_error [OF dbl_prec_nonneg, of q "fof_int dbl_prec 2000"] ints qb
    unfolding m_def by (intro dbl_error_bound) simp_all
  have mb: "\<bar>500 + fval m\<bar> \<le> 5000"
    using m qb eps unfolding abs_le_iff by linarith
  have "\<bar>v - (500 + fval m)\<bar> \<le> 5000 * dbl_eps"
    using fadd_error [OF dbl_prec_nonneg, of "fof_int dbl_prec 500" m] ints mb
    unfolding v_def m_def q_def by (intro dbl_error_bound) simp_all
  then have "\<bar>v - (500 + real_of_int a / 180 * 2000)\<bar> \<le> 11000 * dbl_eps"
    using q m unfolding abs_le_iff by linarith
  moreover have "real_of_int (4500 + a * 100) / of_int 9 = 500 + real_of_int a / 180 * 2000"
    by simp
  ultimately show ?thesis by (simp only:)
qed

lemma servo_pulse_nines:
  "map servo_pulse [0, 9, 18, 27, 36, 45, 54, 63, 72, 81, 90, 99, 108, 117, 126, 135, 144,
     153, 162, 171, 180] =
   [500, 600, 700, 800, 900, 1000, 1100, 1200, 1300, 1400, 1500, 1600, 1700, 1800, 1900,
    2000, 2100, 2200, 2300, 2400, 2500]"
  by code_simp

lemma servo_pulse_exact:
  assumes "0 \<le> a" and "a \<le> 180"
  shows "servo_pulse a = (4500 + a * 100) div 9"
proof (cases "a mod 9 = 0")
  case True
  define k where "k = a div 9"
  have a: "a = 9 * k" "0 \<le> k" "k \<le> 20"
    using True assms by (auto simp: k_def)
  have "map servo_pulse (map (\<lambda>i. 9 * int i) [0..<21]) = map (\<lambda>i. 500 + 100 * int i) [0..<21]"
    using servo_pulse_nines by (simp add: upt_rec)
  from table_entry [OF this, of k] show ?thesis using a by simp
next
  case False
  let ?v = "fval (fadd dbl_prec (fof_int dbl_prec 500)
       (fmul dbl_prec (fdiv dbl_prec (fof_int dbl_prec a) (fof_int dbl_prec 180))
          (fof_int dbl_prec 2000)))"
  have e: "\<bar>?v - of_int (4500 + a * 100) / of_int 9\<bar> \<le> 11000 * dbl_eps"
    by (rule servo_pulse_error [OF assms])
  moreover have "500 \<le> real_of_int (4500 + a * 100) / of_int 9"
    using assms by simp
  ultimately have "0 \<le> ?v" using dbl_eps_bounds unfolding abs_le_iff by linarith
  then have "servo_pulse a = \<lfloor>?v\<rfloor>"
    by (simp add: servo_pulse_def ftrunc_floor)
  also have "\<dots> = (4500 + a * 100) div 9"
  proof (rule floor_near_fraction)
    have "4500 + a * 100 = a + 9 * (500 + 11 * a)" by simp
    then show "(4500 + a * 100) mod 9 \<noteq> 0"
      using False by (simp only: mod_mult_self2 not_False_eq_True)
    have "11000 * dbl_eps < 1 / of_int 9"
      unfolding of_int_numeral using dbl_eps_bounds by linarith
    with e show "\<bar>?v - of_int (4500 + a * 100) / of_int 9\<bar> < 1 / of_int 9"
      by (rule le_less_trans)
  qed simp
  finally show ?thesis .
qed

lemma servo_pulse_range:
  assumes "0 \<le> a" and "a \<le> 180"
  shows "500 \<le> servo_pulse a \<and> servo_pulse a \<le> 2500"
proof -
  have "500 \<le> (4500 + a * 100) div 9"
    using assms zdiv_mono1 [of 4500 "4500 + a * 100" 9] by simp
  moreover have "(4500 + a * 100) div 9 \<le> 2500"
    using assms zdiv_mono1 [of "4500 + a * 100" 22500 9] by simp
  ultimately show ?thesis using assms by (simp add: servo_pulse_exact)
qed

lemma servo_count_range:
  assumes "0 \<le> a" and "a \<le> 180"
  shows "102 \<le> servo_count a \<and> servo_count a \<le> 512"
proof -
  have "102 \<le> servo_pulse a * 4096 div 20000"
    using servo_pulse_range [OF assms] zdiv_mono1 [of "500 * 4096" "servo_pulse a * 4096" 20000]
    by simp
  moreover have "servo_pulse a * 4096 div 20000 \<le> 512"
    using servo_pulse_range [OF assms] zdiv_mono1 [of "servo_pulse a * 4096" "2500 * 4096" 20000]
    by simp
  ultimately show ?thesis
    using servo_pulse_range [OF assms] by (simp add: servo_count_def sdiv_nonneg)
qed

section \<open>A saved file loads back\<close>

definition saved_members :: "joint_angles \<Rightarrow> ServoMotorJoint list \<Rightarrow> (string \<times> json) list" where
  "saved_members m js =
     map (\<lambda>(j, a). (Servo_Motor_Joint_Names j, JInt (uint a))) [(j, angle_of m j). j \<leftarrow> js, m j \<noteq> None]"

lemma fst_saved_members:
  "fst ` set (saved_members m js) \<subseteq> Servo_Motor_Joint_Names ` set js"
  by (auto simp: saved_members_def)

lemma distinct_saved_members: "distinct js \<Longrightarrow> distinct (map fst (saved_members m js))"
proof (induction js)
  case Nil
  show ?case by (simp add: saved_members_def)
next
  case (Cons j js)
  then show ?case
    using fst_saved_members [of m js] by (auto simp: saved_members_def)
qed

lemma map_of_saved_members:
  "map_of (saved_members m js) (Servo_Motor_Joint_Names k) =
     (if k \<in> set js then map_option (\<lambda>a. JInt (uint a)) (m k) else None)"
  by (induction js) (auto simp: saved_members_def angle_of_def)

lemma angles_json_lookup:
  "json_value json_get_int (angles_json m) (Servo_Motor_Joint_Names j) d =
     Inr (case m j of None \<Rightarrow> d | Some a \<Rightarrow> uint a)"
proof -
  have "angles_json m = JObject (sort_key fst (saved_members m joints))"
    by (simp add: angles_json_def angle_list_def saved_members_def)
  moreover have "distinct (map fst (saved_members m joints))"
    by (rule distinct_saved_members) (simp add: joints_def)
  ultimately show ?thesis
    by (simp add: map_of_sort_key map_of_saved_members split: option.split)
qed

lemma load_joints_saved:
  "load_joints (angles_json m) js m' =
     (\<lambda>j. if j \<in> set js \<and> m' j \<noteq> None then (case m j of None \<Rightarrow> m' j | Some a \<Rightarrow> Some a) else m' j)"
proof (induction js arbitrary: m')
  case Nil
  show ?case by simp
next
  case (Cons j js)
  show ?case
  proof (cases "m' j")
    case None
    then show ?thesis by (intro ext) (auto simp: Cons.IH)
  next
    case (Some a)
    then show ?thesis
      by (intro ext) (auto simp: Cons.IH angles_json_lookup split: option.split)
  qed
qed

text \<open>Loading a file that is no object, or is not there, changes no angle.\<close>

lemma loadJointAngles_bad:
  "\<not> is_object j \<Longrightarrow> sv_angles (loadJointAngles (File_json j) s) = sv_angles s"
proof -
  assume "\<not> is_object j"
  then have "load_joints j js m = m" for js m
    by (induction js) (cases j; auto split: option.split)+
  then show ?thesis by simp
qed

end
