(* ===== verification/Robot.thy ===== *)
theory Robot
  imports Servo Sensors
begin

text \<open>
  \<open>statemachines/robot.cpp\<close>: the robot's five controllers and the motion commands. A command
  that raises (\<open>std::map::at\<close> on a joint that is not there) or never returns is \<open>None\<close>.
  The body commands map joystick angles to the four drive motions, the head commands step two
  joints towards limits read from the gesture configuration.
\<close>

section \<open>State\<close>

record robot =
  rb_compass :: compass
  rb_distance :: distance
  rb_power :: power
  rb_servo :: servo
  rb_dc :: dc_motor
  rb_jointPositionList :: joint_position_list
  rb_sensorReadings :: bool

definition on_servo ::
    "(servo \<Rightarrow> world \<Rightarrow> (servo \<times> world) option) \<Rightarrow> robot \<Rightarrow> world \<Rightarrow> (robot \<times> world) option" where
  "on_servo f r w = map_option (\<lambda>(s, w'). (r\<lparr>rb_servo := s\<rparr>, w')) (f (rb_servo r) w)"

section \<open>Initialisation and enabling\<close>

text \<open>
  The first \<open>get_instance\<close> of a controller constructs and initialises it, in the order the
  robot asks for them. \<open>state0\<close> is what the motor controller's uninitialised \<open>_currentState\<close>
  holds; \<open>file\<close> is the saved-angles file.
\<close>

record boot_input =
  bi_saved_file :: saved_file
  bi_dc_state :: DCMotorState
  bi_joint_angles :: "joint_position_list option"

definition compass_new :: compass where
  "compass_new = \<lparr>ct_enable = True, ct_initialized = False, cp_sensor = I2CDevice_new\<rparr>"

definition distance_new :: distance where
  "distance_new = \<lparr>ct_enable = True, ct_initialized = False, uart_fd = -1\<rparr>"

definition power_new :: power where
  "power_new =
     \<lparr>ct_enable = True, ct_initialized = False,
      pw_ina = \<lparr>ina_device = I2CDevice_new, ina_currentLSB = Flt 0 0, ina_calValue = 0\<rparr>\<rparr>"

definition servo_new :: servo where
  "servo_new =
     \<lparr>ct_enable = True, ct_initialized = False, sv_address = 0x40, sv_driver = I2CDevice_new,
      sv_angles = Map.empty\<rparr>"

definition dc_new :: "DCMotorState \<Rightarrow> dc_motor" where
  "dc_new state0 =
     \<lparr>ct_enable = True, ct_initialized = False, dc_address = 0x50, dc_driver = I2CDevice_new,
      dc_currentState = state0\<rparr>"

definition robot_initialize ::
    "environ \<Rightarrow> boot_input \<Rightarrow> robot \<Rightarrow> world \<Rightarrow> bool \<times> robot \<times> world" where
  "robot_initialize E b r w =
     (let (_, compass, w1) = compass_initialize E compass_new w;
          (_, distance, w2) = distance_initialize E distance_new w1;
          (_, power, w3) = power_initialize E power_new w2;
          (_, servo, w4) = servo_initialize E (bi_saved_file b) servo_new w3;
          (_, dc, w5) = dc_initialize E (dc_new (bi_dc_state b)) w4
      in (True,
          r\<lparr>rb_compass := setEnable False compass, rb_distance := setEnable False distance,
            rb_power := setEnable False power, rb_servo := setEnable False servo,
            rb_dc := setEnable False dc,
            rb_jointPositionList :=
              (case bi_joint_angles b of Some l \<Rightarrow> l | None \<Rightarrow> rb_jointPositionList r)\<rparr>,
          w5))"

definition setEnableSensorContinuousReadings :: "bool \<Rightarrow> robot \<Rightarrow> robot" where
  "setEnableSensorContinuousReadings b r =
     r\<lparr>rb_compass := setEnable b (rb_compass r), rb_distance := setEnable b (rb_distance r),
       rb_power := setEnable b (rb_power r), rb_servo := setEnable (\<not> b) (rb_servo r),
       rb_dc := setEnable (\<not> b) (rb_dc r), rb_sensorReadings := b\<rparr>"

definition getSensorValues :: "environ \<Rightarrow> libm \<Rightarrow> flt \<Rightarrow> robot \<Rightarrow> world \<Rightarrow> SensorData \<times> world" where
  "getSensorValues E L garbage r w =
     (let (c, w1) = getCompassData E L (rb_compass r) w;
          (d, w2) = get_distance E (rb_distance r) w1;
          (p, w3) = getConsumption E garbage (rb_power r) w2
      in (\<lparr>sd_compassData = Some c, sd_distanceData = Some d, sd_powerData = Some p,
           sd_currentJointAngles = Some (getAllJointsAngle (rb_servo r)),
           sd_dcMotorState = Some (getCurrentState (rb_dc r))\<rparr>, w3))"

section \<open>Body\<close>

text \<open>\<open>((angle + 180) % 360) - 180\<close> with the C++ remainder, which takes the dividend's sign.\<close>

definition normalized_angle :: "int \<Rightarrow> int" where
  "normalized_angle angle = ((angle + 180) smod 360) - 180"

definition capped_magnitude :: "int \<Rightarrow> int" where
  "capped_magnitude magnitude = (if magnitude \<ge> 100 then 95 else magnitude)"

definition control_body :: "environ \<Rightarrow> robot \<Rightarrow> int \<Rightarrow> int \<Rightarrow> world \<Rightarrow> world" where
  "control_body E r angle0 magnitude0 w =
     (let magnitude = capped_magnitude magnitude0
      in if magnitude = 0 \<and> angle0 = 0 then dc_stop E (rb_dc r) w
         else let angle = normalized_angle angle0
              in if angle \<ge> UP_MIN \<and> angle < UP_MAX then dc_forward E (rb_dc r) magnitude w
                 else if angle \<ge> RIGHT_MIN \<and> angle < RIGHT_MAX
                 then dc_turnRight E (rb_dc r) magnitude w
                 else if angle \<ge> DOWN_MIN \<and> angle < DOWN_MAX
                 then dc_backward E (rb_dc r) magnitude w
                 else if angle \<ge> LEFT_MIN \<or> angle < LEFT_MAX
                 then dc_turnLeft E (rb_dc r) magnitude w
                 else if angle = 0 \<or> magnitude = 0 then dc_stop E (rb_dc r) w
                 else w)"

section \<open>Head, arms, eyes\<close>

text \<open>\<open>_jointPositionList[joint][state].angle\<close>: a missing entry is created with angle 0.\<close>

definition joint_position :: "joint_position_list \<Rightarrow> ServoMotorJoint \<Rightarrow> GestureJointState \<Rightarrow> int" where
  "joint_position l j st = (case l j st of None \<Rightarrow> 0 | Some g \<Rightarrow> gja_angle g)"

definition at_least_one :: "int \<Rightarrow> int" where
  "at_least_one speed = (if speed < 1 then 1 else speed)"

text \<open>The two clamped steps every head command is made of.\<close>

definition step_up_to :: "int \<Rightarrow> int \<Rightarrow> int \<Rightarrow> int" where
  "step_up_to current speed limit =
     (let target = current + 1 * speed in if target \<ge> limit then limit else target)"

definition step_down_to :: "int \<Rightarrow> int \<Rightarrow> int \<Rightarrow> int" where
  "step_down_to current speed limit =
     (let target = current - 1 * speed in if target \<le> limit then limit else target)"

definition head_down ::
    "environ \<Rightarrow> joint_position_list \<Rightarrow> int \<Rightarrow> servo \<Rightarrow> world \<Rightarrow> (servo \<times> world) option" where
  "head_down E l speed0 s w =
     (let speed = at_least_one speed0;
          current = getAllJointsAngle s;
          t1 = step_up_to (uint (angle_of current J_headUpDown)) speed
                 (joint_position l J_headUpDown Js_fulldown);
          t2 = step_down_to (uint (angle_of current J_neck)) speed
                 (joint_position l J_neck Js_fulldown)
      in Option.bind (setJoint E J_headUpDown t1 s w) (\<lambda>(s1, w1). setJoint E J_neck t2 s1 w1))"

definition head_up ::
    "environ \<Rightarrow> joint_position_list \<Rightarrow> int \<Rightarrow> servo \<Rightarrow> world \<Rightarrow> (servo \<times> world) option" where
  "head_up E l speed0 s w =
     (let speed = at_least_one speed0;
          current = getAllJointsAngle s;
          t1 = step_down_to (uint (angle_of current J_headUpDown)) speed
                 (joint_position l J_headUpDown Js_fullup);
          t2 = step_up_to (uint (angle_of current J_neck)) speed
                 (joint_position l J_neck Js_fullup)
      in Option.bind (setJoint E J_headUpDown t1 s w) (\<lambda>(s1, w1). setJoint E J_neck t2 s1 w1))"

definition head_left :: "environ \<Rightarrow> int \<Rightarrow> servo \<Rightarrow> world \<Rightarrow> (servo \<times> world) option" where
  "head_left E speed0 s w =
     (let speed = at_least_one speed0; current = getAllJointsAngle s
      in setJoint E J_headLeftRight
           (step_up_to (uint (angle_of current J_headLeftRight)) speed 180) s w)"

definition head_right :: "environ \<Rightarrow> int \<Rightarrow> servo \<Rightarrow> world \<Rightarrow> (servo \<times> world) option" where
  "head_right E speed0 s w =
     (let speed = at_least_one speed0; current = getAllJointsAngle s
      in setJoint E J_headLeftRight
           (step_down_to (uint (angle_of current J_headLeftRight)) speed 0) s w)"

definition control_head ::
    "environ \<Rightarrow> libm \<Rightarrow> joint_position_list \<Rightarrow> int \<Rightarrow> int \<Rightarrow> servo \<Rightarrow> world \<Rightarrow>
     (servo \<times> world) option" where
  "control_head E L l angle magnitude0 s w =
     (if magnitude0 = 0 \<and> angle = 0 then Some (s, w)
      else let magnitude = (if magnitude0 > 5 then 5 else magnitude0);
               rad = fdiv dbl_prec (fmul dbl_prec (fof_int dbl_prec angle) M_PI) (fof_int dbl_prec 180);
               threshold = flit dbl_prec 1 1000;
               upDown = lib_sin L rad;
               magUpDown = \<bar>ftrunc (fmul dbl_prec upDown (fof_int dbl_prec magnitude))\<bar>;
               leftRight = lib_cos L rad;
               magLeftRight = \<bar>ftrunc (fmul dbl_prec leftRight (fof_int dbl_prec magnitude))\<bar>
           in Option.bind
                (if flt_less threshold upDown then head_up E l magUpDown s w
                 else if flt_less upDown (fneg threshold) then head_down E l magUpDown s w
                 else Some (s, w))
                (\<lambda>(s1, w1).
                   if flt_less threshold leftRight then head_right E magLeftRight s1 w1
                   else if flt_less leftRight (fneg threshold) then head_left E magLeftRight s1 w1
                   else Some (s1, w1)))"

text \<open>\<open>(angle / 100.0) * 180.0\<close>, passed to an \<open>int\<close> parameter.\<close>

definition mapped_angle :: "int \<Rightarrow> bool \<Rightarrow> int" where
  "mapped_angle angle scale =
     (if scale
      then ftrunc (fmul dbl_prec (fdiv dbl_prec (fof_int dbl_prec angle) (fof_int dbl_prec 100))
                    (fof_int dbl_prec 180))
      else angle)"

definition control_arm ::
    "environ \<Rightarrow> ServoMotorJoint \<Rightarrow> int \<Rightarrow> bool \<Rightarrow> servo \<Rightarrow> world \<Rightarrow> (servo \<times> world) option" where
  "control_arm E joint angle scale s w = setJoint E joint (mapped_angle angle scale) s w"

definition control_eye ::
    "environ \<Rightarrow> joint_position_list \<Rightarrow> ServoMotorJoint \<Rightarrow> bool \<Rightarrow> servo \<Rightarrow> world \<Rightarrow>
     (servo \<times> world) option" where
  "control_eye E l joint state s w =
     (if joint = J_eyeLeft
      then (if state then setJoint E J_eyeLeft (joint_position l J_eyeLeft Js_fullup) s w
            else setJoint E J_eyeLeft (joint_position l J_eyeLeft Js_fulldown) s w)
      else if joint = J_eyeRight
      then (if state then setJoint E J_eyeRight (joint_position l J_eyeRight Js_fullup) s w
            else setJoint E J_eyeRight (joint_position l J_eyeRight Js_fulldown) s w)
      else Some (s, w))"

section \<open>The motion command\<close>

text \<open>
  A map of target angles: seven joints in this order, each moved only when the message names
  it and its angle differs from the one recorded before the command began.
\<close>

definition command_order :: "ServoMotorJoint list" where
  "command_order =
     [J_leftArm, J_rightArm, J_neck, J_headUpDown, J_headLeftRight, J_eyeLeft, J_eyeRight]"

definition control_joint ::
    "environ \<Rightarrow> joint_angles \<Rightarrow> joint_angles \<Rightarrow> ServoMotorJoint \<Rightarrow> servo \<times> world \<Rightarrow>
     (servo \<times> world) option" where
  "control_joint E targets current j sw =
     (case targets j of
        None \<Rightarrow> Some sw
      | Some a \<Rightarrow>
          (case current j of
             None \<Rightarrow> None
           | Some c \<Rightarrow> if a \<noteq> c then setJoint E j (uint a) (fst sw) (snd sw) else Some sw))"

fun control_joints ::
    "environ \<Rightarrow> joint_angles \<Rightarrow> joint_angles \<Rightarrow> ServoMotorJoint list \<Rightarrow> servo \<times> world \<Rightarrow>
     (servo \<times> world) option" where
  "control_joints E targets current [] sw = Some sw"
| "control_joints E targets current (j # js) sw =
     Option.bind (control_joint E targets current j sw) (control_joints E targets current js)"

definition servo_command ::
    "environ \<Rightarrow> libm \<Rightarrow> joint_position_list \<Rightarrow> ControlData \<Rightarrow> servo \<Rightarrow> world \<Rightarrow>
     (servo \<times> world) option" where
  "servo_command E L l c s w =
     (case ctl_headJoystick c of
        Some j \<Rightarrow> control_head E L l (js_angle j) (js_strength j) s w
      | None \<Rightarrow>
     (case ctl_leftArmAngle c of
        Some a \<Rightarrow> control_arm E J_leftArm a True s w
      | None \<Rightarrow>
     (case ctl_rightArmAngle c of
        Some a \<Rightarrow> control_arm E J_rightArm a True s w
      | None \<Rightarrow>
     (case ctl_leftEye c of
        Some b \<Rightarrow> control_eye E l J_eyeLeft b s w
      | None \<Rightarrow>
     (case ctl_rightEye c of
        Some b \<Rightarrow> control_eye E l J_eyeRight b s w
      | None \<Rightarrow>
     (case ctl_jointAngle c of
        Some (j, a) \<Rightarrow> setJoint E j (uint a) s w
      | None \<Rightarrow>
     (case ctl_jointAngles c of
        Some t \<Rightarrow> control_joints E t (getAllJointsAngle s) command_order (s, w)
      | None \<Rightarrow> Some (s, w))))))))"

definition control_motion ::
    "environ \<Rightarrow> libm \<Rightarrow> ControlData \<Rightarrow> robot \<Rightarrow> world \<Rightarrow> (robot \<times> world) option" where
  "control_motion E L c r w =
     (case ctl_bodyJoystick c of
        Some j \<Rightarrow> Some (r, control_body E r (js_angle j) (js_strength j) w)
      | None \<Rightarrow> on_servo (servo_command E L (rb_jointPositionList r) c) r w)"

section \<open>Body: sectors of the joystick\<close>

text \<open>
  The abstract drive: the true heading of the joystick, taken modulo a full turn, falls in
  one of four sectors.
\<close>

datatype drive = Drive_forward | Drive_right | Drive_backward | Drive_left

definition sector :: "int \<Rightarrow> drive" where
  "sector angle =
     (let h = (angle + 180) mod 360 - 180
      in if 45 \<le> h \<and> h < 135 then Drive_forward
         else if -45 \<le> h \<and> h < 45 then Drive_right
         else if -135 \<le> h \<and> h < -45 then Drive_backward
         else Drive_left)"

fun drive_wheels :: "drive \<Rightarrow> int \<Rightarrow> wheel \<times> wheel" where
  "drive_wheels Drive_forward m = (wheel_spec Dir_backward m, wheel_spec Dir_forward m)"
| "drive_wheels Drive_right m = (wheel_spec Dir_forward m, wheel_spec Dir_forward m)"
| "drive_wheels Drive_backward m = (wheel_spec Dir_forward m, wheel_spec Dir_backward m)"
| "drive_wheels Drive_left m = (wheel_spec Dir_backward m, wheel_spec Dir_backward m)"

definition wheels :: "robot \<Rightarrow> world \<Rightarrow> wheel \<times> wheel" where
  "wheels r w = (left_wheel (i2cFd (dc_driver (rb_dc r))) w, right_wheel (i2cFd (dc_driver (rb_dc r))) w)"

lemma normalized_angle_mod:
  "-180 \<le> angle \<Longrightarrow> normalized_angle angle = (angle + 180) mod 360 - 180"
  by (simp add: normalized_angle_def smod_nonneg)

lemma normalized_angle_low:
  "angle < -180 \<Longrightarrow> -540 < normalized_angle angle \<and> normalized_angle angle \<le> -180"
  by (simp add: normalized_angle_def smod_neg)

lemma control_body_moves:
  assumes "\<not> (capped_magnitude m = 0 \<and> a = 0)"
  shows "control_body E r a m w =
    (let h = normalized_angle a; m' = capped_magnitude m
     in if 45 \<le> h \<and> h < 135 then dc_forward E (rb_dc r) m' w
        else if -45 \<le> h \<and> h < 45 then dc_turnRight E (rb_dc r) m' w
        else if -135 \<le> h \<and> h < -45 then dc_backward E (rb_dc r) m' w
        else dc_turnLeft E (rb_dc r) m' w)"
  using assms by (auto simp: control_body_def direction_thresholds Let_def)

lemma control_body_sector:
  assumes "active (rb_dc r)" and "-180 \<le> a" and "\<not> (capped_magnitude m = 0 \<and> a = 0)"
  shows "wheels r (control_body E r a m w) = drive_wheels (sector a) (capped_magnitude m)"
  using assms dc_motion_wheels [OF assms(1) refl, where E = E and w = w and s = "capped_magnitude m"]
  by (simp add: control_body_moves wheels_def sector_def normalized_angle_mod Let_def)

lemma control_body_low:
  assumes "a < -180"
  shows "control_body E r a m w = dc_turnLeft E (rb_dc r) (capped_magnitude m) w"
  using assms normalized_angle_low [OF assms] by (auto simp: control_body_moves Let_def)

lemma control_body_cases:
  "control_body E r a m w \<in>
    {dc_stop E (rb_dc r) w, dc_forward E (rb_dc r) (capped_magnitude m) w,
     dc_turnRight E (rb_dc r) (capped_magnitude m) w, dc_backward E (rb_dc r) (capped_magnitude m) w,
     dc_turnLeft E (rb_dc r) (capped_magnitude m) w}"
proof (cases "capped_magnitude m = 0 \<and> a = 0")
  case True
  then show ?thesis by (simp add: control_body_def)
next
  case False
  then show ?thesis by (simp add: control_body_moves Let_def)
qed

lemma control_body_inactive: "\<not> active (rb_dc r) \<Longrightarrow> control_body E r a m w = w"
  using control_body_cases [of E r a m w] by (auto simp: dc_inactive)

lemma capped_magnitude_bound: "0 \<le> m \<Longrightarrow> 0 \<le> capped_magnitude m \<and> capped_magnitude m < 100"
  by (simp add: capped_magnitude_def)

lemma wheel_spec_count: "fst (wheel_spec d m) = Some (0, speed_count m)"
  by (simp add: wheel_spec_def)

lemma control_body_counts:
  assumes "active (rb_dc r)" and "0 \<le> m"
  shows "\<exists>n. fst (fst (wheels r (control_body E r a m w))) = Some (0, n) \<and>
             fst (snd (wheels r (control_body E r a m w))) = Some (0, n) \<and> 0 \<le> n \<and> n < 4096"
proof -
  let ?fd = "i2cFd (dc_driver (rb_dc r))" and ?m = "capped_magnitude m"
  have b: "0 \<le> speed_count ?m \<and> speed_count ?m < 4096"
    using speed_count_bound capped_magnitude_bound [OF assms(2)] by blast
  note mo = dc_motion_wheels [OF assms(1) refl, where E = E and w = w and s = ?m]
  have stop: "fst (left_wheel ?fd (dc_stop E (rb_dc r) w)) = Some (0, 0)"
    "fst (right_wheel ?fd (dc_stop E (rb_dc r) w)) = Some (0, 0)"
    using dc_stop_wheels [OF assms(1) refl] by (simp_all add: left_wheel_def right_wheel_def)
  show ?thesis
    using control_body_cases [of E r a m w] b stop mo
    by (auto simp: wheels_def wheel_spec_count)
qed

section \<open>What every servo command does\<close>

text \<open>
  A relation between the servo states before and after a call that is reflexive and
  transitive and holds across one joint movement holds across every servo command. It is
  used for the frame, for the silence of a disabled servo, and for the channels left alone.
\<close>

locale servo_relation =
  fixes R :: "servo \<times> world \<Rightarrow> servo \<times> world \<Rightarrow> bool"
  assumes R_refl: "R x x"
    and R_trans: "R x y \<Longrightarrow> R y z \<Longrightarrow> R x z"
    and R_setJoint: "\<exists>y. setJoint E j t s w = Some y \<and> R (s, w) y"
begin

definition gives :: "servo \<times> world \<Rightarrow> (servo \<times> world) option \<Rightarrow> bool" where
  "gives x res \<longleftrightarrow> (\<exists>y. res = Some y \<and> R x y)"

lemma gives_Some: "gives x (Some x)"
  by (simp add: gives_def R_refl)

lemma gives_setJoint: "gives (s, w) (setJoint E j t s w)"
  unfolding gives_def by (rule R_setJoint)

lemma gives_bind:
  "gives x m \<Longrightarrow> (\<And>y. gives y (k y)) \<Longrightarrow> gives x (Option.bind m k)"
  by (auto simp: gives_def) (metis R_trans)

lemma gives_head:
  "gives (s, w) (head_down E l n s w)" "gives (s, w) (head_up E l n s w)"
  "gives (s, w) (head_left E n s w)" "gives (s, w) (head_right E n s w)"
  by (auto simp: head_down_def head_up_def head_left_def head_right_def Let_def
      intro!: gives_bind gives_setJoint)

lemma gives_control_head: "gives (s, w) (control_head E L l a m s w)"
  by (auto simp: control_head_def Let_def intro!: gives_bind gives_head gives_Some)

lemma gives_control_joint:
  "targets j \<noteq> None \<longrightarrow> current j \<noteq> None \<Longrightarrow> gives x (control_joint E targets current j x)"
  using gives_setJoint [of "fst x" "snd x"]
  by (auto simp: control_joint_def gives_Some split: option.split)

lemma gives_control_joints:
  "\<forall>j. targets j \<noteq> None \<longrightarrow> current j \<noteq> None \<Longrightarrow>
   gives x (control_joints E targets current js x)"
  by (induction js arbitrary: x) (auto intro!: gives_bind gives_control_joint gives_Some)

lemma gives_servo_command:
  assumes "\<And>t j. ctl_jointAngles c = Some t \<Longrightarrow> t j \<noteq> None \<Longrightarrow> sv_angles s j \<noteq> None"
  shows "gives (s, w) (servo_command E L l c s w)"
  using assms
  by (auto simp: servo_command_def control_arm_def control_eye_def getAllJointsAngle_def
      intro!: gives_control_head gives_setJoint gives_control_joints gives_Some
      split: option.split)

lemma control_joints_keeps:
  "control_joints E targets current js x = Some y \<Longrightarrow> R x y"
proof (induction js arbitrary: x)
  case Nil
  then show ?case by (simp add: R_refl)
next
  case (Cons j js)
  then obtain z where z: "control_joint E targets current j x = Some z"
    and y: "control_joints E targets current js z = Some y"
    by (auto simp: bind_eq_Some_conv)
  have "targets j \<noteq> None \<longrightarrow> current j \<noteq> None"
    using z by (auto simp: control_joint_def split: option.splits)
  then have "R x z"
    using gives_control_joint [of targets j current x E] z by (simp add: gives_def)
  with Cons.IH [OF y] show ?case by (metis R_trans)
qed

lemma givesD: "gives x res \<Longrightarrow> res = Some y \<Longrightarrow> R x y"
  by (auto simp: gives_def)

lemma servo_command_keeps:
  "servo_command E L l c s w = Some (s', w') \<Longrightarrow> R (s, w) (s', w')"
  using givesD [OF gives_control_head] givesD [OF gives_setJoint] control_joints_keeps R_refl
  by (auto simp: servo_command_def control_arm_def control_eye_def split: option.splits if_splits)

end

definition servo_same :: "servo \<times> world \<Rightarrow> servo \<times> world \<Rightarrow> bool" where
  "servo_same x y \<longleftrightarrow>
     sv_driver (fst y) = sv_driver (fst x) \<and> ct_enable (fst y) = ct_enable (fst x) \<and>
     ct_initialized (fst y) = ct_initialized (fst x) \<and> sv_address (fst y) = sv_address (fst x) \<and>
     dom (sv_angles (fst x)) \<subseteq> dom (sv_angles (fst y))"

definition servo_silent :: "servo \<times> world \<Rightarrow> servo \<times> world \<Rightarrow> bool" where
  "servo_silent x y \<longleftrightarrow> (\<not> active (fst x) \<longrightarrow> y = x)"

definition spare_channels_kept :: "servo \<times> world \<Rightarrow> servo \<times> world \<Rightarrow> bool" where
  "spare_channels_kept x y \<longleftrightarrow>
     sv_driver (fst y) = sv_driver (fst x) \<and>
     (\<forall>c. 7 \<le> c \<and> c < 16 \<longrightarrow>
        channel_duty (i2cFd (sv_driver (fst x))) c (snd y) =
        channel_duty (i2cFd (sv_driver (fst x))) c (snd x))"

lemma setJoint_some: "\<exists>s' w'. setJoint E j t s w = Some (s', w')"
  unfolding setJoint_def by (rule setJointAngle_returns) simp

interpretation same: servo_relation servo_same
proof
  show "servo_same x x" for x by (simp add: servo_same_def)
  show "servo_same x y \<Longrightarrow> servo_same y z \<Longrightarrow> servo_same x z" for x y z
    by (auto simp: servo_same_def)
  show "\<exists>y. setJoint E j t s w = Some y \<and> servo_same (s, w) y" for E j t s w
  proof -
    obtain s' w' where *: "setJoint E j t s w = Some (s', w')"
      using setJoint_some by blast
    note fr = setJointAngle_frame [OF * [unfolded setJoint_def]]
    have "servo_same (s, w) (s', w')"
      unfolding servo_same_def using fr(1-4,7) by simp
    with * show ?thesis by blast
  qed
qed

interpretation silent: servo_relation servo_silent
proof
  show "servo_silent x x" for x by (simp add: servo_silent_def)
  show "servo_silent x y \<Longrightarrow> servo_silent y z \<Longrightarrow> servo_silent x z" for x y z
    by (auto simp: servo_silent_def)
  show "\<exists>y. setJoint E j t s w = Some y \<and> servo_silent (s, w) y" for E j t s w
    using setJoint_some [of E j t s w]
    by (cases "active s") (simp_all add: servo_silent_def setJoint_def setJointAngle_inactive)
qed

interpretation spare: servo_relation spare_channels_kept
proof
  show "spare_channels_kept x x" for x by (simp add: spare_channels_kept_def)
  show "spare_channels_kept x y \<Longrightarrow> spare_channels_kept y z \<Longrightarrow> spare_channels_kept x z" for x y z
    by (auto simp: spare_channels_kept_def)
  show "\<exists>y. setJoint E j t s w = Some y \<and> spare_channels_kept (s, w) y" for E j t s w
  proof -
    obtain s' w' where *: "setJoint E j t s w = Some (s', w')"
      using setJoint_some by blast
    have j: "c \<noteq> joint_index j" if "7 \<le> c" for c
      using that joint_index_range [of j] by auto
    have "channel_duty (i2cFd (sv_driver s)) c w' = channel_duty (i2cFd (sv_driver s)) c w"
      if "7 \<le> c" "c < 16" for c
      using setJointAngle_duty [OF * [unfolded setJoint_def], of c] j [OF that(1)] that
      by (simp add: pwm_channel_def)
    then have "spare_channels_kept (s, w) (s', w')"
      unfolding spare_channels_kept_def
      using setJointAngle_frame(1) [OF * [unfolded setJoint_def]] by simp
    with * show ?thesis by blast
  qed
qed

text \<open>The condition under which a command finds every joint it names.\<close>

definition joints_known :: "ControlData \<Rightarrow> servo \<Rightarrow> bool" where
  "joints_known c s \<longleftrightarrow>
     (case ctl_jointAngles c of None \<Rightarrow> True | Some t \<Rightarrow> dom t \<subseteq> dom (sv_angles s))"

lemma servo_command_same:
  "joints_known c s \<Longrightarrow> \<exists>s' w'. servo_command E L l c s w = Some (s', w') \<and> servo_same (s, w) (s', w')"
  using same.gives_servo_command [of c s w E L l]
  by (fastforce simp: same.gives_def joints_known_def dom_def)

lemma servo_command_silent:
  "joints_known c s \<Longrightarrow> \<not> active s \<Longrightarrow> servo_command E L l c s w = Some (s, w)"
  using silent.gives_servo_command [of c s w E L l]
  by (fastforce simp: silent.gives_def servo_silent_def joints_known_def dom_def)

section \<open>Every motion command returns and keeps the robot's frame\<close>

definition robot_same :: "robot \<Rightarrow> robot \<Rightarrow> bool" where
  "robot_same r r' \<longleftrightarrow>
     r' = r\<lparr>rb_servo := rb_servo r'\<rparr> \<and> sv_driver (rb_servo r') = sv_driver (rb_servo r) \<and>
     ct_enable (rb_servo r') = ct_enable (rb_servo r) \<and>
     ct_initialized (rb_servo r') = ct_initialized (rb_servo r) \<and>
     dom (sv_angles (rb_servo r)) \<subseteq> dom (sv_angles (rb_servo r'))"

lemma control_motion_returns:
  assumes "joints_known c (rb_servo r)"
  shows "\<exists>r' w'. control_motion E L c r w = Some (r', w') \<and> robot_same r r'"
proof (cases "ctl_bodyJoystick c")
  case None
  then show ?thesis
    using servo_command_same [OF assms, of E L "rb_jointPositionList r" w]
    by (auto simp: control_motion_def on_servo_def robot_same_def servo_same_def)
next
  case (Some j)
  then show ?thesis by (simp add: control_motion_def robot_same_def)
qed

lemma control_motion_silent:
  assumes "joints_known c (rb_servo r)" and "\<not> active (rb_servo r)" and "\<not> active (rb_dc r)"
  shows "control_motion E L c r w = Some (r, w)"
proof (cases "ctl_bodyJoystick c")
  case None
  then show ?thesis
    using servo_command_silent [OF assms(1,2)] by (simp add: control_motion_def on_servo_def)
next
  case (Some j)
  then show ?thesis using assms(3) by (simp add: control_motion_def control_body_inactive)
qed

lemma control_motion_keeps:
  assumes "control_motion E L c r w = Some (r', w')"
  shows "robot_same r r'"
proof (cases "ctl_bodyJoystick c")
  case None
  with assms obtain s where "servo_command E L (rb_jointPositionList r) c (rb_servo r) w = Some (s, w')"
    and "r' = r\<lparr>rb_servo := s\<rparr>"
    by (auto simp: control_motion_def on_servo_def)
  then show ?thesis
    using same.servo_command_keeps by (fastforce simp: robot_same_def servo_same_def)
next
  case (Some j)
  with assms show ?thesis by (simp add: control_motion_def robot_same_def)
qed

lemma robot_same_fields:
  assumes "robot_same r r'"
  shows "rb_compass r' = rb_compass r" "rb_distance r' = rb_distance r" "rb_power r' = rb_power r"
    "rb_dc r' = rb_dc r" "rb_jointPositionList r' = rb_jointPositionList r"
    "rb_sensorReadings r' = rb_sensorReadings r"
    "ct_enable (rb_servo r') = ct_enable (rb_servo r)"
    "ct_initialized (rb_servo r') = ct_initialized (rb_servo r)"
    "dom (sv_angles (rb_servo r)) \<subseteq> dom (sv_angles (rb_servo r'))"
proof -
  show "ct_enable (rb_servo r') = ct_enable (rb_servo r)"
    "ct_initialized (rb_servo r') = ct_initialized (rb_servo r)"
    "dom (sv_angles (rb_servo r)) \<subseteq> dom (sv_angles (rb_servo r'))"
    using assms unfolding robot_same_def by blast+
  obtain s where "r' = r\<lparr>rb_servo := s\<rparr>"
    using assms unfolding robot_same_def by blast
  then show "rb_compass r' = rb_compass r" "rb_distance r' = rb_distance r"
    "rb_power r' = rb_power r" "rb_dc r' = rb_dc r"
    "rb_jointPositionList r' = rb_jointPositionList r" "rb_sensorReadings r' = rb_sensorReadings r"
    by simp_all
qed

end
