(* ===== verification/State_Machine.thy ===== *)
theory State_Machine
  imports Robot
begin

text \<open>
  \<open>statemachines/state_machine.cpp\<close>, \<open>state.h\<close> and the state classes. States are identified
  by their class; their data (the time of the last event, the timeout, the entry source of
  \<open>TalkingState\<close>) and the machine's queue, timers and current state are one record with the
  robot and the trace. A handler returns \<open>optional<State*>\<close>: \<open>None\<close> is the empty optional of
  \<open>stayOnThisState()\<close>, \<open>Some None\<close> a null pointer. The outer \<open>option\<close> is \<open>None\<close> when the
  program would crash: an uncaught exception or a call through a null pointer.
\<close>

section \<open>States\<close>

datatype state_id =
    IdleState | MovingState | CriticalErrorState | InitializeState | TuiControlState
  | RemoteControlState | TalkingState | TrackingState | ListeningState

text \<open>The states the constructor of \<open>Robot\<close> creates, in order, and their parents.\<close>

definition states :: "state_id list" where
  "states =
     [IdleState, MovingState, CriticalErrorState, InitializeState, TuiControlState,
      RemoteControlState, TalkingState, TrackingState]"

fun parentState :: "state_id \<Rightarrow> state_id option" where
  "parentState TuiControlState = Some MovingState"
| "parentState RemoteControlState = Some MovingState"
| "parentState TalkingState = Some MovingState"
| "parentState TrackingState = Some MovingState"
| "parentState _ = None"

definition transState :: "state_id \<Rightarrow> state_id option" where
  "transState t = find (\<lambda>s. s = t) states"

type_synonym handler_result = "state_id option option"

definition transTo :: "state_id \<Rightarrow> handler_result" where
  "transTo t = Some (transState t)"

definition stayOnThisState :: handler_result where
  "stayOnThisState = None"

definition moving_timeoutMs :: int where "moving_timeoutMs = 5000"

record machine =
  mc_robot :: robot
  mc_world :: world
  mc_currentState :: "state_id option"
  mc_running :: bool
  mc_eventQueue :: "ControlEvent list"
  mc_timers :: "(int \<times> ControlEvent) list"
  mc_lastEventTime :: "state_id \<Rightarrow> int"
  mc_timeoutMs :: "state_id \<Rightarrow> int"
  mc_entrySource :: SourceService

text \<open>What is outside the machine: the environment, the mathematics library, the files read at boot.\<close>

record platform =
  pf_env :: environ
  pf_libm :: libm
  pf_boot :: boot_input

section \<open>Queue and timers\<close>

definition postEvent :: "ControlEvent \<Rightarrow> machine \<Rightarrow> machine" where
  "postEvent ev m = m\<lparr>mc_eventQueue := mc_eventQueue m @ [ev]\<rparr>"

text \<open>A \<open>steady_clock\<close> reading in nanoseconds.\<close>

definition clock_now :: "platform \<Rightarrow> machine \<Rightarrow> int \<times> machine" where
  "clock_now P m = (let (t, w) = ask (pf_env P) Clock_now (mc_world m) in (t, m\<lparr>mc_world := w\<rparr>))"

text \<open>\<open>multimap::emplace\<close>: after every entry with a key not greater.\<close>

fun timer_insert :: "int \<Rightarrow> ControlEvent \<Rightarrow> (int \<times> ControlEvent) list \<Rightarrow> (int \<times> ControlEvent) list" where
  "timer_insert t ev [] = [(t, ev)]"
| "timer_insert t ev ((t', ev') # ts) =
     (if t < t' then (t, ev) # (t', ev') # ts else (t', ev') # timer_insert t ev ts)"

definition postDelayedEvent :: "platform \<Rightarrow> ControlEvent \<Rightarrow> int \<Rightarrow> machine \<Rightarrow> machine" where
  "postDelayedEvent P ev delay_ms m =
     (if delay_ms \<le> 0 then postEvent ev m
      else let (t, m') = clock_now P m
           in m'\<lparr>mc_timers := timer_insert (t + delay_ms * 1000000) ev (mc_timers m')\<rparr>)"

definition clearDelayedEvents :: "machine \<Rightarrow> machine" where
  "clearDelayedEvents m = m\<lparr>mc_timers := []\<rparr>"

text \<open>The helper of \<open>State\<close> ignores both of its arguments.\<close>

definition addPostDelayedEvent ::
    "platform \<Rightarrow> state_id \<Rightarrow> ControlEvent \<Rightarrow> int \<Rightarrow> machine \<Rightarrow> machine" where
  "addPostDelayedEvent P self ev delay_ms m =
     postDelayedEvent P (event_of_type Ev_timeout) (mc_timeoutMs m self) m"

section \<open>Handlers\<close>

definition enable_reporting :: "robot \<Rightarrow> robot" where
  "enable_reporting r =
     r\<lparr>rb_compass := setEnable True (rb_compass r), rb_distance := setEnable True (rb_distance r),
       rb_power := setEnable True (rb_power r), rb_servo := setEnable True (rb_servo r)\<rparr>"

definition with_robot :: "(robot \<Rightarrow> robot) \<Rightarrow> machine \<Rightarrow> machine" where
  "with_robot f m = m\<lparr>mc_robot := f (mc_robot m)\<rparr>"

definition moving_onEnter :: "platform \<Rightarrow> ControlEvent \<Rightarrow> machine \<Rightarrow> handler_result \<times> machine" where
  "moving_onEnter P ev m =
     (let m1 = with_robot (setEnableSensorContinuousReadings False) m;
          m2 = m1\<lparr>mc_world := tell (Sleep_us 400000) (mc_world m1)\<rparr>;
          m3 = addPostDelayedEvent P MovingState (event_of_type Ev_timeout)
                 (mc_timeoutMs m2 MovingState) m2
      in (case ev_source ev of
            Src_tuiService \<Rightarrow> transTo TuiControlState
          | Src_remoteConnectionService \<Rightarrow> transTo RemoteControlState
          | Src_expressionService \<Rightarrow> transTo TalkingState
          | Src_landmarkTrackerService \<Rightarrow> transTo TalkingState
          | _ \<Rightarrow> stayOnThisState, m3))"

definition initialize_onEnter :: "platform \<Rightarrow> machine \<Rightarrow> handler_result \<times> machine" where
  "initialize_onEnter P m =
     (let (ret, r, w) = robot_initialize (pf_env P) (pf_boot P) (mc_robot m) (mc_world m);
          m1 = m\<lparr>mc_robot := r, mc_world := w\<rparr>
      in (if ret then transTo IdleState else transTo CriticalErrorState, m1))"

definition idle_onEnter :: "machine \<Rightarrow> handler_result \<times> machine" where
  "idle_onEnter m = (stayOnThisState, with_robot (setEnableSensorContinuousReadings True) m)"

definition remote_onEnter :: "machine \<Rightarrow> handler_result \<times> machine" where
  "remote_onEnter m = (stayOnThisState, with_robot enable_reporting m)"

definition talking_onEnter :: "ControlEvent \<Rightarrow> machine \<Rightarrow> handler_result \<times> machine" where
  "talking_onEnter ev m =
     (stayOnThisState, with_robot enable_reporting (m\<lparr>mc_entrySource := ev_source ev\<rparr>))"

definition tracking_onEnter :: "machine \<Rightarrow> handler_result \<times> machine" where
  "tracking_onEnter m = (stayOnThisState, with_robot enable_reporting m)"

definition listening_onEnter :: "platform \<Rightarrow> machine \<Rightarrow> handler_result \<times> machine" where
  "listening_onEnter P m =
     (stayOnThisState, addPostDelayedEvent P ListeningState (event_of_type Ev_timeout) 4000 m)"

text \<open>\<open>CriticalErrorState\<close> and \<open>TuiControlState\<close> do nothing on entry.\<close>

fun onEnter :: "platform \<Rightarrow> state_id \<Rightarrow> ControlEvent \<Rightarrow> machine \<Rightarrow> handler_result \<times> machine" where
  "onEnter P IdleState ev m = idle_onEnter m"
| "onEnter P MovingState ev m = moving_onEnter P ev m"
| "onEnter P CriticalErrorState ev m = (stayOnThisState, m)"
| "onEnter P InitializeState ev m = initialize_onEnter P m"
| "onEnter P TuiControlState ev m = (stayOnThisState, m)"
| "onEnter P RemoteControlState ev m = remote_onEnter m"
| "onEnter P TalkingState ev m = talking_onEnter ev m"
| "onEnter P TrackingState ev m = tracking_onEnter m"
| "onEnter P ListeningState ev m = listening_onEnter P m"

text \<open>No state does anything when it is left, and the result is not used.\<close>

fun onExit :: "state_id \<Rightarrow> ControlEvent \<Rightarrow> machine \<Rightarrow> machine" where
  "onExit s ev m = m"

text \<open>\<open>_parentState->_lastEventTime = steady_clock::now()\<close>\<close>

definition touch_parent :: "platform \<Rightarrow> state_id \<Rightarrow> machine \<Rightarrow> machine option" where
  "touch_parent P self m =
     map_option
       (\<lambda>p. let (t, m') = clock_now P m
             in m'\<lparr>mc_lastEventTime := (mc_lastEventTime m')(p := t)\<rparr>)
       (parentState self)"

definition robot_command :: "platform \<Rightarrow> ControlData \<Rightarrow> machine \<Rightarrow> machine option" where
  "robot_command P c m =
     map_option (\<lambda>(r, w). m\<lparr>mc_robot := r, mc_world := w\<rparr>)
       (control_motion (pf_env P) (pf_libm P) c (mc_robot m) (mc_world m))"

definition run_control :: "platform \<Rightarrow> state_id \<Rightarrow> bool \<Rightarrow> ControlEvent \<Rightarrow> machine \<Rightarrow>
    (handler_result \<times> machine) option" where
  "run_control P self touch ev m =
     map_option (\<lambda>m'. (stayOnThisState, m'))
       (Option.bind (if touch then touch_parent P self m else Some m)
         (robot_command P (ev_controlData ev)))"

definition elapsed_ms :: "int \<Rightarrow> int \<Rightarrow> int" where
  "elapsed_ms t last_time = (t - last_time) sdiv 1000000"

definition moving_onEvent :: "platform \<Rightarrow> ControlEvent \<Rightarrow> machine \<Rightarrow> handler_result \<times> machine" where
  "moving_onEvent P ev m =
     (case ev_type ev of
        Ev_critical_error \<Rightarrow> (transTo CriticalErrorState, m)
      | Ev_timeout \<Rightarrow>
          (let (t, m1) = clock_now P m
           in if elapsed_ms t (mc_lastEventTime m1 MovingState) \<le> mc_timeoutMs m1 MovingState - 10
              then (stayOnThisState,
                    addPostDelayedEvent P MovingState (event_of_type Ev_timeout)
                      (mc_timeoutMs m1 MovingState) m1)
              else (transTo IdleState, m1))
      | Ev_stop \<Rightarrow> (transTo IdleState, m)
      | _ \<Rightarrow> (stayOnThisState, m))"

definition listening_onEvent :: "platform \<Rightarrow> ControlEvent \<Rightarrow> machine \<Rightarrow> handler_result \<times> machine" where
  "listening_onEvent P ev m =
     (case ev_type ev of
        Ev_critical_error \<Rightarrow> (transTo CriticalErrorState, m)
      | Ev_control \<Rightarrow> (transTo MovingState, clearDelayedEvents m)
      | Ev_timeout \<Rightarrow>
          (let (t, m1) = clock_now P m
           in if elapsed_ms t (mc_lastEventTime m1 ListeningState) \<le> mc_timeoutMs m1 ListeningState - 10
              then (stayOnThisState,
                    addPostDelayedEvent P ListeningState (event_of_type Ev_timeout) 4000 m1)
              else (transTo IdleState, m1))
      | Ev_stop \<Rightarrow> (transTo IdleState, clearDelayedEvents m)
      | _ \<Rightarrow> (stayOnThisState, m))"

definition idle_onEvent :: "ControlEvent \<Rightarrow> machine \<Rightarrow> handler_result \<times> machine" where
  "idle_onEvent ev m =
     (if ev_type ev = Ev_control then transTo MovingState else stayOnThisState, m)"

definition tui_onEvent :: "platform \<Rightarrow> ControlEvent \<Rightarrow> machine \<Rightarrow> (handler_result \<times> machine) option" where
  "tui_onEvent P ev m =
     (if ev_source ev \<noteq> Src_tuiService then Some (stayOnThisState, m)
      else if ev_type ev = Ev_control then run_control P TuiControlState True ev m
      else Some (stayOnThisState, m))"

definition remote_onEvent :: "platform \<Rightarrow> ControlEvent \<Rightarrow> machine \<Rightarrow> (handler_result \<times> machine) option" where
  "remote_onEvent P ev m =
     (if ev_type ev = Ev_control then run_control P RemoteControlState True ev m
      else Some (stayOnThisState, m))"

definition talking_onEvent :: "platform \<Rightarrow> ControlEvent \<Rightarrow> machine \<Rightarrow> (handler_result \<times> machine) option" where
  "talking_onEvent P ev m =
     (if ev_type ev = Ev_control
      then run_control P TalkingState (ev_source ev = mc_entrySource m) ev m
      else Some (stayOnThisState, m))"

definition tracking_onEvent :: "platform \<Rightarrow> ControlEvent \<Rightarrow> machine \<Rightarrow> (handler_result \<times> machine) option" where
  "tracking_onEvent P ev m =
     (if ev_type ev = Ev_control then run_control P TrackingState True ev m
      else Some (stayOnThisState, m))"

text \<open>\<open>CriticalErrorState\<close> and \<open>InitializeState\<close> ignore every event.\<close>

fun onEvent :: "platform \<Rightarrow> state_id \<Rightarrow> ControlEvent \<Rightarrow> machine \<Rightarrow> (handler_result \<times> machine) option" where
  "onEvent P IdleState ev m = Some (idle_onEvent ev m)"
| "onEvent P MovingState ev m = Some (moving_onEvent P ev m)"
| "onEvent P CriticalErrorState ev m = Some (stayOnThisState, m)"
| "onEvent P InitializeState ev m = Some (stayOnThisState, m)"
| "onEvent P TuiControlState ev m = tui_onEvent P ev m"
| "onEvent P RemoteControlState ev m = remote_onEvent P ev m"
| "onEvent P TalkingState ev m = talking_onEvent P ev m"
| "onEvent P TrackingState ev m = tracking_onEvent P ev m"
| "onEvent P ListeningState ev m = Some (listening_onEvent P ev m)"

lemmas state_handlers [simp] =
  idle_onEnter_def remote_onEnter_def talking_onEnter_def tracking_onEnter_def listening_onEnter_def
  idle_onEvent_def tui_onEvent_def remote_onEvent_def talking_onEvent_def tracking_onEvent_def

section \<open>Transitions\<close>

fun depth :: "state_id \<Rightarrow> nat" where
  "depth s = (if parentState s = None then 0 else 1)"

text \<open>The chain from a state to its root.\<close>

function ancestors :: "state_id option \<Rightarrow> state_id list" where
  "ancestors None = []"
| "ancestors (Some s) = s # ancestors (parentState s)"
  by pat_completeness auto
termination
proof (relation "measure (\<lambda>x. case x of None \<Rightarrow> 0 | Some s \<Rightarrow> Suc (depth s))")
  show "(parentState s, Some s) \<in> measure (\<lambda>x. case x of None \<Rightarrow> 0 | Some s \<Rightarrow> Suc (depth s))" for s
    by (cases s) auto
qed simp

text \<open>The last common element of the two chains, read from their roots.\<close>

fun common_root :: "state_id option \<Rightarrow> state_id list \<Rightarrow> state_id list \<Rightarrow> state_id option" where
  "common_root lca (f # fs) (t # ts) = (if f = t then common_root (Some f) fs ts else lca)"
| "common_root lca _ _ = lca"

text \<open>The walk over \<open>toChain\<close> from its root, stopping at the common ancestor.\<close>

definition enter_list :: "state_id option \<Rightarrow> state_id list \<Rightarrow> state_id list" where
  "enter_list lca toChain =
     (let l = takeWhile (\<lambda>s. Some s \<noteq> lca) (rev toChain)
      in if lca = None then rev toChain else l)"

definition exit_list :: "state_id option \<Rightarrow> state_id list \<Rightarrow> state_id list" where
  "exit_list lca fromChain = takeWhile (\<lambda>s. Some s \<noteq> lca) fromChain"

text \<open>The entry loop; the second component is \<open>toState\<close>.\<close>

fun enter_states ::
    "platform \<Rightarrow> ControlEvent \<Rightarrow> state_id list \<Rightarrow> state_id \<Rightarrow> machine \<Rightarrow> (state_id \<times> machine) option" where
  "enter_states P cause [] to m = Some (to, m)"
| "enter_states P cause (s # ss) to m =
     (let (result, m1) = onEnter P s cause m
      in (case result of
            None \<Rightarrow> enter_states P cause ss to m1
          | Some v \<Rightarrow>
              if v = Some s then enter_states P cause ss to m1
              else (case v of
                      None \<Rightarrow> None
                    | Some t \<Rightarrow> enter_states P cause ss t (snd (onEnter P t cause m1)))))"

definition transition ::
    "platform \<Rightarrow> state_id option \<Rightarrow> ControlEvent \<Rightarrow> machine \<Rightarrow> machine option" where
  "transition P toState cause m =
     (case toState of
        None \<Rightarrow> Some m
      | Some to \<Rightarrow>
          if \<not> mc_running m then Some m
          else let fromChain = ancestors (mc_currentState m);
                   toChain = ancestors (Some to);
                   lca = common_root None (rev fromChain) (rev toChain);
                   m1 = fold (\<lambda>s. onExit s cause) (exit_list lca fromChain) m
               in Option.bind (enter_states P cause (enter_list lca toChain) to m1)
                    (\<lambda>(s, m2). map_option snd (onEvent P s cause (m2\<lparr>mc_currentState := Some s\<rparr>))))"

fun dispatch_chain ::
    "platform \<Rightarrow> ControlEvent \<Rightarrow> state_id list \<Rightarrow> machine \<Rightarrow> machine option" where
  "dispatch_chain P ev [] m = Some m"
| "dispatch_chain P ev (s # ss) m =
     Option.bind (onEvent P s ev m)
       (\<lambda>(result, m1).
          case result of
            None \<Rightarrow> dispatch_chain P ev ss m1
          | Some v \<Rightarrow> if v = Some s then Some m1 else transition P v ev m1)"

definition dispatch :: "platform \<Rightarrow> ControlEvent \<Rightarrow> machine \<Rightarrow> machine option" where
  "dispatch P ev m = dispatch_chain P ev (ancestors (mc_currentState m)) m"

section \<open>The worker loop\<close>

text \<open>\<open>expire_timers\<close> posts every timer that is due, in order.\<close>

fun due_timers :: "int \<Rightarrow> (int \<times> ControlEvent) list \<Rightarrow> ControlEvent list \<times> (int \<times> ControlEvent) list" where
  "due_timers t [] = ([], [])"
| "due_timers t ((t', ev) # ts) =
     (if t' \<le> t then (let (evs, rest) = due_timers t ts in (ev # evs, rest)) else ([], (t', ev) # ts))"

definition expire_timers :: "platform \<Rightarrow> machine \<Rightarrow> machine" where
  "expire_timers P m =
     (let (t, m1) = clock_now P m; (evs, rest) = due_timers t (mc_timers m1)
      in fold postEvent evs (m1\<lparr>mc_timers := rest\<rparr>))"

text \<open>
  One pass of the loop. With an empty queue the code waits for a notification or the next
  timer and then starts over, which is a pass that does nothing.
\<close>

definition loop_pass :: "platform \<Rightarrow> machine \<Rightarrow> machine option" where
  "loop_pass P m =
     (if \<not> mc_running m then Some m
      else let m1 = expire_timers P m
           in (case mc_eventQueue m1 of
                 [] \<Rightarrow> Some m1
               | ev # evs \<Rightarrow> dispatch P ev (m1\<lparr>mc_eventQueue := evs\<rparr>)))"

definition machine_start :: "platform \<Rightarrow> machine \<Rightarrow> machine option" where
  "machine_start P m =
     transition P (Some InitializeState) (event_of_type Ev_none) (m\<lparr>mc_running := True\<rparr>)"

definition machine_stop :: "machine \<Rightarrow> machine" where
  "machine_stop m = m\<lparr>mc_running := False\<rparr>"

text \<open>The machine \<open>Robot()\<close> constructs, around a robot whose controllers are not made yet.\<close>

definition machine_new :: "robot \<Rightarrow> world \<Rightarrow> machine" where
  "machine_new r w =
     \<lparr>mc_robot = r, mc_world = w, mc_currentState = None, mc_running = False, mc_eventQueue = [],
      mc_timers = [], mc_lastEventTime = (\<lambda>_. 0),
      mc_timeoutMs = (\<lambda>s. if s = MovingState then moving_timeoutMs else 0),
      mc_entrySource = Src_none\<rparr>"

text \<open>
  The running system: the worker passes through its loop, any thread posts events, the
  service stops the machine.
\<close>

inductive machine_step :: "platform \<Rightarrow> machine \<Rightarrow> machine \<Rightarrow> bool" for P where
  step_pass: "loop_pass P m = Some m' \<Longrightarrow> machine_step P m m'"
| step_post: "machine_step P m (postEvent ev m)"
| step_stop: "machine_step P m (machine_stop m)"

inductive reachable :: "platform \<Rightarrow> robot \<Rightarrow> world \<Rightarrow> machine \<Rightarrow> bool" for P r w where
  reach_start: "machine_start P (machine_new r w) = Some m \<Longrightarrow> reachable P r w m"
| reach_step: "reachable P r w m \<Longrightarrow> machine_step P m m' \<Longrightarrow> reachable P r w m'"

inductive_cases machine_stepE: "machine_step P m m'"

end
