(* ===== verification/Machine_Behaviour.thy ===== *)
theory Machine_Behaviour
  imports State_Machine
begin

text \<open>
  The functional behaviour of the robot's state machine, event by event: where every event
  leads from every state the machine can be in, and what it does to the robot. The lemmas
  evaluate the generic transition algorithm on the robot's two-level hierarchy.
\<close>

section \<open>The hierarchy\<close>

lemma transTo_created [simp]:
  "transTo IdleState = Some (Some IdleState)"
  "transTo MovingState = Some (Some MovingState)"
  "transTo CriticalErrorState = Some (Some CriticalErrorState)"
  "transTo InitializeState = Some (Some InitializeState)"
  "transTo TuiControlState = Some (Some TuiControlState)"
  "transTo RemoteControlState = Some (Some RemoteControlState)"
  "transTo TalkingState = Some (Some TalkingState)"
  "transTo TrackingState = Some (Some TrackingState)"
  "transTo ListeningState = Some None"
  by (simp_all add: transTo_def transState_def states_def)

lemma stay_simp [simp]: "stayOnThisState = None"
  by (simp add: stayOnThisState_def)

definition moving_child :: "state_id \<Rightarrow> bool" where
  "moving_child s \<longleftrightarrow> parentState s = Some MovingState"

definition moving_family :: "state_id \<Rightarrow> bool" where
  "moving_family s \<longleftrightarrow> s = MovingState \<or> moving_child s"

lemma moving_child_cases:
  "moving_child s \<Longrightarrow> s = TuiControlState \<or> s = RemoteControlState \<or> s = TalkingState \<or> s = TrackingState"
  by (cases s) (simp_all add: moving_child_def)

lemma ancestors_family:
  "moving_family s \<Longrightarrow> ancestors (Some s) = (if s = MovingState then [MovingState] else [s, MovingState])"
  by (cases s) (simp_all add: moving_family_def moving_child_def)

lemma fold_onExit [simp]: "fold (\<lambda>s. onExit s cause) ss m = m"
  by (induction ss) simp_all

text \<open>
  A state whose parent chain shares nothing with the current one is entered from its root;
  a state that shares its root with the current one is not entered at all.
\<close>

lemma common_root_parentless:
  "parentState s = None \<Longrightarrow> rev (ancestors (Some s)) = [s]"
  by simp

lemma enter_list_unrelated: "enter_list None toChain = rev toChain"
  by (simp add: enter_list_def)

lemma enter_list_shared_root:
  "enter_list (Some r) (ss @ [r]) = []"
  by (simp add: enter_list_def)

lemma transition_stopped: "\<not> mc_running m \<Longrightarrow> transition P to cause m = Some m"
  by (simp add: transition_def split: option.split)

lemma transition_null [simp]: "transition P None cause m = Some m"
  by (simp add: transition_def)

text \<open>Leaving for a parentless state other than the current root.\<close>

lemma transition_to_root:
  assumes "mc_running m" and "parentState t = None" and "t \<notin> set (ancestors (mc_currentState m))"
  shows "transition P (Some t) cause m =
    Option.bind (enter_states P cause [t] t m)
      (\<lambda>(s, m2). map_option snd (onEvent P s cause (m2\<lparr>mc_currentState := Some s\<rparr>)))"
proof -
  have "common_root None (rev (ancestors (mc_currentState m))) [t] = None"
    using assms(3) by (cases "rev (ancestors (mc_currentState m))") auto
  then show ?thesis
    using assms(1,2) by (simp add: transition_def enter_list_def Let_def)
qed

section \<open>Entering the moving states\<close>

text \<open>Where a control event goes from the idle state, by its source.\<close>

fun route :: "SourceService \<Rightarrow> state_id" where
  "route Src_tuiService = TuiControlState"
| "route Src_remoteConnectionService = RemoteControlState"
| "route Src_expressionService = TalkingState"
| "route Src_landmarkTrackerService = TalkingState"
| "route _ = MovingState"

lemma route_family: "moving_family (route src)"
  by (cases src) (simp_all add: moving_family_def moving_child_def)

lemma moving_onEnter_route:
  "moving_onEnter P ev m =
     (if route (ev_source ev) = MovingState then None else Some (Some (route (ev_source ev))),
      snd (moving_onEnter P ev m))"
  by (cases "ev_source ev") (simp_all add: moving_onEnter_def Let_def)

definition enter_route :: "platform \<Rightarrow> ControlEvent \<Rightarrow> machine \<Rightarrow> machine" where
  "enter_route P ev m =
     (let m1 = snd (moving_onEnter P ev m); s = route (ev_source ev);
          m2 = (if s = MovingState then m1 else snd (onEnter P s ev m1))
      in m2\<lparr>mc_currentState := Some s\<rparr>)"

lemma dispatch_idle_control:
  assumes "mc_running m" and "mc_currentState m = Some IdleState" and "ev_type ev = Ev_control"
  shows "dispatch P ev m = map_option snd (onEvent P (route (ev_source ev)) ev (enter_route P ev m))"
proof -
  have "dispatch P ev m = transition P (Some MovingState) ev m"
    using assms by (simp add: dispatch_def)
  also have "\<dots> = Option.bind (enter_states P ev [MovingState] MovingState m)
      (\<lambda>(s, m2). map_option snd (onEvent P s ev (m2\<lparr>mc_currentState := Some s\<rparr>)))"
    using assms by (intro transition_to_root) simp_all
  also have "enter_states P ev [MovingState] MovingState m =
      Some (route (ev_source ev),
        let m1 = snd (moving_onEnter P ev m)
        in if route (ev_source ev) = MovingState then m1
           else snd (onEnter P (route (ev_source ev)) ev m1))"
    using arg_cong [where f = fst, OF moving_onEnter_route [of P ev m]]
    by (cases "route (ev_source ev) = MovingState") (simp_all add: case_prod_beta Let_def)
  finally show ?thesis
    by (simp add: enter_route_def Let_def)
qed

lemma dispatch_idle_other:
  "mc_currentState m = Some IdleState \<Longrightarrow> ev_type ev \<noteq> Ev_control \<Longrightarrow> dispatch P ev m = Some m"
  by (simp add: dispatch_def)

section \<open>Events in the moving states\<close>

lemma child_ignores:
  "moving_child s \<Longrightarrow> ev_type ev \<noteq> Ev_control \<Longrightarrow> onEvent P s ev m = Some (None, m)"
  by (cases s) (simp_all add: moving_child_def)

lemma dispatch_family_other:
  assumes "mc_currentState m = Some s" and "moving_family s" and "ev_type ev \<noteq> Ev_control"
  shows "dispatch P ev m =
    (case moving_onEvent P ev m of
       (None, m1) \<Rightarrow> Some m1
     | (Some v, m1) \<Rightarrow> if v = Some MovingState then Some m1 else transition P v ev m1)"
  using assms
  by (auto simp: dispatch_def ancestors_family moving_family_def child_ignores simp del: ancestors.simps
      split: prod.split option.split)

text \<open>Going idle switches the sensors on and the motors off, and sends nothing to them.\<close>

definition idle_now :: "machine \<Rightarrow> machine" where
  "idle_now m =
     m\<lparr>mc_robot := setEnableSensorContinuousReadings True (mc_robot m),
       mc_currentState := Some IdleState\<rparr>"

lemma transition_idle:
  assumes "mc_running m" and "mc_currentState m = Some s" and "moving_family s"
    and "ev_type ev \<noteq> Ev_control"
  shows "transition P (Some IdleState) ev m = Some (idle_now m)"
proof -
  have "IdleState \<notin> set (ancestors (mc_currentState m))"
    using assms by (auto simp: ancestors_family moving_family_def moving_child_def simp del: ancestors.simps
        split: if_splits)
  then show ?thesis
    using assms(1,4) by (simp add: transition_to_root idle_now_def with_robot_def)
qed

lemma transition_critical:
  assumes "mc_running m" and "mc_currentState m = Some s" and "moving_family s"
  shows "transition P (Some CriticalErrorState) ev m =
    Some (m\<lparr>mc_currentState := Some CriticalErrorState\<rparr>)"
proof -
  have "CriticalErrorState \<notin> set (ancestors (mc_currentState m))"
    using assms by (auto simp: ancestors_family moving_family_def moving_child_def simp del: ancestors.simps
        split: if_splits)
  then show ?thesis
    using assms(1) by (simp add: transition_to_root)
qed

lemma dispatch_family_stop:
  assumes "mc_running m" and "mc_currentState m = Some s" and "moving_family s" and "ev_type ev = Ev_stop"
  shows "dispatch P ev m = Some (idle_now m)"
  using assms by (simp add: dispatch_family_other moving_onEvent_def transition_idle)

lemma dispatch_family_critical:
  assumes "mc_running m" and "mc_currentState m = Some s" and "moving_family s"
    and "ev_type ev = Ev_critical_error"
  shows "dispatch P ev m = Some (m\<lparr>mc_currentState := Some CriticalErrorState\<rparr>)"
  using assms by (simp add: dispatch_family_other moving_onEvent_def transition_critical)

definition clock_at :: "platform \<Rightarrow> machine \<Rightarrow> int" where
  "clock_at P m = fst (clock_now P m)"

lemma clock_now_simps [simp]:
  "mc_robot (snd (clock_now P m)) = mc_robot m"
  "mc_currentState (snd (clock_now P m)) = mc_currentState m"
  "mc_running (snd (clock_now P m)) = mc_running m"
  "mc_eventQueue (snd (clock_now P m)) = mc_eventQueue m"
  "mc_timers (snd (clock_now P m)) = mc_timers m"
  "mc_lastEventTime (snd (clock_now P m)) = mc_lastEventTime m"
  "mc_timeoutMs (snd (clock_now P m)) = mc_timeoutMs m"
  "mc_entrySource (snd (clock_now P m)) = mc_entrySource m"
  "mc_world (snd (clock_now P m)) = Clock_now # mc_world m"
  by (simp_all add: clock_now_def ask_def)

text \<open>
  The timeout: the machine goes idle when the last command is more than
  \<open>_timeoutMs - 10\<close> milliseconds old, otherwise it arms one more timer.
\<close>

definition command_is_old :: "platform \<Rightarrow> machine \<Rightarrow> bool" where
  "command_is_old P m \<longleftrightarrow>
     mc_timeoutMs m MovingState - 10 < elapsed_ms (clock_at P m) (mc_lastEventTime m MovingState)"

lemma dispatch_family_timeout:
  assumes "mc_running m" and "mc_currentState m = Some s" and "moving_family s"
    and "ev_type ev = Ev_timeout"
  shows "dispatch P ev m =
    Some (if command_is_old P m then idle_now (snd (clock_now P m))
          else addPostDelayedEvent P MovingState (event_of_type Ev_timeout) (mc_timeoutMs m MovingState)
                 (snd (clock_now P m)))"
  using assms
  by (simp add: dispatch_family_other moving_onEvent_def transition_idle command_is_old_def clock_at_def
      case_prod_beta Let_def not_le)

lemma dispatch_family_inert:
  "mc_currentState m = Some s \<Longrightarrow> moving_family s \<Longrightarrow> ev_type ev \<in> {Ev_none, Ev_listen_voice} \<Longrightarrow>
   dispatch P ev m = Some m"
  by (auto simp: dispatch_family_other moving_onEvent_def)

text \<open>A control event: what each moving state does with it.\<close>

definition accepts :: "state_id \<Rightarrow> SourceService \<Rightarrow> bool" where
  "accepts s src \<longleftrightarrow> moving_child s \<and> (s = TuiControlState \<longrightarrow> src = Src_tuiService)"

definition refreshes :: "state_id \<Rightarrow> SourceService \<Rightarrow> SourceService \<Rightarrow> bool" where
  "refreshes s entry src \<longleftrightarrow> (s = TalkingState \<longrightarrow> src = entry)"

definition stamp :: "platform \<Rightarrow> machine \<Rightarrow> machine" where
  "stamp P m =
     (let (t, m') = clock_now P m
      in m'\<lparr>mc_lastEventTime := (mc_lastEventTime m')(MovingState := t)\<rparr>)"

definition perform :: "platform \<Rightarrow> state_id \<Rightarrow> ControlEvent \<Rightarrow> machine \<Rightarrow> machine option" where
  "perform P s ev m =
     robot_command P (ev_controlData ev)
       (if refreshes s (mc_entrySource m) (ev_source ev) then stamp P m else m)"

lemma onEvent_control:
  assumes "moving_family s" and "ev_type ev = Ev_control"
  shows "onEvent P s ev m =
    (if accepts s (ev_source ev) then map_option (Pair None) (perform P s ev m) else Some (None, m))"
proof (cases "s = MovingState")
  case True
  then show ?thesis
    using assms(2) by (simp add: accepts_def moving_child_def moving_onEvent_def)
next
  case False
  then have s: "s = TuiControlState \<or> s = RemoteControlState \<or> s = TalkingState \<or> s = TrackingState"
    using assms(1) by (intro moving_child_cases) (simp add: moving_family_def)
  have run: "run_control P s touch ev m =
      map_option (Pair None) (robot_command P (ev_controlData ev) (if touch then stamp P m else m))"
    for touch
    using s by (auto simp: run_control_def touch_parent_def stamp_def fun_eq_iff case_prod_beta Let_def
        option.map_comp o_def)
  show ?thesis
    using s assms(2) run
    by (elim disjE) (simp_all add: accepts_def moving_child_def perform_def refreshes_def)
qed

lemma dispatch_family_control:
  assumes "mc_currentState m = Some s" and "moving_family s" and "ev_type ev = Ev_control"
  shows "dispatch P ev m = (if accepts s (ev_source ev) then perform P s ev m else Some m)"
proof (cases "s = MovingState")
  case True
  then show ?thesis
    using assms
    by (simp add: dispatch_def onEvent_control [OF assms(2,3)] accepts_def moving_child_def moving_onEvent_def)
next
  case False
  then have chain: "ancestors (mc_currentState m) = [s, MovingState]"
    using assms by (simp add: ancestors_family del: ancestors.simps)
  have mv: "onEvent P MovingState ev m' = Some (None, m')" for m'
    using assms(3) by (simp add: moving_onEvent_def)
  show ?thesis
    using chain assms mv
    by (cases "perform P s ev m") (simp_all add: dispatch_def onEvent_control del: onEvent.simps)
qed

lemma dispatch_critical:
  "mc_currentState m = Some CriticalErrorState \<Longrightarrow> dispatch P ev m = Some m"
  by (simp add: dispatch_def)

end
