(* ===== verification/Machine_Invariants.thy ===== *)
theory Machine_Invariants
  imports Machine_Behaviour
begin

text \<open>
  Invariants of every reachable configuration of the state machine, under every sequence of
  posted events, timer readings and device answers. The interface \<open>machine_invariant\<close> says
  what has to be shown of an invariant; its lemma \<open>always\<close> is the rule induction, done once.
\<close>

section \<open>Proving an invariant\<close>

locale machine_invariant =
  fixes P :: platform and r :: robot and w :: world and I :: "machine \<Rightarrow> bool"
  assumes I_start: "machine_start P (machine_new r w) = Some m \<Longrightarrow> I m"
    and I_post: "I m \<Longrightarrow> I (postEvent ev m)"
    and I_stop: "I m \<Longrightarrow> I (machine_stop m)"
    and I_expire: "I m \<Longrightarrow> I (expire_timers P m)"
    and I_dispatch: "I m \<Longrightarrow> mc_running m \<Longrightarrow> mc_eventQueue m = ev # evs \<Longrightarrow>
      dispatch P ev (m\<lparr>mc_eventQueue := evs\<rparr>) = Some m' \<Longrightarrow> I m'"
begin

lemma I_pass:
  assumes "I m" and "loop_pass P m = Some m'"
  shows "I m'"
proof (cases "mc_running m")
  case False
  with assms show ?thesis by (simp add: loop_pass_def)
next
  case True
  let ?m = "expire_timers P m"
  have run: "mc_running ?m"
  proof -
    have "mc_running (fold postEvent evs m0) = mc_running m0" for evs m0
      by (rule fold_unchanged) (simp add: postEvent_def)
    then show ?thesis
      using True by (simp add: expire_timers_def case_prod_beta Let_def)
  qed
  show ?thesis
  proof (cases "mc_eventQueue ?m")
    case Nil
    with assms True I_expire [OF assms(1)] show ?thesis by (simp add: loop_pass_def Let_def)
  next
    case (Cons ev evs)
    with assms True have "dispatch P ev (?m\<lparr>mc_eventQueue := evs\<rparr>) = Some m'"
      by (simp add: loop_pass_def Let_def)
    then show ?thesis
      using I_dispatch [OF I_expire [OF assms(1)] run Cons] by simp
  qed
qed

lemma always: "reachable P r w m \<Longrightarrow> I m"
proof (induction rule: reachable.induct)
  case (reach_start m)
  then show ?case by (rule I_start)
next
  case (reach_step m m')
  from reach_step.hyps(2) show ?case
    by (cases rule: machine_stepE) (auto intro: I_pass I_post I_stop reach_step.IH)
qed

end

section \<open>Starting\<close>

lemma robot_initialize_true: "fst (robot_initialize E b r w)"
  by (simp add: robot_initialize_def case_prod_beta Let_def)

definition booted :: "platform \<Rightarrow> robot \<Rightarrow> world \<Rightarrow> robot \<times> world" where
  "booted P r w = snd (robot_initialize (pf_env P) (pf_boot P) r w)"

lemma machine_start_idle:
  "machine_start P (machine_new r w) =
     Some (idle_now ((machine_new r w)\<lparr>mc_running := True, mc_robot := fst (booted P r w),
             mc_world := snd (booted P r w)\<rparr>))"
proof -
  have init: "onEnter P InitializeState cause m =
      (Some (Some IdleState), m\<lparr>mc_robot := fst (booted P (mc_robot m) (mc_world m)),
         mc_world := snd (booted P (mc_robot m) (mc_world m))\<rparr>)" for cause m
    using robot_initialize_true [of "pf_env P" "pf_boot P" "mc_robot m" "mc_world m"]
    by (simp add: initialize_onEnter_def booted_def case_prod_beta Let_def)
  show ?thesis
    unfolding machine_start_def
    by (subst transition_to_root)
      (simp_all add: machine_new_def init idle_now_def with_robot_def event_of_type_def
        del: onEnter.simps(4))
qed

section \<open>Which controllers are enabled in which state\<close>

definition sensors_on :: "robot \<Rightarrow> bool" where
  "sensors_on r \<longleftrightarrow> ct_enable (rb_compass r) \<and> ct_enable (rb_distance r) \<and> ct_enable (rb_power r)"

definition sensors_off :: "robot \<Rightarrow> bool" where
  "sensors_off r \<longleftrightarrow>
     \<not> ct_enable (rb_compass r) \<and> \<not> ct_enable (rb_distance r) \<and> \<not> ct_enable (rb_power r)"

definition motors_on :: "robot \<Rightarrow> bool" where
  "motors_on r \<longleftrightarrow> ct_enable (rb_servo r) \<and> ct_enable (rb_dc r)"

definition motors_off :: "robot \<Rightarrow> bool" where
  "motors_off r \<longleftrightarrow> \<not> ct_enable (rb_servo r) \<and> \<not> ct_enable (rb_dc r)"

lemmas enable_defs = sensors_on_def sensors_off_def motors_on_def motors_off_def

text \<open>States the machine is ever in have a policy; the others do not occur.\<close>

fun enabled_as :: "state_id \<Rightarrow> robot \<Rightarrow> bool" where
  "enabled_as IdleState r = (sensors_on r \<and> motors_off r)"
| "enabled_as MovingState r = (sensors_off r \<and> motors_on r)"
| "enabled_as TuiControlState r = (sensors_off r \<and> motors_on r)"
| "enabled_as RemoteControlState r = (sensors_on r \<and> motors_on r)"
| "enabled_as TalkingState r = (sensors_on r \<and> motors_on r)"
| "enabled_as CriticalErrorState r = motors_on r"
| "enabled_as _ r = False"

lemma enable_readings:
  "enabled_as IdleState (setEnableSensorContinuousReadings True r)"
  "enabled_as MovingState (setEnableSensorContinuousReadings False r)"
  by (simp_all add: setEnableSensorContinuousReadings_def enable_defs)

lemma enable_reporting_on: "motors_on r \<Longrightarrow> sensors_on (enable_reporting r) \<and> motors_on (enable_reporting r)"
  by (simp add: enable_reporting_def enable_defs)

lemma robot_same_enabled: "robot_same r r' \<Longrightarrow> enabled_as s r' = enabled_as s r"
  using robot_same_fields(1-4,7) [of r r'] by (cases s) (simp_all add: enable_defs)

lemma enabled_as_family: "enabled_as s r \<Longrightarrow> moving_family s \<Longrightarrow> motors_on r"
  by (cases s) (simp_all add: moving_family_def moving_child_def)

section \<open>The invariant\<close>

abbreviation timeout_event :: ControlEvent where
  "timeout_event \<equiv> event_of_type Ev_timeout"

definition timers_ok :: "machine \<Rightarrow> bool" where
  "timers_ok m \<longleftrightarrow>
     sorted (map fst (mc_timers m)) \<and> (\<forall>p \<in> set (mc_timers m). snd p = timeout_event)"

text \<open>A timeout that is armed or already queued.\<close>

definition timeout_pending :: "machine \<Rightarrow> bool" where
  "timeout_pending m \<longleftrightarrow> mc_timers m \<noteq> [] \<or> timeout_event \<in> set (mc_eventQueue m)"

definition machine_inv :: "machine \<Rightarrow> bool" where
  "machine_inv m \<longleftrightarrow>
     (\<exists>s. mc_currentState m = Some s \<and> enabled_as s (mc_robot m) \<and>
        (moving_family s \<longrightarrow> timeout_pending m)) \<and>
     timers_ok m \<and> mc_timeoutMs m MovingState = moving_timeoutMs"

lemma machine_invE:
  assumes "machine_inv m"
  obtains s where "mc_currentState m = Some s" "enabled_as s (mc_robot m)"
    "moving_family s \<Longrightarrow> timeout_pending m" "timers_ok m" "mc_timeoutMs m MovingState = moving_timeoutMs"
  using assms unfolding machine_inv_def by blast

subsection \<open>Timers\<close>

lemma set_timer_insert [simp]: "set (timer_insert t ev ts) = insert (t, ev) (set ts)"
  by (induction ts) (auto split: if_splits)

lemma timer_insert_not_Nil [simp]: "timer_insert t ev ts \<noteq> []"
  by (cases ts) (auto split: if_splits)

lemma sorted_timer_insert: "sorted (map fst ts) \<Longrightarrow> sorted (map fst (timer_insert t ev ts))"
  by (induction ts) (force split: if_splits)+

lemma due_timers_split: "due_timers t ts = (evs, rest) \<Longrightarrow> \<exists>due. ts = due @ rest \<and> evs = map snd due"
proof (induction ts arbitrary: evs rest)
  case Nil
  then show ?case by simp
next
  case (Cons p ts)
  obtain t' ev where p: "p = (t', ev)" by (cases p)
  show ?case
  proof (cases "t' \<le> t")
    case True
    then obtain evs' where "due_timers t ts = (evs', rest)" "evs = ev # evs'"
      using Cons.prems p by (auto simp: Let_def split: prod.splits)
    with Cons.IH obtain due where "ts = due @ rest" "evs' = map snd due" by blast
    with \<open>evs = ev # evs'\<close> p show ?thesis
      by (intro exI [of _ "p # due"]) simp
  next
    case False
    with Cons.prems p show ?thesis by simp
  qed
qed

lemma fold_postEvent: "fold postEvent evs m = m\<lparr>mc_eventQueue := mc_eventQueue m @ evs\<rparr>"
  by (induction evs arbitrary: m) (simp_all add: postEvent_def)

lemma expire_timers_eq:
  "expire_timers P m =
     (snd (clock_now P m))\<lparr>
       mc_timers := snd (due_timers (clock_at P m) (mc_timers m)),
       mc_eventQueue := mc_eventQueue m @ fst (due_timers (clock_at P m) (mc_timers m))\<rparr>"
  by (simp add: expire_timers_def fold_postEvent clock_at_def case_prod_beta Let_def)

lemma expire_timers_pending:
  assumes "timers_ok m"
  shows "timers_ok (expire_timers P m) \<and> (timeout_pending m \<longrightarrow> timeout_pending (expire_timers P m))"
proof -
  obtain evs rest where d: "due_timers (clock_at P m) (mc_timers m) = (evs, rest)"
    by (cases "due_timers (clock_at P m) (mc_timers m)")
  then obtain due where *: "mc_timers m = due @ rest" "evs = map snd due"
    using due_timers_split by blast
  have "rest = [] \<and> mc_timers m \<noteq> [] \<Longrightarrow> timeout_event \<in> set evs"
    using assms * by (cases due) (auto simp: timers_ok_def)
  then show ?thesis
    using assms * d
    by (auto simp: expire_timers_eq timers_ok_def timeout_pending_def sorted_append)
qed

lemma addPostDelayedEvent_arms:
  assumes "mc_timeoutMs m s > 0"
  shows "addPostDelayedEvent P s ev d m =
    (snd (clock_now P m))\<lparr>mc_timers :=
       timer_insert (clock_at P m + mc_timeoutMs m s * 1000000) timeout_event (mc_timers m)\<rparr>"
  using assms
  by (simp add: addPostDelayedEvent_def postDelayedEvent_def clock_at_def case_prod_beta Let_def)

lemma arm_ok:
  "timers_ok m \<Longrightarrow> timers_ok (m\<lparr>mc_timers := timer_insert t timeout_event (mc_timers m)\<rparr>)"
  by (auto simp: timers_ok_def sorted_timer_insert)

subsection \<open>The invariant is kept\<close>

lemma perform_frame:
  assumes "perform P s ev m = Some m'"
  shows "mc_currentState m' = mc_currentState m" "mc_running m' = mc_running m"
    "mc_eventQueue m' = mc_eventQueue m" "mc_timers m' = mc_timers m"
    "mc_timeoutMs m' = mc_timeoutMs m" "mc_entrySource m' = mc_entrySource m"
    "robot_same (mc_robot m) (mc_robot m')"
proof -
  define m0 where "m0 = (if refreshes s (mc_entrySource m) (ev_source ev) then stamp P m else m)"
  have m0: "mc_currentState m0 = mc_currentState m" "mc_running m0 = mc_running m"
    "mc_eventQueue m0 = mc_eventQueue m" "mc_timers m0 = mc_timers m"
    "mc_timeoutMs m0 = mc_timeoutMs m" "mc_entrySource m0 = mc_entrySource m"
    "mc_robot m0 = mc_robot m"
    by (simp_all add: m0_def stamp_def case_prod_beta Let_def)
  have "robot_command P (ev_controlData ev) m0 = Some m'"
    using assms by (simp add: perform_def m0_def)
  then obtain r w where c: "control_motion (pf_env P) (pf_libm P) (ev_controlData ev) (mc_robot m0)
      (mc_world m0) = Some (r, w)" and m': "m' = m0\<lparr>mc_robot := r, mc_world := w\<rparr>"
    by (auto simp: robot_command_def)
  show "mc_currentState m' = mc_currentState m" "mc_running m' = mc_running m"
    "mc_eventQueue m' = mc_eventQueue m" "mc_timers m' = mc_timers m"
    "mc_timeoutMs m' = mc_timeoutMs m" "mc_entrySource m' = mc_entrySource m"
    using m' m0 by simp_all
  show "robot_same (mc_robot m) (mc_robot m')"
    using control_motion_keeps [OF c] m' m0 by simp
qed

lemma perform_inv:
  assumes "machine_inv m" and "perform P s ev m = Some m'"
  shows "machine_inv m'"
  using assms(1) perform_frame [OF assms(2)] robot_same_enabled [OF perform_frame(7) [OF assms(2)]]
  by (simp add: machine_inv_def timers_ok_def timeout_pending_def)

lemma enter_route_fields:
  assumes "mc_timeoutMs m MovingState = moving_timeoutMs"
  shows "mc_currentState (enter_route P ev m) = Some (route (ev_source ev))"
    "mc_timeoutMs (enter_route P ev m) = mc_timeoutMs m"
    "mc_eventQueue (enter_route P ev m) = mc_eventQueue m"
    "\<exists>t. mc_timers (enter_route P ev m) = timer_insert t timeout_event (mc_timers m)"
    "enabled_as (route (ev_source ev)) (mc_robot (enter_route P ev m))"
    "mc_running (enter_route P ev m) = mc_running m"
proof -
  have arm: "addPostDelayedEvent P MovingState e d m' = (snd (clock_now P m'))\<lparr>mc_timers :=
       timer_insert (clock_at P m' + moving_timeoutMs * 1000000) timeout_event (mc_timers m')\<rparr>"
    if "mc_timeoutMs m' MovingState = moving_timeoutMs" for e d m'
    using addPostDelayedEvent_arms [of m' MovingState P e d] that by (simp add: moving_timeoutMs_def)
  have on: "enabled_as MovingState (setEnableSensorContinuousReadings False r)"
    "sensors_on (enable_reporting (setEnableSensorContinuousReadings False r))"
    "motors_on (enable_reporting (setEnableSensorContinuousReadings False r))" for r
    using enable_readings(2) [of r] enable_reporting_on [of "setEnableSensorContinuousReadings False r"]
    by simp_all
  note defs = enter_route_def moving_onEnter_def with_robot_def Let_def
  show "mc_currentState (enter_route P ev m) = Some (route (ev_source ev))"
    by (simp add: enter_route_def Let_def)
  show "mc_timeoutMs (enter_route P ev m) = mc_timeoutMs m"
    "mc_eventQueue (enter_route P ev m) = mc_eventQueue m"
    "mc_running (enter_route P ev m) = mc_running m"
    using assms by (cases "ev_source ev"; simp add: defs arm)+
  show "\<exists>t. mc_timers (enter_route P ev m) = timer_insert t timeout_event (mc_timers m)"
    using assms by (cases "ev_source ev") (auto simp: defs arm)
  show "enabled_as (route (ev_source ev)) (mc_robot (enter_route P ev m))"
    using assms on by (cases "ev_source ev") (simp_all add: defs arm)
qed

lemma enter_route_inv: "machine_inv m \<Longrightarrow> machine_inv (enter_route P ev m)"
proof (elim machine_invE)
  fix s assume *: "timers_ok m" "mc_timeoutMs m MovingState = moving_timeoutMs"
  obtain t where "mc_timers (enter_route P ev m) = timer_insert t timeout_event (mc_timers m)"
    using enter_route_fields(4) [OF *(2)] by blast
  with * enter_route_fields [OF *(2)] show ?thesis
    by (auto simp: machine_inv_def timers_ok_def timeout_pending_def sorted_timer_insert)
qed

lemma idle_now_inv:
  "timers_ok m \<Longrightarrow> mc_timeoutMs m MovingState = moving_timeoutMs \<Longrightarrow> machine_inv (idle_now m)"
  using enable_readings(1) [of "mc_robot m"]
  by (simp add: machine_inv_def idle_now_def timers_ok_def moving_family_def moving_child_def)

lemma onEvent_route_inv:
  assumes "machine_inv m" and "moving_family s" and "ev_type ev = Ev_control"
    and "map_option snd (onEvent P s ev m) = Some m'"
  shows "machine_inv m'"
  using assms perform_inv [OF assms(1)]
  by (auto simp: onEvent_control split: if_splits)

lemma enabled_state_cases:
  "enabled_as s r \<Longrightarrow> s = IdleState \<or> s = CriticalErrorState \<or> moving_family s"
  by (cases s) (simp_all add: moving_family_def moving_child_def)

lemma machine_inv_pop:
  assumes "machine_inv m" and "mc_eventQueue m = ev # evs" and "ev \<noteq> timeout_event"
  shows "machine_inv (m\<lparr>mc_eventQueue := evs\<rparr>)"
  using assms by (auto simp: machine_inv_def timers_ok_def timeout_pending_def)

lemma dispatch_inv:
  assumes inv: "machine_inv m" and run: "mc_running m" and q: "mc_eventQueue m = ev # evs"
    and d: "dispatch P ev (m\<lparr>mc_eventQueue := evs\<rparr>) = Some m'"
  shows "machine_inv m'"
proof -
  obtain s where s: "mc_currentState m = Some s" "enabled_as s (mc_robot m)"
    and t: "timers_ok m" "mc_timeoutMs m MovingState = moving_timeoutMs"
    using inv unfolding machine_inv_def by blast
  let ?m = "m\<lparr>mc_eventQueue := evs\<rparr>"
  have t': "timers_ok ?m" using t(1) by (simp add: timers_ok_def)
  from enabled_state_cases [OF s(2)] consider
    (idle) "s = IdleState" | (critical) "s = CriticalErrorState" | (family) "moving_family s" by blast
  then show ?thesis
  proof cases
    case idle
    have "machine_inv ?m"
      using s t t' idle by (simp add: machine_inv_def moving_family_def moving_child_def)
    then show ?thesis
    proof (cases "ev_type ev = Ev_control")
      case True
      have "map_option snd (onEvent P (route (ev_source ev)) ev (enter_route P ev ?m)) = Some m'"
        using dispatch_idle_control [of ?m ev P] run s idle True d by simp
      then show ?thesis
        by (rule onEvent_route_inv [OF enter_route_inv [OF \<open>machine_inv ?m\<close>] route_family True])
    next
      case False
      then show ?thesis
        using dispatch_idle_other [of ?m ev P] s idle d \<open>machine_inv ?m\<close> by simp
    qed
  next
    case critical
    then show ?thesis
      using dispatch_critical [of ?m P ev] s d t t'
      by (simp add: machine_inv_def moving_family_def moving_child_def)
  next
    case family
    have cur: "mc_currentState ?m = Some s" "mc_running ?m" using s run by simp_all
    have pop: "machine_inv ?m" if "ev_type ev \<noteq> Ev_timeout"
    proof (rule machine_inv_pop [OF inv q])
      show "ev \<noteq> timeout_event" using that by (cases ev) (simp add: event_of_type_def)
    qed
    show ?thesis
    proof (cases "ev_type ev")
      case Ev_control
      then show ?thesis
        using d pop perform_inv [of ?m P s ev m'] by (simp add: dispatch_family_control [OF cur(1) family] split: if_splits)
    next
      case Ev_stop
      then show ?thesis
        using d idle_now_inv [OF t'] t by (simp add: dispatch_family_stop [OF cur(2,1) family])
    next
      case Ev_critical_error
      then show ?thesis
        using d t t' enabled_as_family [OF s(2) family]
        by (auto simp: dispatch_family_critical [OF cur(2,1) family] machine_inv_def timers_ok_def
            moving_family_def moving_child_def)
    next
      case Ev_timeout
      have arm: "machine_inv (addPostDelayedEvent P MovingState timeout_event (mc_timeoutMs ?m MovingState)
          (snd (clock_now P ?m)))"
        using s t t' sorted_timer_insert
        by (subst addPostDelayedEvent_arms)
          (auto simp: machine_inv_def timers_ok_def timeout_pending_def moving_timeoutMs_def)
      have idle: "machine_inv (idle_now (snd (clock_now P ?m)))"
        using t t' by (intro idle_now_inv) (simp_all add: timers_ok_def)
      show ?thesis
        using d arm idle
        by (simp add: dispatch_family_timeout [OF cur(2,1) family Ev_timeout] split: if_splits)
    next
      case Ev_none
      then show ?thesis
        using d pop by (simp add: dispatch_family_inert [OF cur(1) family])
    next
      case Ev_listen_voice
      then show ?thesis
        using d pop by (simp add: dispatch_family_inert [OF cur(1) family])
    qed
  qed
qed

interpretation mi: machine_invariant P r w machine_inv for P r w
proof
  show "machine_inv m" if "machine_start P (machine_new r w) = Some m" for m
  proof -
    have "m = idle_now ((machine_new r w)\<lparr>mc_running := True, mc_robot := fst (booted P r w),
             mc_world := snd (booted P r w)\<rparr>)"
      using that machine_start_idle [of P r w] by simp
    then show ?thesis
      by (simp add: idle_now_inv machine_new_def timers_ok_def)
  qed
  show "machine_inv m \<Longrightarrow> machine_inv (postEvent ev m)" for m ev
    by (auto simp: machine_inv_def postEvent_def timers_ok_def timeout_pending_def)
  show "machine_inv m \<Longrightarrow> machine_inv (machine_stop m)" for m
    by (auto simp: machine_inv_def machine_stop_def timers_ok_def timeout_pending_def)
  show "machine_inv m \<Longrightarrow> machine_inv (expire_timers P m)" for m
    using expire_timers_pending [of m P]
    by (auto simp: machine_inv_def) (auto simp: expire_timers_eq)
qed (rule dispatch_inv)

section \<open>No configuration crashes\<close>

text \<open>Everything one event can lead to, in one disjunction.\<close>

lemma dispatch_cases:
  assumes "mc_currentState m = Some s" and "enabled_as s (mc_robot m)" and "mc_running m"
  shows "dispatch P ev m \<in> {Some m, Some (m\<lparr>mc_currentState := Some CriticalErrorState\<rparr>),
      Some (idle_now m), Some (idle_now (snd (clock_now P m))),
      Some (addPostDelayedEvent P MovingState timeout_event (mc_timeoutMs m MovingState)
        (snd (clock_now P m))),
      perform P s ev m, Some (enter_route P ev m),
      perform P (route (ev_source ev)) ev (enter_route P ev m)}"
proof -
  from enabled_state_cases [OF assms(2)] consider
    (idle) "s = IdleState" | (critical) "s = CriticalErrorState" | (family) "moving_family s" by blast
  then show ?thesis
  proof cases
    case idle
    then show ?thesis
      using assms dispatch_idle_control [of m ev P] dispatch_idle_other [of m ev P]
      by (cases "ev_type ev = Ev_control")
        (simp_all add: onEvent_control [OF route_family] option.map_comp o_def option.map_ident)
  next
    case critical
    then show ?thesis using assms dispatch_critical by simp
  next
    case family
    note f = assms(1) family
    show ?thesis
      using assms(3) by (cases "ev_type ev")
        (simp_all add: dispatch_family_inert [OF f] dispatch_family_control [OF f]
          dispatch_family_stop [OF _ f] dispatch_family_critical [OF _ f] dispatch_family_timeout [OF _ f])
  qed
qed

definition all_joints :: "joint_angles \<Rightarrow> bool" where
  "all_joints m \<longleftrightarrow> dom m = UNIV"

definition angles_full :: "robot \<Rightarrow> bool" where
  "angles_full r \<longleftrightarrow> (ct_initialized (rb_servo r) \<longrightarrow> all_joints (sv_angles (rb_servo r)))"

lemma all_joints_mono: "dom m \<subseteq> dom m' \<Longrightarrow> all_joints m \<Longrightarrow> all_joints m'"
  unfolding all_joints_def by blast

lemma angles_full_same: "robot_same r r' \<Longrightarrow> angles_full r \<Longrightarrow> angles_full r'"
  using robot_same_fields(8,9) [of r r'] all_joints_mono by (simp add: angles_full_def)

lemma enable_servo_fields [simp]:
  "ct_initialized (rb_servo (setEnableSensorContinuousReadings b r)) = ct_initialized (rb_servo r)"
  "sv_angles (rb_servo (setEnableSensorContinuousReadings b r)) = sv_angles (rb_servo r)"
  "ct_initialized (rb_servo (enable_reporting r)) = ct_initialized (rb_servo r)"
  "sv_angles (rb_servo (enable_reporting r)) = sv_angles (rb_servo r)"
  by (simp_all add: setEnableSensorContinuousReadings_def enable_reporting_def setEnable_def)

lemma addPostDelayedEvent_robot [simp]:
  "mc_robot (addPostDelayedEvent P s e d m) = mc_robot m"
  by (simp add: addPostDelayedEvent_def postDelayedEvent_def postEvent_def case_prod_beta Let_def)

lemma enter_route_servo:
  "ct_initialized (rb_servo (mc_robot (enter_route P ev m))) = ct_initialized (rb_servo (mc_robot m))"
  "sv_angles (rb_servo (mc_robot (enter_route P ev m))) = sv_angles (rb_servo (mc_robot m))"
  by (cases "ev_source ev"; simp add: enter_route_def moving_onEnter_def with_robot_def Let_def)+

lemma dispatch_angles_full:
  assumes "machine_inv m" and "angles_full (mc_robot m)" and "mc_running m"
    and "dispatch P ev (m\<lparr>mc_eventQueue := evs\<rparr>) = Some m'"
  shows "angles_full (mc_robot m')"
proof -
  let ?m = "m\<lparr>mc_eventQueue := evs\<rparr>"
  obtain s where s: "mc_currentState ?m = Some s" "enabled_as s (mc_robot ?m)"
    using assms(1) by (auto simp: machine_inv_def)
  have perf: "angles_full (mc_robot m')" if "perform P s' ev m0 = Some m'" "angles_full (mc_robot m0)" for s' m0
    using angles_full_same [OF perform_frame(7) [OF that(1)] that(2)] .
  have er: "angles_full (mc_robot (enter_route P ev ?m))"
    using assms(2) by (simp add: angles_full_def enter_route_servo)
  show ?thesis
    using dispatch_cases [OF s, of P ev] assms(2,3,4) perf [of s ?m] perf [OF _ er]
    by (auto simp: angles_full_def idle_now_def enter_route_servo)
qed

lemma load_joints_dom: "dom (load_joints data js m) = dom m"
proof (induction js arbitrary: m)
  case Nil
  then show ?case by simp
next
  case (Cons j js)
  have "dom (\<lambda>i. if i = j then Some a else m i) = dom m" if "m j = Some b" for a b
    using that by (auto split: if_splits)
  with Cons show ?case by (simp split: option.split sum.split del: dom_fun_upd)
qed

lemma servo_initialize_full:
  "ct_initialized (fst (snd (servo_initialize E file servo_new w))) \<longrightarrow>
   all_joints (sv_angles (fst (snd (servo_initialize E file servo_new w))))"
proof -
  have dom: "dom servo_initial_angles = UNIV"
  proof
    show "UNIV \<subseteq> dom servo_initial_angles"
    proof
      fix j show "j \<in> dom servo_initial_angles"
        by (cases j) (simp_all add: servo_initial_angles_def)
    qed
  qed simp
  have "dom (sv_angles (loadJointAngles f s)) = dom (sv_angles s)" for f s
    by (cases f) (simp_all add: load_joints_dom)
  then show ?thesis
    by (simp add: servo_initialize_def servo_new_def all_joints_def dom case_prod_beta Let_def)
qed

lemma booted_servo:
  "angles_full (fst (booted P r w))"
  using servo_initialize_full
  by (simp add: angles_full_def booted_def robot_initialize_def setEnable_def case_prod_beta Let_def)

interpretation af: machine_invariant P r w "\<lambda>m. machine_inv m \<and> angles_full (mc_robot m)" for P r w
proof
  show "machine_inv m \<and> angles_full (mc_robot m)" if "machine_start P (machine_new r w) = Some m" for m
    using mi.I_start [OF that] that booted_servo [of P r w]
    by (simp add: machine_start_idle idle_now_def angles_full_def) auto
  show "machine_inv m \<and> angles_full (mc_robot m) \<Longrightarrow>
    machine_inv (postEvent ev m) \<and> angles_full (mc_robot (postEvent ev m))" for m ev
    using mi.I_post by (simp add: postEvent_def)
  show "machine_inv m \<and> angles_full (mc_robot m) \<Longrightarrow>
    machine_inv (machine_stop m) \<and> angles_full (mc_robot (machine_stop m))" for m
    using mi.I_stop by (simp add: machine_stop_def)
  show "machine_inv m \<and> angles_full (mc_robot m) \<Longrightarrow>
    machine_inv (expire_timers P m) \<and> angles_full (mc_robot (expire_timers P m))" for m
    using mi.I_expire by (simp add: expire_timers_eq)
  show "machine_inv m \<and> angles_full (mc_robot m) \<Longrightarrow> mc_running m \<Longrightarrow> mc_eventQueue m = ev # evs \<Longrightarrow>
    dispatch P ev (m\<lparr>mc_eventQueue := evs\<rparr>) = Some m' \<Longrightarrow> machine_inv m' \<and> angles_full (mc_robot m')"
    for m ev evs m'
    using dispatch_angles_full mi.I_dispatch by blast
qed

lemma perform_returns:
  assumes "joints_known (ev_controlData ev) (rb_servo (mc_robot m))"
  shows "\<exists>m'. perform P s ev m = Some m'"
proof -
  define m0 where "m0 = (if refreshes s (mc_entrySource m) (ev_source ev) then stamp P m else m)"
  have "joints_known (ev_controlData ev) (rb_servo (mc_robot m0))"
    using assms by (simp add: m0_def stamp_def case_prod_beta Let_def)
  then obtain r w where "control_motion (pf_env P) (pf_libm P) (ev_controlData ev) (mc_robot m0)
      (mc_world m0) = Some (r, w)"
    using control_motion_returns by blast
  then show ?thesis
    by (simp add: perform_def robot_command_def flip: m0_def)
qed

lemma joints_known_full: "all_joints (sv_angles s) \<Longrightarrow> joints_known c s"
  by (simp add: joints_known_def all_joints_def split: option.split)

lemma dispatch_returns:
  assumes "machine_inv m" and "all_joints (sv_angles (rb_servo (mc_robot m)))" and "mc_running m"
  shows "\<exists>m'. dispatch P ev (m\<lparr>mc_eventQueue := evs\<rparr>) = Some m'"
proof -
  let ?m = "m\<lparr>mc_eventQueue := evs\<rparr>"
  obtain s where s: "mc_currentState ?m = Some s" "enabled_as s (mc_robot ?m)"
    using assms(1) by (auto simp: machine_inv_def)
  have "\<exists>m'. perform P s' ev ?m = Some m'" "\<exists>m'. perform P s' ev (enter_route P ev ?m) = Some m'" for s'
    using assms(2) by (intro perform_returns joints_known_full; simp add: enter_route_servo)+
  then show ?thesis
    using dispatch_cases [OF s, of P ev] assms(3) by (auto; metis)
qed

lemma loop_pass_returns:
  assumes "machine_inv m" and "all_joints (sv_angles (rb_servo (mc_robot m)))"
  shows "\<exists>m'. loop_pass P m = Some m'"
proof (cases "mc_running m")
  case False
  then show ?thesis by (simp add: loop_pass_def)
next
  case True
  have e: "machine_inv (expire_timers P m)" "mc_running (expire_timers P m)"
    "all_joints (sv_angles (rb_servo (mc_robot (expire_timers P m))))"
    using mi.I_expire [OF assms(1)] True assms(2) by (simp_all add: expire_timers_eq)
  show ?thesis
    using True dispatch_returns [OF e(1,3,2)]
    by (simp add: loop_pass_def Let_def split: list.split)
qed

end
