(* ===== verification/Motion_Properties.thy ===== *)
theory Motion_Properties
  imports Robot
begin

text \<open>
  What the motion commands guarantee, down to the registers of the two PWM chips: the drive
  sectors, the speed cap, the servo path and pulse range, the frame of a command. The sample
  environment and robot at the start are concrete inputs for the witnesses.
\<close>

section \<open>A sample robot\<close>

definition sample_environ :: environ where
  "sample_environ = \<lparr>env_reply = (\<lambda>w. 3), env_bytes = (\<lambda>w. [])\<rparr>"

definition sample_libm :: libm where
  "sample_libm = \<lparr>lib_sin = (\<lambda>x. x), lib_cos = (\<lambda>x. x), lib_atan2 = (\<lambda>y x. y)\<rparr>"

definition sample_dc_state :: DCMotorState where
  "sample_dc_state =
     \<lparr>leftMotorMagnitude = 0, leftMotorDirection = Dir_forward, rightMotorMagnitude = 0,
      rightMotorDirection = Dir_forward\<rparr>"

definition sample_robot :: robot where
  "sample_robot =
     \<lparr>rb_compass = compass_new, rb_distance = distance_new, rb_power = power_new,
      rb_servo = servo_new\<lparr>ct_initialized := True, sv_driver := \<lparr>i2cFd = 4, i2cAddress = 0x40\<rparr>,
                            sv_angles := Default_Joint_Angles\<rparr>,
      rb_dc = (dc_new sample_dc_state)\<lparr>ct_initialized := True, dc_driver := \<lparr>i2cFd = 5, i2cAddress = 0x50\<rparr>\<rparr>,
      rb_jointPositionList = (\<lambda>_ _. None), rb_sensorReadings = False\<rparr>"

lemma sample_robot_simps [simp]:
  "active (rb_dc sample_robot)" "active (rb_servo sample_robot)"
  "sv_angles (rb_servo sample_robot) = Default_Joint_Angles"
  "sv_driver (rb_servo sample_robot) = \<lparr>i2cFd = 4, i2cAddress = 0x40\<rparr>"
  "dc_driver (rb_dc sample_robot) = \<lparr>i2cFd = 5, i2cAddress = 0x50\<rparr>"
  by (simp_all add: sample_robot_def servo_new_def dc_new_def active_def isEnabled_def isReady_def)

lemma default_joint_some: "Default_Joint_Angles j \<noteq> None"
  by (cases j) (simp_all add: Default_Joint_Angles_def)

section \<open>Body\<close>



text \<open>No magnitude of zero or more sets a wheel's count to 4096 or above, where the chip's
full-off bit lies; both wheels always get the same count.\<close>

lemma body_count_below_full_off:
  assumes "active (rb_dc r)" and "0 \<le> m"
  shows "\<exists>n. fst (fst (wheels r (control_body E r a m w))) = Some (0, n) \<and>
             fst (snd (wheels r (control_body E r a m w))) = Some (0, n) \<and> 0 \<le> n \<and> n < 4096"
  by (rule control_body_counts [OF assms])

lemma body_count_below_full_off_witness:
  "\<exists>n. fst (fst (wheels sample_robot (control_body sample_environ sample_robot 90 100 []))) = Some (0, n) \<and>
       n < 4096"
  using body_count_below_full_off [of sample_robot 100 sample_environ 90 "[]"] by auto

text \<open>The call an angle below -180 makes, the controller enabled or not.\<close>

lemma body_low_angles_turn_left:
  assumes "a < -180"
  shows "control_body E r a m w = dc_turnLeft E (rb_dc r) (if m \<ge> 100 then 95 else m) w"
  using control_body_low [OF assms] by (simp add: capped_magnitude_def)

lemma body_low_angles_turn_left_witness:
  "control_body sample_environ sample_robot (-300) 50 [] =
     dc_turnLeft sample_environ (rb_dc sample_robot) 50 [] \<and> sector (-300) = Drive_forward"
  using body_low_angles_turn_left [of "-300" sample_environ sample_robot 50 "[]"] by (simp add: sector_def)

section \<open>Arms\<close>

lemma fval_small: "\<bar>i\<bar> \<le> 2000000 \<Longrightarrow> fval (fof_int dbl_prec i) = of_int i"
  by (rule fval_dbl_int) auto

lemma fmant_100: "0 < fmant (fof_int dbl_prec 100)"
  by code_simp

lemma mapped_angle_near:
  assumes "0 \<le> a" and "a \<le> 100"
  shows "\<bar>fval (fmul dbl_prec (fdiv dbl_prec (fof_int dbl_prec a) (fof_int dbl_prec 100))
      (fof_int dbl_prec 180)) - of_int (9 * a) / of_int 5\<bar> \<le> 1000 * dbl_eps"
proof -
  define q where "q = fdiv dbl_prec (fof_int dbl_prec a) (fof_int dbl_prec 100)"
  have ints: "fval (fof_int dbl_prec a) = of_int a" "fval (fof_int dbl_prec 100) = 100"
    "fval (fof_int dbl_prec 180) = 180"
    using assms by (simp_all add: fval_dbl_int)
  have q: "\<bar>fval q - of_int a / 100\<bar> \<le> 1 * dbl_eps"
    using assms fdiv_error [OF dbl_prec_nonneg fmant_100, of "fof_int dbl_prec a"] ints
    unfolding q_def by (intro dbl_error_bound) simp_all
  have a: "0 \<le> real_of_int a / 100" "real_of_int a / 100 \<le> 1"
    using assms by simp_all
  note eps = dbl_eps_bounds
  have qb: "\<bar>fval q * 180\<bar> \<le> 500"
    using q a eps unfolding abs_le_iff by linarith
  have "\<bar>fval (fmul dbl_prec q (fof_int dbl_prec 180)) - fval q * 180\<bar> \<le> 500 * dbl_eps"
    using fmul_error [OF dbl_prec_nonneg, of q "fof_int dbl_prec 180"] ints qb
    by (intro dbl_error_bound) simp_all
  then have "\<bar>fval (fmul dbl_prec q (fof_int dbl_prec 180)) - real_of_int a / 100 * 180\<bar> \<le> 1000 * dbl_eps"
    using q eps unfolding abs_le_iff by linarith
  then show ?thesis by (simp add: q_def)
qed

definition arm_scaled :: "int \<Rightarrow> int" where
  "arm_scaled a = mapped_angle a True"

lemma arm_scaled_fives:
  "map arm_scaled
     [0, 5, 10, 15, 20, 25, 30, 35, 40, 45, 50, 55, 60, 65, 70, 75, 80, 85, 90, 95, 100] =
   [0, 9, 18, 27, 36, 45, 54, 62, 72, 81, 90, 99, 108, 117, 125, 135, 144, 153, 162, 171, 180]"
  by code_simp

text \<open>An arm percentage is scaled to the exact floor of nine fifths of it for all 101
percentages except 35 and 70, where the floating-point product falls just below the integer
and the conversion to int loses one degree. The result is always a servo angle.\<close>

lemma arm_percentage:
  assumes "0 \<le> a" and "a \<le> 100"
  shows "mapped_angle a True = (9 * a) div 5 - (if a = 35 \<or> a = 70 then 1 else 0) \<and>
    0 \<le> mapped_angle a True \<and> mapped_angle a True \<le> 180"
proof -
  have eq: "mapped_angle a True = (9 * a) div 5 - (if a = 35 \<or> a = 70 then 1 else 0)"
  proof (cases "a mod 5 = 0")
    case True
    define k where "k = a div 5"
    have a: "a = 5 * k" "0 \<le> k" "k \<le> 20"
      using True assms by (auto simp: k_def)
    have "map arm_scaled (map (\<lambda>i. 5 * int i) [0..<21]) =
        map (\<lambda>i. 9 * int i - (if i = 7 \<or> i = 14 then 1 else 0)) [0..<21]"
      using arm_scaled_fives by (simp add: upt_rec)
    from table_entry [OF this, of k]
    have "arm_scaled (5 * k) = 9 * k - (if k = 7 \<or> k = 14 then 1 else 0)"
      using a by (simp add: nat_eq_iff)
    then show ?thesis using a(1) by (auto simp: arm_scaled_def)
  next
    case False
    let ?v = "fval (fmul dbl_prec (fdiv dbl_prec (fof_int dbl_prec a) (fof_int dbl_prec 100))
      (fof_int dbl_prec 180))"
    note e = mapped_angle_near [OF assms]
    have "1 \<le> a" using assms False by (cases "a = 0") auto
    then have "0 \<le> ?v"
      using e dbl_eps_bounds unfolding abs_le_iff by simp
    then have "mapped_angle a True = \<lfloor>?v\<rfloor>"
      by (simp add: mapped_angle_def ftrunc_floor)
    also have "\<dots> = (9 * a) div 5"
    proof (rule floor_near_fraction)
      have m: "(9 * a) mod 5 = (9 * (a mod 5)) mod 5"
        by (rule mod_mult_right_eq [symmetric])
      have "a mod 5 = 1 \<or> a mod 5 = 2 \<or> a mod 5 = 3 \<or> a mod 5 = 4"
        using False by presburger
      then show "(9 * a) mod 5 \<noteq> 0"
        by (elim disjE) (simp_all only: m, simp_all)
      have "1000 * dbl_eps < 1 / of_int 5"
        unfolding of_int_numeral using dbl_eps_bounds by linarith
      with e show "\<bar>?v - of_int (9 * a) / of_int 5\<bar> < 1 / of_int 5"
        by (rule le_less_trans)
    qed simp
    finally show ?thesis using False by auto
  qed
  moreover have "0 \<le> (9 * a) div 5 - (if a = 35 \<or> a = 70 then 1 else 0)" "(9 * a) div 5 \<le> 180"
    using assms zdiv_mono1 [of "9 * a" 900 5] by (auto simp: pos_imp_zdiv_nonneg_iff)
  ultimately show ?thesis by auto
qed

lemma arm_percentage_witness: "mapped_angle 35 True = 62"
  using arm_percentage [of 35] by simp

section \<open>Servo movements\<close>

text \<open>C14: moving a joint of an enabled servo controller with a positive step returns; it sends
the pulse of each angle on a path from the recorded angle to the target, every angle between the
two, each at most a step from the one before, the last one the target; it records the target and
leaves the other joints' angles alone.\<close>

theorem joint_moves_along_path:
  assumes "active s" and "1 \<le> step"
  shows "\<exists>path s' w'. setJointAngle E j t step ms s w = Some (s', w') \<and>
    w' = snd (fold (servo_step E j ms) path (s, w)) \<and>
    last (uint (angle_of (sv_angles s) j) # path) = t \<and>
    successively (\<lambda>a b. \<bar>b - a\<bar> \<le> step) (uint (angle_of (sv_angles s) j) # path) \<and>
    (\<forall>a \<in> set path. min (uint (angle_of (sv_angles s) j)) t \<le> a \<and>
       a \<le> max (uint (angle_of (sv_angles s) j)) t) \<and>
    sv_angles s' j = Some (u8_of_int t) \<and> (\<forall>k. k \<noteq> j \<longrightarrow> sv_angles s' k = sv_angles s k)"
proof -
  let ?c = "uint (angle_of (sv_angles s) j)"
  obtain s' w' where r: "setJointAngle E j t step ms s w = Some (s', w')"
    using setJointAngle_returns [OF assms(2)] by blast
  have "w' = snd (fold (servo_step E j ms) (servo_path t step ?c) (s, w))"
    using r assms by (simp add: setJointAngle_active joint_path_def case_prod_beta Let_def)
  then show ?thesis
    using r servo_path_last [OF assms(2)] servo_path_smooth [OF assms(2)] servo_path_between [of _ t step ?c]
      setJointAngle_frame(5,6) [OF r assms(2)] assms(1)
    by (intro exI [of _ "servo_path t step ?c"] exI [of _ s'] exI [of _ w']) blast
qed

lemma joint_moves_along_path_witness:
  "\<exists>s' w'. setJointAngle sample_environ J_neck 81 1 5 (rb_servo sample_robot) [] = Some (s', w') \<and>
     sv_angles s' J_neck = Some 81"
  using joint_moves_along_path [of "rb_servo sample_robot" 1 sample_environ J_neck 81 5 "[]"]
  by (auto simp: Default_Joint_Angles_def)

text \<open>C15: the pulse of every angle from 0 to 180 is, although computed in double, the exact floor
of 500 + 2000 a / 180 microseconds; it lies between 500 and 2500 and the channel count between
102 and 512.\<close>

theorem servo_pulse_of_angle:
  assumes "0 \<le> a" and "a \<le> 180"
  shows "servo_pulse a = (4500 + 100 * a) div 9 \<and> 500 \<le> servo_pulse a \<and> servo_pulse a \<le> 2500 \<and>
    102 \<le> servo_count a \<and> servo_count a \<le> 512"
  using servo_pulse_exact [OF assms] servo_pulse_range [OF assms] servo_count_range [OF assms]
  by (simp add: mult.commute)

lemma servo_pulse_of_angle_witness: "servo_pulse 90 = 1500"
  using servo_pulse_of_angle [of 90] by simp

definition same_way :: "int \<Rightarrow> int \<Rightarrow> int \<Rightarrow> bool" where
  "same_way d t c \<longleftrightarrow> d = (if t > c then 1 else -1)"
lemma servo_loop_step_0:
  assumes "servo_loop E j t d step ms c sw = Some y" 
  shows "\<not> (step = 0 \<and> c \<noteq> t \<and> same_way d t c)"
proof (rule servo_loop.raw_induct [OF _ assms, where P = "\<lambda>E j t d step ms c sw y. \<not> (step = 0 \<and> c \<noteq> t \<and> same_way d t c)"])
  fix loop E j t d step ms c sw y
  assume IH: "\<And>E j t d step ms c sw y. loop E j t d step ms c sw = Some y \<Longrightarrow>
      \<not> (step = 0 \<and> c \<noteq> t \<and> same_way d t c)"
    and eq: "(if c = t then Some sw
      else let c = servo_next t d step c in loop E j t d step ms c (servo_step E j ms c sw)) = Some y"
  show "\<not> (step = 0 \<and> c \<noteq> t \<and> same_way d t c)"
  proof
    assume *: "step = 0 \<and> c \<noteq> t \<and> same_way d t c"
    then have "servo_next t d step c = c"
      by (auto simp: servo_next_eq same_way_def split: if_splits)
    with eq * have "loop E j t d step ms c (servo_step E j ms c sw) = Some y"
      by (simp add: Let_def)
    from IH [OF this] * show False by blast
  qed
qed

text \<open>With a step of 0 a movement of an enabled controller to another angle never returns.\<close>

lemma zero_step_never_returns:
  assumes "active s" and "uint (angle_of (sv_angles s) j) \<noteq> t"
  shows "setJointAngle E j t 0 ms s w = None"
proof (rule ccontr)
  let ?c = "uint (angle_of (sv_angles s) j)"
  assume "setJointAngle E j t 0 ms s w \<noteq> None"
  then obtain y where "servo_loop E j t (if t > ?c then 1 else -1) 0 ms ?c (s, w) = Some y"
    using assms(1) by (auto simp: setJointAngle_def activeD Let_def)
  from servo_loop_step_0 [OF this] assms(2) show False by (simp add: same_way_def)
qed

lemma zero_step_never_returns_witness:
  "setJointAngle sample_environ J_neck 81 0 5 (rb_servo sample_robot) [] = None"
  by (rule zero_step_never_returns) (simp_all add: Default_Joint_Angles_def angle_of_def)

text \<open>The angles of a complete map, saved as JSON, are exactly what loading that document
gives back, whatever the angles were before.\<close>

lemma saved_angles_load_back:
  assumes "\<forall>j. m j \<noteq> None" and "\<forall>j. sv_angles s j \<noteq> None"
  shows "sv_angles (loadJointAngles (File_json (angles_json m)) s) = m"
proof
  fix j
  obtain a b where "m j = Some a" "sv_angles s j = Some b"
    using assms by blast
  then show "sv_angles (loadJointAngles (File_json (angles_json m)) s) j = m j"
    by (simp add: load_joints_saved)
qed

lemma saved_angles_load_back_witness:
  "sv_angles (loadJointAngles (File_json (angles_json Default_Joint_Angles))
     (servo_new\<lparr>sv_angles := (\<lambda>_. Some 0)\<rparr>)) = Default_Joint_Angles"
  using saved_angles_load_back [of Default_Joint_Angles "servo_new\<lparr>sv_angles := (\<lambda>_. Some 0)\<rparr>"]
    default_joint_some by simp

section \<open>What a command leaves alone\<close>

lemma other_device_kept:
  "fd \<noteq> i2cFd d \<Longrightarrow> channel_duty fd c (setDutyCycle E d ch on off w) = channel_duty fd c w"
  by (simp add: setDutyCycle_trace channel_duty_def channel_word_def)

lemma servo_step_other_device:
  "fd \<noteq> i2cFd (sv_driver (fst sw)) \<Longrightarrow>
   channel_duty fd c (snd (servo_step E j ms a sw)) = channel_duty fd c (snd sw)"
  by (cases sw)
    (simp add: servo_step_def Let_def saveJointAngles_def setDutyCyclePulse_def other_device_kept)

lemma servo_fold_other_device:
  "fd \<noteq> i2cFd (sv_driver (fst sw)) \<Longrightarrow>
   channel_duty fd c (snd (fold (servo_step E j ms) as sw)) = channel_duty fd c (snd sw)"
  by (induction as arbitrary: sw) (simp_all add: servo_step_frame servo_step_other_device)

definition other_devices_kept :: "servo \<times> world \<Rightarrow> servo \<times> world \<Rightarrow> bool" where
  "other_devices_kept x y \<longleftrightarrow>
     sv_driver (fst y) = sv_driver (fst x) \<and>
     (\<forall>fd c. fd \<noteq> i2cFd (sv_driver (fst x)) \<longrightarrow> channel_duty fd c (snd y) = channel_duty fd c (snd x))"

interpretation other: servo_relation other_devices_kept
proof
  show "other_devices_kept x x" for x by (simp add: other_devices_kept_def)
  show "other_devices_kept x y \<Longrightarrow> other_devices_kept y z \<Longrightarrow> other_devices_kept x z" for x y z
    by (auto simp: other_devices_kept_def)
  show "\<exists>y. setJoint E j t s w = Some y \<and> other_devices_kept (s, w) y" for E j t s w
  proof (cases "active s")
    case False
    then show ?thesis by (simp add: setJoint_def setJointAngle_inactive other_devices_kept_def)
  next
    case True
    then show ?thesis
      by (simp add: setJoint_def setJointAngle_active other_devices_kept_def case_prod_beta Let_def
          servo_fold_frame servo_fold_other_device)
  qed
qed

text \<open>C13: a command without a body joystick never moves the wheels: with the two chips on their
own descriptors it returns, leaves every other controller as it was, and all six wheel channels
of the motor chip keep their settings; on the servo chip the channels past the seven joints keep
theirs.\<close>

theorem servo_command_keeps_wheels:
  assumes "ctl_bodyJoystick c = None" and "joints_known c (rb_servo r)"
    and "i2cFd (dc_driver (rb_dc r)) \<noteq> i2cFd (sv_driver (rb_servo r))"
  shows "\<exists>r' w'. control_motion E L c r w = Some (r', w') \<and> robot_same r r' \<and>
    wheels r' w' = wheels r w \<and>
    (\<forall>ch. 7 \<le> ch \<and> ch < 16 \<longrightarrow>
       channel_duty (i2cFd (sv_driver (rb_servo r))) ch w' = channel_duty (i2cFd (sv_driver (rb_servo r))) ch w)"
proof -
  obtain s w' where cmd: "servo_command E L (rb_jointPositionList r) c (rb_servo r) w = Some (s, w')"
    using servo_command_same [OF assms(2)] by blast
  define r' where "r' = r\<lparr>rb_servo := s\<rparr>"
  have m: "control_motion E L c r w = Some (r', w')"
    using cmd assms(1) by (simp add: control_motion_def on_servo_def r'_def)
  have "wheels r' w' = wheels r w"
    using other.servo_command_keeps [OF cmd] assms(3)
    by (simp add: wheels_def left_wheel_def right_wheel_def other_devices_kept_def r'_def)
  then show ?thesis
    using m control_motion_keeps [OF m] spare.servo_command_keeps [OF cmd]
    by (auto simp: spare_channels_kept_def)
qed

lemma servo_command_keeps_wheels_witness:
  "\<exists>r' w'. control_motion sample_environ sample_libm (ControlData_empty\<lparr>ctl_leftArmAngle := Some 40\<rparr>)
      sample_robot [] = Some (r', w') \<and> wheels r' w' = wheels sample_robot []"
  using servo_command_keeps_wheels [of "ControlData_empty\<lparr>ctl_leftArmAngle := Some 40\<rparr>" sample_robot
      sample_environ sample_libm "[]"]
  by (auto simp: ControlData_empty_def joints_known_def)

text \<open>A robot whose motor controllers are both disabled answers every motion command, the
stop command included, by doing nothing at all.\<close>

lemma disabled_robot_is_silent:
  assumes "\<not> ct_enable (rb_servo r)" and "\<not> ct_enable (rb_dc r)" and "joints_known c (rb_servo r)"
  shows "control_motion E L c r w = Some (r, w)"
  using assms by (intro control_motion_silent) (simp_all add: active_def isEnabled_def)

lemma disabled_robot_is_silent_witness:
  "control_motion sample_environ sample_libm
     (ControlData_empty\<lparr>ctl_bodyJoystick := Some \<lparr>js_angle = 0, js_strength = 0\<rparr>\<rparr>)
     (setEnableSensorContinuousReadings True sample_robot) [] =
   Some (setEnableSensorContinuousReadings True sample_robot, [])"
  by (rule disabled_robot_is_silent)
    (simp_all add: setEnableSensorContinuousReadings_def setEnable_def ControlData_empty_def joints_known_def)

section \<open>A map of target angles\<close>

lemma control_joint_angles:
  assumes "active (fst x)" and "current j \<noteq> None"
  shows "\<exists>y. control_joint E targets current j x = Some y \<and> active (fst y) \<and>
    (\<forall>k. k \<noteq> j \<longrightarrow> sv_angles (fst y) k = sv_angles (fst x) k) \<and>
    (targets j \<noteq> None \<and> targets j \<noteq> current j \<longrightarrow> sv_angles (fst y) j = targets j) \<and>
    (targets j = None \<or> targets j = current j \<longrightarrow> y = x)"
proof -
  obtain s w where x: "x = (s, w)" by (cases x)
  obtain b where b: "current j = Some b" using assms(2) by blast
  show ?thesis
  proof (cases "targets j = None \<or> targets j = Some b")
    case True
    then have "control_joint E targets current j x = Some x"
      using b by (auto simp: control_joint_def)
    then show ?thesis using assms(1) True b by auto
  next
    case False
    then obtain a where a: "targets j = Some a" "a \<noteq> b" by auto
    obtain s' w' where *: "setJoint E j (uint a) s w = Some (s', w')"
      using setJoint_some by blast
    note fr = setJointAngle_frame [OF * [unfolded setJoint_def]]
    have "active s'" using assms(1) x fr(2,3) by (simp add: active_def isEnabled_def isReady_def)
    moreover have "sv_angles s' j = Some a" using fr(6) assms(1) x by simp
    moreover have "\<forall>k. k \<noteq> j \<longrightarrow> sv_angles s' k = sv_angles s k" using fr(5) by simp
    ultimately show ?thesis
      using a b x * by (simp add: control_joint_def)
  qed
qed

lemma control_joints_angles:
  assumes "active (fst x)" and "\<forall>j. current j \<noteq> None" and "distinct js"
    and "\<forall>j \<in> set js. sv_angles (fst x) j = current j"
  shows "\<exists>y. control_joints E targets current js x = Some y \<and>
    (\<forall>j. sv_angles (fst y) j =
       (if j \<in> set js \<and> targets j \<noteq> None then targets j else sv_angles (fst x) j))"
  using assms
proof (induction js arbitrary: x)
  case Nil
  then show ?case by simp
next
  case (Cons j js)
  obtain y where y: "control_joint E targets current j x = Some y" "active (fst y)"
    "\<forall>k. k \<noteq> j \<longrightarrow> sv_angles (fst y) k = sv_angles (fst x) k"
    "targets j \<noteq> None \<and> targets j \<noteq> current j \<longrightarrow> sv_angles (fst y) j = targets j"
    "targets j = None \<or> targets j = current j \<longrightarrow> y = x"
    using control_joint_angles [of x current j E targets] Cons.prems(1,2) by blast
  have "\<forall>k \<in> set js. sv_angles (fst y) k = current k"
    using y(3) Cons.prems(3,4) by auto
  then obtain z where z: "control_joints E targets current js y = Some z"
    "\<forall>k. sv_angles (fst z) k =
       (if k \<in> set js \<and> targets k \<noteq> None then targets k else sv_angles (fst y) k)"
    using Cons.IH [of y] y(2) Cons.prems by auto
  have "sv_angles (fst y) j = (if targets j \<noteq> None then targets j else sv_angles (fst x) j)"
    using y(4,5) Cons.prems(4) by (cases "targets j = None \<or> targets j = current j") auto
  then have "sv_angles (fst z) k =
       (if k \<in> set (j # js) \<and> targets k \<noteq> None then targets k else sv_angles (fst x) k)" for k
    using z(2) y(3) Cons.prems(3) by (cases "k = j"; cases "targets k") simp_all
  with y(1) z(1) show ?case by auto
qed

lemma joint_map_moves:
  assumes "active (rb_servo r)" and "\<forall>j. sv_angles (rb_servo r) j \<noteq> None"
    and "c = ControlData_empty\<lparr>ctl_source := src, ctl_jointAngles := Some targets\<rparr>"
  shows "\<exists>r' w'. control_motion E L c r w = Some (r', w') \<and>
    (\<forall>j. sv_angles (rb_servo r') j =
       (case targets j of Some a \<Rightarrow> Some a | None \<Rightarrow> sv_angles (rb_servo r) j))"
proof -
  have "distinct command_order" "j \<in> set command_order" for j
    by (simp add: command_order_def, cases j) (simp_all add: command_order_def)
  then obtain y where y: "control_joints E targets (sv_angles (rb_servo r)) command_order (rb_servo r, w) = Some y"
    "\<forall>j. sv_angles (fst y) j = (if targets j \<noteq> None then targets j else sv_angles (rb_servo r) j)"
    using control_joints_angles [of "(rb_servo r, w)" "sv_angles (rb_servo r)" command_order E targets] assms(1,2)
    by auto
  have "control_motion E L c r w = Some (r\<lparr>rb_servo := fst y\<rparr>, snd y)"
    using y(1) assms(3)
    by (simp add: control_motion_def on_servo_def servo_command_def ControlData_empty_def
        getAllJointsAngle_def case_prod_beta)
  with y(2) show ?thesis by (auto split: option.split)
qed

text \<open>A command with a map of target angles sets the recorded angle of every joint it
names, of all seven, to its target and changes no other, whichever of them already stood there.\<close>

lemma joint_map_command:
  assumes "active (rb_servo r)" and "\<forall>j. sv_angles (rb_servo r) j \<noteq> None"
    and "c = ControlData_empty\<lparr>ctl_source := src, ctl_jointAngles := Some targets\<rparr>"
  shows "\<exists>r' w'. control_motion E L c r w = Some (r', w') \<and>
    (\<forall>j. sv_angles (rb_servo r') j =
       (case targets j of Some a \<Rightarrow> Some a | None \<Rightarrow> sv_angles (rb_servo r) j))"
  by (rule joint_map_moves [OF assms])

lemma joint_map_command_witness:
  "\<exists>r' w'. control_motion sample_environ sample_libm
      (ControlData_empty\<lparr>ctl_source := None, ctl_jointAngles := Some [J_neck \<mapsto> 60]\<rparr>) sample_robot [] =
      Some (r', w') \<and> sv_angles (rb_servo r') J_neck = Some 60"
proof -
  have "\<forall>j. sv_angles (rb_servo sample_robot) j \<noteq> None" using default_joint_some by simp
  from joint_map_command [OF _ this refl, where src = None and targets = "[J_neck \<mapsto> 60]" and
      E = sample_environ and L = sample_libm and w = "[]"]
  show ?thesis by force
qed

end
