(* ===== verification/Machine_Properties.thy ===== *)
theory Machine_Properties
  imports Machine_Invariants Motion_Properties
begin

text \<open>
  What the state machine guarantees, stated over its reachable configurations, and the places
  where it does not do what its comments say. The sample platform and robot at the start are
  concrete inputs for the witnesses.
\<close>

section \<open>A sample platform\<close>

definition sample_platform :: platform where
  "sample_platform =
     \<lparr>pf_env = sample_environ, pf_libm = sample_libm,
      pf_boot = \<lparr>bi_saved_file = File_empty, bi_dc_state = sample_dc_state, bi_joint_angles = None\<rparr>\<rparr>"

definition sample_machine :: "state_id \<Rightarrow> machine" where
  "sample_machine s =
     (machine_new sample_robot [])\<lparr>mc_currentState := Some s, mc_running := True,
        mc_timers := [(7000, timeout_event)]\<rparr>"

definition sample_event :: "EventType \<Rightarrow> SourceService \<Rightarrow> ControlEvent" where
  "sample_event t src =
     \<lparr>ev_type = t, ev_source = src,
      ev_controlData = ControlData_empty\<lparr>ctl_bodyJoystick := Some \<lparr>js_angle = 90, js_strength = 50\<rparr>\<rparr>\<rparr>"

lemma sample_started:
  "\<exists>m. reachable sample_platform sample_robot [] m \<and> mc_currentState m = Some IdleState"
  using reach_start [OF machine_start_idle] by (fastforce simp: idle_now_def)

section \<open>Safety of the whole machine\<close>

text \<open>C1: in every reachable configuration the machine is in one of six states, and the
controllers are enabled as that state wants them: idle reads sensors with the motors disabled,
a moving state has the motors enabled, remote control and talking have both.\<close>

theorem reachable_policy:
  assumes "reachable P r w m"
  shows "\<exists>s. mc_currentState m = Some s \<and> enabled_as s (mc_robot m)"
  using mi.always [OF assms] unfolding machine_inv_def by blast

lemma reachable_policy_witness:
  "\<exists>m. reachable sample_platform sample_robot [] m \<and> enabled_as IdleState (mc_robot m)"
  using sample_started reachable_policy by (metis option.inject)

text \<open>C2: the worker never crashes: once the servo controller was initialised at boot, every
pass of the loop from every reachable configuration returns, whatever events are posted,
including events that name joints.\<close>

theorem reachable_pass_returns:
  assumes "reachable P r w m" and "ct_initialized (rb_servo (mc_robot m))"
  shows "\<exists>m'. loop_pass P m = Some m'"
  using af.always [OF assms(1)] assms(2) by (intro loop_pass_returns) (auto simp: angles_full_def)

text \<open>C3: the machine cannot be stuck in a moving state: in every reachable configuration in
one, a timeout is armed or already in the queue, and every armed event is a timeout.\<close>

theorem reachable_timeout_pending:
  assumes "reachable P r w m" and "mc_currentState m = Some s" and "moving_family s"
  shows "timeout_pending m \<and> (\<forall>p \<in> set (mc_timers m). snd p = event_of_type Ev_timeout)"
  using mi.always [OF assms(1)] assms(2,3) unfolding machine_inv_def timers_ok_def by auto

section \<open>What an event does\<close>

lemma dispatch_idle_control_perform:
  assumes "mc_running m" and "mc_currentState m = Some IdleState" and "ev_type ev = Ev_control"
  shows "dispatch P ev m =
    (if moving_child (route (ev_source ev))
     then perform P (route (ev_source ev)) ev (enter_route P ev m) else Some (enter_route P ev m))"
proof -
  have "accepts (route (ev_source ev)) (ev_source ev) \<longleftrightarrow> moving_child (route (ev_source ev))"
    by (cases "ev_source ev") (simp_all add: accepts_def moving_child_def)
  then show ?thesis
    by (simp add: dispatch_idle_control [OF assms] onEvent_control [OF route_family assms(3)]
        option.map_comp o_def option.map_ident)
qed

text \<open>C4: a control event that reaches the idle machine enables the motors, leads to the state
of its source and is executed there at once; with a source that has no state of its own it
leads to the moving state and its command is dropped.\<close>

theorem idle_control_event:
  assumes "mc_running m" and "mc_currentState m = Some IdleState" and "ev_type ev = Ev_control"
    and "mc_timeoutMs m MovingState = moving_timeoutMs"
  shows "dispatch P ev m =
      (if moving_child (route (ev_source ev))
       then perform P (route (ev_source ev)) ev (enter_route P ev m) else Some (enter_route P ev m)) \<and>
    mc_currentState (enter_route P ev m) = Some (route (ev_source ev)) \<and>
    motors_on (mc_robot (enter_route P ev m))"
  using dispatch_idle_control_perform [OF assms(1-3), of P] enter_route_fields(1) [OF assms(4), of P ev]
    enabled_as_family [OF enter_route_fields(5) [OF assms(4)] route_family] by blast

text \<open>C5: under control of the terminal interface a control event of any other service changes
nothing, while remote control executes the commands of every source.\<close>

theorem control_sources:
  assumes "mc_currentState m = Some s" and "s = TuiControlState \<or> s = RemoteControlState"
    and "ev_type ev = Ev_control"
  shows "dispatch P ev m =
    (if s = TuiControlState \<and> ev_source ev \<noteq> Src_tuiService then Some m
     else robot_command P (ev_controlData ev) (stamp P m))"
  using assms(2) dispatch_family_control [OF assms(1) _ assms(3), of P]
  by (auto simp: accepts_def moving_family_def moving_child_def perform_def refreshes_def)

text \<open>C6: a timeout event in a moving state goes idle exactly when the last command is more than
4990 milliseconds old by the clock, and otherwise stays, leaves the robot alone and arms a timeout
due 5000000000 nanoseconds after what the clock answers to the next question.\<close>

theorem moving_timeout:
  assumes "mc_running m" and "mc_currentState m = Some s" and "moving_family s"
    and "ev_type ev = Ev_timeout" and "mc_timeoutMs m MovingState = moving_timeoutMs"
  shows "\<exists>m'. dispatch P ev m = Some m' \<and>
    (if 4990 < elapsed_ms (clock_at P m) (mc_lastEventTime m MovingState)
     then mc_currentState m' = Some IdleState \<and> mc_timers m' = mc_timers m
     else mc_currentState m' = Some s \<and> mc_robot m' = mc_robot m \<and>
       mc_timers m' = timer_insert (clock_at P (snd (clock_now P m)) + 5000000000)
         (event_of_type Ev_timeout) (mc_timers m))"
proof -
  have "dispatch P ev m =
    Some (if command_is_old P m then idle_now (snd (clock_now P m))
          else addPostDelayedEvent P MovingState (event_of_type Ev_timeout) (mc_timeoutMs m MovingState)
                 (snd (clock_now P m)))"
    by (rule dispatch_family_timeout [OF assms(1-4)])
  moreover have "command_is_old P m \<longleftrightarrow> 4990 < elapsed_ms (clock_at P m) (mc_lastEventTime m MovingState)"
    using assms(5) by (simp add: command_is_old_def moving_timeoutMs_def)
  ultimately show ?thesis
    using assms(2,5)
    by (auto simp: idle_now_def addPostDelayedEvent_arms moving_timeoutMs_def)
qed

section \<open>Stopping and errors\<close>

text \<open>C7: when a stop event or a timeout takes a moving robot idle, nothing at all is sent to the
I2C bus and the motor controller is disabled, so the wheels keep the speed they were last given
and a later stop call has no effect.\<close>

theorem idle_keeps_wheels:
  assumes "mc_running m" and "mc_currentState m = Some s" and "moving_family s"
    and "ev_type ev = Ev_stop \<or> ev_type ev = Ev_timeout \<and> command_is_old P m"
  shows "\<exists>m'. dispatch P ev m = Some m' \<and> mc_currentState m' = Some IdleState \<and>
    i2c_traffic (mc_world m') = i2c_traffic (mc_world m) \<and>
    wheels (mc_robot m') (mc_world m') = wheels (mc_robot m) (mc_world m) \<and>
    dc_stop E (rb_dc (mc_robot m')) (mc_world m') = mc_world m'"
proof -
  have "dispatch P ev m = Some (idle_now m) \<or> dispatch P ev m = Some (idle_now (snd (clock_now P m)))"
    using assms(4) dispatch_family_stop [OF assms(1-3)] dispatch_family_timeout [OF assms(1-3)] by auto
  moreover have "wheels (setEnableSensorContinuousReadings b r) w = wheels r w"
    "wheels r (Clock_now # w) = wheels r w" for b r w
    by (simp_all add: wheels_def setEnableSensorContinuousReadings_def setEnable_def left_wheel_def
        right_wheel_def channel_duty_def channel_word_def)
  moreover have "dc_stop E (rb_dc (setEnableSensorContinuousReadings True r)) w = w" for r w
    by (simp add: setEnableSensorContinuousReadings_def dc_inactive)
  ultimately show ?thesis
    by (auto simp: idle_now_def)
qed

text \<open>C8: the critical error state is final: no event, timer or pass of the loop leaves it, and
none of them touches the robot.\<close>

theorem critical_error_final:
  assumes "machine_step P m m'" and "mc_currentState m = Some CriticalErrorState"
  shows "mc_currentState m' = Some CriticalErrorState \<and> mc_robot m' = mc_robot m \<and>
    i2c_traffic (mc_world m') = i2c_traffic (mc_world m)"
proof -
  have pass: "mc_currentState m2 = mc_currentState m \<and> mc_robot m2 = mc_robot m \<and>
      i2c_traffic (mc_world m2) = i2c_traffic (mc_world m)" if "loop_pass P m = Some m2" for m2
    using that assms(2)
    by (auto simp: loop_pass_def Let_def expire_timers_eq dispatch_critical split: if_splits list.splits)
  show ?thesis
    using assms by (cases rule: machine_stepE) (auto simp: postEvent_def machine_stop_def dest: pass)
qed

text \<open>A transition from a moving state to another state below MovingState enters nothing: the
entry list is built from the root's side and stops at the common ancestor, so no onEnter runs
and the target state only sees the event.\<close>

lemma sibling_transition_enters_nothing:
  assumes "mc_running m" and "mc_currentState m = Some s" and "moving_family s" and "moving_child t"
    and "t \<noteq> s"
  shows "transition P (Some t) cause m = map_option snd (onEvent P t cause (m\<lparr>mc_currentState := Some t\<rparr>))"
proof -
  have "common_root None (rev (ancestors (mc_currentState m))) (rev (ancestors (Some t))) = Some MovingState"
    using assms(3,4,5) unfolding assms(2)
    by (cases s; cases t; simp add: moving_family_def moving_child_def)
  moreover have "rev (ancestors (Some t)) = [MovingState, t]"
    using assms(4) by (cases t) (simp_all add: moving_child_def)
  ultimately show ?thesis
    using assms(1) by (simp add: transition_def enter_list_def Let_def del: ancestors.simps)
qed

section \<open>The properties at concrete inputs\<close>

lemma sample_ready: "ct_initialized (rb_servo (fst (booted sample_platform sample_robot [])))"
  by (simp add: booted_def robot_initialize_def servo_initialize_def initPCA9685_def openDevice_def
      sample_platform_def sample_environ_def ask_def case_prod_beta Let_def setEnable_def servo_new_def)

lemma reachable_pass_returns_witness:
  "\<exists>m. reachable sample_platform sample_robot [] m \<and> (\<exists>m'. loop_pass sample_platform m = Some m')"
proof -
  obtain m where m: "machine_start sample_platform (machine_new sample_robot []) = Some m"
    by (simp add: machine_start_idle)
  then have "ct_initialized (rb_servo (mc_robot m))"
    using sample_ready by (auto simp: machine_start_idle idle_now_def)
  with reachable_pass_returns [OF reach_start [OF m]] reach_start [OF m] show ?thesis by blast
qed

lemma sample_machine_simps [simp]:
  "mc_running (sample_machine s)" "mc_currentState (sample_machine s) = Some s"
  "mc_timeoutMs (sample_machine s) MovingState = moving_timeoutMs"
  "mc_lastEventTime (sample_machine s) = (\<lambda>_. 0)"
  "ev_type (sample_event t src) = t" "ev_source (sample_event t src) = src"
  by (simp_all add: sample_machine_def machine_new_def sample_event_def)

lemma sample_moving:
  "\<exists>m. reachable sample_platform sample_robot [] m \<and> mc_currentState m = Some TuiControlState"
proof -
  obtain m0 where m0: "machine_start sample_platform (machine_new sample_robot []) = Some m0"
    by (simp add: machine_start_idle)
  define ev where "ev = sample_event Ev_control Src_tuiService"
  have m0': "m0 = idle_now ((machine_new sample_robot [])\<lparr>mc_running := True,
      mc_robot := fst (booted sample_platform sample_robot []),
      mc_world := snd (booted sample_platform sample_robot [])\<rparr>)"
    using m0 by (simp add: machine_start_idle)
  let ?m1 = "(expire_timers sample_platform (postEvent ev m0))\<lparr>mc_eventQueue := []\<rparr>"
  have idle: "mc_running ?m1" "mc_currentState ?m1 = Some IdleState"
    "mc_timeoutMs ?m1 MovingState = moving_timeoutMs"
    and q: "mc_eventQueue (expire_timers sample_platform (postEvent ev m0)) = [ev]"
    and run: "mc_running (postEvent ev m0)"
    and servo: "sv_angles (rb_servo (mc_robot ?m1)) = sv_angles (rb_servo (mc_robot m0))"
      "ct_initialized (rb_servo (mc_robot m0))"
    using sample_ready
    by (simp_all add: m0' idle_now_def expire_timers_eq postEvent_def machine_new_def)
  have "all_joints (sv_angles (rb_servo (mc_robot ?m1)))"
    using af.I_start [OF m0] servo by (simp add: angles_full_def)
  then obtain m' where m': "perform sample_platform TuiControlState ev (enter_route sample_platform ev ?m1) = Some m'"
    using perform_returns [of ev "enter_route sample_platform ev ?m1"]
    by (auto simp: joints_known_full enter_route_servo)
  have "loop_pass sample_platform (postEvent ev m0) = Some m'"
    using dispatch_idle_control_perform [OF idle(1,2), of ev sample_platform] m' run q
    by (simp add: loop_pass_def Let_def ev_def moving_child_def)
  moreover have "reachable sample_platform sample_robot [] (postEvent ev m0)"
    by (rule reach_step [OF reach_start [OF m0] step_post])
  moreover have "mc_currentState m' = Some TuiControlState"
    using perform_frame(1) [OF m'] enter_route_fields(1) [OF idle(3), of sample_platform ev]
    by (simp add: ev_def)
  ultimately show ?thesis
    by (blast intro: reach_step step_pass)
qed

lemma reachable_timeout_pending_witness:
  "\<exists>m. reachable sample_platform sample_robot [] m \<and> mc_currentState m = Some TuiControlState \<and>
     timeout_pending m"
  using sample_moving reachable_timeout_pending
  by (metis moving_child_def moving_family_def parentState.simps(1))

lemma idle_control_event_witness:
  "motors_on (mc_robot (enter_route sample_platform (sample_event Ev_control Src_tuiService)
     (sample_machine IdleState)))"
  using idle_control_event [of "sample_machine IdleState" "sample_event Ev_control Src_tuiService"
      sample_platform]
  by simp

lemma control_sources_witness:
  "dispatch sample_platform (sample_event Ev_control Src_expressionService) (sample_machine TuiControlState) =
     Some (sample_machine TuiControlState)"
  using control_sources [of "sample_machine TuiControlState" TuiControlState
      "sample_event Ev_control Src_expressionService" sample_platform]
  by simp

lemma moving_timeout_witness:
  "\<exists>m'. dispatch sample_platform (sample_event Ev_timeout Src_none) (sample_machine TalkingState) = Some m' \<and>
     mc_currentState m' = Some TalkingState \<and> (5000000003, event_of_type Ev_timeout) \<in> set (mc_timers m')"
proof -
  have "elapsed_ms (clock_at sample_platform (sample_machine TalkingState)) 0 = 0"
    by (simp add: elapsed_ms_def clock_at_def clock_now_def sample_platform_def sample_environ_def ask_def
        signed_divide_int_def)
  moreover have "clock_at sample_platform (snd (clock_now sample_platform (sample_machine TalkingState))) = 3"
    by (simp add: clock_at_def clock_now_def sample_platform_def sample_environ_def ask_def)
  ultimately show ?thesis
    using moving_timeout [of "sample_machine TalkingState" TalkingState "sample_event Ev_timeout Src_none"
        sample_platform]
    by (auto simp: moving_family_def moving_child_def)
qed

lemma idle_keeps_wheels_witness:
  "\<exists>m'. dispatch sample_platform (sample_event Ev_stop Src_none) (sample_machine MovingState) = Some m' \<and>
     dc_stop sample_environ (rb_dc (mc_robot m')) (mc_world m') = mc_world m'"
  using idle_keeps_wheels [of "sample_machine MovingState" MovingState "sample_event Ev_stop Src_none"
      sample_platform sample_environ]
  by (auto simp: moving_family_def)

lemma critical_error_final_witness:
  "mc_currentState (postEvent (sample_event Ev_control Src_tuiService) (sample_machine CriticalErrorState)) =
     Some CriticalErrorState"
  using critical_error_final [OF step_post [where P = sample_platform], of "sample_machine CriticalErrorState"]
  by simp

lemma sibling_transition_enters_nothing_witness:
  "transition sample_platform (Some TalkingState) (sample_event Ev_none Src_none)
     (sample_machine TuiControlState) = Some (sample_machine TalkingState)"
proof -
  have "(sample_machine TuiControlState)\<lparr>mc_currentState := Some TalkingState\<rparr> = sample_machine TalkingState"
    by (simp add: sample_machine_def)
  then show ?thesis
    using sibling_transition_enters_nothing [of "sample_machine TuiControlState" TuiControlState TalkingState
        sample_platform "sample_event Ev_none Src_none"]
    by (simp add: moving_family_def moving_child_def)
qed

end
