(* ===== verification/Robot_Service.thy ===== *)
theory Robot_Service
  imports Services Machine_Properties
begin

text \<open>
  \<open>services/robot_controller_service.cpp\<close>: the service between the other services and the state
  machine. Its one-slot mailbox \<open>_controlData\<close> is filled by the publishing thread and emptied by
  the service thread, which waits on a condition variable. The service thread's position is
  explicit, so that the interleavings of a delivery with its steps can be told apart.
\<close>

section \<open>State\<close>

text \<open>
  Positions of the service thread: not started, at the loop test, blocked in \<open>wait\<close>, past it,
  after the event was posted, and before publishing. Leaving the loop stops the machine.
\<close>

datatype position = At_none | At_loop | At_wait | At_check | At_reset | At_publish

record robot_service =
  rv_net :: "service_id net"
  rv_controlData :: "ControlData option"
  rv_position :: position
  rv_machine :: machine
  rv_published :: "(service_id \<times> SensorData) list"

definition self :: service_id where
  "self = RobotControllerService"

definition robot_subscriptions :: "service_id list" where
  "robot_subscriptions =
     [MappingService, ExpressionService, TuiService, InteractiveChatService, LandmarkTrackerService,
      RemoteConnectionService, VoiceAgentService]"

section \<open>Starting and stopping\<close>

definition robot_service_initialize ::
    "platform \<Rightarrow> robot_service \<Rightarrow> (bool \<times> robot_service) option" where
  "robot_service_initialize P s =
     (let n = fold (subscribe_to_service self) robot_subscriptions (rv_net s)
      in map_option (\<lambda>m. (True, s\<lparr>rv_net := n, rv_machine := m\<rparr>)) (machine_start P (rv_machine s)))"

text \<open>\<open>Service::start\<close> with this service's \<open>initialize\<close>; a started thread begins at the loop test.\<close>

definition robot_service_start :: "platform \<Rightarrow> robot_service \<Rightarrow> (bool \<times> robot_service) option" where
  "robot_service_start P s =
     (let flags = rv_net s self
      in if sc_disabled flags \<or> sc_running flags then Some (False, s)
         else Option.bind
           (if sc_initialized flags then Some (True, s) else robot_service_initialize P s)
           (\<lambda>(ret, s1).
              let n = rv_net s1
              in Some (if \<not> ret then (False, s1\<lparr>rv_net := n(self := (n self)\<lparr>sc_initialized := False\<rparr>)\<rparr>)
                       else (True, s1\<lparr>rv_net := n(self := (n self)\<lparr>sc_initialized := True, sc_running := True\<rparr>),
                                      rv_position := At_loop\<rparr>))))"

definition notify :: "robot_service \<Rightarrow> robot_service" where
  "notify s = (if rv_position s = At_wait then s\<lparr>rv_position := At_check\<rparr> else s)"

definition robot_service_stop :: "robot_service \<Rightarrow> robot_service" where
  "robot_service_stop s =
     (if sc_running (rv_net s self)
      then notify (s\<lparr>rv_net := snd (service_stop self (rv_net s))\<rparr>) else s)"

section \<open>Messages\<close>

text \<open>
  What the service reacts to: a command (the pointer may be null), a request for sensor values
  with whether the mutex was free, anything else.
\<close>

datatype robot_message =
    Robot_control "ControlData option" | Robot_sensor_read bool | Robot_other

text \<open>\<open>garbage\<close> is what the uninitialised shunt voltage holds.\<close>

definition publishSensorValues :: "platform \<Rightarrow> flt \<Rightarrow> robot_service \<Rightarrow> robot_service" where
  "publishSensorValues P garbage s =
     (let m = rv_machine s;
          (d, w) = getSensorValues (pf_env P) (pf_libm P) garbage (mc_robot m) (mc_world m)
      in s\<lparr>rv_machine := m\<lparr>mc_world := w\<rparr>,
           rv_published := rv_published s @ publish self d (rv_net s)\<rparr>)"

fun robot_receive :: "platform \<Rightarrow> flt \<Rightarrow> robot_message \<Rightarrow> robot_service \<Rightarrow> robot_service" where
  "robot_receive P g (Robot_control (Some c)) s = notify (s\<lparr>rv_controlData := Some c\<rparr>)"
| "robot_receive P g (Robot_control None) s = s"
| "robot_receive P g (Robot_sensor_read owns) s = (if owns then publishSensorValues P g s else s)"
| "robot_receive P g Robot_other s = s"

section \<open>The service thread\<close>

definition command_event :: "ControlData \<Rightarrow> ControlEvent" where
  "command_event c =
     \<lparr>ev_type = Ev_control,
      ev_source = (case ctl_source c of Some src \<Rightarrow> src | None \<Rightarrow> Src_none), ev_controlData = c\<rparr>"

text \<open>One step of the thread; \<open>None\<close> when it is blocked or has ended.\<close>

definition thread_step :: "platform \<Rightarrow> flt \<Rightarrow> robot_service \<Rightarrow> robot_service option" where
  "thread_step P garbage s =
     (case rv_position s of
        At_none \<Rightarrow> None
      | At_loop \<Rightarrow>
          Some (if sc_running (rv_net s self) then s\<lparr>rv_position := At_wait\<rparr>
                else s\<lparr>rv_machine := machine_stop (rv_machine s), rv_position := At_none\<rparr>)
      | At_wait \<Rightarrow> None
      | At_check \<Rightarrow>
          Some (case rv_controlData s of
                  None \<Rightarrow> s\<lparr>rv_position := At_loop\<rparr>
                | Some c \<Rightarrow> s\<lparr>rv_machine := postEvent (command_event c) (rv_machine s),
                              rv_position := At_reset\<rparr>)
      | At_reset \<Rightarrow> Some (s\<lparr>rv_controlData := None, rv_position := At_publish\<rparr>)
      | At_publish \<Rightarrow> Some ((publishSensorValues P garbage s)\<lparr>rv_position := At_loop\<rparr>))"

text \<open>The thread runs until it blocks or ends, at most \<open>k\<close> steps.\<close>

fun thread_run :: "nat \<Rightarrow> platform \<Rightarrow> flt \<Rightarrow> robot_service \<Rightarrow> robot_service" where
  "thread_run 0 P g s = s"
| "thread_run (Suc k) P g s = (case thread_step P g s of None \<Rightarrow> s | Some s' \<Rightarrow> thread_run k P g s')"

section \<open>Properties\<close>

lemma publishSensorValues_fields [simp]:
  "rv_net (publishSensorValues P g s) = rv_net s"
  "rv_controlData (publishSensorValues P g s) = rv_controlData s"
  "rv_position (publishSensorValues P g s) = rv_position s"
  "mc_eventQueue (rv_machine (publishSensorValues P g s)) = mc_eventQueue (rv_machine s)"
  "mc_running (rv_machine (publishSensorValues P g s)) = mc_running (rv_machine s)"
  "mc_robot (rv_machine (publishSensorValues P g s)) = mc_robot (rv_machine s)"
  by (simp_all add: publishSensorValues_def case_prod_beta Let_def)

text \<open>C19: a command delivered while the service thread waits is posted to the state machine,
with its source or none, and the thread is back at waiting with an empty mailbox after at most
five steps.\<close>

theorem command_is_posted:
  assumes "rv_position s = At_wait" and "sc_running (rv_net s self)"
  shows "\<exists>s'. thread_run 5 P g (robot_receive P g (Robot_control (Some c)) s) = s' \<and>
    mc_eventQueue (rv_machine s') = mc_eventQueue (rv_machine s) @ [command_event c] \<and>
    rv_controlData s' = None \<and> rv_position s' = At_wait"
  using assms
  by (simp add: numeral_eq_Suc thread_step_def notify_def postEvent_def)

text \<open>A command delivered between posting the previous one and the reset of the mailbox is
lost: the mailbox is emptied and nothing more is posted, however long the thread runs.\<close>

lemma command_lost_before_reset:
  assumes "rv_position s = At_reset" and "sc_running (rv_net s self)"
  shows "\<exists>s'. thread_run (3 + k) P g (robot_receive P g (Robot_control (Some c)) s) = s' \<and>
    mc_eventQueue (rv_machine s') = mc_eventQueue (rv_machine s) \<and>
    rv_controlData s' = None \<and> rv_position s' = At_wait"
proof -
  have blocked: "thread_run k P g s' = s'" if "rv_position s' = At_wait" for s'
    using that by (cases k) (simp_all add: thread_step_def)
  show ?thesis
    using assms by (simp add: numeral_eq_Suc thread_step_def notify_def blocked)
qed

text \<open>A command delivered while the thread publishes sensor values stays in the mailbox with
the thread asleep: the notification falls before the wait, which has no condition.\<close>

lemma command_waits_for_another:
  assumes "rv_position s = At_publish" and "sc_running (rv_net s self)"
  shows "\<exists>s'. thread_run (2 + k) P g (robot_receive P g (Robot_control (Some c)) s) = s' \<and>
    mc_eventQueue (rv_machine s') = mc_eventQueue (rv_machine s) \<and>
    rv_controlData s' = Some c \<and> rv_position s' = At_wait \<and> thread_step P g s' = None"
proof -
  have blocked: "thread_run k P g s' = s'" if "rv_position s' = At_wait" for s'
    using that by (cases k) (simp_all add: thread_step_def)
  show ?thesis
    using assms by (simp add: numeral_eq_Suc thread_step_def notify_def blocked)
qed

text \<open>C18: a service that is stopped and started again has a dead state machine: the thread's end
stopped the machine, the second start skips the initialisation that would start it, so every
pass of the machine's loop from then on does nothing.\<close>

theorem restart_leaves_machine_stopped:
  assumes "rv_position s = At_wait" and "sc_running (rv_net s self)" and "sc_initialized (rv_net s self)"
    and "\<not> sc_disabled (rv_net s self)" and "rv_controlData s = None"
  shows "\<exists>s'. robot_service_start P (thread_run 2 P g (robot_service_stop s)) = Some (True, s') \<and>
    sc_running (rv_net s' self) \<and> \<not> mc_running (rv_machine s') \<and>
    (\<forall>ev. loop_pass P (postEvent ev (rv_machine s')) = Some (postEvent ev (rv_machine s')))"
  using assms
  by (simp add: numeral_eq_Suc thread_step_def robot_service_stop_def service_stop_def notify_def
      robot_service_start_def machine_stop_def loop_pass_def postEvent_def Let_def)

section \<open>The properties at concrete inputs\<close>

definition sample_service :: "position \<Rightarrow> robot_service" where
  "sample_service p =
     \<lparr>rv_net = (\<lambda>_. service_new\<lparr>sc_running := True, sc_initialized := True\<rparr>), rv_controlData = None,
      rv_position = p, rv_machine = sample_machine IdleState, rv_published = []\<rparr>"

lemma sample_service_simps [simp]:
  "rv_position (sample_service p) = p" "sc_running (rv_net (sample_service p) q)"
  "sc_initialized (rv_net (sample_service p) q)" "\<not> sc_disabled (rv_net (sample_service p) q)"
  "rv_controlData (sample_service p) = None"
  "mc_eventQueue (rv_machine (sample_service p)) = []"
  by (simp_all add: sample_service_def service_new_def sample_machine_def machine_new_def)

lemma command_is_posted_witness:
  "mc_eventQueue (rv_machine (thread_run 5 sample_platform (Flt 0 0)
     (robot_receive sample_platform (Flt 0 0) (Robot_control (Some ControlData_empty)) (sample_service At_wait)))) =
   [command_event ControlData_empty]"
  using command_is_posted [of "sample_service At_wait" sample_platform "Flt 0 0" ControlData_empty] by simp

lemma command_lost_before_reset_witness:
  "mc_eventQueue (rv_machine (thread_run 3 sample_platform (Flt 0 0)
     (robot_receive sample_platform (Flt 0 0) (Robot_control (Some ControlData_empty)) (sample_service At_reset)))) = []"
  using command_lost_before_reset [of "sample_service At_reset" 0 sample_platform "Flt 0 0" ControlData_empty]
  by simp

lemma command_waits_for_another_witness:
  "rv_controlData (thread_run 2 sample_platform (Flt 0 0)
     (robot_receive sample_platform (Flt 0 0) (Robot_control (Some ControlData_empty)) (sample_service At_publish))) =
   Some ControlData_empty"
  using command_waits_for_another [of "sample_service At_publish" 0 sample_platform "Flt 0 0" ControlData_empty]
  by simp

lemma restart_leaves_machine_stopped_witness:
  "\<exists>s'. robot_service_start sample_platform
      (thread_run 2 sample_platform (Flt 0 0) (robot_service_stop (sample_service At_wait))) = Some (True, s') \<and>
    \<not> mc_running (rv_machine s')"
  using restart_leaves_machine_stopped [of "sample_service At_wait" sample_platform "Flt 0 0"] by auto

end
