(* ===== verification/Service_Handlers.thy ===== *)
theory Service_Handlers
  imports Services Messages
begin

text \<open>
  What the services send each other, and the shape all message handlers share: a handler works on
  the service's own state and the net of services, and may start or stop its own service. The
  interface \<open>service_handler\<close> collects what every handler keeps; a service that is stopped stays
  stopped until a message that wakes it.
\<close>

section \<open>Messages in flight\<close>

text \<open>
  A message is its type and its data. \<open>M_bare t\<close> is type \<open>t\<close> with a null data pointer, which is
  how requests without content are published; \<open>M_snapshot_request\<close> is the one request whose receiver
  asks for a data object.
\<close>

datatype message =
    M_control ControlData
  | M_sensor SensorData
  | M_gesture RecognizedGesture
  | M_llm_response LLMResponseData
  | M_engage_reaction string
  | M_speak string
  | M_llm_query string
  | M_speech string
  | M_snapshot_response Snapshot
  | M_database_insert string string
  | M_bare MessageType
  | M_snapshot_request

fun message_type :: "message \<Rightarrow> MessageType" where
  "message_type (M_control _) = Msg_ControlData"
| "message_type (M_sensor _) = Msg_SensorData"
| "message_type (M_gesture _) = Msg_RecognizedGesture"
| "message_type (M_llm_response _) = Msg_LLMResponse"
| "message_type (M_engage_reaction _) = Msg_EngageReaction"
| "message_type (M_speak _) = Msg_SpeakRequest"
| "message_type (M_llm_query _) = Msg_LLMQuery"
| "message_type (M_speech _) = Msg_RecognizedSpeech"
| "message_type (M_snapshot_response _) = Msg_CameraSnapShotResponse"
| "message_type (M_database_insert _ _) = Msg_DatabaseInsertData"
| "message_type (M_bare t) = t"
| "message_type M_snapshot_request = Msg_CameraSnapShotRequest"

section \<open>Starting and stopping one's own service\<close>

type_synonym 'st hosted = "'st \<times> service_id net"

text \<open>
  \<open>start()\<close> with an initialisation that succeeds or not and subscribes to the given services
  when it does.
\<close>

definition start_self :: "bool \<Rightarrow> service_id list \<Rightarrow> service_id \<Rightarrow> 'st hosted \<Rightarrow> 'st hosted" where
  "start_self ok targets self s =
     (fst s, snd (service_start
        (\<lambda>n. (ok, if ok then fold (subscribe_to_service self) targets n else n)) self (snd s)))"

definition stop_self :: "service_id \<Rightarrow> 'st hosted \<Rightarrow> 'st hosted" where
  "stop_self self s = (fst s, snd (service_stop self (snd s)))"

lemma fst_start_self [simp]: "fst (start_self ok targets self s) = fst s"
  by (simp add: start_self_def)

lemma fst_stop_self [simp]: "fst (stop_self self s) = fst s"
  by (simp add: stop_self_def)

lemma stop_self_stops [simp]: "\<not> sc_running (snd (stop_self self s) self)"
  by (simp add: stop_self_def service_stop_def)

lemma running_subscribe [simp]:
  "sc_running (fold (subscribe_to_service self) targets n q) = sc_running (n q)"
  "sc_disabled (fold (subscribe_to_service self) targets n q) = sc_disabled (n q)"
  by (induction targets arbitrary: n) (simp_all add: subscribe_to_service_def subscribe_def Let_def)

lemma start_self_runs:
  "sc_running (snd (start_self ok targets self s) self) \<longleftrightarrow>
     sc_running (snd s self) \<or> \<not> sc_disabled (snd s self) \<and> (ok \<or> sc_initialized (snd s self))"
  by (simp add: start_self_def service_start_def case_prod_beta Let_def)

lemma own_net_others [simp]:
  "q \<noteq> self \<Longrightarrow> sc_running (snd (start_self ok targets self s) q) = sc_running (snd s q)"
  "q \<noteq> self \<Longrightarrow> sc_running (snd (stop_self self s) q) = sc_running (snd s q)"
  by (simp_all add: start_self_def stop_self_def service_start_def service_stop_def case_prod_beta Let_def)

lemma own_net_ok [simp]:
  "net_ok (snd s) \<Longrightarrow> net_ok (snd (start_self ok targets self s))"
  "net_ok (snd s) \<Longrightarrow> net_ok (snd (stop_self self s))"
  by (auto simp: start_self_def stop_self_def service_start_def service_stop_def case_prod_beta Let_def
      intro: fold_preserves [where P = net_ok] net_ok_subscribe_to)

section \<open>The interface of a handler\<close>

locale service_handler =
  fixes receive :: "message \<Rightarrow> 'st hosted \<Rightarrow> 'st hosted"
    and owner :: service_id
    and wakes :: "message \<Rightarrow> bool"
  assumes handler_ok: "net_ok (snd s) \<Longrightarrow> net_ok (snd (receive m s))"
    and handler_sleeps: "\<not> wakes m \<Longrightarrow> \<not> sc_running (snd s owner) \<Longrightarrow> \<not> sc_running (snd (receive m s) owner)"
    and handler_others: "q \<noteq> owner \<Longrightarrow> sc_running (snd (receive m s) q) = sc_running (snd s q)"
begin

lemma received_ok: "net_ok (snd s) \<Longrightarrow> net_ok (snd (fold receive ms s))"
  by (rule fold_preserves [where P = "\<lambda>s. net_ok (snd s)"]) (simp_all add: handler_ok)

lemma stays_stopped:
  "\<forall>m \<in> set ms. \<not> wakes m \<Longrightarrow> \<not> sc_running (snd s owner) \<Longrightarrow> \<not> sc_running (snd (fold receive ms s) owner)"
  by (rule fold_preserves [where P = "\<lambda>s. \<not> sc_running (snd s owner)"]) (simp_all add: handler_sleeps)

lemma others_unchanged: "q \<noteq> owner \<Longrightarrow> sc_running (snd (fold receive ms s) q) = sc_running (snd s q)"
  by (rule fold_unchanged [where g = "\<lambda>s. sc_running (snd s q)"]) (simp add: handler_others)

end

end
