(* ===== verification/Landmark_Tracker.thy ===== *)
theory Landmark_Tracker
  imports Service_Handlers World
begin

text \<open>
  \<open>services/landmark_tracker_service.h\<close> and \<open>.cpp\<close>: following a face or a hand with the head. Every
  50 ms one pass takes the last recognised gesture, picks a target, turns its distance from the
  picture's centre into a head command, and after a long look engages a reaction. Pixel
  coordinates are integers; \<open>atan2\<close> is a parameter. The square root of a sum of squares below
  \<open>2 ^ 52\<close> is exact enough that its truncation is the integer root.
\<close>

section \<open>Data\<close>

definition MAX_ERROR :: int where "MAX_ERROR = 300"
definition MIN_MAGNITUDE :: int where "MIN_MAGNITUDE = 1"
definition MAX_MAGNITUDE :: int where "MAX_MAGNITUDE = 4"
definition REACTION_TIME_START :: int where "REACTION_TIME_START = 430"
definition REACTION_TRESHOLD_COUNT :: int where "REACTION_TRESHOLD_COUNT = 500"

definition errorTreshold :: int where "errorTreshold = 50"

lemmas tracker_constants =
  MAX_ERROR_def MIN_MAGNITUDE_def MAX_MAGNITUDE_def REACTION_TIME_START_def
  REACTION_TRESHOLD_COUNT_def errorTreshold_def

datatype TrackState = Ts_idle | Ts_tracking | Ts_engaging_reaction

record PolarVector =
  pv_angle :: int
  pv_magnitude :: int

record Point2D =
  p_x :: int
  p_y :: int

definition origin :: Point2D where
  "origin = \<lparr>p_x = 0, p_y = 0\<rparr>"

record TrackingData =
  td_recognizedGestureData :: RecognizedGesture
  td_currentJointAngles :: joint_angles

definition eye_landmark :: "Landmark \<Rightarrow> bool" where
  "eye_landmark l \<longleftrightarrow> lm_id l = 33 \<or> lm_id l = 133 \<or> lm_id l = 362 \<or> lm_id l = 263"

definition getFaceCenter :: "TrackingData \<Rightarrow> Point2D" where
  "getFaceCenter td =
     (let eyes = filter eye_landmark (rg_faceLandmarks (td_recognizedGestureData td));
          sumX = sum_list (map lm_cx eyes);
          sumY = sum_list (map lm_cy eyes);
          eyePointCount = int (length eyes)
      in if eyePointCount > 0
         then \<lparr>p_x = sumX sdiv eyePointCount, p_y = sumY sdiv eyePointCount\<rparr> else origin)"

definition getHandCenter :: "TrackingData \<Rightarrow> Point2D" where
  "getHandCenter td =
     (let handBox = rg_handBbox (td_recognizedGestureData td)
      in \<lparr>p_x = (bb_xmin handBox + bb_xmax handBox) sdiv 2,
          p_y = (bb_ymin handBox + bb_ymax handBox) sdiv 2\<rparr>)"

section \<open>LastKnownTarget\<close>

record LastKnownTarget =
  lk_target :: "Point2D option"
  lk_followTimeOut :: int

definition target_setValue :: "Point2D \<Rightarrow> LastKnownTarget \<Rightarrow> LastKnownTarget" where
  "target_setValue target k = k\<lparr>lk_followTimeOut := 5, lk_target := Some target\<rparr>"

definition target_getValue :: "LastKnownTarget \<Rightarrow> Point2D \<times> LastKnownTarget" where
  "target_getValue k =
     (case lk_target k of
        Some target \<Rightarrow>
          (let k1 = k\<lparr>lk_followTimeOut := lk_followTimeOut k - 1\<rparr>
           in if lk_followTimeOut k1 \<le> 0 then (origin, k1\<lparr>lk_target := None\<rparr>) else (target, k1))
      | None \<Rightarrow> (origin, k))"

section \<open>The service\<close>

record tracker =
  lt_recognizedGestureData :: RecognizedGesture
  lt_sensorData :: SensorData
  lt_lastKnownTarget :: LastKnownTarget
  lt_reactionEngageTimeout :: int

definition collectTrackingData :: "tracker \<Rightarrow> TrackingData \<times> tracker" where
  "collectTrackingData t =
     (let angles = (case sd_currentJointAngles (lt_sensorData t) of Some a \<Rightarrow> a | None \<Rightarrow> Map.empty)
      in (\<lparr>td_recognizedGestureData = lt_recognizedGestureData t, td_currentJointAngles = angles\<rparr>,
          t\<lparr>lt_sensorData := (lt_sensorData t)\<lparr>sd_currentJointAngles := None\<rparr>\<rparr>))"

definition selectTheTarget :: "TrackingData \<Rightarrow> tracker \<Rightarrow> Point2D \<times> tracker" where
  "selectTheTarget td t =
     (let gesture = td_recognizedGestureData td;
          k = lt_lastKnownTarget t;
          k1 = (if rg_faceLandmarks gesture \<noteq> [] \<and> length (rg_faceLandmarks gesture) > 3
                then target_setValue (getFaceCenter td) k
                else if bb_valid (rg_handBbox gesture) then target_setValue (getHandCenter td) k
                else k);
          (p, k2) = target_getValue k1
      in (p, t\<lparr>lt_lastKnownTarget := k2\<rparr>))"

definition getTrackingState :: "PolarVector \<Rightarrow> tracker \<Rightarrow> TrackState \<times> tracker" where
  "getTrackingState errorVector t =
     (if pv_magnitude errorVector > errorTreshold then (Ts_tracking, t)
      else if pv_angle errorVector = 0 \<and> pv_magnitude errorVector = 0 then (Ts_idle, t)
      else if lt_reactionEngageTimeout t \<ge> REACTION_TRESHOLD_COUNT
           then (Ts_engaging_reaction, t\<lparr>lt_reactionEngageTimeout := 1\<rparr>)
           else (Ts_idle, t\<lparr>lt_reactionEngageTimeout := lt_reactionEngageTimeout t + 1\<rparr>))"

definition calculateControlMagnitude :: "PolarVector \<Rightarrow> int" where
  "calculateControlMagnitude errorVector =
     (let magnitude = MIN_MAGNITUDE +
            ((pv_magnitude errorVector - errorTreshold) * (MAX_MAGNITUDE - MIN_MAGNITUDE)) sdiv
              (MAX_ERROR - errorTreshold);
          magnitude = (if magnitude < MIN_MAGNITUDE then MIN_MAGNITUDE else magnitude)
      in if magnitude > MAX_MAGNITUDE then MAX_MAGNITUDE else magnitude)"

text \<open>The integer square root, two binary digits at a time.\<close>

function floor_root :: "int \<Rightarrow> int" where
  "floor_root n =
     (if n \<le> 0 then 0
      else let r = 2 * floor_root (n div 4) in if (r + 1) * (r + 1) \<le> n then r + 1 else r)"
  by pat_completeness auto

termination
  by (relation "measure nat") auto

declare floor_root.simps [simp del]

definition calculateErrorVector :: "libm \<Rightarrow> Point2D \<Rightarrow> PolarVector" where
  "calculateErrorVector L target =
     (if p_x target = 0 \<and> p_y target = 0 then \<lparr>pv_angle = 0, pv_magnitude = 0\<rparr>
      else let errorX = p_x target - 320;
               errorY = p_y target - 240;
               magnitude = floor_root (errorX * errorX + errorY * errorY);
               angle = fdiv dbl_prec
                         (fmul dbl_prec (lib_atan2 L (fof_int dbl_prec (- errorY)) (fof_int dbl_prec errorX))
                           (Flt 180 0)) M_PI;
               angle = (if flt_less angle (Flt 0 0) then fadd dbl_prec angle (Flt 360 0) else angle)
           in \<lparr>pv_angle = ftrunc angle, pv_magnitude = magnitude\<rparr>)"

definition controlHead :: "int \<Rightarrow> int \<Rightarrow> message" where
  "controlHead angle magnitude =
     M_control (ControlData_empty\<lparr>ctl_source := Some Src_landmarkTrackerService,
       ctl_headJoystick := Some \<lparr>js_angle = angle, js_strength = magnitude\<rparr>\<rparr>)"

text \<open>
  \<open>reactionList\<close> is what the configuration holds, \<open>None\<close> when it was not read: it is
  dereferenced without a test, and the result is \<open>None\<close>. \<open>rand\<close> is a parameter.
\<close>

definition engageReaction :: "FaceReaction list option \<Rightarrow> nat \<Rightarrow> TrackingData \<Rightarrow> message list option" where
  "engageReaction reactionList rand td =
     (let emotion = rg_faceEmotion (td_recognizedGestureData td)
      in if emotion = ''No Face'' then Some []
         else map_option
           (\<lambda>reactions.
              let matchingReactions = map fr_reaction (filter (\<lambda>r. fr_emotion r = emotion) reactions);
                  selectedReaction =
                    (if matchingReactions \<noteq> [] then matchingReactions ! (rand mod length matchingReactions)
                     else '''')
              in [M_engage_reaction selectedReaction])
           reactionList)"

text \<open>
  One pass of the loop: the new state, the new idle positions of the expression service if they
  are overwritten, and the messages published.
\<close>

record tracker_pass =
  tp_tracker :: tracker
  tp_idleJointPositions :: "joint_angles option"
  tp_published :: "message list"

definition tracker_loop_pass ::
    "libm \<Rightarrow> FaceReaction list option \<Rightarrow> nat \<Rightarrow> tracker \<Rightarrow> tracker_pass option" where
  "tracker_loop_pass L reactionList rand t =
     (let (trackingData, t1) = collectTrackingData t;
          (target, t2) = selectTheTarget trackingData t1;
          errorVector = calculateErrorVector L target;
          (trackState, t3) = getTrackingState errorVector t2
      in case trackState of
           Ts_tracking \<Rightarrow>
             Some \<lparr>tp_tracker = t3,
                   tp_idleJointPositions =
                     (if list_ex (\<lambda>j. td_currentJointAngles trackingData j \<noteq> None) joints
                      then Some (td_currentJointAngles trackingData) else None),
                   tp_published = [controlHead (pv_angle errorVector) (calculateControlMagnitude errorVector)]\<rparr>
         | Ts_engaging_reaction \<Rightarrow>
             map_option (\<lambda>ms. \<lparr>tp_tracker = t3, tp_idleJointPositions = None, tp_published = ms\<rparr>)
               (engageReaction reactionList rand trackingData)
         | Ts_idle \<Rightarrow> Some \<lparr>tp_tracker = t3, tp_idleJointPositions = None, tp_published = []\<rparr>)"

definition tracker_subscriptions :: "service_id list" where
  "tracker_subscriptions =
     [PerceptionService, InteractiveChatService, RobotControllerService, ExpressionService,
      RemoteConnectionService]"

fun tracker_wakes :: "message \<Rightarrow> bool" where
  "tracker_wakes m =
     (message_type m \<in> {Msg_StartPerceptionRequest, Msg_GesturePerformanceCompleted, Msg_AIModeOnCall})"

fun tracker_receive :: "message \<Rightarrow> tracker hosted \<Rightarrow> tracker hosted" where
  "tracker_receive (M_gesture g) s = ((fst s)\<lparr>lt_recognizedGestureData := g\<rparr>, snd s)"
| "tracker_receive (M_sensor d) s = ((fst s)\<lparr>lt_sensorData := d\<rparr>, snd s)"
| "tracker_receive (M_bare t) s =
     (if t = Msg_StopPerceptionRequest then stop_self LandmarkTrackerService s
      else if t = Msg_StartPerceptionRequest then start_self True tracker_subscriptions LandmarkTrackerService s
      else if t = Msg_GesturePerformanceCompleted then start_self True tracker_subscriptions LandmarkTrackerService s
      else if t = Msg_InteractiveChatStarted then stop_self LandmarkTrackerService s
      else if t = Msg_AIModeOnCall then start_self True tracker_subscriptions LandmarkTrackerService s
      else if t = Msg_AIModeOffCall then stop_self LandmarkTrackerService s
      else s)"
| "tracker_receive _ s = s"

definition speak :: "string \<Rightarrow> message" where
  "speak txt = M_speak txt"

section \<open>The handler\<close>

interpretation tracker_handler: service_handler tracker_receive LandmarkTrackerService tracker_wakes
proof
  fix s :: "tracker hosted" and m :: message and q :: service_id
  show "net_ok (snd s) \<Longrightarrow> net_ok (snd (tracker_receive m s))"
    by (cases m) simp_all
  show "\<not> tracker_wakes m \<Longrightarrow> \<not> sc_running (snd s LandmarkTrackerService) \<Longrightarrow>
      \<not> sc_running (snd (tracker_receive m s) LandmarkTrackerService)"
    by (cases m) simp_all
  show "q \<noteq> LandmarkTrackerService \<Longrightarrow>
      sc_running (snd (tracker_receive m s) q) = sc_running (snd s q)"
    by (cases m) simp_all
qed

section \<open>Lemmas\<close>

lemma floor_root_bounds:
  "0 \<le> n \<Longrightarrow> 0 \<le> floor_root n \<and> floor_root n * floor_root n \<le> n \<and> n < (floor_root n + 1) * (floor_root n + 1)"
proof (induction n rule: floor_root.induct)
  case (1 n)
  show ?case
  proof (cases "n \<le> 0")
    case True
    then show ?thesis using 1(2) by (simp add: floor_root.simps)
  next
    case False
    define q where "q = n div 4"
    define r where "r = floor_root q"
    have step: "floor_root n = (if (2 * r + 1) * (2 * r + 1) \<le> n then 2 * r + 1 else 2 * r)"
      using False by (simp add: floor_root.simps [of n] Let_def q_def r_def)
    have ih: "0 \<le> r" "r * r \<le> q" "q < (r + 1) * (r + 1)"
      using 1(1) [OF False] False by (simp_all add: q_def r_def)
    have n: "4 * q \<le> n" "n < 4 * (q + 1)" by (simp_all add: q_def)
    have "q + 1 \<le> (r + 1) * (r + 1)" using ih(3) by simp
    then have "n < (2 * r + 2) * (2 * r + 2)" using n(2) by (simp add: algebra_simps)
    moreover have "(2 * r) * (2 * r) \<le> n" using ih(2) n(1) by (simp add: algebra_simps)
    ultimately show ?thesis using ih(1) by (simp add: step algebra_simps)
  qed
qed

lemma floor_root_le:
  assumes "0 \<le> n" and "n \<le> k * k" and "0 \<le> k"
  shows "floor_root n \<le> k"
proof (rule ccontr)
  assume "\<not> floor_root n \<le> k"
  then have "k + 1 \<le> floor_root n" by simp
  then have "(k + 1) * (k + 1) \<le> floor_root n * floor_root n"
    using assms(3) by (intro mult_mono) simp_all
  also have "\<dots> \<le> n" using floor_root_bounds [OF assms(1)] by simp
  finally show False using assms(2,3) by (simp add: algebra_simps)
qed

lemma sdiv_between:
  assumes "lo * c \<le> a" and "a \<le> hi * c" and "0 < (c :: int)"
  shows "lo \<le> a sdiv c \<and> a sdiv c \<le> hi"
proof (cases "0 \<le> a")
  case True
  have "lo \<le> a div c" "a div c \<le> hi"
    using zdiv_mono1 [OF assms(1,3)] zdiv_mono1 [OF assms(2,3)] assms(3) by simp_all
  then show ?thesis using True assms(3) by (simp add: sdiv_nonneg)
next
  case False
  have cancel: "- (k * c) div c = - k" for k
    using nonzero_mult_div_cancel_right [of c "- k"] assms(3) by simp
  have "- hi \<le> (- a) div c" "(- a) div c \<le> - lo"
    using zdiv_mono1 [of "- (hi * c)" "- a" c] zdiv_mono1 [of "- a" "- (lo * c)" c] assms
    by (simp_all add: cancel)
  moreover have "a sdiv c = - ((- a) div c)"
    using False assms(3) by (simp add: signed_divide_int_def)
  ultimately show ?thesis by simp
qed

lemma sum_list_between:
  assumes "\<forall>x \<in> set xs. lo \<le> f x \<and> f x \<le> (hi :: int)"
  shows "lo * int (length xs) \<le> sum_list (map f xs) \<and> sum_list (map f xs) \<le> hi * int (length xs)"
  using assms by (induction xs) (auto simp: algebra_simps)

lemma face_center_between:
  assumes "\<exists>l \<in> set (rg_faceLandmarks (td_recognizedGestureData td)). eye_landmark l"
    and "\<forall>l \<in> set (rg_faceLandmarks (td_recognizedGestureData td)). eye_landmark l \<longrightarrow>
      x1 \<le> lm_cx l \<and> lm_cx l \<le> x2 \<and> y1 \<le> lm_cy l \<and> lm_cy l \<le> y2"
  shows "x1 \<le> p_x (getFaceCenter td) \<and> p_x (getFaceCenter td) \<le> x2 \<and>
    y1 \<le> p_y (getFaceCenter td) \<and> p_y (getFaceCenter td) \<le> y2"
proof -
  define eyes where "eyes = filter eye_landmark (rg_faceLandmarks (td_recognizedGestureData td))"
  have len: "0 < int (length eyes)"
    using assms(1) by (auto simp: eyes_def filter_empty_conv)
  have "\<forall>l \<in> set eyes. x1 \<le> lm_cx l \<and> lm_cx l \<le> x2" "\<forall>l \<in> set eyes. y1 \<le> lm_cy l \<and> lm_cy l \<le> y2"
    using assms(2) by (simp_all add: eyes_def)
  note sums = this [THEN sum_list_between]
  have "getFaceCenter td =
      \<lparr>p_x = sum_list (map lm_cx eyes) sdiv int (length eyes),
       p_y = sum_list (map lm_cy eyes) sdiv int (length eyes)\<rparr>"
    using len by (simp add: getFaceCenter_def Let_def eyes_def)
  then show ?thesis
    using sdiv_between [OF conjunct1 [OF sums(1)] conjunct2 [OF sums(1)] len]
      sdiv_between [OF conjunct1 [OF sums(2)] conjunct2 [OF sums(2)] len]
    by simp
qed

section \<open>Properties\<close>

text \<open>The scaled and clamped magnitude is the step function with steps at 134, 217 and 300
pixels, so it is at least 1 and at most 4: the upper end of the interval \<open>[1, 5]\<close> that comments of the
function name is never reached, since its constant \<open>MAX_MAGNITUDE\<close> is 4.\<close>

lemma control_magnitude_steps:
  "calculateControlMagnitude v =
     (if pv_magnitude v \<ge> 300 then 4 else if pv_magnitude v \<ge> 217 then 3
      else if pv_magnitude v \<ge> 134 then 2 else 1)"
proof -
  let ?m = "pv_magnitude v"
  have "calculateControlMagnitude v = max 1 (1 + ((?m - 50) * 3) sdiv 250) \<and> 1 + ((?m - 50) * 3) sdiv 250 \<le> 4 \<or>
      calculateControlMagnitude v = 4 \<and> 4 < 1 + ((?m - 50) * 3) sdiv 250"
    by (simp add: calculateControlMagnitude_def tracker_constants Let_def max_def)
  moreover have "((?m - 50) * 3) sdiv 250 \<le> 0" if "?m < 50"
    using sdiv_between [of "(?m - 50) * 3" 250 "(?m - 50) * 3" 0] that by simp
  moreover have "((?m - 50) * 3) sdiv 250 = ((?m - 50) * 3) div 250" if "\<not> ?m < 50"
    using that by (simp add: sdiv_nonneg)
  ultimately show ?thesis by (cases "?m < 50") (auto simp: max_def)
qed

text \<open>What a gesture shows: the target the code takes from it, if any.\<close>

definition visible_target :: "RecognizedGesture \<Rightarrow> joint_angles \<Rightarrow> Point2D option" where
  "visible_target g a =
     (let td = \<lparr>td_recognizedGestureData = g, td_currentJointAngles = a\<rparr>
      in if length (rg_faceLandmarks g) > 3 then Some (getFaceCenter td)
         else if bb_valid (rg_handBbox g) then Some (getHandCenter td) else None)"

text \<open>The target one pass selects, and the state it leaves.\<close>

definition pass_target :: "tracker \<Rightarrow> Point2D \<times> tracker" where
  "pass_target t = (let (td, t1) = collectTrackingData t in selectTheTarget td t1)"

fun target_passes :: "nat \<Rightarrow> tracker \<Rightarrow> tracker" where
  "target_passes 0 t = t"
| "target_passes (Suc k) t = snd (pass_target (target_passes k t))"

lemma pass_target_visible:
  assumes "\<And>a. visible_target (lt_recognizedGestureData t) a = Some p"
  shows "fst (pass_target t) = p \<and>
    lt_lastKnownTarget (snd (pass_target t)) = \<lparr>lk_target = Some p, lk_followTimeOut = 4\<rparr>"
  using assms [of "td_currentJointAngles (fst (collectTrackingData t))"]
  by (auto simp: pass_target_def collectTrackingData_def selectTheTarget_def visible_target_def Let_def
      target_setValue_def target_getValue_def split: if_splits option.splits)

lemma pass_target_hidden:
  assumes "\<And>a. visible_target (lt_recognizedGestureData t) a = None"
  shows "fst (pass_target t) = fst (target_getValue (lt_lastKnownTarget t)) \<and>
    lt_lastKnownTarget (snd (pass_target t)) = snd (target_getValue (lt_lastKnownTarget t)) \<and>
    lt_recognizedGestureData (snd (pass_target t)) = lt_recognizedGestureData t"
  using assms [of "td_currentJointAngles (fst (collectTrackingData t))"]
  by (auto simp: pass_target_def collectTrackingData_def selectTheTarget_def visible_target_def Let_def
      case_prod_beta split: if_splits option.splits)

lemma hidden_passes:
  assumes "\<And>a. visible_target (lt_recognizedGestureData t) a = None"
    and "lt_lastKnownTarget t = \<lparr>lk_target = Some p, lk_followTimeOut = 4\<rparr>"
  shows "lt_recognizedGestureData (target_passes k t) = lt_recognizedGestureData t \<and>
    (if k < 4 then lt_lastKnownTarget (target_passes k t) = \<lparr>lk_target = Some p, lk_followTimeOut = 4 - int k\<rparr>
     else lk_target (lt_lastKnownTarget (target_passes k t)) = None)"
proof (induction k)
  case 0
  show ?case using assms(2) by simp
next
  case (Suc k)
  let ?t = "target_passes k t"
  have "visible_target (lt_recognizedGestureData ?t) a = None" for a
    unfolding Suc [THEN conjunct1] by (rule assms(1))
  note hidden = pass_target_hidden [OF this]
  show ?case
    using Suc hidden by (auto simp: target_getValue_def Let_def split: if_splits option.splits)
qed

text \<open>C22: when the target is lost, the head follows its last position for exactly three more
passes; from the fourth on there is no target.\<close>

theorem lost_target_kept_three_passes:
  assumes "\<And>a. visible_target (lt_recognizedGestureData t) a = Some p"
    and "\<And>a. visible_target g a = None"
    and "t1 = (snd (pass_target t))\<lparr>lt_recognizedGestureData := g\<rparr>"
  shows "fst (pass_target t) = p \<and>
    fst (pass_target (target_passes k t1)) = (if k < 3 then p else origin)"
proof -
  let ?t = "target_passes k t1"
  have k: "lt_lastKnownTarget t1 = \<lparr>lk_target = Some p, lk_followTimeOut = 4\<rparr>"
    and g: "lt_recognizedGestureData t1 = g"
    using pass_target_visible [OF assms(1)] assms(3) by simp_all
  note st = hidden_passes [of t1, unfolded g, OF assms(2) k, of k]
  have "fst (pass_target ?t) = fst (target_getValue (lt_lastKnownTarget ?t))"
    using pass_target_hidden [of ?t] st assms(2) by simp
  then show ?thesis
    using pass_target_visible [OF assms(1)] st
    by (auto simp: target_getValue_def Let_def split: if_splits option.splits)
qed

text \<open>The states of consecutive passes with given error vectors.\<close>

fun tracking_states :: "PolarVector list \<Rightarrow> tracker \<Rightarrow> TrackState list" where
  "tracking_states [] t = []"
| "tracking_states (e # es) t =
     (let (st, t1) = getTrackingState e t in st # tracking_states es t1)"

definition small_error :: "PolarVector \<Rightarrow> bool" where
  "small_error e \<longleftrightarrow> pv_magnitude e \<le> 50 \<and> \<not> (pv_angle e = 0 \<and> pv_magnitude e = 0)"

definition engage_count_ok :: "tracker \<Rightarrow> bool" where
  "engage_count_ok t \<longleftrightarrow> 1 \<le> lt_reactionEngageTimeout t \<and> lt_reactionEngageTimeout t \<le> 500"

lemma getTrackingState_step:
  assumes "engage_count_ok t"
  shows "engage_count_ok (snd (getTrackingState e t)) \<and>
    (fst (getTrackingState e t) = Ts_engaging_reaction \<longleftrightarrow>
       small_error e \<and> lt_reactionEngageTimeout t mod 500 = 0) \<and>
    lt_reactionEngageTimeout (snd (getTrackingState e t)) mod 500 =
      (lt_reactionEngageTimeout t + of_bool (small_error e)) mod 500"
proof (cases "lt_reactionEngageTimeout t = 500")
  case True
  then show ?thesis
    by (simp add: getTrackingState_def tracker_constants small_error_def engage_count_ok_def)
next
  case False
  then have "lt_reactionEngageTimeout t mod 500 = lt_reactionEngageTimeout t" "lt_reactionEngageTimeout t < 500"
    "1 \<le> lt_reactionEngageTimeout t"
    using assms by (simp_all add: engage_count_ok_def)
  then show ?thesis
    by (simp add: getTrackingState_def tracker_constants small_error_def engage_count_ok_def)
qed

text \<open>Over any sequence of error vectors a reaction is engaged exactly at the passes with a
small error at which the number of small errors so far, with the counter's start, is a multiple
of 500; large errors and a missing target do not count.\<close>

lemma reaction_every_500_small_errors:
  assumes "engage_count_ok t" and "i < length es"
  shows "tracking_states es t ! i = Ts_engaging_reaction \<longleftrightarrow>
    small_error (es ! i) \<and>
    (lt_reactionEngageTimeout t + int (length (filter small_error (take i es)))) mod 500 = 0"
  using assms
proof (induction es arbitrary: t i)
  case Nil
  then show ?case by simp
next
  case (Cons e es)
  note step = getTrackingState_step [OF Cons(2), of e]
  show ?case
  proof (cases i)
    case 0
    then show ?thesis using step by (simp add: case_prod_beta Let_def)
  next
    case (Suc j)
    let ?t = "snd (getTrackingState e t)" and ?n = "int (length (filter small_error (take j es)))"
    have "(lt_reactionEngageTimeout ?t + ?n) mod 500 =
        ((lt_reactionEngageTimeout t + of_bool (small_error e)) mod 500 + ?n) mod 500"
      using step by (metis mod_add_left_eq)
    then have "(lt_reactionEngageTimeout ?t + ?n) mod 500 =
        (lt_reactionEngageTimeout t + (of_bool (small_error e) + ?n)) mod 500"
      by (simp add: mod_add_left_eq add.assoc)
    then show ?thesis
      using Suc Cons(1) [of ?t j] Cons(3) step by (simp add: case_prod_beta Let_def)
  qed
qed

text \<open>A face inside the picture of 640 by 480 pixels is at most 400 pixels off the centre, for
any number of eye points.\<close>

lemma face_error_at_most_400:
  assumes "\<exists>l \<in> set (rg_faceLandmarks (td_recognizedGestureData td)). eye_landmark l"
    and "\<forall>l \<in> set (rg_faceLandmarks (td_recognizedGestureData td)). eye_landmark l \<longrightarrow>
      0 \<le> lm_cx l \<and> lm_cx l \<le> 640 \<and> 0 \<le> lm_cy l \<and> lm_cy l \<le> 480"
  shows "0 \<le> pv_magnitude (calculateErrorVector L (getFaceCenter td)) \<and>
    pv_magnitude (calculateErrorVector L (getFaceCenter td)) \<le> 400"
proof -
  define x where "x = p_x (getFaceCenter td) - 320"
  define y where "y = p_y (getFaceCenter td) - 240"
  have "\<bar>x\<bar> \<le> 320" "\<bar>y\<bar> \<le> 240"
    using face_center_between [OF assms] by (auto simp: x_def y_def)
  then have "x * x \<le> 320 * 320" "y * y \<le> 240 * 240"
    using abs_le_square_iff [of x 320] abs_le_square_iff [of y 240] by (simp_all add: power2_eq_square)
  then have "floor_root (x * x + y * y) \<le> 400" by (intro floor_root_le) simp_all
  moreover have "0 \<le> floor_root (x * x + y * y)" using floor_root_bounds [of "x * x + y * y"] by simp
  ultimately show ?thesis
    by (simp add: calculateErrorVector_def Let_def x_def y_def)
qed

text \<open>What a reaction pass publishes: nothing, or one reaction of the list, or the empty one.\<close>

lemma engageReaction_output:
  assumes "engageReaction reactionList rand td = Some ms"
  shows "ms = [] \<or> (\<exists>r. ms = [M_engage_reaction r] \<and>
    (r = [] \<or> (\<exists>rs. reactionList = Some rs \<and> (\<exists>x \<in> set rs. fr_reaction x = r \<and>
       fr_emotion x = rg_faceEmotion (td_recognizedGestureData td)))))"
proof (cases "rg_faceEmotion (td_recognizedGestureData td) = ''No Face''")
  case True
  then show ?thesis using assms by (simp add: engageReaction_def)
next
  case False
  then obtain rs where rs: "reactionList = Some rs"
    using assms by (cases reactionList) (simp_all add: engageReaction_def Let_def)
  define ps where "ps = map fr_reaction (filter (\<lambda>r. fr_emotion r = rg_faceEmotion (td_recognizedGestureData td)) rs)"
  have ms: "ms = [M_engage_reaction (if ps \<noteq> [] then ps ! (rand mod length ps) else [])]"
    using assms False unfolding engageReaction_def Let_def rs ps_def by simp
  show ?thesis
  proof (cases "ps = []")
    case False
    then have "ps ! (rand mod length ps) \<in> set ps" by (intro nth_mem mod_less_divisor) simp
    then show ?thesis using ms False rs by (auto simp: ps_def)
  qed (simp add: ms)
qed

section \<open>The properties at concrete inputs\<close>

definition sample_gesture :: "Landmark list \<Rightarrow> RecognizedGesture" where
  "sample_gesture ls =
     \<lparr>rg_faceEmotion = ''Happy'', rg_faceInfo = FaceInfo_zero, rg_faceLandmarks = ls, rg_handGesture = '''',
      rg_handBbox = BoundingBox_none, rg_handLandmarks = []\<rparr>"

definition sample_face :: "Landmark list" where
  "sample_face =
     [\<lparr>lm_id = 33, lm_cx = 100, lm_cy = 90\<rparr>, \<lparr>lm_id = 133, lm_cx = 120, lm_cy = 91\<rparr>,
      \<lparr>lm_id = 362, lm_cx = 150, lm_cy = 92\<rparr>, \<lparr>lm_id = 263, lm_cx = 171, lm_cy = 93\<rparr>]"

definition sample_tracker :: "Landmark list \<Rightarrow> tracker" where
  "sample_tracker ls =
     \<lparr>lt_recognizedGestureData = sample_gesture ls,
      lt_sensorData = \<lparr>sd_compassData = None, sd_distanceData = None, sd_powerData = None,
                       sd_currentJointAngles = None, sd_dcMotorState = None\<rparr>,
      lt_lastKnownTarget = \<lparr>lk_target = None, lk_followTimeOut = 0\<rparr>,
      lt_reactionEngageTimeout = 430\<rparr>"

lemma lost_target_kept_three_passes_witness:
  "fst (pass_target (target_passes 2
      ((snd (pass_target (sample_tracker sample_face)))\<lparr>lt_recognizedGestureData := sample_gesture []\<rparr>))) =
    \<lparr>p_x = 135, p_y = 91\<rparr> \<and>
   fst (pass_target (target_passes 3
      ((snd (pass_target (sample_tracker sample_face)))\<lparr>lt_recognizedGestureData := sample_gesture []\<rparr>))) = origin"
proof -
  have "visible_target (lt_recognizedGestureData (sample_tracker sample_face)) a = Some \<lparr>p_x = 135, p_y = 91\<rparr>" for a
    by (simp add: visible_target_def sample_tracker_def sample_gesture_def sample_face_def getFaceCenter_def
        eye_landmark_def Let_def)
  moreover have "visible_target (sample_gesture []) a = None" for a
    by (simp add: visible_target_def sample_gesture_def BoundingBox_none_def Let_def)
  ultimately show ?thesis
    using lost_target_kept_three_passes [of "sample_tracker sample_face" "\<lparr>p_x = 135, p_y = 91\<rparr>"
        "sample_gesture []" _ 2]
      lost_target_kept_three_passes [of "sample_tracker sample_face" "\<lparr>p_x = 135, p_y = 91\<rparr>"
        "sample_gesture []" _ 3]
    by simp
qed

lemma reaction_every_500_small_errors_witness:
  "tracking_states (replicate 71 \<lparr>pv_angle = 10, pv_magnitude = 5\<rparr>) (sample_tracker []) ! 70 = Ts_engaging_reaction"
  using reaction_every_500_small_errors [of "sample_tracker []" 70 "replicate 71 \<lparr>pv_angle = 10, pv_magnitude = 5\<rparr>"]
  by (simp add: engage_count_ok_def sample_tracker_def small_error_def)

definition level_libm :: libm where
  "level_libm = \<lparr>lib_sin = (\<lambda>_. Flt 0 0), lib_cos = (\<lambda>_. Flt 1 0), lib_atan2 = (\<lambda>_ _. Flt 0 0)\<rparr>"

lemma face_error_at_most_400_witness:
  "pv_magnitude (calculateErrorVector level_libm
     (getFaceCenter \<lparr>td_recognizedGestureData = sample_gesture sample_face, td_currentJointAngles = Map.empty\<rparr>)) \<le> 400"
  using face_error_at_most_400 [of "\<lparr>td_recognizedGestureData = sample_gesture sample_face,
      td_currentJointAngles = Map.empty\<rparr>" level_libm]
  by (simp add: sample_gesture_def sample_face_def eye_landmark_def)

end
