(* ===== verification/Expression.thy ===== *)
theory Expression
  imports Service_Handlers
begin

text \<open>
  \<open>services/expression_service.cpp\<close>: playing motions. A motion sets base joint positions and then
  the items of its sequence, each once its time has come on a clock the code polls without
  sleeping. The clock is a parameter, the nanoseconds of its n-th reading; a loop that polls
  forever has the value \<open>None\<close>. Speech itself is switched off in the source, so speaking ends at
  once and only the queue is left.
\<close>

section \<open>State\<close>

record expression =
  ex_jointPositionList :: joint_position_list
  ex_emotionalMotions :: "EmotionType \<rightharpoonup> Motion"
  ex_reactionalMotions :: "ReactionType \<rightharpoonup> Motion"
  ex_directiveMotions :: "DirectiveType \<rightharpoonup> Motion"
  ex_idlePositions :: "ServoMotorJoint \<rightharpoonup> GestureJointState"
  ex_currentPositions :: joint_angles
  ex_idleJointPositions :: joint_angles
  ex_speakingQueue :: "(LLMResponseData + string) list"

text \<open>What a motion does to the outside: publish a message, sleep for milliseconds.\<close>

datatype expression_action = Publish message | Sleep_ms int

section \<open>Joint positions\<close>

definition getAngleForJointState :: "ServoMotorJoint \<Rightarrow> GestureJointState \<Rightarrow> expression \<Rightarrow> int" where
  "getAngleForJointState joint state e =
     (case ex_jointPositionList e joint state of Some a \<Rightarrow> gja_angle a | None \<Rightarrow> 90)"

definition joints_command :: "joint_angles \<Rightarrow> message" where
  "joints_command angles =
     M_control (ControlData_empty\<lparr>ctl_source := Some Src_expressionService, ctl_jointAngles := Some angles\<rparr>)"

definition setIdlePosition :: "expression \<Rightarrow> message \<times> expression" where
  "setIdlePosition e =
     (joints_command (ex_idleJointPositions e), e\<lparr>ex_currentPositions := ex_idleJointPositions e\<rparr>)"

text \<open>The positions override the current ones joint by joint; an angle is stored as a byte.\<close>

definition overridden :: "(ServoMotorJoint \<rightharpoonup> GestureJointState) \<Rightarrow> expression \<Rightarrow> joint_angles" where
  "overridden positions e =
     (\<lambda>joint. case positions joint of
        Some state \<Rightarrow> Some (u8_of_int (getAngleForJointState joint state e))
      | None \<Rightarrow> ex_currentPositions e joint)"

definition executeJointPositions ::
    "(ServoMotorJoint \<rightharpoonup> GestureJointState) \<Rightarrow> expression \<Rightarrow> message \<times> expression" where
  "executeJointPositions positions e =
     (let jointAngles = overridden positions e
      in (joints_command jointAngles, e\<lparr>ex_currentPositions := jointAngles\<rparr>))"

section \<open>Motions\<close>

definition elapsed_since_start :: "(nat \<Rightarrow> int) \<Rightarrow> nat \<Rightarrow> int" where
  "elapsed_since_start clock k = (clock k - clock 0) sdiv 1000000"

text \<open>
  The sequence loop from clock reading \<open>k\<close> on: the messages with the reading that released each,
  the number of readings taken and the state.
\<close>

partial_function (option) sequence_loop ::
    "(nat \<Rightarrow> int) \<Rightarrow> MotionSequenceItem list \<Rightarrow> nat \<Rightarrow> expression \<Rightarrow>
     ((nat \<times> message) list \<times> nat \<times> expression) option" where
  "sequence_loop clock items k e =
     (case items of
        [] \<Rightarrow> Some ([], k, e)
      | item # rest \<Rightarrow>
          if elapsed_since_start clock k \<ge> msi_time item
          then Option.bind
                 (sequence_loop clock rest (Suc k) (snd (executeJointPositions (msi_joints item) e)))
                 (\<lambda>(ms, k', e'). Some ((k, fst (executeJointPositions (msi_joints item) e)) # ms, k', e'))
          else sequence_loop clock items (Suc k) e)"

definition executeMotionSequence ::
    "(nat \<Rightarrow> int) \<Rightarrow> (ServoMotorJoint \<rightharpoonup> GestureJointState) \<Rightarrow> MotionSequenceItem list \<Rightarrow> int \<Rightarrow>
     expression \<Rightarrow> (expression_action list \<times> expression) option" where
  "executeMotionSequence clock baseJoints items totalDuration e =
     (let (m0, e1) = executeJointPositions baseJoints e
      in if items = [] then Some ([Publish m0, Sleep_ms totalDuration], e1)
         else map_option
           (\<lambda>(ms, k, e2).
              let elapsedMs = elapsed_since_start clock k;
                  (m1, e3) = setIdlePosition e2
              in (Publish m0 # map (Publish \<circ> snd) ms @
                    (if elapsedMs < totalDuration then [Sleep_ms (totalDuration - elapsedMs)] else []) @ [Publish m1],
                  e3))
           (sequence_loop clock items 1 e1))"

text \<open>The enumerators travel as numbers; a number without enumerator is in no motion map.\<close>

definition emotion_of_number :: "int \<Rightarrow> EmotionType option" where
  "emotion_of_number n =
     find (\<lambda>em. emotion_number em = n)
       [Em_happy, Em_angry, Em_funny, Em_serious, Em_curious, Em_worried, Em_surprised, Em_confident]"

definition reaction_of_number :: "int \<Rightarrow> ReactionType option" where
  "reaction_of_number n =
     find (\<lambda>re. reaction_number re = n)
       [Re_greeting, Re_listening, Re_talking, Re_accepting, Re_rejecting, Re_thinking, Re_agreeing]"

definition play :: "(nat \<Rightarrow> int) \<Rightarrow> Motion option \<Rightarrow> expression \<Rightarrow> (expression_action list \<times> expression) option" where
  "play clock motion e =
     (case motion of
        None \<Rightarrow> Some ([], e)
      | Some m \<Rightarrow> executeMotionSequence clock (mo_joints m) (mo_sequence m) (mo_duration m) e)"

definition executeEmotionalMotion ::
    "(nat \<Rightarrow> int) \<Rightarrow> int \<Rightarrow> expression \<Rightarrow> (expression_action list \<times> expression) option" where
  "executeEmotionalMotion clock emotion e =
     play clock (Option.bind (emotion_of_number emotion) (ex_emotionalMotions e)) e"

definition executeReactionalMotion ::
    "(nat \<Rightarrow> int) \<Rightarrow> int \<Rightarrow> expression \<Rightarrow> (expression_action list \<times> expression) option" where
  "executeReactionalMotion clock reaction e =
     play clock (Option.bind (reaction_of_number reaction) (ex_reactionalMotions e)) e"

definition makeMimic ::
    "(nat \<Rightarrow> int) \<Rightarrow> LLMResponseData \<Rightarrow> expression \<Rightarrow> (expression_action list \<times> expression) option" where
  "makeMimic clock r e =
     map_option
       (\<lambda>(acts, e'). (Publish (M_bare Msg_StopPerceptionRequest) # acts @
          [Publish (M_bare Msg_StartPerceptionRequest)], e'))
       (if flt_less (lr_emotionSimilarity r) (lr_reactionSimilarity r)
        then executeReactionalMotion clock (lr_reaction r) e
        else executeEmotionalMotion clock (lr_emotion r) e)"

section \<open>The queue and the messages\<close>

text \<open>One turn of the inner loop: the front of the queue is performed, then removed.\<close>

definition perform_front :: "(nat \<Rightarrow> int) \<Rightarrow> expression \<Rightarrow> (expression_action list \<times> expression) option" where
  "perform_front clock e =
     map_option (\<lambda>(acts, e'). (acts, e'\<lparr>ex_speakingQueue := tl (ex_speakingQueue e')\<rparr>))
       (case ex_speakingQueue e of
          Inl r # _ \<Rightarrow> if lr_sentence r \<noteq> [] then makeMimic clock r e else Some ([], e)
        | _ \<Rightarrow> Some ([], e))"

definition expression_subscriptions :: "service_id list" where
  "expression_subscriptions =
     [InteractiveChatService, RagService, TuiService, LandmarkTrackerService, RemoteConnectionService,
      VoiceAgentService]"

text \<open>
  \<open>initialize\<close>: the parsed configuration is a parameter, a missing part fails the start.
\<close>

record expression_config =
  ec_jointAngles :: "joint_position_list option"
  ec_emotionalMotions :: "(EmotionType \<rightharpoonup> Motion) option"
  ec_reactionalMotions :: "(ReactionType \<rightharpoonup> Motion) option"
  ec_directiveMotions :: "(DirectiveType \<rightharpoonup> Motion) option"
  ec_idlePosition :: "(ServoMotorJoint \<rightharpoonup> GestureJointState) option"
  ec_aiConfig :: bool

definition expression_initialize :: "expression_config \<Rightarrow> expression \<Rightarrow> bool \<times> expression" where
  "expression_initialize c e =
     (case ec_jointAngles c of None \<Rightarrow> (False, e) | Some list \<Rightarrow>
      let e = e\<lparr>ex_jointPositionList := list\<rparr> in
      case ec_emotionalMotions c of None \<Rightarrow> (False, e) | Some em \<Rightarrow>
      let e = e\<lparr>ex_emotionalMotions := em\<rparr> in
      case ec_reactionalMotions c of None \<Rightarrow> (False, e) | Some re \<Rightarrow>
      let e = e\<lparr>ex_reactionalMotions := re\<rparr> in
      case ec_directiveMotions c of None \<Rightarrow> (False, e) | Some di \<Rightarrow>
      let e = e\<lparr>ex_directiveMotions := di\<rparr> in
      case ec_idlePosition c of None \<Rightarrow> (False, e) | Some idle \<Rightarrow>
      let e = e\<lparr>ex_idlePositions := idle\<rparr> in
      (ec_aiConfig c, e))"

text \<open>The initialisation runs once, when the service starts for the first time.\<close>

definition expression_start :: "expression_config \<Rightarrow> expression hosted \<Rightarrow> expression hosted" where
  "expression_start c s =
     (let flags = snd s ExpressionService;
          (ok, e) = (if sc_disabled flags \<or> sc_running flags \<or> sc_initialized flags then (True, fst s)
                     else expression_initialize c (fst s))
      in (e, snd (start_self ok expression_subscriptions ExpressionService s)))"

lemma expression_start_net [simp]:
  "net_ok (snd s) \<Longrightarrow> net_ok (snd (expression_start c s))"
  "q \<noteq> ExpressionService \<Longrightarrow> sc_running (snd (expression_start c s) q) = sc_running (snd s q)"
  by (simp_all add: expression_start_def Let_def case_prod_beta)

fun expression_wakes :: "message \<Rightarrow> bool" where
  "expression_wakes m = (message_type m = Msg_AIModeOnCall)"

fun expression_receive :: "expression_config \<Rightarrow> message \<Rightarrow> expression hosted \<Rightarrow> expression hosted" where
  "expression_receive c (M_llm_response r) s =
     ((fst s)\<lparr>ex_speakingQueue := ex_speakingQueue (fst s) @ [Inl r]\<rparr>, snd s)"
| "expression_receive c (M_speak txt) s =
     ((fst s)\<lparr>ex_speakingQueue := ex_speakingQueue (fst s) @ [Inr txt]\<rparr>, snd s)"
| "expression_receive c (M_bare t) s =
     (if t = Msg_AIModeOnCall then expression_start c s
      else if t = Msg_AIModeOffCall then stop_self ExpressionService s
      else s)"
| "expression_receive c _ s = s"

interpretation expression_handler: service_handler "expression_receive c" ExpressionService expression_wakes
  for c
proof
  fix s :: "expression hosted" and m :: message and q :: service_id
  show "net_ok (snd s) \<Longrightarrow> net_ok (snd (expression_receive c m s))"
    by (cases m) simp_all
  show "\<not> expression_wakes m \<Longrightarrow> \<not> sc_running (snd s ExpressionService) \<Longrightarrow>
      \<not> sc_running (snd (expression_receive c m s) ExpressionService)"
    by (cases m) simp_all
  show "q \<noteq> ExpressionService \<Longrightarrow> sc_running (snd (expression_receive c m s) q) = sc_running (snd s q)"
    by (cases m) simp_all
qed

section \<open>Lemmas\<close>

text \<open>The joint angles after a list of position maps, each overriding the ones before.\<close>

definition override_angles ::
    "joint_position_list \<Rightarrow> (ServoMotorJoint \<rightharpoonup> GestureJointState) \<Rightarrow> joint_angles \<Rightarrow> joint_angles" where
  "override_angles L positions angles =
     (\<lambda>joint. case positions joint of
        Some state \<Rightarrow> Some (u8_of_int (case L joint state of Some a \<Rightarrow> gja_angle a | None \<Rightarrow> 90))
      | None \<Rightarrow> angles joint)"

lemma executeJointPositions_eq:
  "executeJointPositions positions e =
     (joints_command (override_angles (ex_jointPositionList e) positions (ex_currentPositions e)),
      e\<lparr>ex_currentPositions := override_angles (ex_jointPositionList e) positions (ex_currentPositions e)\<rparr>)"
  by (simp add: executeJointPositions_def overridden_def override_angles_def getAngleForJointState_def
      Let_def cong: option.case_cong)

lemma sequence_loop_Nil [simp]: "sequence_loop clock [] k e = Some ([], k, e)"
  by (simp add: sequence_loop.simps)

lemma sequence_loop_due:
  "msi_time item \<le> elapsed_since_start clock k \<Longrightarrow>
   sequence_loop clock (item # rest) k e =
     map_option (\<lambda>(ms, k', e'). ((k, fst (executeJointPositions (msi_joints item) e)) # ms, k', e'))
       (sequence_loop clock rest (Suc k) (snd (executeJointPositions (msi_joints item) e)))"
  by (cases "sequence_loop clock rest (Suc k) (snd (executeJointPositions (msi_joints item) e))")
    (simp_all add: sequence_loop.simps [of clock "item # rest"] case_prod_beta)

lemma sequence_loop_wait:
  "\<not> msi_time item \<le> elapsed_since_start clock k \<Longrightarrow>
   sequence_loop clock (item # rest) k e = sequence_loop clock (item # rest) (Suc k) e"
  by (subst sequence_loop.simps) simp

text \<open>The first reading from \<open>k\<close> on at which an item is due.\<close>

definition first_due :: "(nat \<Rightarrow> int) \<Rightarrow> int \<Rightarrow> nat \<Rightarrow> nat \<Rightarrow> bool" where
  "first_due clock time k j \<longleftrightarrow>
     k \<le> j \<and> time \<le> elapsed_since_start clock j \<and> (\<forall>i. k \<le> i \<and> i < j \<longrightarrow> elapsed_since_start clock i < time)"

lemma sequence_loop_reaches:
  assumes "first_due clock (msi_time item) k j"
  shows "sequence_loop clock (item # rest) k e = sequence_loop clock (item # rest) j e"
  using assms
proof (induction "j - k" arbitrary: k)
  case 0
  then show ?case by (simp add: first_due_def)
next
  case (Suc d)
  then have "k < j" by simp
  then have "\<not> msi_time item \<le> elapsed_since_start clock k"
    using Suc(3) by (auto simp: first_due_def)
  moreover have "first_due clock (msi_time item) (Suc k) j"
    using Suc(3) \<open>k < j\<close> by (auto simp: first_due_def)
  ultimately show ?case using Suc(1) [of "Suc k"] Suc(2) by (simp add: sequence_loop_wait)
qed

lemma first_due_exists:
  assumes "time \<le> elapsed_since_start clock j" and "k \<le> j"
  obtains i where "first_due clock time k i"
proof -
  define i where "i = (LEAST i. k \<le> i \<and> time \<le> elapsed_since_start clock i)"
  have "k \<le> i \<and> time \<le> elapsed_since_start clock i"
    unfolding i_def by (rule LeastI [of _ j]) (use assms in simp)
  moreover have "elapsed_since_start clock l < time" if "k \<le> l" "l < i" for l
    using not_less_Least [of l "\<lambda>i. k \<le> i \<and> time \<le> elapsed_since_start clock i"] that by (auto simp: i_def)
  ultimately have "first_due clock time k i" by (simp add: first_due_def)
  then show thesis by (rule that)
qed

lemma sequence_loop_some_due:
  assumes "sequence_loop clock items k e = Some r"
  shows "items = [] \<or> (\<exists>j. msi_time (hd items) \<le> elapsed_since_start clock j \<and> k \<le> j)"
proof (rule sequence_loop.raw_induct [OF _ assms, where P =
    "\<lambda>clock items k e r. items = [] \<or> (\<exists>j. msi_time (hd items) \<le> elapsed_since_start clock j \<and> k \<le> j)"])
  fix f clock items k e r
  assume ih: "\<And>clock items k e r. f clock items k e = Some r \<Longrightarrow>
      items = [] \<or> (\<exists>j. msi_time (hd items) \<le> elapsed_since_start clock j \<and> k \<le> j)"
    and body: "(case items of
        [] \<Rightarrow> Some ([], k, e)
      | item # rest \<Rightarrow>
          if elapsed_since_start clock k \<ge> msi_time item
          then Option.bind (f clock rest (Suc k) (snd (executeJointPositions (msi_joints item) e)))
                 (\<lambda>(ms, k', e'). Some ((k, fst (executeJointPositions (msi_joints item) e)) # ms, k', e'))
          else f clock items (Suc k) e) = Some r"
  show "items = [] \<or> (\<exists>j. msi_time (hd items) \<le> elapsed_since_start clock j \<and> k \<le> j)"
  proof (cases items)
    case (Cons item rest)
    show ?thesis
    proof (cases "msi_time item \<le> elapsed_since_start clock k")
      case True
      then show ?thesis using Cons by auto
    next
      case False
      then have "f clock items (Suc k) e = Some r" using body Cons by simp
      from ih [OF this] show ?thesis using Suc_leD by blast
    qed
  qed simp
qed

lemma sequence_loop_result:
  assumes "sequence_loop clock items k e = Some (ms, k', e')"
  shows "length ms = length items \<and>
    (\<forall>i < length items. first_due clock (msi_time (items ! i)) (if i = 0 then k else Suc (fst (ms ! (i - 1)))) (fst (ms ! i)) \<and>
      snd (ms ! i) = joints_command (fold (override_angles (ex_jointPositionList e)) (map msi_joints (take (Suc i) items))
        (ex_currentPositions e))) \<and>
    e' = e\<lparr>ex_currentPositions := fold (override_angles (ex_jointPositionList e)) (map msi_joints items) (ex_currentPositions e)\<rparr>"
  using assms
proof (induction items arbitrary: k e ms)
  case Nil
  then show ?case by simp
next
  case (Cons item rest)
  obtain j where j: "first_due clock (msi_time item) k j"
    using sequence_loop_some_due [OF Cons(2)] by (auto elim: first_due_exists)
  let ?m = "executeJointPositions (msi_joints item) e"
  obtain ms1 where ms: "ms = (j, fst ?m) # ms1" and rest: "sequence_loop clock rest (Suc j) (snd ?m) = Some (ms1, k', e')"
    using Cons(2) j sequence_loop_reaches [OF j, of rest e]
    by (auto simp: sequence_loop_due first_due_def)
  note ih = Cons(1) [OF rest]
  show ?case
    using ih j by (auto simp: ms executeJointPositions_eq nth_Cons' less_Suc_eq_0_disj)
qed

lemma sequence_loop_returns:
  assumes "mono clock" and "\<forall>item \<in> set items. \<exists>j. msi_time item \<le> elapsed_since_start clock j"
  shows "\<exists>r. sequence_loop clock items k e = Some r"
  using assms(2)
proof (induction items arbitrary: k e)
  case Nil
  show ?case by simp
next
  case (Cons item rest)
  obtain j where "msi_time item \<le> elapsed_since_start clock j" using Cons(2) by auto
  moreover have "elapsed_since_start clock j \<le> elapsed_since_start clock (max j k)"
    using monoD [OF assms(1), of j "max j k"] monoD [OF assms(1), of 0 j]
    by (auto simp: elapsed_since_start_def sdiv_nonneg intro!: zdiv_mono1)
  ultimately have "msi_time item \<le> elapsed_since_start clock (max j k)" by simp
  then obtain i where i: "first_due clock (msi_time item) k i"
    using first_due_exists [of "msi_time item" clock "max j k" k] by auto
  then have "msi_time item \<le> elapsed_since_start clock i" by (simp add: first_due_def)
  moreover have "\<exists>r. sequence_loop clock rest (Suc i) (snd (executeJointPositions (msi_joints item) e)) = Some r"
    by (rule Cons(1)) (use Cons(2) in simp)
  ultimately show ?case
    using sequence_loop_reaches [OF i, of rest e] by (auto simp: sequence_loop_due)
qed

section \<open>Properties\<close>

fun published :: "expression_action list \<Rightarrow> message list" where
  "published [] = []"
| "published (Publish m # acts) = m # published acts"
| "published (Sleep_ms n # acts) = published acts"

lemma published_append [simp]: "published (xs @ ys) = published xs @ published ys"
  by (induction xs rule: published.induct) simp_all

lemma published_map [simp]: "published (map (Publish \<circ> f) xs) = map f xs"
  by (induction xs) simp_all

text \<open>C23: on a clock that never runs backwards a motion returns exactly when every item's time is
reached by some reading; otherwise it polls the clock for ever.\<close>

theorem motion_returns_iff:
  assumes "mono clock"
  shows "(\<exists>r. executeMotionSequence clock baseJoints items totalDuration e = Some r) \<longleftrightarrow>
    (\<forall>item \<in> set items. \<exists>j. msi_time item \<le> elapsed_since_start clock j)"
proof -
  have "\<forall>item \<in> set items. \<exists>j. msi_time item \<le> elapsed_since_start clock j"
    if some: "sequence_loop clock items k e1 = Some r" for k e1 r
  proof
    obtain ms k' e' where "sequence_loop clock items k e1 = Some (ms, k', e')"
      using some by (cases r) simp
    note res = sequence_loop_result [OF this]
    fix item
    assume "item \<in> set items"
    then obtain i where "i < length items" "item = items ! i" by (auto simp: in_set_conv_nth)
    then show "\<exists>j. msi_time item \<le> elapsed_since_start clock j"
      using res by (auto simp: first_due_def)
  qed
  then have "(\<exists>r. sequence_loop clock items 1 (snd (executeJointPositions baseJoints e)) = Some r) \<longleftrightarrow>
      (\<forall>item \<in> set items. \<exists>j. msi_time item \<le> elapsed_since_start clock j)"
    using sequence_loop_returns [OF assms] by blast
  moreover have "(\<exists>r. executeMotionSequence clock baseJoints items totalDuration e = Some r) \<longleftrightarrow>
      (\<exists>r. sequence_loop clock items 1 (snd (executeJointPositions baseJoints e)) = Some r)"
    by (cases "items = []") (auto simp: executeMotionSequence_def case_prod_beta Let_def)
  ultimately show ?thesis by blast
qed

text \<open>A motion publishes its base positions, then each item's positions merged over all before
it, then the idle positions; each item at the first reading after the one before at which it is
due. A motion without items stays in its base positions and never returns to idle.\<close>

lemma motion_publishes:
  assumes "executeMotionSequence clock baseJoints items totalDuration e = Some (acts, e')"
  shows "published acts =
      map (\<lambda>n. joints_command (fold (override_angles (ex_jointPositionList e))
                 (baseJoints # map msi_joints (take n items)) (ex_currentPositions e)))
        [0..<Suc (length items)] @
      (if items = [] then [] else [joints_command (ex_idleJointPositions e)]) \<and>
    ex_currentPositions e' =
      (if items = [] then override_angles (ex_jointPositionList e) baseJoints (ex_currentPositions e)
       else ex_idleJointPositions e)"
proof (cases "items = []")
  case True
  then show ?thesis
    using assms by (auto simp: executeMotionSequence_def executeJointPositions_eq Let_def)
next
  case False
  define base where "base = override_angles (ex_jointPositionList e) baseJoints (ex_currentPositions e)"
  obtain ms k' e2 where loop: "sequence_loop clock items 1 (e\<lparr>ex_currentPositions := base\<rparr>) = Some (ms, k', e2)"
    and acts: "published acts = joints_command base # map snd ms @ [joints_command (ex_idleJointPositions e2)]"
    and e': "ex_currentPositions e' = ex_idleJointPositions e2"
    using assms False
    by (auto simp: executeMotionSequence_def executeJointPositions_eq Let_def base_def setIdlePosition_def
        split: if_splits)
  note res = sequence_loop_result [OF loop]
  have "map snd ms = map (\<lambda>n. joints_command (fold (override_angles (ex_jointPositionList e))
      (map msi_joints (take (Suc n) items)) base)) [0..<length items]"
    using res by (intro nth_equalityI) simp_all
  moreover have "[0..<Suc (length items)] = 0 # map Suc [0..<length items]"
    by (simp only: map_Suc_upt upt_conv_Cons zero_less_Suc)
  ultimately show ?thesis
    using False res acts e' by (simp add: base_def o_def del: upt_Suc)
qed

text \<open>The items of a motion are released in order, each at the first reading of the clock after
its predecessor's at which its time has come, and no reading in between would have done.\<close>

lemma motion_items_on_time:
  assumes "sequence_loop clock items k e = Some (ms, k', e')" and "i < length items"
  shows "length ms = length items \<and> k \<le> fst (ms ! 0) \<and> (0 < i \<longrightarrow> fst (ms ! (i - 1)) < fst (ms ! i)) \<and>
    msi_time (items ! i) \<le> elapsed_since_start clock (fst (ms ! i)) \<and>
    (\<forall>j. (if i = 0 then k else Suc (fst (ms ! (i - 1)))) \<le> j \<and> j < fst (ms ! i) \<longrightarrow>
      elapsed_since_start clock j < msi_time (items ! i))"
proof -
  note res = sequence_loop_result [OF assms(1)]
  have "0 < length items" using assms(2) by linarith
  then have "first_due clock (msi_time (items ! 0)) k (fst (ms ! 0))" using res by force
  moreover have "first_due clock (msi_time (items ! i)) (if i = 0 then k else Suc (fst (ms ! (i - 1)))) (fst (ms ! i))"
    using res assms(2) by blast
  ultimately show ?thesis using res by (auto simp: first_due_def split: if_splits)
qed

section \<open>The properties at concrete inputs\<close>

definition sample_expression :: expression where
  "sample_expression =
     \<lparr>ex_jointPositionList = (\<lambda>_ _. None), ex_emotionalMotions = Map.empty, ex_reactionalMotions = Map.empty,
      ex_directiveMotions = Map.empty, ex_idlePositions = Map.empty, ex_currentPositions = Map.empty,
      ex_idleJointPositions = Default_Joint_Angles, ex_speakingQueue = []\<rparr>"

definition sample_clock :: "nat \<Rightarrow> int" where
  "sample_clock k = int k * 1000000000"

lemma mono_sample_clock: "mono sample_clock"
  by (simp add: mono_def sample_clock_def)

definition sample_items :: "MotionSequenceItem list" where
  "sample_items = [\<lparr>msi_time = 1500, msi_joints = [J_neck \<mapsto> Js_middle]\<rparr>]"

lemma sample_items_due: "\<forall>item \<in> set sample_items. \<exists>j. msi_time item \<le> elapsed_since_start sample_clock j"
  by (auto simp: sample_items_def elapsed_since_start_def sample_clock_def intro!: exI [of _ 2])

lemma motion_returns_iff_witness:
  "\<exists>r. executeMotionSequence sample_clock Map.empty sample_items 2000 sample_expression = Some r"
  using motion_returns_iff [OF mono_sample_clock] sample_items_due by blast

lemma sample_sequence:
  "sequence_loop sample_clock sample_items 1 sample_expression =
     Some ([(2, joints_command [J_neck \<mapsto> 90])], 3, sample_expression\<lparr>ex_currentPositions := [J_neck \<mapsto> 90]\<rparr>)"
proof -
  have "override_angles (ex_jointPositionList sample_expression) [J_neck \<mapsto> Js_middle] Map.empty = [J_neck \<mapsto> 90]"
    by (auto simp: override_angles_def sample_expression_def)
  then have joints: "executeJointPositions [J_neck \<mapsto> Js_middle] sample_expression =
      (joints_command [J_neck \<mapsto> 90], sample_expression\<lparr>ex_currentPositions := [J_neck \<mapsto> 90]\<rparr>)"
    by (simp add: executeJointPositions_eq sample_expression_def)
  let ?item = "\<lparr>msi_time = 1500, msi_joints = [J_neck \<mapsto> Js_middle]\<rparr>"
  have wait: "sequence_loop sample_clock [?item] 1 sample_expression =
      sequence_loop sample_clock [?item] (Suc 1) sample_expression"
    by (rule sequence_loop_wait) (simp add: elapsed_since_start_def sample_clock_def)
  have due: "msi_time ?item \<le> elapsed_since_start sample_clock (Suc 1)"
    by (simp add: elapsed_since_start_def sample_clock_def)
  show ?thesis
    unfolding sample_items_def wait sequence_loop_due [OF due] using joints by simp
qed

lemma motion_items_on_time_witness:
  "\<exists>ms. sequence_loop sample_clock sample_items 1 sample_expression = Some (ms, 3, sample_expression\<lparr>ex_currentPositions := [J_neck \<mapsto> 90]\<rparr>) \<and>
     msi_time (sample_items ! 0) \<le> elapsed_since_start sample_clock (fst (ms ! 0))"
  using motion_items_on_time [OF sample_sequence, of 0] sample_sequence by (auto simp: sample_items_def)

lemma motion_publishes_witness:
  "\<exists>acts e'. executeMotionSequence sample_clock Map.empty [] 100 sample_expression = Some (acts, e') \<and>
     length (published acts) = 1"
proof -
  obtain acts e' where r: "executeMotionSequence sample_clock Map.empty [] 100 sample_expression = Some (acts, e')"
    by (auto simp: executeMotionSequence_def case_prod_beta)
  show ?thesis using r motion_publishes [OF r] by auto
qed

section \<open>What a motion sends\<close>

lemma published_sequence:
  assumes "executeMotionSequence clock base items duration e = Some (acts, e')"
  shows "\<forall>m \<in> set (published acts). \<exists>a. m = joints_command a"
proof (cases "items = []")
  case True
  then show ?thesis using assms by (auto simp: executeMotionSequence_def executeJointPositions_eq Let_def)
next
  case False
  then obtain ms k e2 where loop: "sequence_loop clock items 1 (snd (executeJointPositions base e)) = Some (ms, k, e2)"
    and acts: "published acts = fst (executeJointPositions base e) # map snd ms @ [fst (setIdlePosition e2)]"
    using assms by (auto simp: executeMotionSequence_def case_prod_beta Let_def split: if_splits)
  have "\<exists>a. x = joints_command a" if x: "x \<in> set (map snd ms)" for x
  proof -
    obtain i where "i < length ms" "x = snd (ms ! i)" using x by (auto simp: in_set_conv_nth)
    then show ?thesis using sequence_loop_result [OF loop] by auto
  qed
  then show ?thesis
    unfolding acts by (auto simp: executeJointPositions_eq setIdlePosition_def)
qed

lemma published_mimic:
  assumes "makeMimic clock r e = Some (acts, e')"
  obtains ms where "published acts = M_bare Msg_StopPerceptionRequest # ms @ [M_bare Msg_StartPerceptionRequest]"
    and "\<forall>m \<in> set ms. \<exists>a. m = joints_command a"
proof -
  obtain motion acts1 where play: "play clock motion e = Some (acts1, e')"
    and acts: "published acts = M_bare Msg_StopPerceptionRequest # published acts1 @ [M_bare Msg_StartPerceptionRequest]"
    using assms
    by (auto simp: makeMimic_def executeReactionalMotion_def executeEmotionalMotion_def split: if_splits)
  have "\<forall>m \<in> set (published acts1). \<exists>a. m = joints_command a"
    using play published_sequence by (auto simp: play_def split: option.splits)
  then show thesis using acts that by blast
qed

end
