(* ===== verification/Sentences.thy ===== *)
theory Sentences
  imports Service_Handlers Config_Parser
begin

text \<open>
  What \<open>services/interactive_chat_service.cpp\<close> and \<open>services/rag_service.cpp\<close> share: cutting text
  into sentences, trimming, and finding the gesture whose embedding is most similar to a
  sentence. The language model's embeddings and their similarity are parameters.
\<close>

section \<open>Characters\<close>

definition is_stop :: "char \<Rightarrow> bool" where
  "is_stop c \<longleftrightarrow> c = CHR ''.'' \<or> c = CHR ''!'' \<or> c = CHR ''?''"

definition is_trimmed :: "char \<Rightarrow> bool" where
  "is_trimmed c \<longleftrightarrow> c = CHR '' '' \<or> c = CHR 0x09 \<or> c = CHR 0x0A \<or> c = CHR 0x0D"

text \<open>The class \<open>\s\<close> of the regular expressions has two more characters.\<close>

definition is_space :: "char \<Rightarrow> bool" where
  "is_space c \<longleftrightarrow> is_trimmed c \<or> c = CHR 0x0B \<or> c = CHR 0x0C"

definition trim :: "string \<Rightarrow> string" where
  "trim str = rev (dropWhile is_trimmed (rev (dropWhile is_trimmed str)))"

section \<open>The most similar gesture\<close>

record embedder =
  emb_calculate :: "string \<Rightarrow> flt list"
  emb_similarity :: "flt list \<Rightarrow> flt list \<Rightarrow> flt"

text \<open>\<open>None\<close> is the default-constructed gesture the search starts with.\<close>

definition best_match :: "('g \<Rightarrow> flt) \<Rightarrow> 'g list \<Rightarrow> 'g option \<times> flt" where
  "best_match sim gs =
     fold (\<lambda>g (best, max_similarity).
        if flt_less max_similarity (sim g) \<and> flt_less (Flt 1 (-1)) (sim g) then (Some g, sim g)
        else (best, max_similarity)) gs (None, Flt 0 0)"

definition find_sentence_emotion :: "embedder \<Rightarrow> EmotionalGesture list \<Rightarrow> string \<Rightarrow> EmotionalGesture option \<times> flt" where
  "find_sentence_emotion E gs sentence =
     best_match (\<lambda>g. emb_similarity E (emb_calculate E sentence) (eg_embedding g)) gs"

definition find_sentence_reaction :: "embedder \<Rightarrow> ReactionalGesture list \<Rightarrow> string \<Rightarrow> ReactionalGesture option \<times> flt" where
  "find_sentence_reaction E gs sentence =
     best_match (\<lambda>g. emb_similarity E (emb_calculate E sentence) (re_embedding g)) gs"

definition find_sentence_directive :: "embedder \<Rightarrow> Directive list \<Rightarrow> string \<Rightarrow> Directive option \<times> flt" where
  "find_sentence_directive E gs sentence =
     best_match (\<lambda>g. emb_similarity E (emb_calculate E sentence) (dv_embedding g)) gs"

text \<open>
  The response for a sentence. \<open>blank\<close> is what a default-constructed response holds, and the
  enumerator of a default-constructed gesture is what \<open>blank\<close> has there.
\<close>

definition sentence_response ::
    "embedder \<Rightarrow> LLMResponseData \<Rightarrow> EmotionalGesture list \<Rightarrow> ReactionalGesture list \<Rightarrow> string \<Rightarrow> bool \<Rightarrow> LLMResponseData" where
  "sentence_response E blank es rs sentence end_marker =
     (let (emotion, emotionSimilarity) = find_sentence_emotion E es sentence;
          (reaction, reactionSimilarity) = find_sentence_reaction E rs sentence
      in blank\<lparr>lr_sentence := sentence, lr_endMarker := end_marker,
               lr_emotion := (case emotion of Some g \<Rightarrow> emotion_number (eg_emotion g) | None \<Rightarrow> lr_emotion blank),
               lr_emotionSimilarity := emotionSimilarity,
               lr_reaction := (case reaction of Some g \<Rightarrow> reaction_number (re_reaction g) | None \<Rightarrow> lr_reaction blank),
               lr_reactionSimilarity := reactionSimilarity\<rparr>)"

definition embed_emotional :: "embedder \<Rightarrow> EmotionalGesture list \<Rightarrow> EmotionalGesture list" where
  "embed_emotional E gs = map (\<lambda>g. g\<lparr>eg_embedding := emb_calculate E (eg_description g)\<rparr>) gs"

definition embed_reactional :: "embedder \<Rightarrow> ReactionalGesture list \<Rightarrow> ReactionalGesture list" where
  "embed_reactional E gs = map (\<lambda>g. g\<lparr>re_embedding := emb_calculate E (re_description g)\<rparr>) gs"

definition embed_directives :: "embedder \<Rightarrow> Directive list \<Rightarrow> Directive list" where
  "embed_directives E gs = map (\<lambda>g. g\<lparr>dv_embedding := emb_calculate E (dv_description g)\<rparr>) gs"

section \<open>Lemmas on trimming\<close>

text \<open>The characters that are no white space.\<close>

definition solid :: "string \<Rightarrow> string" where
  "solid s = filter (\<lambda>c. \<not> is_space c) s"

lemma solid_append [simp]: "solid (s @ t) = solid s @ solid t"
  by (simp add: solid_def)

lemma solid_Nil [simp]: "solid [] = []"
  by (simp add: solid_def)

lemma solid_spaces: "\<forall>c \<in> set s. is_space c \<Longrightarrow> solid s = []"
  by (simp add: solid_def filter_empty_conv)

lemma solid_dropWhile: "solid (dropWhile is_trimmed s) = solid s"
  by (induction s) (auto simp: solid_def is_space_def)

lemma solid_rev: "solid (rev s) = rev (solid s)"
  by (simp add: solid_def rev_filter)

lemma solid_trim [simp]: "solid (trim s) = solid s"
  by (simp add: trim_def solid_rev solid_dropWhile)

section \<open>The best match is a maximum\<close>

definition better :: "('g \<Rightarrow> flt) \<Rightarrow> 'g \<Rightarrow> 'g option \<times> flt \<Rightarrow> 'g option \<times> flt" where
  "better sim g p = (if fval (snd p) < fval (sim g) \<and> 1 / 2 < fval (sim g) then (Some g, sim g) else p)"

lemma fval_half: "fval (Flt 1 (-1)) = 1 / 2"
  by (simp add: fval_def)

lemma best_match_fold: "best_match sim gs = fold (better sim) gs (None, Flt 0 0)"
proof -
  have "(\<lambda>g (best, mx). if flt_less mx (sim g) \<and> flt_less (Flt 1 (-1)) (sim g) then (Some g, sim g) else (best, mx)) =
      better sim"
    by (auto simp: fun_eq_iff better_def flt_less_iff fval_half)
  then show ?thesis by (simp add: best_match_def)
qed

lemma fold_better:
  "fval (snd p) \<le> fval (snd (fold (better sim) gs p)) \<and>
   (\<forall>g \<in> set gs. 1 / 2 < fval (sim g) \<longrightarrow> fval (sim g) \<le> fval (snd (fold (better sim) gs p))) \<and>
   (fold (better sim) gs p = p \<or>
     (\<exists>g \<in> set gs. fold (better sim) gs p = (Some g, sim g) \<and> 1 / 2 < fval (sim g)))"
proof (induction gs arbitrary: p)
  case Nil
  show ?case by simp
next
  case (Cons g gs)
  have "fval (snd p) \<le> fval (snd (better sim g p))"
    "1 / 2 < fval (sim g) \<longrightarrow> fval (sim g) \<le> fval (snd (better sim g p))"
    "better sim g p = p \<or> better sim g p = (Some g, sim g) \<and> 1 / 2 < fval (sim g)"
    by (simp_all add: better_def)
  then show ?case using Cons [of "better sim g p"] by fastforce
qed

text \<open>The search returns a gesture of greatest similarity when one is above one half, and the
default gesture with similarity zero when none is.\<close>

lemma best_match_is_maximum:
  assumes "best_match sim gs = (best, m)"
  shows "(case best of
      None \<Rightarrow> m = Flt 0 0 \<and> (\<forall>g \<in> set gs. fval (sim g) \<le> 1 / 2)
    | Some g \<Rightarrow> g \<in> set gs \<and> m = sim g \<and> 1 / 2 < fval m \<and> (\<forall>h \<in> set gs. fval (sim h) \<le> fval m))"
proof -
  let ?p = "(None, Flt 0 0)"
  note res = fold_better [of ?p sim gs, folded best_match_fold, unfolded assms]
  show ?thesis
  proof (cases best)
    case None
    then have "m = Flt 0 0" using res by auto
    then have "fval m = 0" by (simp add: fval_def)
    moreover have "fval (sim g) \<le> 1 / 2" if "g \<in> set gs" for g
    proof (rule ccontr)
      assume "\<not> fval (sim g) \<le> 1 / 2"
      then have "1 / 2 < fval (sim g)" "fval (sim g) \<le> fval m" using res that by auto
      then show False using \<open>fval m = 0\<close> by linarith
    qed
    ultimately show ?thesis using None \<open>m = Flt 0 0\<close> by simp
  next
    case (Some g)
    then have g: "g \<in> set gs" "m = sim g" "1 / 2 < fval m" using res by auto
    have "fval (sim h) \<le> fval m" if "h \<in> set gs" for h
      using res that g(3) by (cases "1 / 2 < fval (sim h)") auto
    then show ?thesis using Some g by simp
  qed
qed

lemma best_match_is_maximum_witness:
  "best_match (\<lambda>n. Flt n (-2)) [1, 3, 2] = (Some 3, Flt 3 (-2)) \<and> fval (Flt 2 (-2)) \<le> fval (Flt 3 (-2))"
proof -
  have b: "best_match (\<lambda>n. Flt n (-2)) [1, 3, 2] = (Some 3, Flt 3 (-2))"
    by (simp add: best_match_def flt_less_def aligned_def)
  show ?thesis using best_match_is_maximum [OF b] b by simp
qed

end
