(* ===== verification/Interactive_Chat.thy ===== *)
theory Interactive_Chat
  imports Sentences
begin

text \<open>
  \<open>services/interactive_chat_service.cpp\<close>: the text a language model streams in pieces is cut into
  sentences, each published with its most similar gestures, and queries are admitted one at a
  time. The model that generates the pieces and the embeddings are parameters.
\<close>

section \<open>Finding the end of a sentence\<close>

text \<open>
  The leftmost match of \<open>([.!?]+)(\s+|$)\<close>: its position and the lengths of the two groups. The
  first group is a maximal run, since what follows it is no stop.
\<close>

fun sentence_match :: "string \<Rightarrow> (nat \<times> nat \<times> nat) option" where
  "sentence_match [] = None"
| "sentence_match (c # cs) =
     (let run = takeWhile is_stop (c # cs);
          rest = dropWhile is_stop (c # cs);
          spaces = takeWhile is_space rest
      in if run \<noteq> [] \<and> (rest = [] \<or> spaces \<noteq> []) then Some (0, length run, length spaces)
         else map_option (\<lambda>(p, r, w). (Suc p, r, w)) (sentence_match cs))"

lemma sentence_match_bounds:
  "sentence_match str = Some (p, r, w) \<Longrightarrow>
   0 < r \<and> p + r + w \<le> length str \<and> (\<forall>c \<in> set (take w (drop (p + r) str)). is_space c) \<and>
   (w = 0 \<longrightarrow> p + r = length str)"
proof (induction str arbitrary: p)
  case Nil
  then show ?case by simp
next
  case (Cons c cs)
  define run where "run = takeWhile is_stop (c # cs)"
  define rest where "rest = dropWhile is_stop (c # cs)"
  define spaces where "spaces = takeWhile is_space rest"
  have str: "c # cs = run @ rest" "rest = spaces @ dropWhile is_space rest"
    by (simp_all add: run_def rest_def spaces_def)
  show ?case
  proof (cases "run \<noteq> [] \<and> (rest = [] \<or> spaces \<noteq> [])")
    case True
    then have m: "p = 0" "r = length run" "w = length spaces"
      using Cons(2) by (simp_all add: run_def rest_def spaces_def Let_def)
    have "take w (drop (p + r) (c # cs)) = spaces"
      using str m by (metis add_0 append_eq_conv_conj)
    moreover have "\<forall>c \<in> set spaces. is_space c" by (auto simp: spaces_def dest: set_takeWhileD)
    moreover have "length (c # cs) = length run + length rest" "length spaces \<le> length rest"
      by (simp_all add: str(1)) (simp add: spaces_def length_takeWhile_le)
    ultimately show ?thesis using m True by auto
  next
    case False
    then obtain q where "sentence_match cs = Some (q, r, w)" "p = Suc q"
      using Cons(2) by (auto simp: run_def rest_def spaces_def Let_def)
    then show ?thesis using Cons(1) [of q] by simp
  qed
qed

lemma sentence_match_shrinks:
  "sentence_match str = Some (p, r, w) \<Longrightarrow> length str - (w - Suc 0 + (p + r)) < length str"
  using sentence_match_bounds [of str p r w] by auto

text \<open>
  The loop of the callback: the sentences cut off and the text that remains. A sentence of fewer
  than four characters ends the loop, and everything from it on remains.
\<close>

function sentence_loop :: "string \<Rightarrow> string list \<times> string" where
  "sentence_loop str =
     (case sentence_match str of
        None \<Rightarrow> ([], str)
      | Some (p, r, w) \<Rightarrow>
          let sentence_end_pos = p + r;
              trimmed_sentence = trim (take sentence_end_pos str)
          in if length trimmed_sentence \<ge> 4
             then let (sentences, remaining) = sentence_loop (drop (w - 1) (drop sentence_end_pos str))
                  in (trimmed_sentence # sentences, remaining)
             else ([], str))"
  by pat_completeness auto

termination
  by (relation "measure length") (auto intro: sentence_match_shrinks)


declare sentence_loop.simps [simp del]

section \<open>The callback\<close>

record chat =
  ch_accumulated_text :: string
  ch_queryRunning :: bool
  ch_emotionalList :: "EmotionalGesture list"
  ch_reactionalList :: "ReactionalGesture list"
  ch_directiveList :: "Directive list"
  ch_published :: "message list"
  ch_queries :: "string list"

definition publish_sentence :: "embedder \<Rightarrow> LLMResponseData \<Rightarrow> bool \<Rightarrow> string \<Rightarrow> chat \<Rightarrow> chat" where
  "publish_sentence E blank end_marker sentence s =
     s\<lparr>ch_published := ch_published s @
        [M_llm_response (sentence_response E blank (ch_emotionalList s) (ch_reactionalList s) sentence end_marker)]\<rparr>"

text \<open>\<open>blank\<close> is what a default-constructed response holds; its sentence is empty.\<close>

definition query_response_callback :: "embedder \<Rightarrow> LLMResponseData \<Rightarrow> string \<Rightarrow> chat \<Rightarrow> chat" where
  "query_response_callback E blank response s =
     (if response = ''<end>''
      then let s = s\<lparr>ch_queryRunning := False\<rparr>;
               s = (if ch_accumulated_text s \<noteq> []
                    then let trimmed_sentence = trim (ch_accumulated_text s)
                         in if length trimmed_sentence \<ge> 4 then publish_sentence E blank True trimmed_sentence s else s
                    else s\<lparr>ch_published := ch_published s @
                            [M_llm_response (blank\<lparr>lr_sentence := [], lr_endMarker := True\<rparr>)]\<rparr>)
           in s\<lparr>ch_accumulated_text := []\<rparr>
      else let (sentences, remaining) = sentence_loop (ch_accumulated_text s @ response)
           in (fold (publish_sentence E blank False) sentences s)\<lparr>ch_accumulated_text := remaining\<rparr>)"

text \<open>
  What the model's thread feeds the callback for a query: the generated pieces and the end mark.
  \<open>LlamaOperator::chat\<close> returns at once on an empty input, before any piece and without the mark.
\<close>

definition chat_pieces :: "(string \<Rightarrow> string list) \<Rightarrow> string \<Rightarrow> string list" where
  "chat_pieces generate userInput = (if userInput = [] then [] else generate userInput @ [''<end>''])"

definition run_chat :: "embedder \<Rightarrow> LLMResponseData \<Rightarrow> (string \<Rightarrow> string list) \<Rightarrow> string \<Rightarrow> chat \<Rightarrow> chat" where
  "run_chat E blank generate userInput s = fold (query_response_callback E blank) (chat_pieces generate userInput) s"

section \<open>The service\<close>

definition chat_subscriptions :: "service_id list" where
  "chat_subscriptions = [TuiService, RemoteConnectionService, ExpressionService, LandmarkTrackerService]"

text \<open>\<open>initialize\<close>: \<open>models\<close> says whether both models load.\<close>

definition chat_initialize :: "embedder \<Rightarrow> config_operator \<Rightarrow> bool \<Rightarrow> chat \<Rightarrow> bool \<times> chat" where
  "chat_initialize E c models s =
     (case co_emotionalList c of None \<Rightarrow> (False, s) | Some es \<Rightarrow>
      let s = s\<lparr>ch_emotionalList := es\<rparr> in
      case co_reactionalList c of None \<Rightarrow> (False, s) | Some rs \<Rightarrow>
      let s = s\<lparr>ch_reactionalList := rs\<rparr> in
      case co_directiveList c of None \<Rightarrow> (False, s) | Some ds \<Rightarrow>
      let s = s\<lparr>ch_directiveList := ds\<rparr> in
      if co_aiConfig c = None \<or> \<not> models then (False, s)
      else (True, s\<lparr>ch_emotionalList := embed_emotional E es, ch_reactionalList := embed_reactional E rs,
                   ch_directiveList := embed_directives E ds\<rparr>))"

record chat_platform =
  cl_embedder :: embedder
  cl_config :: config_operator
  cl_models :: bool

definition chat_start :: "chat_platform \<Rightarrow> chat hosted \<Rightarrow> chat hosted" where
  "chat_start P s =
     (let flags = snd s InteractiveChatService;
          (ok, c) = (if sc_disabled flags \<or> sc_running flags \<or> sc_initialized flags then (True, fst s)
                     else chat_initialize (cl_embedder P) (cl_config P) (cl_models P) (fst s))
      in (c, snd (start_self ok chat_subscriptions InteractiveChatService s)))"

text \<open>A query is handed to a new thread, recorded in \<open>ch_queries\<close>.\<close>

definition llm_query :: "string \<Rightarrow> chat hosted \<Rightarrow> chat hosted" where
  "llm_query query s =
     (let c = fst s
      in if ch_queryRunning c then s
         else if \<not> sc_running (snd s InteractiveChatService) then s
         else (c\<lparr>ch_published := ch_published c @ [M_bare Msg_InteractiveChatStarted], ch_queryRunning := True,
                 ch_queries := ch_queries c @ [query]\<rparr>, snd s))"

fun chat_wakes :: "message \<Rightarrow> bool" where
  "chat_wakes m = (message_type m = Msg_AIModeOnCall)"

fun chat_receive :: "chat_platform \<Rightarrow> message \<Rightarrow> chat hosted \<Rightarrow> chat hosted" where
  "chat_receive P (M_llm_query query) s = llm_query query s"
| "chat_receive P (M_speech txt) s = llm_query txt s"
| "chat_receive P (M_bare t) s =
     (if t = Msg_AIModeOnCall then chat_start P s
      else if t = Msg_AIModeOffCall then stop_self InteractiveChatService s
      else s)"
| "chat_receive P _ s = s"

lemma chat_start_net [simp]:
  "net_ok (snd s) \<Longrightarrow> net_ok (snd (chat_start P s))"
  "q \<noteq> InteractiveChatService \<Longrightarrow> sc_running (snd (chat_start P s) q) = sc_running (snd s q)"
  by (simp_all add: chat_start_def Let_def case_prod_beta)

lemma llm_query_net [simp]: "snd (llm_query query s) = snd s"
  by (simp add: llm_query_def Let_def)

interpretation chat_handler: service_handler "chat_receive P" InteractiveChatService chat_wakes for P
proof
  fix s :: "chat hosted" and m :: message and q :: service_id
  show "net_ok (snd s) \<Longrightarrow> net_ok (snd (chat_receive P m s))"
    by (cases m) simp_all
  show "\<not> chat_wakes m \<Longrightarrow> \<not> sc_running (snd s InteractiveChatService) \<Longrightarrow>
      \<not> sc_running (snd (chat_receive P m s) InteractiveChatService)"
    by (cases m) simp_all
  show "q \<noteq> InteractiveChatService \<Longrightarrow> sc_running (snd (chat_receive P m s) q) = sc_running (snd s q)"
    by (cases m) simp_all
qed

section \<open>Lemmas\<close>

lemma sentence_loop_solid:
  "sentence_loop str = (ss, remaining) \<Longrightarrow> solid (concat ss) @ solid remaining = solid str"
proof (induction str arbitrary: ss rule: sentence_loop.induct)
  case (1 str)
  show ?case
  proof (cases "sentence_match str")
    case None
    then show ?thesis using 1(2) by (simp add: sentence_loop.simps [of str])
  next
    case (Some m)
    then obtain p r w where m: "sentence_match str = Some (p, r, w)" by (cases m) auto
    let ?s = "trim (take (p + r) str)" and ?tail = "drop (w - 1) (drop (p + r) str)"
    show ?thesis
    proof (cases "4 \<le> length ?s")
      case False
      then show ?thesis using 1(2) m by (simp add: sentence_loop.simps [of str] Let_def)
    next
      case True
      obtain ss1 where ss1: "sentence_loop ?tail = (ss1, remaining)" "ss = ?s # ss1"
        using 1(2) m True by (cases "sentence_loop ?tail") (simp add: sentence_loop.simps [of str] Let_def)
      have "solid (concat ss1) @ solid remaining = solid ?tail"
        using 1(1) [OF m refl refl refl refl True ss1(1)] .
      moreover have "solid (take (w - 1) (drop (p + r) str)) = []"
        using sentence_match_bounds [OF m] set_take_subset_set_take [of "w - 1" w "drop (p + r) str"]
        by (intro solid_spaces) auto
      then have "solid ?tail = solid (drop (p + r) str)"
        by (subst (2) append_take_drop_id [of "w - 1", symmetric]) (simp only: solid_append append_Nil)
      moreover have "solid str = solid (take (p + r) str) @ solid (drop (p + r) str)"
        using solid_append [of "take (p + r) str" "drop (p + r) str"] by simp
      ultimately show ?thesis by (simp add: ss1(2))
    qed
  qed
qed

lemma sentence_loop_long: "sentence_loop str = (ss, remaining) \<Longrightarrow> \<forall>s \<in> set ss. 4 \<le> length s"
proof (induction str arbitrary: ss rule: sentence_loop.induct)
  case (1 str)
  show ?case
  proof (cases "sentence_match str")
    case None
    then show ?thesis using 1(2) by (simp add: sentence_loop.simps [of str])
  next
    case (Some m)
    then obtain p r w where m: "sentence_match str = Some (p, r, w)" by (cases m) auto
    show ?thesis
    proof (cases "4 \<le> length (trim (take (p + r) str))")
      case False
      then show ?thesis using 1(2) m by (simp add: sentence_loop.simps [of str] Let_def)
    next
      case True
      obtain ss1 where "sentence_loop (drop (w - 1) (drop (p + r) str)) = (ss1, remaining)"
        "ss = trim (take (p + r) str) # ss1"
        using 1(2) m True
        by (cases "sentence_loop (drop (w - 1) (drop (p + r) str))") (simp add: sentence_loop.simps [of str] Let_def)
      then show ?thesis using 1(1) [OF m refl refl refl refl True] True by simp
    qed
  qed
qed

text \<open>The sentences among published messages.\<close>

fun sentences_of :: "message list \<Rightarrow> string list" where
  "sentences_of [] = []"
| "sentences_of (M_llm_response r # ms) = lr_sentence r # sentences_of ms"
| "sentences_of (_ # ms) = sentences_of ms"

lemma sentences_of_append [simp]: "sentences_of (xs @ ys) = sentences_of xs @ sentences_of ys"
  by (induction xs rule: sentences_of.induct) simp_all

lemma publish_sentence_fields [simp]:
  "sentences_of (ch_published (publish_sentence E blank b str s)) = sentences_of (ch_published s) @ [str]"
  "ch_accumulated_text (publish_sentence E blank b str s) = ch_accumulated_text s"
  "ch_queryRunning (publish_sentence E blank b str s) = ch_queryRunning s"
  "ch_queries (publish_sentence E blank b str s) = ch_queries s"
  by (simp_all add: publish_sentence_def sentence_response_def case_prod_beta Let_def)

lemma fold_publish_sentence [simp]:
  "sentences_of (ch_published (fold (publish_sentence E blank b) ss s)) = sentences_of (ch_published s) @ ss"
  "ch_queryRunning (fold (publish_sentence E blank b) ss s) = ch_queryRunning s"
  "ch_queries (fold (publish_sentence E blank b) ss s) = ch_queries s"
  by (induction ss arbitrary: s) simp_all

lemma callback_piece:
  assumes "piece \<noteq> ''<end>''" and "sentence_loop (ch_accumulated_text s @ piece) = (ss, remaining)"
  shows "sentences_of (ch_published (query_response_callback E blank piece s)) = sentences_of (ch_published s) @ ss \<and>
    ch_accumulated_text (query_response_callback E blank piece s) = remaining"
  using assms by (simp add: query_response_callback_def)

section \<open>Properties\<close>

text \<open>C26: however the text arrives in pieces, no character but white space is lost or reordered: the
sentences published so far and the text still held make up the text received.\<close>

theorem streamed_text_conserved:
  assumes "\<forall>piece \<in> set pieces. piece \<noteq> ''<end>''"
  shows "solid (concat (sentences_of (ch_published (fold (query_response_callback E blank) pieces s)))) @
      solid (ch_accumulated_text (fold (query_response_callback E blank) pieces s)) =
    solid (concat (sentences_of (ch_published s))) @ solid (ch_accumulated_text s) @ solid (concat pieces)"
  using assms
proof (induction pieces arbitrary: s)
  case Nil
  then show ?case by simp
next
  case (Cons piece pieces)
  obtain ss remaining where loop: "sentence_loop (ch_accumulated_text s @ piece) = (ss, remaining)"
    by (cases "sentence_loop (ch_accumulated_text s @ piece)")
  let ?s = "query_response_callback E blank piece s"
  have "solid (concat (sentences_of (ch_published ?s))) @ solid (ch_accumulated_text ?s) =
      solid (concat (sentences_of (ch_published s))) @ solid (ch_accumulated_text s) @ solid piece"
    using callback_piece [OF _ loop, of E blank] sentence_loop_solid [OF loop] Cons(2) by simp
  then show ?case using Cons(1) [of ?s] Cons(2) by (simp add: append_assoc [symmetric] del: append_assoc)
qed

lemma sentence_match_append:
  "sentence_match str = Some (p, r, w) \<Longrightarrow> 0 < w \<Longrightarrow> \<exists>w'. sentence_match (str @ suffix) = Some (p, r, w')"
proof (induction str arbitrary: p)
  case Nil
  then show ?case by simp
next
  case (Cons c cs)
  define run where "run = takeWhile is_stop (c # cs)"
  define rest where "rest = dropWhile is_stop (c # cs)"
  define spaces where "spaces = takeWhile is_space rest"
  show ?case
  proof (cases "rest = []")
    case True
    then have "spaces = []" "run \<noteq> []" by (auto simp: spaces_def run_def rest_def split: if_splits)
    then have "w = 0" using Cons(2) True by (simp add: run_def rest_def spaces_def Let_def)
    then show ?thesis using Cons(3) by simp
  next
    case False
    then obtain x where x: "x \<in> set (c # cs)" "\<not> is_stop x"
      unfolding rest_def dropWhile_eq_Nil_conv by blast
    note app = takeWhile_append1 [where P = is_stop, OF x, of suffix, folded run_def]
      dropWhile_append1 [where P = is_stop, OF x, of suffix, folded rest_def]
    have sp: "takeWhile is_space (rest @ suffix) \<noteq> [] \<longleftrightarrow> spaces \<noteq> []"
      using False by (cases rest) (simp_all add: spaces_def)
    show ?thesis
    proof (cases "run \<noteq> [] \<and> spaces \<noteq> []")
      case True
      then have "p = 0" "r = length run" using Cons(2) False by (simp_all add: run_def rest_def spaces_def Let_def)
      then show ?thesis using True app sp by (simp add: Let_def)
    next
      case no: False
      then obtain q where q: "sentence_match cs = Some (q, r, w)" "p = Suc q"
        using Cons(2) False by (auto simp: run_def rest_def spaces_def Let_def)
      then obtain w' where "sentence_match (cs @ suffix) = Some (q, r, w')" using Cons(1,3) by blast
      then show ?thesis using q no False app sp by (simp add: Let_def)
    qed
  qed
qed

text \<open>A first sentence of fewer than four characters blocks the stream: whatever pieces follow it,
nothing is published before the end mark.\<close>

lemma short_sentence_blocks_stream:
  assumes "sentence_match (ch_accumulated_text s) = Some (p, r, w)" and "0 < w"
    and "length (trim (take (p + r) (ch_accumulated_text s))) < 4"
    and "\<forall>piece \<in> set pieces. piece \<noteq> ''<end>''"
  shows "ch_published (fold (query_response_callback E blank) pieces s) = ch_published s \<and>
    ch_accumulated_text (fold (query_response_callback E blank) pieces s) = ch_accumulated_text s @ concat pieces"
  using assms
proof (induction pieces arbitrary: s w)
  case Nil
  then show ?case by simp
next
  case (Cons piece pieces)
  let ?acc = "ch_accumulated_text s"
  obtain w' where m: "sentence_match (?acc @ piece) = Some (p, r, w')"
    using sentence_match_append [OF Cons(2,3)] by blast
  have le: "p + r < length ?acc" using sentence_match_bounds [OF Cons(2)] Cons(3) by simp
  then have "\<not> 4 \<le> length (trim (take (p + r) (?acc @ piece)))" using Cons(4) by simp
  then have "sentence_loop (?acc @ piece) = ([], ?acc @ piece)" by (simp add: sentence_loop.simps [of "?acc @ piece"] m Let_def)
  then have s: "query_response_callback E blank piece s = s\<lparr>ch_accumulated_text := ?acc @ piece\<rparr>"
    using Cons(5) by (simp add: query_response_callback_def)
  have "w' = 0 \<Longrightarrow> p + r = length (?acc @ piece)" using sentence_match_bounds [OF m] by simp
  then have "0 < w'" using le by (cases w') simp_all
  then show ?case
    using Cons(1) [of "s\<lparr>ch_accumulated_text := ?acc @ piece\<rparr>" w'] m Cons(4,5) le by (simp add: s)
qed

lemma llm_query_busy: "ch_queryRunning (fst s) \<Longrightarrow> llm_query query s = s"
  by (simp add: llm_query_def Let_def)

lemma chat_initialize_fields [simp]:
  "ch_queryRunning (snd (chat_initialize E c models s)) = ch_queryRunning s"
  "ch_queries (snd (chat_initialize E c models s)) = ch_queries s"
  by (auto simp: chat_initialize_def Let_def split: option.splits)

lemma chat_busy:
  assumes "ch_queryRunning (fst s)"
  shows "ch_queryRunning (fst (fold (chat_receive P) ms s)) \<and> ch_queries (fst (fold (chat_receive P) ms s)) = ch_queries (fst s)"
proof (rule fold_preserves [where P = "\<lambda>t. ch_queryRunning (fst t) \<and> ch_queries (fst t) = ch_queries (fst s)"])
  fix m and t :: "chat hosted"
  assume "ch_queryRunning (fst t) \<and> ch_queries (fst t) = ch_queries (fst s)"
  then show "ch_queryRunning (fst (chat_receive P m t)) \<and> ch_queries (fst (chat_receive P m t)) = ch_queries (fst s)"
    by (cases m) (simp_all add: llm_query_busy chat_start_def Let_def case_prod_beta)
qed (use assms in simp)

text \<open>An empty query, or an empty recognised speech, is handed to the model, which returns
without the end mark, so the service stays busy and no later query ever reaches the model.\<close>

lemma empty_query_blocks_chat:
  assumes "sc_running (snd s InteractiveChatService)" and "\<not> ch_queryRunning (fst s)"
    and "s1 = chat_receive P (M_llm_query []) s"
    and "s2 = (run_chat E blank generate [] (fst s1), snd s1)"
  shows "ch_queries (fst s1) = ch_queries (fst s) @ [[]] \<and>
    ch_queries (fst (fold (chat_receive P) ms s2)) = ch_queries (fst s1)"
proof -
  have s1: "s1 = ((fst s)\<lparr>ch_published := ch_published (fst s) @ [M_bare Msg_InteractiveChatStarted],
      ch_queryRunning := True, ch_queries := ch_queries (fst s) @ [[]]\<rparr>, snd s)"
    using assms(1-3) by (simp add: llm_query_def Let_def)
  have "s2 = s1" using assms(4) by (simp add: run_chat_def chat_pieces_def)
  then show ?thesis using chat_busy [of s2 P ms] s1 by simp
qed

section \<open>The properties at concrete inputs\<close>

definition sample_embedder :: embedder where
  "sample_embedder = \<lparr>emb_calculate = (\<lambda>_. []), emb_similarity = (\<lambda>_ _. Flt 0 0)\<rparr>"

definition blank_response :: LLMResponseData where
  "blank_response =
     \<lparr>lr_sentence = [], lr_emotion = 0, lr_reaction = 0, lr_directive = [], lr_endMarker = False,
      lr_emotionSimilarity = Flt 0 0, lr_reactionSimilarity = Flt 0 0, lr_directiveSimilarity = Flt 0 0\<rparr>"

definition sample_chat :: "string \<Rightarrow> chat" where
  "sample_chat str =
     \<lparr>ch_accumulated_text = str, ch_queryRunning = False, ch_emotionalList = [], ch_reactionalList = [],
      ch_directiveList = [], ch_published = [], ch_queries = []\<rparr>"

lemma streamed_text_conserved_witness:
  "solid (concat (sentences_of (ch_published
      (fold (query_response_callback sample_embedder blank_response) [''Well. '', ''You''] (sample_chat []))))) @
    solid (ch_accumulated_text
      (fold (query_response_callback sample_embedder blank_response) [''Well. '', ''You''] (sample_chat []))) = ''Well.You''"
proof -
  have "solid ''Well. You'' = ''Well.You''" by (simp add: solid_def is_space_def is_trimmed_def)
  then show ?thesis
    using streamed_text_conserved [of "[''Well. '', ''You'']" sample_embedder blank_response "sample_chat []"]
    by (simp add: sample_chat_def del: fold.simps)
qed

lemma short_sentence_blocks_stream_witness:
  "ch_published (fold (query_response_callback sample_embedder blank_response) [''How are you? '', ''I am.'']
     (sample_chat ''Hi. '')) = []"
proof -
  have "sentence_match ''Hi. '' = Some (2, 1, 1)"
    by (simp add: is_stop_def is_space_def is_trimmed_def)
  moreover have "length (trim (take (2 + 1) ''Hi. '')) < 4"
    by (simp add: trim_def is_trimmed_def)
  ultimately show ?thesis
    using short_sentence_blocks_stream [of "sample_chat ''Hi. ''" 2 1 1 "[''How are you? '', ''I am.'']"
        sample_embedder blank_response]
    by (simp add: sample_chat_def del: fold.simps)
qed

lemma empty_query_blocks_chat_witness:
  "ch_queries (fst (fold (chat_receive \<lparr>cl_embedder = sample_embedder, cl_config = blank_operator, cl_models = True\<rparr>)
      [M_llm_query ''How are you?'', M_speech ''Hello?'']
      (run_chat sample_embedder blank_response (\<lambda>_. [''Fine.''])
         [] (fst (llm_query [] (sample_chat [], \<lambda>_. service_new\<lparr>sc_running := True\<rparr>))), \<lambda>_. service_new\<lparr>sc_running := True\<rparr>))) = [[]]"
  using empty_query_blocks_chat [OF _ _ refl refl, of "(sample_chat [], \<lambda>_. service_new\<lparr>sc_running := True\<rparr>)"
      "\<lparr>cl_embedder = sample_embedder, cl_config = blank_operator, cl_models = True\<rparr>"
      "[M_llm_query ''How are you?'', M_speech ''Hello?'']" sample_embedder blank_response "\<lambda>_. [''Fine.'']"]
  by (simp add: sample_chat_def del: fold.simps)

end
