(* ===== verification/Rag.thy ===== *)
theory Rag
  imports Sentences "HOL-Library.Multiset"
begin

text \<open>
  \<open>services/rag_service.cpp\<close>: answering a query with the stored output whose input is most
  similar. The table of the database is part of the state; the id the database gives a new row
  and whether a statement succeeds are inputs. Sorting, random picks and embeddings are
  parameters. The retry loop is partial, and an access outside the results is undefined.
\<close>

section \<open>State\<close>

text \<open>A row whose embedding is empty holds no blob.\<close>

record rag_row =
  rw_id :: int
  rw_input :: string
  rw_output :: string
  rw_embedding :: "flt list"

record rag =
  rg_table :: "rag_row list"
  rg_ragEmbeddings :: "flt list list"
  rg_emotionalList :: "EmotionalGesture list"
  rg_reactionalList :: "ReactionalGesture list"
  rg_directiveList :: "Directive list"
  rg_published :: "message list"

record rag_platform =
  rp_embedder :: embedder
  rp_blank :: LLMResponseData
  rp_sort :: "(int \<times> flt) list \<Rightarrow> (int \<times> flt) list"
  rp_random :: "nat \<Rightarrow> nat"

section \<open>The database\<close>

definition loadDatabase :: "bool \<Rightarrow> rag \<Rightarrow> rag" where
  "loadDatabase opens s =
     s\<lparr>rg_ragEmbeddings := (if opens then filter (\<lambda>e. e \<noteq> []) (map rw_embedding (rg_table s)) else [])\<rparr>"

text \<open>
  An insertion fails before its statement is ready, fails when it is executed, or gives the new
  row an id. Only a failure of the first kind returns before the embeddings are loaded again.
\<close>

datatype insert_outcome = Not_prepared | Not_executed | Inserted int

definition insertToDatabase ::
    "embedder \<Rightarrow> insert_outcome \<Rightarrow> bool \<Rightarrow> string \<Rightarrow> string \<Rightarrow> rag \<Rightarrow> rag" where
  "insertToDatabase E outcome reloads input output s =
     (if input = [] \<or> output = [] then s
      else case outcome of
             Not_prepared \<Rightarrow> s
           | Not_executed \<Rightarrow> loadDatabase reloads s
           | Inserted n \<Rightarrow>
               loadDatabase reloads
                 (s\<lparr>rg_table := rg_table s @
                      [\<lparr>rw_id = n, rw_input = input, rw_output = output, rw_embedding = emb_calculate E input\<rparr>]\<rparr>))"

text \<open>The whole data set is inserted; the embeddings in memory are not loaded again.\<close>

fun insert_rows :: "embedder \<Rightarrow> (DatasetRow \<times> int option) list \<Rightarrow> rag_row list \<Rightarrow> rag_row list" where
  "insert_rows E [] table = table"
| "insert_rows E ((row, Some n) # rest) table =
     insert_rows E rest
       (table @ [\<lparr>rw_id = n, rw_input = dr_input row, rw_output = dr_output row,
                  rw_embedding = emb_calculate E (dr_input row)\<rparr>])"
| "insert_rows E ((row, None) # rest) table = insert_rows E rest table"

definition updateRAGDatabase :: "embedder \<Rightarrow> bool \<Rightarrow> (DatasetRow \<times> int option) list \<Rightarrow> rag \<Rightarrow> rag" where
  "updateRAGDatabase E opens rows s = (if opens then s\<lparr>rg_table := insert_rows E rows (rg_table s)\<rparr> else s)"

definition clearRAGDatabase :: "bool \<Rightarrow> rag \<Rightarrow> rag" where
  "clearRAGDatabase succeeds s = (if succeeds then s\<lparr>rg_table := []\<rparr> else s)"

definition getOutputForId :: "bool \<Rightarrow> int \<Rightarrow> rag \<Rightarrow> string" where
  "getOutputForId opens n s =
     (if opens then case find (\<lambda>r. rw_id r = n) (rg_table s) of Some r \<Rightarrow> rw_output r | None \<Rightarrow> [] else [])"

section \<open>The answer to a query\<close>

definition rag_results :: "embedder \<Rightarrow> string \<Rightarrow> rag \<Rightarrow> (int \<times> flt) list" where
  "rag_results E query s =
     (let queryEmbedding = emb_calculate E query
      in zip (map (\<lambda>i. int i + 1) [0..<length (rg_ragEmbeddings s)])
             (map (emb_similarity E queryEmbedding) (rg_ragEmbeddings s)))"

definition threshold_95 :: flt where "threshold_95 = flit dbl_prec 95 100"
definition threshold_90 :: flt where "threshold_90 = flit dbl_prec 9 10"

text \<open>
  The retry loop from the k-th pick on: the accepted pick, or \<open>None\<close> for one outside the
  results; it may pick for ever.
\<close>

partial_function (option) pick_loop :: "(nat \<Rightarrow> nat) \<Rightarrow> (int \<times> flt) list \<Rightarrow> nat \<Rightarrow> nat option option" where
  "pick_loop random results k =
     (if random k \<ge> length results then Some None
      else if flt_less (snd (results ! random k)) threshold_90 then pick_loop random results (Suc k)
      else Some (Some (random k)))"

definition getRAGResponse :: "rag_platform \<Rightarrow> bool \<Rightarrow> string \<Rightarrow> rag \<Rightarrow> string option option" where
  "getRAGResponse P opens query s =
     (let results = rp_sort P (rag_results (rp_embedder P) query s)
      in if results = [] then Some None
         else if \<not> flt_less (snd (results ! 0)) threshold_95
         then map_option (map_option (\<lambda>pick. getOutputForId opens (fst (results ! pick)) s))
                (pick_loop (rp_random P) results 0)
         else Some (Some (getOutputForId opens (fst (results ! 0)) s)))"

section \<open>Sentences of a response\<close>

lemma split_shrinks:
  assumes "dropWhile (\<lambda>c. \<not> is_stop c) p \<noteq> []"
  shows "length (dropWhile is_stop (dropWhile (\<lambda>c. \<not> is_stop c) p)) < length p"
proof -
  let ?r = "dropWhile (\<lambda>c. \<not> is_stop c) p"
  obtain c cs where r: "?r = c # cs" using assms by (cases ?r) simp_all
  then have "is_stop c" using hd_dropWhile [OF assms] by simp
  then have "length (dropWhile is_stop ?r) \<le> length cs" by (simp add: r length_dropWhile_le)
  also have "\<dots> < length ?r" by (simp add: r)
  also have "\<dots> \<le> length p" by (rule length_dropWhile_le)
  finally show ?thesis .
qed

text \<open>The matches of \<open>[^.!?]*[.!?]+\<close> one after the other; text after the last stop matches nothing.\<close>

function splitIntoSentences :: "string \<Rightarrow> string list" where
  "splitIntoSentences paragraph =
     (let head = takeWhile (\<lambda>c. \<not> is_stop c) paragraph;
          rest = dropWhile (\<lambda>c. \<not> is_stop c) paragraph;
          sentence = trim (head @ takeWhile is_stop rest)
      in if rest = [] then []
         else if sentence \<noteq> [] then sentence # splitIntoSentences (dropWhile is_stop rest)
         else splitIntoSentences (dropWhile is_stop rest))"
  by pat_completeness auto

termination
  by (relation "measure length") (auto intro: split_shrinks)

declare splitIntoSentences.simps [simp del]

definition divideAndPublish :: "rag_platform \<Rightarrow> string \<Rightarrow> rag \<Rightarrow> rag" where
  "divideAndPublish P response s =
     (let sentences = splitIntoSentences response
      in s\<lparr>rg_published := rg_published s @
             map (\<lambda>sentence. M_llm_response (sentence_response (rp_embedder P) (rp_blank P) (rg_emotionalList s)
                    (rg_reactionalList s) sentence (sentence = last sentences))) sentences\<rparr>)"

section \<open>The service\<close>

text \<open>\<open>None\<close>: the AI settings are dereferenced when there are none.\<close>

definition rag_initialize :: "rag_platform \<Rightarrow> config_operator \<Rightarrow> bool \<Rightarrow> rag \<Rightarrow> (bool \<times> rag) option" where
  "rag_initialize P c opens s =
     (if co_aiConfig c = None then None
      else Some
       (case co_emotionalList c of None \<Rightarrow> (False, s) | Some es \<Rightarrow>
        let s = s\<lparr>rg_emotionalList := es\<rparr> in
        case co_reactionalList c of None \<Rightarrow> (False, s) | Some rs \<Rightarrow>
        let s = s\<lparr>rg_reactionalList := rs\<rparr> in
        case co_directiveList c of None \<Rightarrow> (False, s) | Some ds \<Rightarrow>
        let s = loadDatabase opens (s\<lparr>rg_directiveList := ds\<rparr>) in
        (True, s\<lparr>rg_emotionalList := embed_emotional (rp_embedder P) es,
                 rg_reactionalList := embed_reactional (rp_embedder P) rs,
                 rg_directiveList := embed_directives (rp_embedder P) ds\<rparr>)))"

text \<open>
  What the database does during one message: whether it opens, the outcome of an insertion, and
  the data set with the id each of its rows is given, if it is inserted.
\<close>

record rag_database =
  rd_opens :: bool
  rd_insert :: insert_outcome
  rd_dataset :: "(DatasetRow \<times> int option) list"

definition rag_answer :: "rag_platform \<Rightarrow> bool \<Rightarrow> string \<Rightarrow> rag \<Rightarrow> rag option option" where
  "rag_answer P opens query s =
     map_option (map_option (\<lambda>response. divideAndPublish P response s)) (getRAGResponse P opens query s)"

text \<open>The outer \<open>None\<close>: never returns; the inner: an undefined access.\<close>

fun rag_receive :: "rag_platform \<Rightarrow> rag_database \<Rightarrow> message \<Rightarrow> rag \<Rightarrow> rag option option" where
  "rag_receive P D (M_llm_query query) s = rag_answer P (rd_opens D) query s"
| "rag_receive P D (M_speech query) s = rag_answer P (rd_opens D) query s"
| "rag_receive P D (M_database_insert input output) s =
     Some (Some (insertToDatabase (rp_embedder P) (rd_insert D) (rd_opens D) input output s))"
| "rag_receive P D (M_engage_reaction reaction) s = Some (Some (divideAndPublish P reaction s))"
| "rag_receive P D (M_bare t) s =
     (if t = Msg_EngageReaction then Some None
      else if t = Msg_UpdateRAGDatabaseRequest
      then Some (Some (updateRAGDatabase (rp_embedder P) (rd_opens D) (rd_dataset D) s))
      else if t = Msg_ClearRAGDatabaseRequest then Some (Some (clearRAGDatabase (rd_opens D) s))
      else Some (Some s))"
| "rag_receive P D _ s = Some (Some s)"

section \<open>Lemmas\<close>

lemma solid_split:
  "\<exists>pre post. p = pre @ post \<and> (\<forall>c \<in> set post. \<not> is_stop c) \<and> (pre = [] \<or> is_stop (last pre)) \<and>
     solid (concat (splitIntoSentences p)) = solid pre"
proof (induction p rule: splitIntoSentences.induct)
  case (1 p)
  define head where "head = takeWhile (\<lambda>c. \<not> is_stop c) p"
  define rest where "rest = dropWhile (\<lambda>c. \<not> is_stop c) p"
  define run where "run = takeWhile is_stop rest"
  define tail where "tail = dropWhile is_stop rest"
  have p: "p = head @ rest" "rest = run @ tail"
    by (simp_all add: head_def rest_def run_def tail_def)
  have split: "splitIntoSentences p =
      (if rest = [] then [] else if trim (head @ run) \<noteq> [] then trim (head @ run) # splitIntoSentences tail
       else splitIntoSentences tail)"
    by (subst splitIntoSentences.simps) (simp add: Let_def head_def rest_def run_def tail_def)
  show ?case
  proof (cases "rest = []")
    case True
    then have "\<forall>c \<in> set p. \<not> is_stop c" unfolding rest_def dropWhile_eq_Nil_conv by blast
    moreover have "splitIntoSentences p = []" using True by (simp add: split)
    ultimately show ?thesis by (intro exI [of _ "[]"] exI [of _ p]) simp
  next
    case False
    then have "is_stop (hd rest)" using hd_dropWhile [of "\<lambda>c. \<not> is_stop c" p] by (simp add: rest_def)
    then have run: "run \<noteq> []" using False by (cases rest) (simp_all add: run_def)
    have "is_stop (last run)" using run set_takeWhileD [of "last run" is_stop rest] by (simp add: run_def)
    have "\<exists>pre post. tail = pre @ post \<and> (\<forall>c \<in> set post. \<not> is_stop c) \<and> (pre = [] \<or> is_stop (last pre)) \<and>
        solid (concat (splitIntoSentences tail)) = solid pre"
      using 1 False by (cases "trim (head @ run) = []") (simp_all add: head_def rest_def run_def tail_def)
    then obtain pre post where ih: "tail = pre @ post" "\<forall>c \<in> set post. \<not> is_stop c" "pre = [] \<or> is_stop (last pre)"
      "solid (concat (splitIntoSentences tail)) = solid pre"
      by blast
    have "solid (concat (splitIntoSentences p)) = solid (trim (head @ run)) @ solid pre"
      using False ih(4) by (auto simp: split simp del: solid_trim)
    then have "solid (concat (splitIntoSentences p)) = solid (head @ run @ pre)" by simp
    moreover have "p = (head @ run @ pre) @ post" using p ih(1) by simp
    moreover have "is_stop (last (head @ run @ pre))"
      using ih(3) run \<open>is_stop (last run)\<close> by (cases "pre = []") simp_all
    ultimately show ?thesis using ih(2) by blast
  qed
qed

lemma rag_results_nth:
  "i < length (rg_ragEmbeddings s) \<Longrightarrow>
   rag_results E query s ! i = (int i + 1, emb_similarity E (emb_calculate E query) (rg_ragEmbeddings s ! i))"
  by (simp add: rag_results_def Let_def)

lemma rag_results_set:
  "set (rag_results E query s) =
     {(int i + 1, emb_similarity E (emb_calculate E query) (rg_ragEmbeddings s ! i)) | i. i < length (rg_ragEmbeddings s)}"
  by (auto simp: in_set_conv_nth rag_results_nth [symmetric]) (auto simp: rag_results_def Let_def)

lemma pick_loop_accepts:
  assumes "pick_loop random results k = Some r"
  shows "\<forall>i. r = Some i \<longrightarrow> i < length results \<and> \<not> flt_less (snd (results ! i)) threshold_90"
proof (rule pick_loop.raw_induct [OF _ assms, where P =
    "\<lambda>random results k r. \<forall>i. r = Some i \<longrightarrow> i < length results \<and> \<not> flt_less (snd (results ! i)) threshold_90"])
  fix f :: "(nat \<Rightarrow> nat) \<Rightarrow> (int \<times> flt) list \<Rightarrow> nat \<Rightarrow> nat option option" and random results k r
  assume ih: "\<And>random results k r. f random results k = Some r \<Longrightarrow>
      \<forall>i. r = Some i \<longrightarrow> i < length results \<and> \<not> flt_less (snd (results ! i)) threshold_90"
    and body: "(if random k \<ge> length results then Some None
      else if flt_less (snd (results ! random k)) threshold_90 then f random results (Suc k)
      else Some (Some (random k))) = Some r"
  show "\<forall>i. r = Some i \<longrightarrow> i < length results \<and> \<not> flt_less (snd (results ! i)) threshold_90"
    using body ih [of random results "Suc k" r] by (auto split: if_splits)
qed

lemma sorted_results:
  assumes "\<And>rs. mset (rp_sort P rs) = mset rs"
  shows "set (rp_sort P rs) = set rs" and "length (rp_sort P rs) = length rs"
  using assms [of rs] by (rule mset_eq_setD, rule mset_eq_length)

lemma find_row:
  assumes "map rw_id rows = map (\<lambda>i. int i + 1) [0..<length rows]" and "i < length rows"
  shows "find (\<lambda>r. rw_id r = int i + 1) rows = Some (rows ! i)"
proof -
  have ids: "rw_id (rows ! j) = int j + 1" if "j < length rows" for j
    using arg_cong [OF assms(1), of "\<lambda>xs. xs ! j"] that by simp
  then show ?thesis using assms(2) by (auto simp: find_Some_iff intro!: exI [of _ i])
qed

text \<open>The row a query is answered from, and how similar its input is.\<close>

definition row_similarity :: "rag_platform \<Rightarrow> string \<Rightarrow> rag_row \<Rightarrow> flt" where
  "row_similarity P query r = emb_similarity (rp_embedder P) (emb_calculate (rp_embedder P) query) (rw_embedding r)"

text \<open>A table whose rows are numbered from 1 without a gap, with all embeddings loaded.\<close>

definition table_numbered :: "rag \<Rightarrow> bool" where
  "table_numbered s \<longleftrightarrow>
     map rw_id (rg_table s) = map (\<lambda>i. int i + 1) [0..<length (rg_table s)] \<and>
     rg_ragEmbeddings s = map rw_embedding (rg_table s)"

definition sorted_rag_results :: "rag_platform \<Rightarrow> string \<Rightarrow> rag \<Rightarrow> (int \<times> flt) list" where
  "sorted_rag_results P query s = rp_sort P (rag_results (rp_embedder P) query s)"

lemma sorted_rag_results_set:
  assumes "\<And>rs. mset (rp_sort P rs) = mset rs" and "table_numbered s"
  shows "set (sorted_rag_results P query s) =
    {(int i + 1, row_similarity P query (rg_table s ! i)) | i. i < length (rg_table s)}"
  unfolding sorted_rag_results_def sorted_results(1) [where P = P, OF assms(1)] rag_results_set
  using assms(2) by (auto simp: table_numbered_def row_similarity_def)

lemma result_row:
  assumes "\<And>rs. mset (rp_sort P rs) = mset rs" and "table_numbered s" and "k < length (sorted_rag_results P query s)"
  shows "\<exists>r \<in> set (rg_table s). snd (sorted_rag_results P query s ! k) = row_similarity P query r \<and>
    getOutputForId True (fst (sorted_rag_results P query s ! k)) s = rw_output r"
proof -
  have "sorted_rag_results P query s ! k \<in> set (sorted_rag_results P query s)" using assms(3) by simp
  then obtain i where "i < length (rg_table s)"
    "sorted_rag_results P query s ! k = (int i + 1, row_similarity P query (rg_table s ! i))"
    unfolding sorted_rag_results_set [OF assms(1,2)] by blast
  then show ?thesis
    using find_row [of "rg_table s" i] assms(2) by (auto simp: getOutputForId_def table_numbered_def)
qed

lemma top_result:
  assumes "\<And>rs. mset (rp_sort P rs) = mset rs" and "table_numbered s"
    and "\<And>rs. sorted_wrt (\<lambda>a b. \<not> flt_less (snd a) (snd b)) (rp_sort P rs)"
    and q: "q \<in> set (rg_table s)"
  shows "fval (row_similarity P query q) \<le> fval (snd (sorted_rag_results P query s ! 0))"
proof -
  let ?rs = "sorted_rag_results P query s"
  obtain i where "i < length (rg_table s)" "q = rg_table s ! i" using q by (auto simp: in_set_conv_nth)
  then have "(int i + 1, row_similarity P query q) \<in> set ?rs"
    unfolding sorted_rag_results_set [OF assms(1,2)] by blast
  then obtain k where k: "k < length ?rs" "?rs ! k = (int i + 1, row_similarity P query q)"
    by (auto simp: in_set_conv_nth)
  show ?thesis
  proof (cases k)
    case 0
    then show ?thesis using k by simp
  next
    case (Suc l)
    have "\<not> flt_less (snd (?rs ! 0)) (snd (?rs ! k))"
      using sorted_wrt_nth_less [OF assms(3), of 0 k "rag_results (rp_embedder P) query s"] k Suc
      by (simp add: sorted_rag_results_def)
    then show ?thesis using k(2) by (simp add: flt_less_iff not_less)
  qed
qed

section \<open>Properties\<close>

text \<open>C27: with the rows numbered from 1 without a gap and all embeddings loaded, an answer is the
output of a stored row: one of similarity at least 0.9 when some row reaches 0.95, and otherwise
a row of greatest similarity.\<close>

theorem rag_answers_with_similar_row:
  assumes "\<And>rs. mset (rp_sort P rs) = mset rs"
    and "\<And>rs. sorted_wrt (\<lambda>a b. \<not> flt_less (snd a) (snd b)) (rp_sort P rs)"
    and "table_numbered s"
    and "getRAGResponse P True query s = Some (Some answer)"
  shows "\<exists>r \<in> set (rg_table s). answer = rw_output r \<and>
    (if \<exists>q \<in> set (rg_table s). \<not> flt_less (row_similarity P query q) threshold_95
     then \<not> flt_less (row_similarity P query r) threshold_90
     else \<forall>q \<in> set (rg_table s). \<not> flt_less (row_similarity P query r) (row_similarity P query q))"
proof -
  let ?t = "rg_table s" and ?sim = "row_similarity P query" and ?rs = "sorted_rag_results P query s"
  note response = assms(4) [unfolded getRAGResponse_def sorted_rag_results_def [symmetric] Let_def]
  have ne: "?rs \<noteq> []" using response by (auto split: if_splits)
  note top = top_result [where query = query, OF assms(1,3,2)]
  obtain r0 where r0: "r0 \<in> set ?t" "snd (?rs ! 0) = ?sim r0" "getOutputForId True (fst (?rs ! 0)) s = rw_output r0"
    using result_row [OF assms(1,3), of 0 query] ne by auto
  show ?thesis
  proof (cases "flt_less (snd (?rs ! 0)) threshold_95")
    case True
    then have "\<not> (\<exists>q \<in> set ?t. \<not> flt_less (?sim q) threshold_95)"
      using top unfolding flt_less_iff by (meson le_less_trans)
    moreover have "answer = rw_output r0" using response True ne r0(3) by simp
    moreover have "\<forall>q \<in> set ?t. \<not> flt_less (?sim r0) (?sim q)" using top r0(2) by (auto simp: flt_less_iff not_less)
    ultimately show ?thesis using r0(1) by (intro bexI [of _ r0]) auto
  next
    case False
    then have "\<exists>q \<in> set ?t. \<not> flt_less (?sim q) threshold_95" using r0 by (intro bexI [of _ r0]) auto
    moreover obtain pick where pick: "pick_loop (rp_random P) ?rs 0 = Some (Some pick)"
      "answer = getOutputForId True (fst (?rs ! pick)) s"
      using response False ne by auto
    moreover obtain r where "r \<in> set ?t" "snd (?rs ! pick) = ?sim r" "answer = rw_output r"
      using pick_loop_accepts [OF pick(1)] pick(2) result_row [OF assms(1,3), of pick query] by auto
    ultimately show ?thesis using pick_loop_accepts [OF pick(1)] by (intro bexI [of _ r]) auto
  qed
qed

text \<open>The n-th embedding is looked up as row n, so when every stored id is larger than the
number of embeddings, as after the table was cleared and filled again without restarting its
numbering, every answer is empty and nothing is published.\<close>

lemma rag_silent_after_renumbering:
  assumes "\<And>rs. mset (rp_sort P rs) = mset rs"
    and "\<forall>r \<in> set (rg_table s). int (length (rg_ragEmbeddings s)) < rw_id r"
    and "getRAGResponse P opens query s = Some (Some answer)"
  shows "answer = [] \<and> divideAndPublish P answer s = s"
proof -
  define results where "results = rp_sort P (rag_results (rp_embedder P) query s)"
  have "getOutputForId opens (fst (results ! k)) s = []" if "k < length results" for k
  proof -
    have "results ! k \<in> set results" using that by simp
    then have "results ! k \<in> set (rag_results (rp_embedder P) query s)"
      unfolding results_def sorted_results(1) [OF assms(1)] .
    then have "fst (results ! k) \<le> int (length (rg_ragEmbeddings s))" by (auto simp: rag_results_set)
    then have "\<forall>r \<in> set (rg_table s). rw_id r \<noteq> fst (results ! k)" using assms(2) by fastforce
    then have "find (\<lambda>r. rw_id r = fst (results ! k)) (rg_table s) = None" by (simp add: find_None_iff)
    then show ?thesis by (simp add: getOutputForId_def)
  qed
  then have "answer = []"
    using assms(3) pick_loop_accepts [of "rp_random P" results 0]
    by (auto simp: getRAGResponse_def results_def [symmetric] Let_def split: if_splits)
  then show ?thesis by (simp add: divideAndPublish_def splitIntoSentences.simps)
qed

lemma split_at_last_stop:
  assumes "\<forall>c \<in> set post. \<not> is_stop c" and "pre = [] \<or> is_stop (last pre)"
  shows "rev (dropWhile (\<lambda>c. \<not> is_stop c) (rev (pre @ post))) = pre"
proof -
  have "dropWhile (\<lambda>c. \<not> is_stop c) (rev post @ rev pre) = dropWhile (\<lambda>c. \<not> is_stop c) (rev pre)"
    using assms(1) by (intro dropWhile_append2) simp
  also have "\<dots> = rev pre"
    using assms(2) by (cases pre rule: rev_cases) auto
  finally show ?thesis by simp
qed

text \<open>Cutting a response into sentences keeps every character but white space up to the last
full stop, exclamation or question mark, and drops what follows it: a response without one is
never spoken.\<close>

lemma split_drops_unfinished_sentence:
  "solid (concat (splitIntoSentences p)) = solid (rev (dropWhile (\<lambda>c. \<not> is_stop c) (rev p)))"
  using solid_split [of p] split_at_last_stop by metis

section \<open>The properties at concrete inputs\<close>

definition sample_rag_platform :: rag_platform where
  "sample_rag_platform =
     \<lparr>rp_embedder = \<lparr>emb_calculate = (\<lambda>_. [Flt 1 0]), emb_similarity = (\<lambda>_ _. Flt 1 0)\<rparr>,
      rp_blank = \<lparr>lr_sentence = [], lr_emotion = 0, lr_reaction = 0, lr_directive = [], lr_endMarker = False,
                  lr_emotionSimilarity = Flt 0 0, lr_reactionSimilarity = Flt 0 0, lr_directiveSimilarity = Flt 0 0\<rparr>,
      rp_sort = sort_key (\<lambda>p. - fval (snd p)), rp_random = (\<lambda>_. 0)\<rparr>"

lemma sample_sort:
  "mset (rp_sort sample_rag_platform rs) = mset rs"
  "sorted_wrt (\<lambda>a b. \<not> flt_less (snd a) (snd b)) (rp_sort sample_rag_platform rs)"
  using sorted_sort_key [of "\<lambda>p. - fval (snd p)" rs]
  by (simp_all add: sample_rag_platform_def sorted_map flt_less_iff not_less)

definition sample_rag :: "int \<Rightarrow> rag" where
  "sample_rag n =
     \<lparr>rg_table = [\<lparr>rw_id = n, rw_input = ''hi'', rw_output = ''Hello.'', rw_embedding = [Flt 1 0]\<rparr>],
      rg_ragEmbeddings = [[Flt 1 0]], rg_emotionalList = [], rg_reactionalList = [], rg_directiveList = [],
      rg_published = []\<rparr>"

lemma sample_thresholds: "\<not> flt_less (Flt 1 0) threshold_95" "\<not> flt_less (Flt 1 0) threshold_90"
  by code_simp+

lemma sample_answer:
  "getRAGResponse sample_rag_platform True ''hi'' (sample_rag n) = Some (Some (if n = 1 then ''Hello.'' else []))"
proof -
  have r: "rp_sort sample_rag_platform (rag_results (rp_embedder sample_rag_platform) ''hi'' (sample_rag n)) = [(1, Flt 1 0)]"
    by (simp add: sample_rag_platform_def rag_results_def sample_rag_def)
  have "pick_loop (rp_random sample_rag_platform) [(1, Flt 1 0)] 0 = Some (Some 0)"
    by (simp add: pick_loop.simps sample_rag_platform_def sample_thresholds)
  then show ?thesis
    by (simp add: getRAGResponse_def r sample_thresholds getOutputForId_def) (simp add: sample_rag_def)
qed

lemma rag_answers_with_similar_row_witness:
  "\<exists>r \<in> set (rg_table (sample_rag 1)). rw_output r = ''Hello.'' \<and>
     \<not> flt_less (row_similarity sample_rag_platform ''hi'' r) threshold_90"
  using rag_answers_with_similar_row [OF sample_sort, of "sample_rag 1" "''hi''" "''Hello.''"]
    sample_answer [of 1] sample_thresholds
  by (simp add: sample_rag_def row_similarity_def sample_rag_platform_def table_numbered_def)

lemma rag_silent_after_renumbering_witness:
  "divideAndPublish sample_rag_platform [] (sample_rag 7) = sample_rag 7"
  using rag_silent_after_renumbering [of sample_rag_platform "sample_rag 7" True "''hi''" "[]"] sample_sort(1)
    sample_answer [of 7]
  by (simp add: sample_rag_def)

end
