(* ===== verification/Face_Gesture.thy ===== *)
theory Face_Gesture
  imports Messages
begin

text \<open>
  \<open>operators/face_gesture_recognizing_operator.cpp\<close>: the measures of a face from its landmarks, the
  calibration over the first thirty faces, the emotion of a face and its smoothing over the last
  ten. MediaPipe is outside, its answer for a frame an argument, and \<open>std::hypot\<close> is a parameter;
  the arithmetic is that of \<open>double\<close>. Drawing is not modelled.
\<close>

section \<open>State\<close>

type_synonym hypot = "int \<Rightarrow> int \<Rightarrow> flt"

record CalibrationData =
  ca_ear :: flt
  ca_mar :: flt
  ca_eyebrow :: flt
  ca_smile :: flt
  ca_eyebrow_dist :: flt

record BaselineValues =
  ba_values :: CalibrationData
  ba_initialized :: bool

record face_operator =
  fo_initialized :: bool
  fo_landmarks :: "Landmark list"
  fo_previous_emotion :: string
  fo_emotion_history :: "string list"
  fo_calibration_data :: "CalibrationData list"
  fo_calibration_frames :: nat
  fo_baseline :: BaselineValues

definition history_size :: nat where
  "history_size = 10"

definition calibration_zero :: CalibrationData where
  "calibration_zero =
     \<lparr>ca_ear = Flt 0 0, ca_mar = Flt 0 0, ca_eyebrow = Flt 0 0, ca_smile = Flt 0 0, ca_eyebrow_dist = Flt 0 0\<rparr>"

text \<open>The constructor; \<open>ok\<close>: whether MediaPipe's graph could be started.\<close>

definition face_operator_new :: "bool \<Rightarrow> face_operator" where
  "face_operator_new ok =
     \<lparr>fo_initialized = ok, fo_landmarks = [], fo_previous_emotion = ''Neutral'', fo_emotion_history = [],
      fo_calibration_data = [], fo_calibration_frames = 0,
      fo_baseline = \<lparr>ba_values = calibration_zero, ba_initialized = False\<rparr>\<rparr>"

text \<open>\<open>initialize\<close> and \<open>shutdown\<close>; what MediaPipe allocated is released by the latter.\<close>

definition face_initialize :: "bool \<Rightarrow> face_operator \<Rightarrow> bool \<times> face_operator" where
  "face_initialize ok f = (if fo_initialized f then (True, f) else (ok, f\<lparr>fo_initialized := ok\<rparr>))"

definition face_shutdown :: "face_operator \<Rightarrow> face_operator" where
  "face_shutdown f = f\<lparr>fo_initialized := False\<rparr>"

definition resetCalibration :: "face_operator \<Rightarrow> face_operator" where
  "resetCalibration f =
     f\<lparr>fo_baseline := (fo_baseline f)\<lparr>ba_initialized := False\<rparr>, fo_calibration_frames := 0,
       fo_calibration_data := [], fo_emotion_history := []\<rparr>"

section \<open>Measures of a face\<close>

definition dzero :: flt where "dzero = Flt 0 0"

definition is_zero :: "flt \<Rightarrow> bool" where
  "is_zero a \<longleftrightarrow> \<not> flt_less a dzero \<and> \<not> flt_less dzero a"

abbreviation "dadd \<equiv> fadd dbl_prec"
abbreviation "dsub \<equiv> fsub dbl_prec"
abbreviation "dmul \<equiv> fmul dbl_prec"
abbreviation "ddiv \<equiv> fdiv dbl_prec"
abbreviation "dint \<equiv> fof_int dbl_prec"

definition half_sum :: "flt \<Rightarrow> flt \<Rightarrow> flt" where
  "half_sum a b = ddiv (dadd a b) (dint 2)"

definition calculateDistance :: "hypot \<Rightarrow> Landmark list \<Rightarrow> nat \<Rightarrow> nat \<Rightarrow> flt" where
  "calculateDistance hypot ls p1 p2 =
     (if ls = [] \<or> length ls \<le> p1 \<or> length ls \<le> p2 then dzero
      else hypot (lm_cx (ls ! p2) - lm_cx (ls ! p1)) (lm_cy (ls ! p2) - lm_cy (ls ! p1)))"

definition getEyeAspectRatio :: "hypot \<Rightarrow> Landmark list \<Rightarrow> nat list \<Rightarrow> flt" where
  "getEyeAspectRatio hypot ls eye =
     (if ls = [] \<or> length eye < 6 then dzero
      else let d = (\<lambda>i j. calculateDistance hypot ls (eye ! i) (eye ! j)); horizontal = d 0 3
           in if is_zero horizontal then dzero
              else ddiv (dadd (d 1 5) (d 2 4)) (dmul (dint 2) horizontal))"

definition left_eye_points :: "nat list" where "left_eye_points = [33, 160, 158, 133, 153, 144]"
definition right_eye_points :: "nat list" where "right_eye_points = [362, 385, 387, 263, 373, 380]"

definition getMouthAspectRatio :: "hypot \<Rightarrow> Landmark list \<Rightarrow> flt" where
  "getMouthAspectRatio hypot ls =
     (if ls = [] then dzero
      else let horizontal = calculateDistance hypot ls 78 308
           in if is_zero horizontal then dzero
              else ddiv (calculateDistance hypot ls 13 14) horizontal)"

definition getEyebrowPosition :: "hypot \<Rightarrow> Landmark list \<Rightarrow> flt" where
  "getEyebrowPosition hypot ls =
     (if ls = [] then dzero
      else half_sum (calculateDistance hypot ls 70 159) (calculateDistance hypot ls 296 386))"

definition getFaceInfo :: "hypot \<Rightarrow> face_operator \<Rightarrow> FaceInfo" where
  "getFaceInfo hypot f =
     (let ls = fo_landmarks f;
          l = getEyeAspectRatio hypot ls left_eye_points;
          r = getEyeAspectRatio hypot ls right_eye_points
      in if ls = [] then FaceInfo_zero
         else \<lparr>fi_left_ear = l, fi_right_ear = r, fi_avg_ear = half_sum l r,
               fi_mar = getMouthAspectRatio hypot ls, fi_eyebrow_height = getEyebrowPosition hypot ls\<rparr>)"

text \<open>What \<open>detectEmotion\<close> measures on a face.\<close>

definition landmark_y :: "Landmark list \<Rightarrow> nat \<Rightarrow> flt" where
  "landmark_y ls k = (if k < length ls then dint (lm_cy (ls ! k)) else dzero)"

definition smile_intensity :: "Landmark list \<Rightarrow> flt" where
  "smile_intensity ls =
     (let l = landmark_y ls 308; r = landmark_y ls 78
      in if \<not> is_zero l \<and> \<not> is_zero r then dsub (landmark_y ls 1) (half_sum l r) else dzero)"

definition face_measures :: "hypot \<Rightarrow> Landmark list \<Rightarrow> CalibrationData" where
  "face_measures hypot ls =
     (let d = calculateDistance hypot ls; width = d 234 454
      in \<lparr>ca_ear = half_sum (getEyeAspectRatio hypot ls left_eye_points) (getEyeAspectRatio hypot ls right_eye_points),
          ca_mar = getMouthAspectRatio hypot ls,
          ca_eyebrow = half_sum (d 159 10) (d 386 338),
          ca_smile = smile_intensity ls,
          ca_eyebrow_dist = (if flt_less dzero width then ddiv (d 296 66) width else dzero)\<rparr>)"

section \<open>Calibration\<close>

text \<open>The mean of each measure: the sum in order of arrival, divided by their number.\<close>

definition mean_of :: "(CalibrationData \<Rightarrow> flt) \<Rightarrow> CalibrationData list \<Rightarrow> flt" where
  "mean_of m ds = ddiv (fold (\<lambda>d s. dadd s (m d)) ds dzero) (dint (int (length ds)))"

definition baseline_of :: "CalibrationData list \<Rightarrow> BaselineValues" where
  "baseline_of ds =
     \<lparr>ba_values = \<lparr>ca_ear = mean_of ca_ear ds, ca_mar = mean_of ca_mar ds, ca_eyebrow = mean_of ca_eyebrow ds,
        ca_smile = mean_of ca_smile ds, ca_eyebrow_dist = mean_of ca_eyebrow_dist ds\<rparr>,
      ba_initialized = True\<rparr>"

section \<open>The emotion of one face\<close>

text \<open>The names as the program has them, in UTF-8.\<close>

definition korkmus :: string where "korkmus = ''korkmu'' @ [CHR 0xC5, CHR 0x9F]"
definition saskin :: string where
  "saskin = [CHR 0xC5, CHR 0x9F, CHR ''a'', CHR 0xC5, CHR 0x9F, CHR ''k'', CHR 0xC4, CHR 0xB1, CHR ''n'']"
definition uzgun :: string where
  "uzgun = [CHR 0xC3, CHR 0xBC, CHR ''z'', CHR ''g'', CHR 0xC3, CHR 0xBC, CHR ''n'']"

definition relative :: "flt \<Rightarrow> flt \<Rightarrow> flt" where
  "relative a base = (if flt_less dzero base then ddiv a base else dint 1)"

definition face_emotion :: "CalibrationData \<Rightarrow> CalibrationData \<Rightarrow> string" where
  "face_emotion base m =
     (let ear = relative (ca_ear m) (ca_ear base); mar = relative (ca_mar m) (ca_mar base);
          smile = dsub (ca_smile m) (ca_smile base);
          brow = relative (ca_eyebrow_dist m) (ca_eyebrow_dist base)
      in if flt_less (dint 6) smile then ''mutlu''
         else if flt_less (dint 120) mar then korkmus
         else if flt_less (dint 20) mar then saskin
         else if flt_less smile (dint (- 3)) then uzgun
         else if flt_less ear (flit dbl_prec 8 10) then ''uykulu''
         else if flt_less brow (flit dbl_prec 85 100) \<and> flt_less ear (flit dbl_prec 9 10) then ''sinirli''
         else ''normal'')"

section \<open>Smoothing\<close>

definition push_history :: "string \<Rightarrow> string list \<Rightarrow> string list" where
  "push_history e h = (let h = h @ [e] in if history_size < length h then tl h else h)"

text \<open>
  The counts are kept in a \<open>std::map\<close>, which is run through in the order of its keys; a later
  emotion replaces the first only with a greater count.
\<close>

definition most_common :: "string list \<Rightarrow> string" where
  "most_common h =
     fst (fold (\<lambda>e (best, n). if n < count_list h e then (e, count_list h e) else (best, n))
       (sorted_list_of_set (set h)) ('''', 0))"

definition smooth :: "string \<Rightarrow> face_operator \<Rightarrow> string \<times> face_operator" where
  "smooth emotion f =
     (let h = push_history emotion (fo_emotion_history f);
          e = (if 3 \<le> length h then most_common h else emotion)
      in (e, f\<lparr>fo_emotion_history := h, fo_previous_emotion := e\<rparr>))"

section \<open>getFaceLandmarks and detectEmotion\<close>

text \<open>\<open>answer\<close>: the landmarks of the first face in pixels, empty when MediaPipe fails or finds none.\<close>

definition getFaceLandmarks :: "Landmark list \<Rightarrow> face_operator \<Rightarrow> Landmark list \<times> face_operator" where
  "getFaceLandmarks answer f =
     (if \<not> fo_initialized f then ([], f) else (answer, f\<lparr>fo_landmarks := answer\<rparr>))"

definition calibrating :: "nat \<Rightarrow> string" where
  "calibrating k = ''Calibrating... ('' @ decimal k @ ''/30)''"

definition detectEmotion :: "hypot \<Rightarrow> face_operator \<Rightarrow> string \<times> face_operator" where
  "detectEmotion hypot f =
     (if fo_landmarks f = [] then (''No Face'', f)
      else let m = face_measures hypot (fo_landmarks f)
           in if \<not> ba_initialized (fo_baseline f) \<and> fo_calibration_frames f < 30
              then (calibrating (fo_calibration_frames f + 1),
                    f\<lparr>fo_calibration_data := fo_calibration_data f @ [m],
                      fo_calibration_frames := fo_calibration_frames f + 1\<rparr>)
              else let g = (if \<not> ba_initialized (fo_baseline f) \<and> fo_calibration_frames f = 30
                            then f\<lparr>fo_baseline := baseline_of (fo_calibration_data f),
                                   fo_calibration_frames := fo_calibration_frames f + 1\<rparr>
                            else f)
                   in smooth (face_emotion (ba_values (fo_baseline g)) m) g)"

section \<open>Faces seen one after the other\<close>

definition observe :: "hypot \<Rightarrow> Landmark list \<Rightarrow> face_operator \<Rightarrow> string \<times> face_operator" where
  "observe hypot ls f = detectEmotion hypot (snd (getFaceLandmarks ls f))"

fun emotion_answers :: "hypot \<Rightarrow> Landmark list list \<Rightarrow> face_operator \<Rightarrow> string list \<times> face_operator" where
  "emotion_answers hypot [] f = ([], f)"
| "emotion_answers hypot (ls # lss) f =
     (let (e, f1) = observe hypot ls f; (es, f2) = emotion_answers hypot lss f1 in (e # es, f2))"

lemma emotion_answers_append:
  "emotion_answers hypot (xs @ ys) f =
     (fst (emotion_answers hypot xs f) @ fst (emotion_answers hypot ys (snd (emotion_answers hypot xs f))),
      snd (emotion_answers hypot ys (snd (emotion_answers hypot xs f))))"
  by (induction xs arbitrary: f) (simp_all add: case_prod_beta Let_def)

lemma length_emotion_answers [simp]: "length (fst (emotion_answers hypot lss f)) = length lss"
  by (induction lss arbitrary: f) (simp_all add: case_prod_beta Let_def)

text \<open>The reference: what the last ten emotions of single faces are reported as.\<close>

definition last_ten :: "'a list \<Rightarrow> 'a list" where
  "last_ten es = drop (length es - history_size) es"

definition reported :: "string list \<Rightarrow> string" where
  "reported es = (if length (last_ten es) < 3 then last es else most_common (last_ten es))"

lemma push_last_ten: "push_history e (last_ten es) = last_ten (es @ [e])"
proof (cases "length es < history_size")
  case True
  then show ?thesis by (simp add: push_history_def last_ten_def)
next
  case False
  then have "length es - history_size < length es" by (simp add: history_size_def)
  then have "tl (drop (length es - history_size) es @ [e]) = drop (Suc (length es) - history_size) es @ [e]"
    using False by (simp add: tl_drop Suc_diff_le drop_Suc)
  then show ?thesis using False by (simp add: push_history_def last_ten_def Let_def history_size_def)
qed

lemma length_last_ten: "length (last_ten es) = min (length es) history_size"
  by (simp add: last_ten_def)

definition single_emotions :: "hypot \<Rightarrow> Landmark list list \<Rightarrow> string list" where
  "single_emotions hypot lss =
     (let base = ba_values (baseline_of (map (face_measures hypot) (take 30 lss)))
      in map (face_emotion base \<circ> face_measures hypot) (drop 30 lss))"

lemma single_emotions_snoc:
  "30 \<le> length lss \<Longrightarrow> single_emotions hypot (lss @ [ls]) =
     single_emotions hypot lss @
       [face_emotion (ba_values (baseline_of (map (face_measures hypot) (take 30 lss)))) (face_measures hypot ls)]"
  by (simp add: single_emotions_def Let_def)

text \<open>The state after the faces \<open>lss\<close>.\<close>

definition after_faces :: "hypot \<Rightarrow> Landmark list list \<Rightarrow> face_operator \<Rightarrow> bool" where
  "after_faces hypot lss f \<longleftrightarrow>
     fo_initialized f \<and>
     (if length lss \<le> 30
      then \<not> ba_initialized (fo_baseline f) \<and> fo_calibration_frames f = length lss \<and>
           fo_calibration_data f = map (face_measures hypot) lss \<and> fo_emotion_history f = []
      else fo_baseline f = baseline_of (map (face_measures hypot) (take 30 lss)) \<and>
           fo_emotion_history f = last_ten (single_emotions hypot lss))"

definition answer_after :: "hypot \<Rightarrow> Landmark list list \<Rightarrow> string" where
  "answer_after hypot lss =
     (if length lss \<le> 30 then calibrating (length lss) else reported (single_emotions hypot lss))"

lemma smooth_reports:
  assumes "fo_emotion_history f = last_ten es"
  shows "fst (smooth e f) = reported (es @ [e])"
    and "fo_emotion_history (snd (smooth e f)) = last_ten (es @ [e])"
    and "fo_baseline (snd (smooth e f)) = fo_baseline f"
    and "fo_initialized (snd (smooth e f)) = fo_initialized f"
  using assms by (auto simp: smooth_def Let_def push_last_ten reported_def)

lemma observe_step:
  assumes "after_faces hypot lss f" and "ls \<noteq> []"
  shows "fst (observe hypot ls f) = answer_after hypot (lss @ [ls]) \<and>
    after_faces hypot (lss @ [ls]) (snd (observe hypot ls f))"
proof -
  consider "length lss < 30" | "length lss = 30" | "30 < length lss" by linarith
  then show ?thesis
  proof cases
    case 1
    with assms show ?thesis
      by (simp add: observe_def getFaceLandmarks_def detectEmotion_def Let_def after_faces_def answer_after_def)
  next
    case 2
    with assms have "single_emotions hypot lss = []" by (simp add: single_emotions_def)
    with 2 assms show ?thesis
      using single_emotions_snoc [of lss hypot ls]
      by (simp add: observe_def getFaceLandmarks_def detectEmotion_def Let_def after_faces_def answer_after_def
          smooth_reports [where es = "[]"] last_ten_def)
  next
    case 3
    with assms have "ba_initialized (fo_baseline f)" by (simp add: after_faces_def baseline_of_def)
    with 3 assms show ?thesis
      using single_emotions_snoc [of lss hypot ls]
      by (simp add: observe_def getFaceLandmarks_def detectEmotion_def Let_def after_faces_def answer_after_def
          smooth_reports [where es = "single_emotions hypot lss"])
  qed
qed

lemma emotions_after:
  "\<forall>ls \<in> set lss. ls \<noteq> [] \<Longrightarrow>
   after_faces hypot lss (snd (emotion_answers hypot lss (face_operator_new True))) \<and>
   (\<forall>i < length lss. fst (emotion_answers hypot lss (face_operator_new True)) ! i = answer_after hypot (take (Suc i) lss))"
proof (induction lss rule: rev_induct)
  case Nil
  show ?case by (simp add: after_faces_def face_operator_new_def)
next
  case (snoc ls lss)
  let ?f = "snd (emotion_answers hypot lss (face_operator_new True))"
  have step: "fst (observe hypot ls ?f) = answer_after hypot (lss @ [ls])"
    "after_faces hypot (lss @ [ls]) (snd (observe hypot ls ?f))"
    using snoc observe_step [of hypot lss ?f ls] by simp_all
  then show ?case
    using snoc by (auto simp: emotion_answers_append case_prod_beta Let_def nth_append less_Suc_eq)
qed

text \<open>C30: the first thirty faces are answered with the progress of the calibration, whatever they
show; every later face is answered with what the last ten emotions of single faces are reported
as, each measured against the mean of the first thirty faces.\<close>

theorem emotions_after_calibration:
  assumes "\<forall>ls \<in> set lss. ls \<noteq> []" and "i < length lss"
  shows "fst (emotion_answers hypot lss (face_operator_new True)) ! i =
    (if i < 30 then calibrating (Suc i) else reported (single_emotions hypot (take (Suc i) lss)))"
  using emotions_after [OF assms(1)] assms(2) by (auto simp: answer_after_def)

lemma emotions_after_calibration_witness:
  "fst (emotion_answers (\<lambda>_ _. dzero) (replicate 40 [\<lparr>lm_id = 0, lm_cx = 1, lm_cy = 2\<rparr>]) (face_operator_new True)) ! 11 =
     ''Calibrating... (12/30)''"
  using emotions_after_calibration [of "replicate 40 [\<lparr>lm_id = 0, lm_cx = 1, lm_cy = 2\<rparr>]" 11 "\<lambda>_ _. dzero"]
  by (simp add: calibrating_def) code_simp

section \<open>The most frequent emotion\<close>

lemma fold_greatest:
  fixes c :: "'a :: linorder \<Rightarrow> nat"
  assumes "sorted_wrt (<) es" and "fold (\<lambda>e (best, n). if n < c e then (e, c e) else (best, n)) es (b0, n0) = (b, n)"
  shows "b = b0 \<and> n = n0 \<and> (\<forall>e \<in> set es. c e \<le> n0) \<or>
    b \<in> set es \<and> n = c b \<and> n0 < c b \<and> (\<forall>e \<in> set es. c e < c b \<or> c e = c b \<and> b \<le> e)"
  using assms
proof (induction es arbitrary: b0 n0)
  case Nil
  then show ?case by simp
next
  case (Cons e es)
  show ?case
  proof (cases "n0 < c e")
    case True
    with Cons.IH [of e "c e"] Cons.prems show ?thesis by fastforce
  next
    case False
    with Cons.IH [of b0 n0] Cons.prems show ?thesis by fastforce
  qed
qed

text \<open>Of at least three emotions the one reported is among the last ten and occurs at least as
often there as any other, the alphabetically first of those that occur most often.\<close>

lemma reported_most_frequent:
  assumes "3 \<le> length es"
  shows "reported es \<in> set (last_ten es) \<and>
    (\<forall>e \<in> set (last_ten es). count_list (last_ten es) e \<le> count_list (last_ten es) (reported es) \<and>
       (count_list (last_ten es) e = count_list (last_ten es) (reported es) \<longrightarrow> reported es \<le> e))"
proof -
  let ?h = "last_ten es"
  have h: "3 \<le> length ?h" using assms by (simp add: length_last_ten history_size_def)
  have r: "reported es = most_common ?h" using h by (simp add: reported_def)
  obtain b n where fold: "fold (\<lambda>e (best, n). if n < count_list ?h e then (e, count_list ?h e) else (best, n))
      (sorted_list_of_set (set ?h)) ('''', 0) = (b, n)" by fastforce
  have b: "most_common ?h = b" unfolding most_common_def fold by simp
  obtain x where x: "x \<in> set ?h" using h by (cases ?h) auto
  then have "0 < count_list ?h x" by (metis count_list_0_iff gr0I)
  then show ?thesis
    using fold_greatest [OF strict_sorted_list_of_set fold] x unfolding r b by force
qed

lemma reported_most_frequent_witness:
  "reported [''normal'', ''mutlu'', ''mutlu'', ''normal''] = ''mutlu''"
proof -
  let ?es = "[''normal'', ''mutlu'', ''mutlu'', ''normal'']"
  have "reported ?es \<in> set (last_ten ?es) \<and>
    (\<forall>e \<in> set (last_ten ?es). count_list (last_ten ?es) e \<le> count_list (last_ten ?es) (reported ?es) \<and>
       (count_list (last_ten ?es) e = count_list (last_ten ?es) (reported ?es) \<longrightarrow> reported ?es \<le> e))"
    by (rule reported_most_frequent) simp
  moreover have "\<not> ''normal'' \<le> ''mutlu''" by (simp add: less_eq_char_def)
  ultimately show ?thesis by (auto simp: last_ten_def history_size_def)
qed

end
