(* ===== verification/Hand_Gesture.thy ===== *)
theory Hand_Gesture
  imports Data_Types Binary_Float
begin

text \<open>
  \<open>operators/hand_gesture_recognizing_operator.cpp\<close>: from the hands MediaPipe finds in a frame to
  landmarks in pixels, their bounding box, the fingers that are up and the name of the gesture.
  MediaPipe itself is outside: what its poller delivers for a frame is an argument. Drawing is
  not modelled.
\<close>

section \<open>State\<close>

text \<open>A hand is the list of its landmarks in coordinates relative to the frame, as \<open>float\<close>s.\<close>

type_synonym norm_hand = "(flt \<times> flt) list"

record hand_operator =
  ho_initialized :: bool
  ho_results :: "norm_hand list option"
  ho_lmsList :: "Landmark list"
  ho_bbox :: BoundingBox

text \<open>\<open>initialize\<close>, with whether MediaPipe's graph could be started, and \<open>shutdown\<close>.\<close>

definition hand_initialize :: "bool \<Rightarrow> hand_operator \<Rightarrow> bool \<times> hand_operator" where
  "hand_initialize ok h = (if ho_initialized h then (True, h) else (ok, h\<lparr>ho_initialized := ok\<rparr>))"

definition hand_shutdown :: "hand_operator \<Rightarrow> hand_operator" where
  "hand_shutdown h = h\<lparr>ho_results := None, ho_initialized := False\<rparr>"

definition tipIds :: "nat list" where
  "tipIds = [4, 8, 12, 16, 20]"

definition getHandCount :: "hand_operator \<Rightarrow> nat" where
  "getHandCount h = (case ho_results h of None \<Rightarrow> 0 | Some hands \<Rightarrow> length hands)"

text \<open>\<open>answer\<close>: the hands of the frame, or \<open>None\<close> when a MediaPipe call fails or delivers nothing.\<close>

definition findFingers :: "norm_hand list option \<Rightarrow> hand_operator \<Rightarrow> hand_operator" where
  "findFingers answer h =
     (if \<not> ho_initialized h then h
      else h\<lparr>ho_results := answer, ho_lmsList := [], ho_bbox := BoundingBox_none\<rparr>)"

section \<open>Landmarks in pixels\<close>

text \<open>\<open>static_cast<int>(lm.x * w)\<close>: a \<open>float\<close> product, truncated.\<close>

definition pixel :: "flt \<Rightarrow> int \<Rightarrow> int" where
  "pixel x w = ftrunc (fmul flt_prec x (fof_int flt_prec w))"

fun to_landmarks :: "int \<Rightarrow> int \<Rightarrow> int \<Rightarrow> norm_hand \<Rightarrow> Landmark list" where
  "to_landmarks w h i [] = []"
| "to_landmarks w h i ((x, y) # ps) =
     \<lparr>lm_id = i, lm_cx = pixel x w, lm_cy = pixel y h\<rparr> # to_landmarks w h (i + 1) ps"

definition box_of :: "Landmark list \<Rightarrow> BoundingBox" where
  "box_of ls =
     (if ls = [] then BoundingBox_none
      else BoundingBox_of (Min (lm_cx ` set ls)) (Min (lm_cy ` set ls))
             (Max (lm_cx ` set ls)) (Max (lm_cy ` set ls)))"

definition findPosition :: "int \<Rightarrow> int \<Rightarrow> nat \<Rightarrow> hand_operator \<Rightarrow> hand_operator" where
  "findPosition w height handNo h =
     (let h = h\<lparr>ho_lmsList := [], ho_bbox := BoundingBox_none\<rparr>
      in case ho_results h of
           None \<Rightarrow> h
         | Some hands \<Rightarrow>
             if length hands \<le> handNo then h
             else let ls = to_landmarks w height 0 (hands ! handNo)
                  in h\<lparr>ho_lmsList := ls, ho_bbox := box_of ls\<rparr>)"

section \<open>Fingers and gestures\<close>

text \<open>
  \<open>None\<close>: the list is not empty but has no element at an index that is read, an access the
  library leaves undefined.
\<close>

definition finger_up :: "Landmark list \<Rightarrow> nat \<Rightarrow> int" where
  "finger_up ls k =
     (let tip = tipIds ! k
      in if k = 0 then of_bool (lm_cx (ls ! tip) > lm_cx (ls ! (tip - 1)))
         else of_bool (lm_cy (ls ! tip) < lm_cy (ls ! (tip - 2))))"

definition findFingerUp :: "hand_operator \<Rightarrow> int list option" where
  "findFingerUp h =
     (if ho_lmsList h = [] then Some []
      else if length (ho_lmsList h) \<le> last tipIds then None
      else Some (map (finger_up (ho_lmsList h)) [0..<5]))"

text \<open>\<open>std::hypot\<close> is a function of the C library: a parameter, of the two differences.\<close>

definition findDistance :: "(int \<Rightarrow> int \<Rightarrow> flt) \<Rightarrow> nat \<Rightarrow> nat \<Rightarrow> hand_operator \<Rightarrow> flt" where
  "findDistance hypot p1 p2 h =
     (let ls = ho_lmsList h
      in if ls = [] \<or> length ls \<le> p1 \<or> length ls \<le> p2 then Flt 0 0
         else hypot (lm_cx (ls ! p2) - lm_cx (ls ! p1)) (lm_cy (ls ! p2) - lm_cy (ls ! p1)))"

definition detectGesture :: "(int \<Rightarrow> int \<Rightarrow> flt) \<Rightarrow> hand_operator \<Rightarrow> string option" where
  "detectGesture hypot h =
     (if ho_lmsList h = [] then Some ''No Hand''
      else map_option
        (\<lambda>fingers.
           if fingers = [] then ''No Hand''
           else if 0 \<notin> set fingers then ''Open Hand''
           else if 1 \<notin> set fingers then ''Fist''
           else if fingers = [0, 1, 0, 0, 0] then ''Pointer Finger''
           else if fingers = [0, 1, 1, 0, 0] then ''Peace Sign''
           else if fingers = [1, 0, 0, 0, 1] then ''Phone Hand''
           else if fingers = [0, 0, 0, 0, 1] then ''Pinky Finger''
           else if fingers ! 1 = 0 \<and> fingers ! 2 = 0 \<and> fingers ! 3 = 0 \<and> fingers ! 4 = 0 \<and>
                   flt_less (findDistance hypot 4 8 h) (Flt 50 0) then ''OK Sign''
           else ''Unknown Gesture'')
        (findFingerUp h))"

section \<open>The bounding box\<close>

lemma box_of_tight:
  assumes "ls \<noteq> []"
  shows "bb_valid (box_of ls)"
    and "\<forall>l \<in> set ls. bb_xmin (box_of ls) \<le> lm_cx l \<and> lm_cx l \<le> bb_xmax (box_of ls) \<and>
           bb_ymin (box_of ls) \<le> lm_cy l \<and> lm_cy l \<le> bb_ymax (box_of ls)"
    and "bb_xmin (box_of ls) \<in> lm_cx ` set ls \<and> bb_xmax (box_of ls) \<in> lm_cx ` set ls \<and>
           bb_ymin (box_of ls) \<in> lm_cy ` set ls \<and> bb_ymax (box_of ls) \<in> lm_cy ` set ls"
  using assms by (simp_all add: box_of_def BoundingBox_of_def del: image_iff)

lemma length_to_landmarks [simp]: "length (to_landmarks w h i ps) = length ps"
  by (induction w h i ps rule: to_landmarks.induct) simp_all

lemma findPosition_fields [simp]:
  "ho_results (findPosition w h k s) = ho_results s"
  "ho_initialized (findPosition w h k s) = ho_initialized s"
  by (auto simp: findPosition_def Let_def split: option.splits)

text \<open>The box of a detected hand is valid, encloses every landmark and touches one on each of
its four sides; without such a hand it is the invalid box.\<close>

lemma hand_box_tight:
  "case ho_results s of
     Some hands \<Rightarrow>
       (if k < length hands \<and> hands ! k \<noteq> []
        then let h' = findPosition w h k s; ls = ho_lmsList h'; b = ho_bbox h'
             in length ls = length (hands ! k) \<and> bb_valid b \<and>
                list_all (\<lambda>l. bb_xmin b \<le> lm_cx l \<and> lm_cx l \<le> bb_xmax b \<and>
                              bb_ymin b \<le> lm_cy l \<and> lm_cy l \<le> bb_ymax b) ls \<and>
                bb_xmin b \<in> lm_cx ` set ls \<and> bb_xmax b \<in> lm_cx ` set ls \<and>
                bb_ymin b \<in> lm_cy ` set ls \<and> bb_ymax b \<in> lm_cy ` set ls
        else ho_bbox (findPosition w h k s) = BoundingBox_none)
   | None \<Rightarrow> ho_bbox (findPosition w h k s) = BoundingBox_none"
proof (cases "ho_results s")
  case None
  then show ?thesis by (simp add: findPosition_def)
next
  case (Some hands)
  let ?ls = "to_landmarks w h 0 (hands ! k)"
  show ?thesis
  proof (cases "k < length hands \<and> hands ! k \<noteq> []")
    case True
    then have "length ?ls \<noteq> 0" by simp
    then have "?ls \<noteq> []" by (metis list.size(3))
    then show ?thesis
      using True Some box_of_tight [of ?ls] by (simp add: findPosition_def Let_def list_all_iff)
  next
    case False
    then show ?thesis
      using Some by (auto simp: findPosition_def Let_def box_of_def)
  qed
qed

section \<open>The gesture as a table\<close>

text \<open>The reference: which of thumb, index, middle, ring and little finger are up.\<close>

definition gesture_table :: "(bool list \<times> string) list" where
  "gesture_table =
     [([True, True, True, True, True], ''Open Hand''), ([False, False, False, False, False], ''Fist''),
      ([False, True, False, False, False], ''Pointer Finger''), ([False, True, True, False, False], ''Peace Sign''),
      ([True, False, False, False, True], ''Phone Hand''), ([False, False, False, False, True], ''Pinky Finger'')]"

definition named_gesture :: "bool list \<Rightarrow> bool \<Rightarrow> string" where
  "named_gesture fingers touching =
     (case map_of gesture_table fingers of
        Some name \<Rightarrow> name
      | None \<Rightarrow> if fingers = [True, False, False, False, False] \<and> touching then ''OK Sign''
                else ''Unknown Gesture'')"

lemma finger_up_bit: "finger_up ls k = of_bool (finger_up ls k = 1)"
  by (simp add: finger_up_def Let_def)

text \<open>On a hand with all its landmarks the gesture is the table's entry for the fingers that
are up; in particular the OK sign is found only when the thumb alone is up.\<close>

lemma gesture_of_fingers:
  assumes "20 < length (ho_lmsList h)"
  shows "detectGesture hypot h =
    Some (named_gesture (map (\<lambda>k. finger_up (ho_lmsList h) k = 1) [0..<5])
      (flt_less (findDistance hypot 4 8 h) (Flt 50 0)))"
proof -
  let ?f = "finger_up (ho_lmsList h)"
  have five: "[0..<5] = [0, 1, 2, 3, 4 :: nat]" by (simp add: upt_rec)
  have ne: "ho_lmsList h \<noteq> []" using assms by auto
  have "map ?f [0..<5] = map (\<lambda>k. of_bool (?f k = 1)) [0..<5]"
    by (rule map_cong [OF refl]) (rule finger_up_bit)
  then have fingers: "findFingerUp h = Some (map (\<lambda>k. of_bool (?f k = 1)) [0..<5])"
    using assms ne by (simp add: findFingerUp_def tipIds_def)
  show ?thesis
    by (cases "?f 0 = 1"; cases "?f 1 = 1"; cases "?f 2 = 1"; cases "?f 3 = 1"; cases "?f 4 = 1";
        cases "flt_less (findDistance hypot 4 8 h) (Flt 50 0)")
      (simp_all add: detectGesture_def ne fingers five named_gesture_def gesture_table_def)
qed

text \<open>A hand whose thumb and index tips touch while the other fingers are up.\<close>

definition ok_pose :: hand_operator where
  "ok_pose =
     \<lparr>ho_initialized = True, ho_results = None,
      ho_lmsList = map (\<lambda>i. \<lparr>lm_id = int i, lm_cx = 0, lm_cy = (if i \<in> {12, 16, 20} then 0 else 100)\<rparr>) [0..<21],
      ho_bbox = BoundingBox_none\<rparr>"

lemma gesture_of_fingers_witness: "detectGesture (\<lambda>_ _. Flt 0 0) ok_pose = Some ''Unknown Gesture''"
proof -
  have "map (\<lambda>k. finger_up (ho_lmsList ok_pose) k = 1) [0..<5] = [False, False, True, True, True]"
    by (simp add: upt_rec finger_up_def tipIds_def ok_pose_def)
  then show ?thesis
    using gesture_of_fingers [of ok_pose "\<lambda>_ _. Flt 0 0"] by (simp add: ok_pose_def named_gesture_def gesture_table_def)
qed

end
