(* ===== verification/Service_Threads.thy ===== *)
theory Service_Threads
  imports Service_Handlers
begin

text \<open>
  The \<open>std::thread\<close> object of a service (\<open>Service::start\<close> and \<open>Service::stop\<close> in
  \<open>services/service.cpp\<close>), which the net of services leaves out: assigning a new thread to an object
  whose thread was neither joined nor detached terminates the program. It matters for the services
  whose \<open>service_function\<close> may return by itself after clearing \<open>_running\<close>: the perception service
  and the remote connection.
\<close>

section \<open>Thread objects\<close>

text \<open>Not joinable, or joinable and whether the function still runs.\<close>

datatype thread_object = Not_joinable | Joinable bool

record 's program_state =
  pg_net :: "'s net"
  pg_thread :: "'s \<Rightarrow> thread_object"

definition program_new :: "'s program_state" where
  "program_new = \<lparr>pg_net = (\<lambda>_. service_new), pg_thread = (\<lambda>_. Not_joinable)\<rparr>"

text \<open>\<open>None\<close>: \<open>std::terminate\<close>. The flag \<open>_running\<close> is set before the assignment.\<close>

definition thread_start ::
    "('s net \<Rightarrow> bool \<times> 's net) \<Rightarrow> 's \<Rightarrow> 's program_state \<Rightarrow> (bool \<times> 's program_state) option" where
  "thread_start init self p =
     (let (ok, n) = service_start init self (pg_net p)
      in if \<not> ok then Some (False, p\<lparr>pg_net := n\<rparr>)
         else if pg_thread p self = Not_joinable
         then Some (True, p\<lparr>pg_net := n, pg_thread := (pg_thread p)(self := Joinable True)\<rparr>)
         else None)"

text \<open>
  A running service is detached when it stops itself and joined otherwise, the function returning
  once it sees \<open>_running\<close> false; a service that does not run is left as it is.
\<close>

definition thread_stop :: "'s \<Rightarrow> 's program_state \<Rightarrow> 's program_state" where
  "thread_stop self p =
     (if sc_running (pg_net p self)
      then p\<lparr>pg_net := snd (service_stop self (pg_net p)), pg_thread := (pg_thread p)(self := Not_joinable)\<rparr>
      else p)"

text \<open>The function clears \<open>_running\<close> and returns.\<close>

definition gives_up :: "'s \<Rightarrow> 's program_state \<Rightarrow> 's program_state" where
  "gives_up self p =
     p\<lparr>pg_net := (pg_net p)(self := (pg_net p self)\<lparr>sc_running := False\<rparr>),
       pg_thread := (pg_thread p)(self :=
         (case pg_thread p self of Not_joinable \<Rightarrow> Not_joinable | Joinable _ \<Rightarrow> Joinable False))\<rparr>"

section \<open>The life of all services\<close>

datatype 's life = Life_start 's bool | Life_stop 's | Life_gives_up 's

fun life_step :: "('s \<Rightarrow> 's list) \<Rightarrow> 's life \<Rightarrow> 's program_state \<Rightarrow> 's program_state option" where
  "life_step targets (Life_start s ok) p =
     map_option snd (thread_start (init_by_list targets (\<lambda>_. ok) s) s p)"
| "life_step targets (Life_stop s) p = Some (thread_stop s p)"
| "life_step targets (Life_gives_up s) p =
     (if pg_thread p s = Joinable True \<and> sc_running (pg_net p s) then Some (gives_up s p) else None)"

lemma flags_fold_subscribe [simp]:
  "sc_running (fold (subscribe_to_service self) targets n q) = sc_running (n q)"
  "sc_disabled (fold (subscribe_to_service self) targets n q) = sc_disabled (n q)"
  "sc_initialized (fold (subscribe_to_service self) targets n q) = sc_initialized (n q)"
  by (induction targets arbitrary: n) (simp_all add: subscribe_to_service_def subscribe_def Let_def)

lemmas life_defs =
  thread_start_def thread_stop_def gives_up_def service_start_def service_stop_def init_by_list_def
  Let_def case_prod_beta

text \<open>A service whose function returned by itself keeps a joinable thread object.\<close>

definition gone :: "'s \<Rightarrow> 's program_state \<Rightarrow> bool" where
  "gone self p \<longleftrightarrow>
     pg_thread p self \<noteq> Not_joinable \<and> \<not> sc_running (pg_net p self) \<and> sc_initialized (pg_net p self) \<and>
     \<not> sc_disabled (pg_net p self)"

lemma gone_start: "gone self p \<Longrightarrow> thread_start init self p = None"
  by (simp add: gone_def life_defs)

lemma gone_stop: "gone self p \<Longrightarrow> thread_stop self p = p"
  by (simp add: gone_def thread_stop_def)

interpretation gone_service: stable_condition "life_step targets" "\<lambda>a. True" "gone self" for targets self
proof
  fix p a p'
  assume "gone self p" and "life_step targets a p = Some p'"
  then show "gone self p'"
    by (cases a) (auto simp: gone_def life_defs split: if_splits)
qed

text \<open>As long as no function returns by itself, a thread object is joinable exactly while its
service runs, and no start terminates the program.\<close>

definition threads_agree :: "'s program_state \<Rightarrow> bool" where
  "threads_agree p \<longleftrightarrow> (\<forall>s. sc_running (pg_net p s) \<longleftrightarrow> pg_thread p s \<noteq> Not_joinable)"

fun orderly :: "'s life \<Rightarrow> bool" where
  "orderly (Life_gives_up _) = False"
| "orderly _ = True"

lemma thread_start_flags:
  assumes "thread_start (init_by_list targets (\<lambda>_. b) s) s p = Some (ok, p')"
  shows "sc_running (pg_net p' q) = (sc_running (pg_net p q) \<or> q = s \<and> ok)"
    and "pg_thread p' q = (if q = s \<and> ok then Joinable True else pg_thread p q)"
  using assms by (auto simp: life_defs split: if_splits)

interpretation agreeing: stable_condition "life_step targets" orderly threads_agree for targets
proof
  fix p a p'
  assume agree: "threads_agree p" and a: "orderly a" and step: "life_step targets a p = Some p'"
  show "threads_agree p'"
  proof (cases a)
    case (Life_start s b)
    with step obtain ok where "thread_start (init_by_list targets (\<lambda>_. b) s) s p = Some (ok, p')" by auto
    from thread_start_flags [OF this] agree show ?thesis
      by (auto simp: threads_agree_def)
  next
    case (Life_stop s)
    with step have "p' = thread_stop s p" by simp
    with agree show ?thesis by (auto simp: threads_agree_def thread_stop_def service_stop_def)
  next
    case (Life_gives_up s)
    with a show ?thesis by simp
  qed
qed

lemma agreeing_start: "threads_agree p \<Longrightarrow> thread_start init self p \<noteq> None"
  by (auto simp: threads_agree_def life_defs)

lemma threads_agree_new: "threads_agree program_new"
  by (simp add: threads_agree_def program_new_def service_new_def)

lemma orderly_run: "\<forall>a \<in> set as. orderly a \<Longrightarrow> threads_agree p \<Longrightarrow> run_actions (life_step targets) as p \<noteq> None"
proof (induction as arbitrary: p)
  case Nil
  show ?case by simp
next
  case (Cons a as)
  have "life_step targets a p \<noteq> None"
    using Cons.prems agreeing_start [OF Cons.prems(2)] by (cases a) auto
  then obtain p' where p': "life_step targets a p = Some p'" by blast
  then have "threads_agree p'"
    using agreeing.kept [of p a targets p'] Cons.prems by simp
  then show ?case using Cons p' by simp
qed

text \<open>C9: starting and stopping services in any order never terminates the program; but once the
function of a running service has returned by itself, every session that starts this service again
terminates it, whatever is stopped before.\<close>

theorem restart_terminates_after_giving_up:
  assumes "\<forall>a \<in> set as. orderly a"
  shows "\<exists>p. run_actions (life_step targets) as program_new = Some p \<and>
    (sc_running (pg_net p self) \<and> sc_initialized (pg_net p self) \<and> \<not> sc_disabled (pg_net p self) \<longrightarrow>
       (\<forall>bs cs ok. run_actions (life_step targets) (bs @ Life_start self ok # cs) (gives_up self p) = None))"
proof -
  obtain p where p: "run_actions (life_step targets) as program_new = Some p"
    using orderly_run [OF assms threads_agree_new] by blast
  have agree: "threads_agree p"
    using agreeing.kept_run [OF p] assms threads_agree_new by blast
  have "run_actions (life_step targets) (bs @ Life_start self ok # cs) (gives_up self p) = None"
    if r: "sc_running (pg_net p self)" "sc_initialized (pg_net p self)" "\<not> sc_disabled (pg_net p self)"
    for bs cs ok
  proof -
    have "gone self (gives_up self p)"
      using agree r by (auto simp: threads_agree_def gone_def gives_up_def split: thread_object.splits)
    then have "gone self q" if "run_actions (life_step targets) bs (gives_up self p) = Some q" for q
      using gone_service.kept_run [OF that] by blast
    then show ?thesis
      by (auto simp: run_actions_append gone_start split: bind_split)
  qed
  then show ?thesis using p by blast
qed

lemma restart_terminates_after_giving_up_witness:
  "\<exists>p. run_actions (life_step (\<lambda>_. [])) [Life_start PerceptionService True] program_new = Some p \<and>
     run_actions (life_step (\<lambda>_. [])) [Life_stop PerceptionService, Life_start PerceptionService True]
       (gives_up PerceptionService p) = None"
proof -
  let ?run = "run_actions (life_step (\<lambda>_. []))"
  obtain p where p: "?run [Life_start PerceptionService True] program_new = Some p"
    and end_: "sc_running (pg_net p PerceptionService) \<and> sc_initialized (pg_net p PerceptionService) \<and>
      \<not> sc_disabled (pg_net p PerceptionService) \<longrightarrow>
      (\<forall>bs cs ok. ?run (bs @ Life_start PerceptionService ok # cs) (gives_up PerceptionService p) = None)"
    using restart_terminates_after_giving_up [of "[Life_start PerceptionService True]" "\<lambda>_. []" PerceptionService]
    by auto
  from p have "sc_running (pg_net p PerceptionService) \<and> sc_initialized (pg_net p PerceptionService) \<and>
      \<not> sc_disabled (pg_net p PerceptionService)"
    by (auto simp: life_defs program_new_def service_new_def)
  then have "?run ([Life_stop PerceptionService] @ Life_start PerceptionService True # [])
      (gives_up PerceptionService p) = None"
    using end_ by blast
  then show ?thesis using p by (intro exI [of _ p]) simp
qed

end
