(* ===== verification/Perception.thy ===== *)
theory Perception
  imports Face_Gesture Hand_Gesture Service_Threads
begin

text \<open>
  \<open>services/perception_service.cpp\<close> and \<open>operators/video_operator.cpp\<close>: the camera loop, the
  recognition of faces and hands in the frame it holds, snapshots, and the messages that start and
  stop the service. Frames are an arbitrary type, an empty \<open>cv::Mat\<close> being \<open>None\<close>; what OpenCV and
  MediaPipe answer is an argument. \<open>_showFrame\<close> is false: drawing into the frame is not modelled.
\<close>

section \<open>The camera\<close>

text \<open>\<open>_cap\<close>: null, or whether the capture is opened. Each operation takes OpenCV's answer.\<close>

type_synonym capture = "bool option"

definition openLocked :: "bool \<Rightarrow> capture \<Rightarrow> bool \<times> capture" where
  "openLocked ok cap =
     (if cap = Some True then (True, cap) else if ok then (True, Some True) else (False, None))"

definition video_close :: "capture \<Rightarrow> capture" where
  "video_close cap = None"

definition grabFrame :: "bool \<Rightarrow> bool \<Rightarrow> capture \<Rightarrow> bool \<times> capture" where
  "grabFrame opens grabs cap = (let (ok, cap) = openLocked opens cap in (ok \<and> grabs, cap))"

definition retrieveFrame :: "'f option \<Rightarrow> capture \<Rightarrow> 'f option \<Rightarrow> bool \<times> 'f option" where
  "retrieveFrame answer cap frame =
     (if cap = Some True then (answer \<noteq> None, answer) else (False, frame))"

definition readFrame :: "bool \<Rightarrow> 'f option \<Rightarrow> capture \<Rightarrow> 'f option \<Rightarrow> bool \<times> capture \<times> 'f option" where
  "readFrame opens answer cap frame =
     (let (ok, cap) = openLocked opens cap
      in if ok then (answer \<noteq> None, cap, answer) else (False, cap, frame))"

definition video_isReady :: "capture \<Rightarrow> bool" where
  "video_isReady cap = (cap = Some True)"

section \<open>State\<close>

record 'f perception =
  pc_cap :: capture
  pc_face :: face_operator
  pc_hand :: hand_operator
  pc_aiModeEnabled :: bool
  pc_frame :: "'f option"
  pc_lastProcessTime :: int

text \<open>
  OpenCV and MediaPipe: whether the colour conversion accepts a frame (it raises on one it does
  not), the frame's width and height, the first face's landmarks and the hands of a frame.
\<close>

record 'f recognizer =
  rz_accepts :: "'f option \<Rightarrow> bool"
  rz_size :: "'f option \<Rightarrow> int \<times> int"
  rz_face :: "'f option \<Rightarrow> norm_hand"
  rz_hands :: "'f option \<Rightarrow> norm_hand list option"
  rz_hypot :: hypot

section \<open>Recognition\<close>

definition gesture_blank :: RecognizedGesture where
  "gesture_blank =
     \<lparr>rg_faceEmotion = '''', rg_faceInfo = FaceInfo_zero, rg_faceLandmarks = [], rg_handGesture = '''',
      rg_handBbox = BoundingBox_none, rg_handLandmarks = []\<rparr>"

text \<open>The loop over the hands, which keeps the last; \<open>None\<close> is an access outside a list.\<close>

fun hands_loop ::
    "hypot \<Rightarrow> int \<Rightarrow> int \<Rightarrow> nat list \<Rightarrow> hand_operator \<Rightarrow> RecognizedGesture \<Rightarrow>
     (RecognizedGesture \<times> hand_operator) option" where
  "hands_loop hypot w h [] op g = Some (g, op)"
| "hands_loop hypot w h (k # ks) op g =
     (let op = findPosition w h k op
      in Option.bind (detectGesture hypot op)
           (\<lambda>name. hands_loop hypot w h ks op
             (g\<lparr>rg_handLandmarks := ho_lmsList op, rg_handBbox := ho_bbox op, rg_handGesture := name\<rparr>)))"

text \<open>
  The face part: the operator converts the frame when it is initialised, an exception (\<open>None\<close>) when
  OpenCV does not accept it. The hand part is alike.
\<close>

definition face_part :: "'f recognizer \<Rightarrow> 'f option \<Rightarrow> face_operator \<Rightarrow> (RecognizedGesture \<times> face_operator) option" where
  "face_part R frame f =
     (if fo_initialized f \<and> \<not> rz_accepts R frame then None
      else let (w, h) = rz_size R frame;
               (ls, f1) = getFaceLandmarks (to_landmarks w h 0 (rz_face R frame)) f
           in if ls = [] then Some (gesture_blank, f1)
              else let (emotion, f2) = detectEmotion (rz_hypot R) f1
                   in Some (gesture_blank\<lparr>rg_faceLandmarks := ls, rg_faceEmotion := emotion,
                              rg_faceInfo := getFaceInfo (rz_hypot R) f2\<rparr>, f2))"

definition hand_part ::
    "'f recognizer \<Rightarrow> 'f option \<Rightarrow> hand_operator \<Rightarrow> RecognizedGesture \<Rightarrow>
     (RecognizedGesture \<times> hand_operator) option" where
  "hand_part R frame op g =
     (if ho_initialized op \<and> \<not> rz_accepts R frame then None
      else let (w, h) = rz_size R frame; op = findFingers (rz_hands R frame) op
           in hands_loop (rz_hypot R) w h [0..<getHandCount op] op g)"

definition processFrame :: "'f recognizer \<Rightarrow> 'f option \<Rightarrow> 'f perception \<Rightarrow> (message list \<times> 'f perception) option" where
  "processFrame R frame p =
     Option.bind (face_part R frame (pc_face p))
       (\<lambda>(g, f). map_option (\<lambda>(g, op). ([M_gesture g], p\<lparr>pc_face := f, pc_hand := op\<rparr>))
          (hand_part R frame (pc_hand p) g))"

section \<open>The camera loop\<close>

text \<open>Times are nanoseconds of the steady clock.\<close>

definition kProcessInterval :: int where
  "kProcessInterval = 100000000"

record 'f pass_input =
  pi_opens :: bool
  pi_grabs :: bool
  pi_now :: int
  pi_retrieved :: "'f option"

text \<open>The beginning of the service function; \<open>None\<close>: the camera cannot be opened, it gives up.\<close>

definition perception_begin :: "bool \<Rightarrow> int \<Rightarrow> 'f perception \<Rightarrow> 'f perception option" where
  "perception_begin opens now p =
     (let (ok, cap) = openLocked opens (pc_cap p)
      in if ok then Some (p\<lparr>pc_cap := cap, pc_lastProcessTime := now - kProcessInterval\<rparr>) else None)"

text \<open>One pass of the loop: what it publishes. \<open>None\<close>: an exception leaves the thread's function.\<close>

definition perception_pass :: "'f recognizer \<Rightarrow> 'f pass_input \<Rightarrow> 'f perception \<Rightarrow> (message list \<times> 'f perception) option" where
  "perception_pass R i p =
     (let (grabbed, cap) = grabFrame (pi_opens i) (pi_grabs i) (pc_cap p); p = p\<lparr>pc_cap := cap\<rparr>
      in if \<not> grabbed then Some ([], p)
         else if pi_now i - pc_lastProcessTime p < kProcessInterval then processFrame R (pc_frame p) p
         else let (ok, frame) = retrieveFrame (pi_retrieved i) cap (pc_frame p)
              in Some ([], p\<lparr>pc_lastProcessTime := pi_now i, pc_frame := frame\<rparr>))"

fun perception_passes ::
    "'f recognizer \<Rightarrow> 'f pass_input list \<Rightarrow> 'f perception \<Rightarrow> (message list \<times> 'f perception) option" where
  "perception_passes R [] p = Some ([], p)"
| "perception_passes R (i # is) p =
     Option.bind (perception_pass R i p)
       (\<lambda>(ms, p1). map_option (\<lambda>(ns, p2). (ms @ ns, p2)) (perception_passes R is p1))"

section \<open>Snapshots\<close>

text \<open>\<open>home\<close> is the environment variable, \<open>stamp\<close> the time in milliseconds, \<open>written\<close> the answer of \<open>imwrite\<close>.\<close>

definition getCameraSnapshot :: "string \<Rightarrow> nat \<Rightarrow> bool \<Rightarrow> 'f option \<Rightarrow> string" where
  "getCameraSnapshot home stamp written frame =
     (if frame = None \<or> \<not> written then ''''
      else home @ ''/.config/kufi/frame_'' @ decimal stamp @ ''.jpg'')"

section \<open>Starting, stopping, messages\<close>

definition perception_subscriptions :: "service_id list" where
  "perception_subscriptions = [RemoteConnectionService, ExpressionService]"

text \<open>
  \<open>initialize\<close> subscribes first, then opens the camera and starts the recognition graphs, in the
  order of \<open>oks\<close>; an operator that is initialised stays so.
\<close>

definition perception_initialize ::
    "bool \<Rightarrow> bool \<Rightarrow> bool \<Rightarrow> 'f perception \<Rightarrow> service_id net \<Rightarrow> (bool \<times> 'f perception) \<times> service_id net" where
  "perception_initialize opens face_ok hand_ok p n =
     (let n = fold (subscribe_to_service PerceptionService) perception_subscriptions n;
          (ok, cap) = openLocked opens (pc_cap p);
          p = p\<lparr>pc_cap := cap\<rparr>
      in if \<not> ok then ((False, p), n)
         else let (ok, f) = face_initialize face_ok (pc_face p); p = p\<lparr>pc_face := f\<rparr>
              in if \<not> ok then ((False, p), n)
                 else let (ok, h) = hand_initialize hand_ok (pc_hand p) in ((ok, p\<lparr>pc_hand := h\<rparr>), n))"

record perception_platform =
  pp_opens :: bool
  pp_face_ok :: bool
  pp_hand_ok :: bool
  pp_home :: string
  pp_stamp :: nat
  pp_written :: bool

type_synonym 'f perceiving = "'f perception \<times> service_id program_state"

text \<open>\<open>start()\<close> of this service; its own state changes only when it initialises.\<close>

definition perception_start :: "perception_platform \<Rightarrow> 'f perceiving \<Rightarrow> 'f perceiving option" where
  "perception_start P s =
     (let init = perception_initialize (pp_opens P) (pp_face_ok P) (pp_hand_ok P) (fst s);
          flags = pg_net (snd s) PerceptionService;
          initializes = (\<not> sc_disabled flags \<and> \<not> sc_running flags \<and> \<not> sc_initialized flags)
      in map_option
           (\<lambda>(_, p). (if initializes then snd (fst (init (pg_net (snd s)))) else fst s, p))
           (thread_start (\<lambda>n. (fst (fst (init n)), snd (init n))) PerceptionService (snd s)))"

definition start_unless_running :: "perception_platform \<Rightarrow> 'f perceiving \<Rightarrow> 'f perceiving option" where
  "start_unless_running P s =
     (if sc_running (pg_net (snd s) PerceptionService) then Some s else perception_start P s)"

text \<open>The messages published and the new state; \<open>None\<close>: the program is terminated.\<close>

definition perception_receive ::
    "perception_platform \<Rightarrow> message \<Rightarrow> 'f perceiving \<Rightarrow> (message list \<times> 'f perceiving) option" where
  "perception_receive P m s =
     (let t = message_type m
      in if t = Msg_AIModeOnCall
         then map_option (Pair []) (start_unless_running P ((fst s)\<lparr>pc_aiModeEnabled := True\<rparr>, snd s))
         else if t = Msg_AIModeOffCall
         then map_option (Pair []) (start_unless_running P ((fst s)\<lparr>pc_aiModeEnabled := False\<rparr>, snd s))
         else if t = Msg_StartPerceptionRequest then map_option (Pair []) (start_unless_running P s)
         else if t = Msg_StopPerceptionRequest then Some ([], (fst s, thread_stop PerceptionService (snd s)))
         else if m = M_snapshot_request
         then Some ([M_snapshot_response (Snapshot_blank\<lparr>sn_imagePath :=
                getCameraSnapshot (pp_home P) (pp_stamp P) (pp_written P) (pc_frame (fst s))\<rparr>)], s)
         else Some ([], s))"

fun perception_receives ::
    "perception_platform \<Rightarrow> message list \<Rightarrow> 'f perceiving \<Rightarrow> (message list \<times> 'f perceiving) option" where
  "perception_receives P [] s = Some ([], s)"
| "perception_receives P (m # ms) s =
     Option.bind (perception_receive P m s)
       (\<lambda>(out, s1). map_option (\<lambda>(outs, s2). (out @ outs, s2)) (perception_receives P ms s1))"

section \<open>What the loop does with a frame\<close>

fun process_repeatedly :: "'f recognizer \<Rightarrow> nat \<Rightarrow> 'f perception \<Rightarrow> (message list \<times> 'f perception) option" where
  "process_repeatedly R 0 p = Some ([], p)"
| "process_repeatedly R (Suc k) p =
     Option.bind (processFrame R (pc_frame p) p)
       (\<lambda>(ms, p1). map_option (\<lambda>(ns, p2). (ms @ ns, p2)) (process_repeatedly R k p1))"

lemma processFrame_keeps:
  assumes "processFrame R frame p = Some (ms, q)"
  shows "length ms = 1" and "pc_cap q = pc_cap p" and "pc_frame q = pc_frame p"
    and "pc_lastProcessTime q = pc_lastProcessTime p"
  using assms by (auto simp: processFrame_def bind_eq_Some_conv)

lemma grab_open [simp]: "grabFrame opens grabs (Some True) = (grabs, Some True)"
  by (simp add: grabFrame_def openLocked_def)

lemma pass_within:
  "pc_cap p = Some True \<Longrightarrow> pi_grabs i \<Longrightarrow> pi_now i - pc_lastProcessTime p < kProcessInterval \<Longrightarrow>
   perception_pass R i p = processFrame R (pc_frame p) p"
  by (cases p) (simp add: perception_pass_def)

lemma pass_due:
  "pc_cap p = Some True \<Longrightarrow> pi_grabs i \<Longrightarrow> kProcessInterval \<le> pi_now i - pc_lastProcessTime p \<Longrightarrow>
   perception_pass R i p = Some ([], p\<lparr>pc_lastProcessTime := pi_now i, pc_frame := pi_retrieved i\<rparr>)"
  by (cases p) (simp add: perception_pass_def retrieveFrame_def)

lemma passes_within:
  assumes "pc_cap p = Some True"
    and "\<forall>i \<in> set is. pi_grabs i \<and> pi_now i - pc_lastProcessTime p < kProcessInterval"
  shows "perception_passes R is p = process_repeatedly R (length is) p \<and>
    (\<forall>ms q. process_repeatedly R (length is) p = Some (ms, q) \<longrightarrow> length ms = length is \<and>
       pc_frame q = pc_frame p \<and> pc_cap q = Some True \<and> pc_lastProcessTime q = pc_lastProcessTime p)"
  using assms
proof (induction "is" arbitrary: p)
  case Nil
  then show ?case by simp
next
  case (Cons i "is")
  have first: "perception_pass R i p = processFrame R (pc_frame p) p"
    using Cons.prems by (intro pass_within) simp_all
  show ?case
  proof (cases "processFrame R (pc_frame p) p")
    case None
    then show ?thesis using first by simp
  next
    case (Some r)
    obtain ms p1 where r: "r = (ms, p1)" by (cases r)
    note kept = processFrame_keeps [OF Some [unfolded r]]
    have "perception_passes R is p1 = process_repeatedly R (length is) p1 \<and>
      (\<forall>ms q. process_repeatedly R (length is) p1 = Some (ms, q) \<longrightarrow> length ms = length is \<and>
       pc_frame q = pc_frame p1 \<and> pc_cap q = Some True \<and> pc_lastProcessTime q = pc_lastProcessTime p1)"
      using Cons.prems kept by (intro Cons.IH) simp_all
    then show ?thesis using first Some r kept by auto
  qed
qed

text \<open>Between two retrievals the frame held is processed again in every pass of the loop, one
gesture message each, and the pass that retrieves the next frame processes nothing.\<close>

lemma held_frame_processed_every_pass:
  assumes "pc_cap p = Some True"
    and "\<forall>i \<in> set is. pi_grabs i \<and> pi_now i - pc_lastProcessTime p < kProcessInterval"
    and "pi_grabs j" and "kProcessInterval \<le> pi_now j - pc_lastProcessTime p"
  shows "perception_passes R is p = process_repeatedly R (length is) p \<and>
    (\<forall>ms q. perception_passes R is p = Some (ms, q) \<longrightarrow> length ms = length is \<and> pc_frame q = pc_frame p \<and>
       perception_pass R j q = Some ([], q\<lparr>pc_lastProcessTime := pi_now j, pc_frame := pi_retrieved j\<rparr>))"
proof -
  note within = passes_within [OF assms(1,2), of R]
  moreover have "perception_pass R j q = Some ([], q\<lparr>pc_lastProcessTime := pi_now j, pc_frame := pi_retrieved j\<rparr>)"
    if "process_repeatedly R (length is) p = Some (ms, q)" for ms q
    using within that assms(3,4) by (intro pass_due) simp_all
  ultimately show ?thesis by simp
qed

text \<open>C28: an empty frame ends the program: when the camera delivers one and OpenCV does not convert
it, the next grab within the interval raises an exception nobody catches.\<close>

theorem empty_frame_terminates:
  assumes "pc_cap p = Some True" and "pi_grabs i" and "kProcessInterval \<le> pi_now i - pc_lastProcessTime p"
    and "pi_retrieved i = None" and "\<not> rz_accepts R None"
    and "fo_initialized (pc_face p) \<or> ho_initialized (pc_hand p)"
    and "pi_grabs j" and "pi_now j - pi_now i < kProcessInterval"
  shows "perception_passes R (i # j # is) p = None"
proof -
  let ?q = "p\<lparr>pc_lastProcessTime := pi_now i, pc_frame := None\<rparr>"
  have "perception_pass R i p = Some ([], ?q)"
    using pass_due [OF assms(1-3), of R] assms(4) by simp
  moreover have "perception_pass R j ?q = processFrame R None ?q"
    using pass_within [of ?q j R] assms(1,7,8) by simp
  moreover have "processFrame R None ?q = None"
    using assms(5,6)
    by (auto simp: processFrame_def face_part_def hand_part_def case_prod_beta Let_def split: bind_split)
  ultimately show ?thesis by simp
qed

section \<open>The properties at concrete inputs\<close>

definition sample_perception :: "bool \<Rightarrow> nat perception" where
  "sample_perception ok =
     \<lparr>pc_cap = Some True, pc_face = face_operator_new ok,
      pc_hand = \<lparr>ho_initialized = ok, ho_results = None, ho_lmsList = [], ho_bbox = BoundingBox_none\<rparr>,
      pc_aiModeEnabled = True, pc_frame = Some 7, pc_lastProcessTime = 0\<rparr>"

definition sample_recognizer :: "nat recognizer" where
  "sample_recognizer =
     \<lparr>rz_accepts = (\<lambda>f. f \<noteq> None), rz_size = (\<lambda>_. (640, 480)), rz_face = (\<lambda>_. []), rz_hands = (\<lambda>_. None),
      rz_hypot = (\<lambda>_ _. dzero)\<rparr>"

definition at_ms :: "int \<Rightarrow> nat option \<Rightarrow> nat pass_input" where
  "at_ms t frame = \<lparr>pi_opens = True, pi_grabs = True, pi_now = t * 1000000, pi_retrieved = frame\<rparr>"

lemma sample_process: "processFrame sample_recognizer (Some k) (sample_perception False) =
    Some ([M_gesture gesture_blank], sample_perception False)"
  by (simp add: processFrame_def sample_perception_def sample_recognizer_def face_part_def hand_part_def
      face_operator_new_def getFaceLandmarks_def findFingers_def getHandCount_def)

text \<open>A camera of thirty frames a second: one frame is processed three times before the next.\<close>

lemma held_frame_processed_every_pass_witness:
  "\<exists>q. perception_passes sample_recognizer [at_ms 33 None, at_ms 66 None, at_ms 99 None] (sample_perception False) =
     Some (replicate 3 (M_gesture gesture_blank), q) \<and> pc_frame q = Some 7"
proof -
  let ?is = "[at_ms 33 None, at_ms 66 None, at_ms 99 None]"
  have "length ?is = 3" by simp
  moreover have "perception_passes sample_recognizer ?is (sample_perception False) =
      process_repeatedly sample_recognizer (length ?is) (sample_perception False)"
    by (rule conjunct1 [OF held_frame_processed_every_pass [where j = "at_ms 132 None"]])
      (simp_all add: sample_perception_def at_ms_def kProcessInterval_def)
  ultimately have "perception_passes sample_recognizer ?is (sample_perception False) =
      process_repeatedly sample_recognizer 3 (sample_perception False)" by (simp only:)
  moreover have "pc_frame (sample_perception False) = Some 7" by (simp add: sample_perception_def)
  then have "process_repeatedly sample_recognizer 3 (sample_perception False) =
      Some (replicate 3 (M_gesture gesture_blank), sample_perception False)"
    by (simp add: numeral_3_eq_3 sample_process)
  ultimately show ?thesis by (intro exI [of _ "sample_perception False"]) (simp add: sample_perception_def)
qed

lemma empty_frame_terminates_witness:
  "perception_passes sample_recognizer [at_ms 100 None, at_ms 133 None] (sample_perception True) = None"
  using empty_frame_terminates [of "sample_perception True" "at_ms 100 None" sample_recognizer "at_ms 133 None" "[]"]
  by (simp add: sample_perception_def sample_recognizer_def at_ms_def kProcessInterval_def face_operator_new_def)

end
