(* ===== verification/Voice_Agent.thy ===== *)
theory Voice_Agent
  imports Service_Handlers
begin

text \<open>
  \<open>services/voice_agent_service.cpp\<close> and \<open>operators/UdpServerSocket.cpp\<close>: the service that answers
  the voice agent's datagrams with sensor reports and snapshot paths and passes its responses on.
  The operating system's answers are arguments, parsing and printing a document are parameters.
\<close>

section \<open>The socket\<close>

text \<open>An address is a number; \<open>us_fd\<close> is negative when the socket could not be created.\<close>

record udp_socket =
  us_fd :: int
  us_dest :: "nat option"
  us_lastClient :: "nat option"

definition udp_socket_new :: "int \<Rightarrow> udp_socket" where
  "udp_socket_new fd = \<lparr>us_fd = fd, us_dest = None, us_lastClient = None\<rparr>"

definition bindSocket :: "bool \<Rightarrow> udp_socket \<Rightarrow> bool" where
  "bindSocket binds u = (0 \<le> us_fd u \<and> binds)"

definition setDestination :: "nat \<Rightarrow> udp_socket \<Rightarrow> udp_socket" where
  "setDestination addr u = u\<lparr>us_dest := Some addr\<rparr>"

text \<open>Where a datagram goes, if anywhere.\<close>

definition udp_target :: "udp_socket \<Rightarrow> nat option" where
  "udp_target u =
     (if us_fd u < 0 then None else if us_dest u \<noteq> None then us_dest u else us_lastClient u)"

text \<open>
  \<open>receiveData\<close>: a datagram of at least one byte sets the last client, is cut to 2047 bytes by the
  buffer and at its first null byte by the conversion; the empty string otherwise.
\<close>

definition receiveData :: "(string \<times> nat) option \<Rightarrow> udp_socket \<Rightarrow> string \<times> udp_socket" where
  "receiveData answer u =
     (case answer of
        None \<Rightarrow> ('''', u)
      | Some (bytes, addr) \<Rightarrow>
          if us_fd u < 0 \<or> bytes = [] then ('''', u)
          else (takeWhile (\<lambda>c. c \<noteq> CHR 0x00) (take 2047 bytes), u\<lparr>us_lastClient := Some addr\<rparr>))"

section \<open>State\<close>

record voice_agent =
  va_udpServer :: udp_socket
  va_sensorData :: "SensorData option"
  va_cameraSnapShot :: string

datatype voice_action = Agent_publishes message | Agent_sends nat string | Agent_sleeps_ms nat

record codec =
  cc_parse :: "string \<Rightarrow> json_error + json"
  cc_dump :: "json \<Rightarrow> string"
  cc_blank :: LLMResponseData

definition agent_subscriptions :: "service_id list" where
  "agent_subscriptions = [RobotControllerService]"

definition agent_initialize :: "bool \<Rightarrow> voice_agent \<Rightarrow> service_id net \<Rightarrow> bool \<times> service_id net" where
  "agent_initialize binds v n =
     (bindSocket binds (va_udpServer v), fold (subscribe_to_service VoiceAgentService) agent_subscriptions n)"

section \<open>Datagrams\<close>

text \<open>The numbers of the message types the switch has a case for or answers with.\<close>

fun type_number :: "MessageType \<Rightarrow> int" where
  "type_number Msg_VideoFrame = 0"
| "type_number Msg_SensorData = 1"
| "type_number Msg_ControlData = 2"
| "type_number Msg_DatabaseInsertData = 3"
| "type_number Msg_LLMQuery = 4"
| "type_number Msg_RecognizedSpeech = 5"
| "type_number Msg_LLMResponse = 6"
| "type_number Msg_EngageReaction = 7"
| "type_number Msg_RecognizedGesture = 8"
| "type_number Msg_GesturePerformanceCompleted = 9"
| "type_number Msg_InteractiveChatStarted = 10"
| "type_number Msg_SensorReadRequest = 11"
| "type_number Msg_SpeakRequest = 12"
| "type_number Msg_UpdateRAGDatabaseRequest = 13"
| "type_number Msg_ClearRAGDatabaseRequest = 14"
| "type_number Msg_ShowRAGDatabaseRequest = 15"
| "type_number Msg_AIModeOnCall = 16"
| "type_number Msg_AIModeOffCall = 17"
| "type_number Msg_StopPerceptionRequest = 18"
| "type_number Msg_StartPerceptionRequest = 19"
| "type_number Msg_CameraSnapShotRequest = 20"
| "type_number Msg_CameraSnapShotResponse = 21"

definition packet_of :: "MessageType \<Rightarrow> string \<Rightarrow> json" where
  "packet_of t payload = json_object [(''type'', JInt (type_number t)), (''payload'', JString payload)]"

definition sends :: "codec \<Rightarrow> json \<Rightarrow> voice_agent \<Rightarrow> voice_action list" where
  "sends C j v =
     (case udp_target (va_udpServer v) of None \<Rightarrow> [] | Some addr \<Rightarrow> [Agent_sends addr (cc_dump C j)])"

text \<open>
  The answer to a report request. The report of a robot whose joint angles were never read
  dereferences an empty optional (\<open>None\<close>); a joint that is missing raises, which is caught and
  leaves the request unanswered.
\<close>

definition answer_report :: "codec \<Rightarrow> voice_agent \<Rightarrow> voice_action list option" where
  "answer_report C v =
     (case va_sensorData v of
        None \<Rightarrow> Some []
      | Some d \<Rightarrow>
          (case SensorData_to_json d of
             Some None \<Rightarrow> Some (sends C (packet_of Msg_SensorData '''') v)
           | Some (Some j) \<Rightarrow> Some (sends C (packet_of Msg_SensorData (cc_dump C j)) v)
           | None \<Rightarrow> if sd_currentJointAngles d = None then None else Some []))"

definition snapshot_packet :: "codec \<Rightarrow> string \<Rightarrow> json" where
  "snapshot_packet C path =
     packet_of Msg_CameraSnapShotResponse (cc_dump C (json_object [(''snapShotPath'', JString path)]))"

text \<open>
  The switch over the type's number. Every exception is caught: what was done before it stays. The
  path sent after a snapshot request is \<open>path\<close>, the field's value ten milliseconds later.
\<close>

definition dispatch_packet :: "codec \<Rightarrow> int \<Rightarrow> string \<Rightarrow> string \<Rightarrow> voice_agent \<Rightarrow> voice_action list option" where
  "dispatch_packet C t payload path v =
     (if t = type_number Msg_SensorReadRequest then answer_report C v
      else if t = type_number Msg_LLMResponse
      then (case bind_err (cc_parse C payload) (LLMResponse_of_json (cc_blank C)) of
              Inl e \<Rightarrow> Some []
            | Inr r \<Rightarrow> Some [Agent_publishes (M_llm_response r)])
      else if t = type_number Msg_CameraSnapShotRequest
      then Some ([Agent_publishes (M_bare Msg_CameraSnapShotRequest), Agent_sleeps_ms 10] @
             sends C (snapshot_packet C path) v)
      else Some [])"

definition process_received_data :: "codec \<Rightarrow> string \<Rightarrow> string \<Rightarrow> voice_agent \<Rightarrow> voice_action list option" where
  "process_received_data C data path v =
     (case cc_parse C data of
        Inl e \<Rightarrow> Some []
      | Inr packet \<Rightarrow>
          if \<not> json_contains packet ''type'' \<or> \<not> json_contains packet ''payload'' then Some []
          else (case bind_err (bind_err (json_index packet ''type'') json_get_int)
                       (\<lambda>t. bind_err (bind_err (json_index packet ''payload'') json_get_string) (\<lambda>p. Inr (t, p))) of
                  Inl e \<Rightarrow> Some []
                | Inr (t, payload) \<Rightarrow> dispatch_packet C t payload path v))"

text \<open>One pass of the service function: a datagram or a timeout, then a request for sensor values.\<close>

definition agent_pass ::
    "codec \<Rightarrow> (string \<times> nat) option \<Rightarrow> string \<Rightarrow> voice_agent \<Rightarrow> (voice_action list \<times> voice_agent) option" where
  "agent_pass C answer path v =
     (let (data, u) = receiveData answer (va_udpServer v); v = v\<lparr>va_udpServer := u\<rparr>
      in map_option (\<lambda>acts. (acts @ [Agent_publishes (M_bare Msg_SensorReadRequest)], v))
           (if data = [] then Some [] else process_received_data C data path v))"

section \<open>Messages\<close>

fun agent_receive :: "message \<Rightarrow> voice_agent \<Rightarrow> voice_agent" where
  "agent_receive (M_sensor d) v = v\<lparr>va_sensorData := Some d\<rparr>"
| "agent_receive (M_snapshot_response s) v = v\<lparr>va_cameraSnapShot := sn_imagePath s\<rparr>"
| "agent_receive _ v = v"

lemma agent_receive_keeps_path:
  "m = M_sensor d \<Longrightarrow> va_cameraSnapShot (agent_receive m v) = va_cameraSnapShot v"
  by simp

lemma agent_pass_keeps [simp]:
  "agent_pass C answer path v = Some (acts, v') \<Longrightarrow>
     va_cameraSnapShot v' = va_cameraSnapShot v \<and> va_sensorData v' = va_sensorData v"
  by (auto simp: agent_pass_def case_prod_beta Let_def)

section \<open>A language model's response comes through\<close>

text \<open>A response packed the way the agent's messages are packed, in a datagram that fits the
buffer, is published as it was, when parsing gives the two printed documents back.\<close>

lemma response_datagram_published:
  assumes "p = cc_dump C (LLMResponse_to_json r)" and "d = cc_dump C (packet_of Msg_LLMResponse p)"
    and "cc_parse C p = Inr (LLMResponse_to_json r)" and "cc_parse C d = Inr (packet_of Msg_LLMResponse p)"
    and "d \<noteq> []" and "CHR 0x00 \<notin> set d" and "length d < 2048" and "0 \<le> us_fd (va_udpServer v)"
    and "fcast flt_prec (lr_emotionSimilarity r) = lr_emotionSimilarity r"
    and "fcast flt_prec (lr_reactionSimilarity r) = lr_reactionSimilarity r"
    and "fcast flt_prec (lr_directiveSimilarity r) = lr_directiveSimilarity r"
  shows "agent_pass C (Some (d, addr)) path v =
    Some ([Agent_publishes (M_llm_response r), Agent_publishes (M_bare Msg_SensorReadRequest)],
      v\<lparr>va_udpServer := (va_udpServer v)\<lparr>us_lastClient := Some addr\<rparr>\<rparr>)"
proof -
  have d: "takeWhile (\<lambda>c. c \<noteq> CHR 0x00) (take 2047 d) = d"
    using assms(6,7) by (auto intro: takeWhile_eq_all_conv [THEN iffD2])
  have obj: "packet_of Msg_LLMResponse p = JObject [(''payload'', JString p), (''type'', JInt 6)]"
    by (simp add: packet_of_def json_object_def insort_key_def less_eq_char_def)
  have "process_received_data C d path v' = Some [Agent_publishes (M_llm_response r)]" for v'
    using assms(3,4) llm_response_reread [OF assms(9-11), of "cc_blank C"]
    by (simp add: process_received_data_def obj dispatch_packet_def)
  then show ?thesis using d assms(5,8) by (simp add: agent_pass_def receiveData_def)
qed

definition calm_response :: LLMResponseData where
  "calm_response =
     \<lparr>lr_sentence = ''hi'', lr_emotion = 0, lr_reaction = 0, lr_directive = '''', lr_endMarker = True,
      lr_emotionSimilarity = Flt 0 0, lr_reactionSimilarity = Flt 0 0, lr_directiveSimilarity = Flt 0 0\<rparr>"

definition sample_codec :: codec where
  "sample_codec =
     \<lparr>cc_parse = (\<lambda>s. if s = ''packet'' then Inr (packet_of Msg_LLMResponse ''response'')
                      else if s = ''response'' then Inr (LLMResponse_to_json calm_response) else Inl Parse_error),
      cc_dump = (\<lambda>j. if json_contains j ''payload'' then ''packet'' else ''response''),
      cc_blank = calm_response\<rparr>"

definition sample_agent :: voice_agent where
  "sample_agent = \<lparr>va_udpServer = udp_socket_new 3, va_sensorData = None, va_cameraSnapShot = ''''\<rparr>"

lemma contains_json_object:
  "distinct (map fst ms) \<Longrightarrow> json_contains (json_object ms) k \<longleftrightarrow> map_of ms k \<noteq> None"
  by (simp add: json_object_def map_of_sort_key)

lemma response_datagram_published_witness:
  "\<exists>v. agent_pass sample_codec (Some (''packet'', 9)) '''' sample_agent =
     Some ([Agent_publishes (M_llm_response calm_response), Agent_publishes (M_bare Msg_SensorReadRequest)], v)"
proof -
  have response: "cc_dump sample_codec (LLMResponse_to_json calm_response) = ''response''"
    by (simp add: sample_codec_def LLMResponse_to_json_def contains_json_object)
  have packet: "cc_dump sample_codec (packet_of Msg_LLMResponse ''response'') = ''packet''"
    by (simp add: sample_codec_def packet_of_def contains_json_object)
  have parse: "cc_parse sample_codec ''response'' = Inr (LLMResponse_to_json calm_response)"
    "cc_parse sample_codec ''packet'' = Inr (packet_of Msg_LLMResponse ''response'')"
    by (simp_all add: sample_codec_def)
  have "agent_pass sample_codec (Some (''packet'', 9)) '''' sample_agent =
     Some ([Agent_publishes (M_llm_response calm_response), Agent_publishes (M_bare Msg_SensorReadRequest)],
       sample_agent\<lparr>va_udpServer := (va_udpServer sample_agent)\<lparr>us_lastClient := Some 9\<rparr>\<rparr>)"
    by (rule response_datagram_published [OF response [symmetric] packet [symmetric] parse])
      (simp_all add: calm_response_def sample_agent_def udp_socket_new_def fcast_fround_exact)
  then show ?thesis by blast
qed

end
