(* ===== verification/Remote_Connection.thy ===== *)
theory Remote_Connection
  imports Service_Handlers
begin

text \<open>
  \<open>services/remote_connection_service.cpp\<close>: the service between a WebSocket client and the other
  services. The callbacks of the WebSocket server fill a one-slot mailbox, the service thread waits
  on a condition variable, handles the message, empties the mailbox and sends the newest camera
  frame with the newest sensor report. The thread's position is explicit. Camera frames are an
  arbitrary type; parsing a text is a parameter.
\<close>

section \<open>State\<close>

text \<open>
  Positions of the service thread: at the loop test; about to evaluate the condition of the wait;
  asleep until notified; past the wait; after a message was handled; before the frame part; ended,
  about to stop the WebSocket server.
\<close>

datatype remote_position =
    Remote_loop | Remote_wait | Remote_asleep | Remote_message | Remote_reset | Remote_frame | Remote_ended

text \<open>A connection handle is a number.\<close>

record 'f remote =
  rm_sensorData :: "SensorData option"
  rm_frame :: "'f option"
  rm_socketMessage :: "string option"
  rm_hdl :: "nat option"
  rm_position :: remote_position

text \<open>What the thread does to the outside, in order; a report that is not complete is the empty text.\<close>

datatype 'f remote_action =
    Publishes message
  | Sleeps_ms nat
  | Runs_command string
  | Sends_frame nat 'f
  | Sends_report nat "json option"

datatype 'a progress = Blocks | Terminates | Moves 'a

section \<open>Callbacks and messages\<close>

definition remote_notify :: "'f remote \<Rightarrow> 'f remote" where
  "remote_notify r = (if rm_position r = Remote_asleep then r\<lparr>rm_position := Remote_wait\<rparr> else r)"

definition handle_websocket_open :: "nat \<Rightarrow> 'f remote \<Rightarrow> 'f remote" where
  "handle_websocket_open hdl r = remote_notify (r\<lparr>rm_socketMessage := Some ''on_open'', rm_hdl := Some hdl\<rparr>)"

definition handle_websocket_close :: "nat \<Rightarrow> 'f remote \<Rightarrow> 'f remote" where
  "handle_websocket_close hdl r = remote_notify (r\<lparr>rm_socketMessage := Some ''on_close'', rm_hdl := Some hdl\<rparr>)"

definition handle_websocket_message :: "nat \<Rightarrow> string \<Rightarrow> 'f remote \<Rightarrow> 'f remote" where
  "handle_websocket_message hdl m r = remote_notify (r\<lparr>rm_socketMessage := Some m, rm_hdl := Some hdl\<rparr>)"

text \<open>A sensor report does not wake the thread, a camera frame does.\<close>

fun remote_receive :: "message \<Rightarrow> 'f remote \<Rightarrow> 'f remote" where
  "remote_receive (M_sensor d) r = r\<lparr>rm_sensorData := Some d\<rparr>"
| "remote_receive _ r = r"

definition remote_receive_frame :: "'f \<Rightarrow> 'f remote \<Rightarrow> 'f remote" where
  "remote_receive_frame frame r = remote_notify (r\<lparr>rm_frame := Some frame\<rparr>)"

section \<open>Handling a client's message\<close>

definition remote_speak :: "string \<Rightarrow> 'f remote_action" where
  "remote_speak t = Publishes (M_speak t)"

definition remote_services :: "service_id list" where
  "remote_services = [PerceptionService, RobotControllerService]"

text \<open>\<open>j[a][b]\<close> read as a string.\<close>

definition member_text :: "json \<Rightarrow> string \<Rightarrow> string \<Rightarrow> json_error + string" where
  "member_text j a b =
     bind_err (json_index j a) (\<lambda>inner. bind_err (json_index inner b) json_get_string)"

definition talkie_actions :: "string \<Rightarrow> 'f remote_action list" where
  "talkie_actions v =
     (if occurs_in ''switch ai mode on'' v
      then [Publishes (M_bare Msg_AIModeOnCall), Sleeps_ms 1000, remote_speak ''EY AY Modu aktif!'']
      else if occurs_in ''switch ai mode off'' v
      then [remote_speak ''Uzaktan kumanda modu aktif!'', Sleeps_ms 3000, Publishes (M_bare Msg_AIModeOffCall)]
      else [Publishes (M_llm_query v)])"

definition wifi_command :: "string \<Rightarrow> string \<Rightarrow> string" where
  "wifi_command ssid password =
     ''sudo nmcli device wifi connect '' @ ssid @ '' password '' @ password @ '' ifname wlan0''"

text \<open>A document that is neither an opening nor a closing; an exception of the JSON library is \<open>Inl\<close>.\<close>

definition document_actions :: "json \<Rightarrow> json_error + 'f remote_action list" where
  "document_actions j =
     (if json_contains j ''talkie''
      then bind_err (bind_err (json_index j ''talkie'') json_get_string) (\<lambda>v. Inr (talkie_actions v))
      else if json_contains j ''wifi_config''
      then bind_err (member_text j ''wifi_config'' ''SSID'') (\<lambda>ssid.
           bind_err (member_text j ''wifi_config'' ''Password'') (\<lambda>password.
             Inr [Runs_command ''sudo nmcli connection down Hotspot'', Runs_command (wifi_command ssid password)]))
      else if json_contains j ''database_insert''
      then bind_err (member_text j ''database_insert'' ''input'') (\<lambda>input.
           bind_err (member_text j ''database_insert'' ''output'') (\<lambda>output.
             Inr [Publishes (M_database_insert input output)]))
      else bind_err (ControlData_of_json j) (\<lambda>c.
             Inr [Publishes (M_control (c\<lparr>ctl_source := Some Src_remoteConnectionService\<rparr>))]))"

definition handle_message ::
    "(string \<Rightarrow> json_error + json) \<Rightarrow> string \<Rightarrow> 'f remote hosted \<Rightarrow>
     json_error + 'f remote_action list \<times> 'f remote hosted" where
  "handle_message parse m s =
     (if m = ''on_open''
      then Inr ([remote_speak ''Uzaktan kumanda modu aktif!'', Sleeps_ms 3000, Publishes (M_bare Msg_AIModeOffCall)],
                (fst s, fold (subscribe_to_service RemoteConnectionService) remote_services (snd s)))
      else if m = ''on_close''
      then Inr ([Publishes (M_bare Msg_AIModeOnCall), Sleeps_ms 1000, remote_speak ''EY AY Modu Aktif!''],
                ((fst s)\<lparr>rm_frame := None, rm_hdl := None\<rparr>,
                 fold (unsubscribe_from_service RemoteConnectionService) remote_services (snd s)))
      else bind_err (parse m) (\<lambda>j. bind_err (document_actions j) (\<lambda>acts. Inr (acts, s))))"

section \<open>The service thread\<close>

definition wait_condition :: "'f remote hosted \<Rightarrow> bool" where
  "wait_condition s \<longleftrightarrow>
     \<not> sc_running (snd s RemoteConnectionService) \<or> rm_socketMessage (fst s) \<noteq> None \<or>
     rm_frame (fst s) \<noteq> None \<or> rm_sensorData (fst s) \<noteq> None"

definition moves_to :: "remote_position \<Rightarrow> 'f remote hosted \<Rightarrow> 'f remote hosted" where
  "moves_to p s = ((fst s)\<lparr>rm_position := p\<rparr>, snd s)"

text \<open>
  One step of the thread: what it does to the outside and the state after. \<open>Terminates\<close>: an exception
  leaves the thread's function, or a joint angle that is not there is read.
\<close>

definition remote_step ::
    "(string \<Rightarrow> json_error + json) \<Rightarrow> 'f remote hosted \<Rightarrow> ('f remote_action list \<times> 'f remote hosted) progress" where
  "remote_step parse s =
     (case rm_position (fst s) of
        Remote_loop \<Rightarrow>
          Moves ([], moves_to (if sc_running (snd s RemoteConnectionService) then Remote_wait else Remote_ended) s)
      | Remote_wait \<Rightarrow>
          Moves ([], moves_to (if \<not> wait_condition s then Remote_asleep
                               else if \<not> sc_running (snd s RemoteConnectionService) then Remote_ended
                               else Remote_message) s)
      | Remote_asleep \<Rightarrow> Blocks
      | Remote_message \<Rightarrow>
          (case rm_socketMessage (fst s) of
             Some m \<Rightarrow>
               if rm_hdl (fst s) = None then Moves ([], moves_to Remote_frame s)
               else (case handle_message parse m s of
                       Inl e \<Rightarrow> Terminates
                     | Inr (acts, s1) \<Rightarrow> Moves (acts, moves_to Remote_reset s1))
           | None \<Rightarrow> Moves ([], moves_to Remote_frame s))
      | Remote_reset \<Rightarrow> Moves ([], moves_to Remote_frame ((fst s)\<lparr>rm_socketMessage := None\<rparr>, snd s))
      | Remote_frame \<Rightarrow>
          (case (rm_frame (fst s), rm_hdl (fst s)) of
             (Some frame, Some hdl) \<Rightarrow>
               (case (case rm_sensorData (fst s) of None \<Rightarrow> Some None | Some d \<Rightarrow> SensorData_to_json d) of
                  None \<Rightarrow> Terminates
                | Some report \<Rightarrow>
                    Moves ([Sends_frame hdl frame, Sends_report hdl report],
                      moves_to Remote_loop ((fst s)\<lparr>rm_frame := None, rm_sensorData := None\<rparr>, snd s)))
           | _ \<Rightarrow> Moves ([], moves_to Remote_loop s))
      | Remote_ended \<Rightarrow> Blocks)"

text \<open>Steps one after the other, their actions in order.\<close>

fun bind_progress ::
    "('a list \<times> 's) progress \<Rightarrow> ('s \<Rightarrow> ('a list \<times> 's) progress) \<Rightarrow> ('a list \<times> 's) progress" where
  "bind_progress (Moves (acts, s)) f =
     (case f s of Moves (acts', s') \<Rightarrow> Moves (acts @ acts', s') | r \<Rightarrow> r)"
| "bind_progress r f = r"

text \<open>The thread alone, \<open>k\<close> steps.\<close>

fun remote_run :: "nat \<Rightarrow> (string \<Rightarrow> json_error + json) \<Rightarrow> 'f remote hosted \<Rightarrow>
    ('f remote_action list \<times> 'f remote hosted) progress" where
  "remote_run 0 parse s = Moves ([], s)"
| "remote_run (Suc k) parse s = bind_progress (remote_step parse s) (remote_run k parse)"

lemma bind_progress_assoc:
  "bind_progress (bind_progress m f) g = bind_progress m (\<lambda>s. bind_progress (f s) g)"
proof (cases m)
  case (Moves r)
  obtain acts s where r: "r = (acts, s)" by (cases r)
  show ?thesis by (cases "f s") (auto simp: Moves r split: progress.splits)
qed simp_all

section \<open>Waiting\<close>

definition busy_cycle :: "nat \<Rightarrow> remote_position" where
  "busy_cycle k = [Remote_loop, Remote_wait, Remote_message, Remote_frame] ! (k mod 4)"

lemma run_extend:
  fixes s :: "'f remote hosted"
  shows "remote_run (Suc k) parse s = bind_progress (remote_run k parse s) (remote_step parse)"
proof (induction k arbitrary: s)
  case 0
  show ?case by (auto split: progress.splits)
next
  case (Suc k)
  have "remote_run (Suc k) parse = (\<lambda>s :: 'f remote hosted. bind_progress (remote_run k parse s) (remote_step parse))"
    by (rule ext) (rule Suc.IH)
  then have "remote_run (Suc (Suc k)) parse s =
      bind_progress (remote_step parse s) (\<lambda>s. bind_progress (remote_run k parse s) (remote_step parse))"
    by (simp only: remote_run.simps(2) [of "Suc k"])
  also have "\<dots> = bind_progress (bind_progress (remote_step parse s) (remote_run k parse)) (remote_step parse)"
    by (rule bind_progress_assoc [symmetric])
  finally show ?case by (simp only: remote_run.simps(2) [of k])
qed

lemma moves_to_stay: "rm_position (fst s) = p \<Longrightarrow> moves_to p s = s"
  by (cases s; cases "fst s") (simp add: moves_to_def)

lemma moves_to_fields [simp]:
  "rm_position (fst (moves_to p s)) = p" "snd (moves_to p s) = snd s"
  "rm_socketMessage (fst (moves_to p s)) = rm_socketMessage (fst s)"
  "rm_frame (fst (moves_to p s)) = rm_frame (fst s)" "rm_hdl (fst (moves_to p s)) = rm_hdl (fst s)"
  "rm_sensorData (fst (moves_to p s)) = rm_sensorData (fst s)"
  "moves_to q (moves_to p s) = moves_to q s"
  by (simp_all add: moves_to_def)

lemma busy_cycle_step:
  assumes "sc_running (snd s RemoteConnectionService)" and "rm_socketMessage (fst s) = None"
    and "rm_frame (fst s) = None" and "rm_sensorData (fst s) = Some d"
  shows "remote_step parse (moves_to (busy_cycle k) s) = Moves ([], moves_to (busy_cycle (Suc k)) s)"
proof -
  have "k mod 4 < 4" by simp
  then consider "k mod 4 = 0" | "k mod 4 = 1" | "k mod 4 = 2" | "k mod 4 = 3" by linarith
  then show ?thesis
    using assms
    by cases (simp_all add: busy_cycle_def mod_Suc remote_step_def wait_condition_def numeral_3_eq_3 numeral_2_eq_2)
qed

text \<open>C29: with a sensor report and no camera frame the condition of the wait holds, and nothing
takes the report away: the thread runs round its loop without ever waiting and does nothing.\<close>

theorem sensor_report_spins:
  assumes "rm_position (fst s) = Remote_loop" and "sc_running (snd s RemoteConnectionService)"
    and "rm_socketMessage (fst s) = None" and "rm_frame (fst s) = None" and "rm_sensorData (fst s) = Some d"
  shows "remote_run k parse s = Moves ([], moves_to (busy_cycle k) s)"
proof (induction k)
  case 0
  show ?case using assms(1) by (simp add: busy_cycle_def moves_to_stay)
next
  case (Suc k)
  then show ?case
    using busy_cycle_step [OF assms(2-5), of parse k] unfolding run_extend by simp
qed

text \<open>A message delivered while no camera frame is pending is the next the thread handles,
except when it arrives between the handling of another and the reset that follows, which
discards it.\<close>

lemma client_message_handled:
  assumes "sc_running (snd s RemoteConnectionService)" and "rm_frame (fst s) = None"
    and "rm_position (fst s) \<noteq> Remote_ended"
  shows "(rm_position (fst s) \<noteq> Remote_reset \<longrightarrow>
      (\<exists>k \<le> 3. remote_run k parse (handle_websocket_message h m (fst s), snd s) =
         Moves ([], moves_to Remote_message (handle_websocket_message h m (fst s), snd s)))) \<and>
    (rm_position (fst s) = Remote_reset \<longrightarrow>
      remote_run 1 parse (handle_websocket_message h m (fst s), snd s) =
         Moves ([], moves_to Remote_frame ((fst s)\<lparr>rm_socketMessage := None, rm_hdl := Some h\<rparr>, snd s)))"
proof -
  let ?s = "(handle_websocket_message h m (fst s), snd s)"
  have fields: "rm_socketMessage (fst ?s) = Some m" "rm_frame (fst ?s) = None"
    "sc_running (snd ?s RemoteConnectionService)"
    using assms by (simp_all add: handle_websocket_message_def remote_notify_def)
  have wait: "remote_step parse (moves_to Remote_wait ?s) = Moves ([], moves_to Remote_message ?s)"
    using fields by (simp add: remote_step_def wait_condition_def)
  have loop: "remote_step parse (moves_to Remote_loop ?s) = Moves ([], moves_to Remote_wait ?s)"
    using fields by (simp add: remote_step_def)
  have frame: "remote_step parse (moves_to Remote_frame ?s) = Moves ([], moves_to Remote_loop ?s)"
    using fields by (simp add: remote_step_def)
  have runs: "remote_run 0 parse (moves_to Remote_message ?s) = Moves ([], moves_to Remote_message ?s)"
    "remote_run 1 parse (moves_to Remote_wait ?s) = Moves ([], moves_to Remote_message ?s)"
    "remote_run 2 parse (moves_to Remote_loop ?s) = Moves ([], moves_to Remote_message ?s)"
    "remote_run 3 parse (moves_to Remote_frame ?s) = Moves ([], moves_to Remote_message ?s)"
    by (simp_all add: wait loop frame numeral_3_eq_3 numeral_2_eq_2)
  show ?thesis
  proof (cases "rm_position (fst s) = Remote_reset")
    case True
    then show ?thesis
      by (simp add: remote_step_def handle_websocket_message_def remote_notify_def moves_to_def)
  next
    case False
    have "rm_position (fst ?s) \<in> {Remote_message, Remote_wait, Remote_loop, Remote_frame}"
      using False assms(3) by (cases "rm_position (fst s)")
        (simp_all add: handle_websocket_message_def remote_notify_def)
    then have "\<exists>k \<le> 3. remote_run k parse (moves_to (rm_position (fst ?s)) ?s) = Moves ([], moves_to Remote_message ?s)"
      using runs by (elim insertE emptyE) (auto intro: exI [of _ 0] exI [of _ 1] exI [of _ 2] exI [of _ 3])
    then have "\<exists>k \<le> 3. remote_run k parse ?s = Moves ([], moves_to Remote_message ?s)"
      by (simp only: moves_to_stay)
    then show ?thesis using False by simp
  qed
qed

section \<open>Subscriptions\<close>

datatype 'f remote_event =
    Client_opens nat | Client_closes nat | Client_sends nat string | Report message | Camera 'f | Thread_moves

text \<open>One event at the service; \<open>None\<close> when the thread cannot move or ends the program.\<close>

fun remote_event_step ::
    "(string \<Rightarrow> json_error + json) \<Rightarrow> 'f remote_event \<Rightarrow> 'f remote hosted \<Rightarrow> 'f remote hosted option" where
  "remote_event_step parse (Client_opens h) s = Some (handle_websocket_open h (fst s), snd s)"
| "remote_event_step parse (Client_closes h) s = Some (handle_websocket_close h (fst s), snd s)"
| "remote_event_step parse (Client_sends h m) s = Some (handle_websocket_message h m (fst s), snd s)"
| "remote_event_step parse (Report m) s = Some (remote_receive m (fst s), snd s)"
| "remote_event_step parse (Camera frame) s = Some (remote_receive_frame frame (fst s), snd s)"
| "remote_event_step parse Thread_moves s = (case remote_step parse s of Moves (acts, s1) \<Rightarrow> Some s1 | _ \<Rightarrow> None)"

text \<open>The service hears either both its sources or nothing.\<close>

definition hears :: "service_id net \<Rightarrow> service_id set" where
  "hears n = {p. (RemoteConnectionService, p) \<in> subscribed n}"

definition hears_both_or_none :: "'f remote hosted \<Rightarrow> bool" where
  "hears_both_or_none s \<longleftrightarrow> net_ok (snd s) \<and> (hears (snd s) = {} \<or> hears (snd s) = set remote_services)"

lemma hears_open:
  assumes "net_ok n"
  shows "net_ok (fold (subscribe_to_service RemoteConnectionService) remote_services n)"
    and "hears (fold (subscribe_to_service RemoteConnectionService) remote_services n) = hears n \<union> set remote_services"
  using assms by (auto simp: remote_services_def hears_def net_ok_subscribe_to)

lemma hears_close:
  assumes "net_ok n"
  shows "net_ok (fold (unsubscribe_from_service RemoteConnectionService) remote_services n)"
    and "hears (fold (unsubscribe_from_service RemoteConnectionService) remote_services n) = hears n - set remote_services"
  using assms by (auto simp: remote_services_def hears_def net_ok_unsubscribe_from)

lemma handle_message_hears:
  assumes "handle_message parse m s = Inr (acts, s1)" and "hears_both_or_none s"
  shows "hears_both_or_none s1"
  using assms hears_open [of "snd s"] hears_close [of "snd s"]
  by (auto simp: handle_message_def hears_both_or_none_def bind_err_Inr_iff split: if_splits)

lemma remote_step_net:
  assumes "remote_step parse s = Moves (acts, s1)"
  shows "snd s1 = snd s \<or> (\<exists>m acts' s2. handle_message parse m s = Inr (acts', s2) \<and> snd s1 = snd s2)"
proof (cases "rm_position (fst s)")
  case Remote_message
  with assms show ?thesis
    by (cases "rm_socketMessage (fst s)"; cases "rm_hdl (fst s)")
      (auto simp: remote_step_def split: sum.splits)
next
  case Remote_frame
  with assms show ?thesis
    by (cases "rm_frame (fst s)"; cases "rm_hdl (fst s)") (auto simp: remote_step_def split: option.splits)
qed (use assms in \<open>auto simp: remote_step_def\<close>)

lemma hears_same: "snd s1 = snd s \<Longrightarrow> hears_both_or_none s1 = hears_both_or_none s"
  by (simp add: hears_both_or_none_def)

lemma remote_event_net:
  assumes "remote_event_step parse a s = Some s1"
  shows "snd s1 = snd s \<or> (\<exists>acts. remote_step parse s = Moves (acts, s1))"
proof (cases a)
  case Thread_moves
  then show ?thesis using assms by (cases "remote_step parse s") auto
qed (use assms in auto)

interpretation hearing: stable_condition "remote_event_step parse" "\<lambda>_. True" hears_both_or_none for parse
proof
  fix s a s1
  assume s: "hears_both_or_none s" and step: "remote_event_step parse a s = Some s1"
  then consider "snd s1 = snd s" | m acts' s2 where "handle_message parse m s = Inr (acts', s2)" "snd s1 = snd s2"
    using remote_event_net [OF step] remote_step_net by metis
  then show "hears_both_or_none s1"
  proof cases
    case 1
    then show ?thesis using s hears_same by blast
  next
    case 2
    then show ?thesis using handle_message_hears [OF 2(1) s] hears_same by blast
  qed
qed

text \<open>Whatever clients and services send, the service is subscribed either to both the
perception and the robot controller service or to neither, and each hears of it consistently.\<close>

lemma remote_hears_both_or_none:
  assumes "run_actions (remote_event_step parse) es (r, \<lambda>_. service_new) = Some s"
  shows "net_ok (snd s) \<and> (hears (snd s) = {} \<or> hears (snd s) = {PerceptionService, RobotControllerService})"
proof -
  have "hears_both_or_none (r, \<lambda>_. service_new)"
    by (simp add: hears_both_or_none_def net_ok_new hears_def subscribed_new)
  with hearing.kept_run [OF assms] have "hears_both_or_none s" by simp
  then show ?thesis by (simp add: hears_both_or_none_def remote_services_def)
qed

section \<open>The properties at concrete inputs\<close>

definition sample_remote :: "remote_position \<Rightarrow> SensorData option \<Rightarrow> nat remote" where
  "sample_remote p d =
     \<lparr>rm_sensorData = d, rm_frame = None, rm_socketMessage = None, rm_hdl = None, rm_position = p\<rparr>"

definition running_net :: "service_id net" where
  "running_net = (\<lambda>_. service_new)(RemoteConnectionService := service_new\<lparr>sc_running := True\<rparr>)"

definition empty_report :: SensorData where
  "empty_report =
     \<lparr>sd_compassData = None, sd_distanceData = None, sd_powerData = None, sd_currentJointAngles = None,
      sd_dcMotorState = None\<rparr>"

lemma sensor_report_spins_witness:
  "remote_run 400 (\<lambda>_. Inl Parse_error) (sample_remote Remote_loop (Some empty_report), running_net) =
     Moves ([], sample_remote Remote_loop (Some empty_report), running_net)"
proof -
  have "remote_run 400 (\<lambda>_. Inl Parse_error) (sample_remote Remote_loop (Some empty_report), running_net) =
      Moves ([], moves_to (busy_cycle 400) (sample_remote Remote_loop (Some empty_report), running_net))"
    by (rule sensor_report_spins [where d = empty_report]) (simp_all add: sample_remote_def running_net_def)
  then show ?thesis by (simp only: busy_cycle_def) (simp add: moves_to_def sample_remote_def)
qed

lemma client_message_handled_witness:
  "remote_run 1 (\<lambda>_. Inl Parse_error)
     (handle_websocket_message 3 ''hello'' (sample_remote Remote_reset None), running_net) =
   Moves ([], sample_remote Remote_frame None\<lparr>rm_hdl := Some 3\<rparr>, running_net)"
proof -
  have "remote_run 1 (\<lambda>_. Inl Parse_error)
     (handle_websocket_message 3 ''hello'' (fst (sample_remote Remote_reset None, running_net)),
      snd (sample_remote Remote_reset None, running_net)) =
   Moves ([], moves_to Remote_frame ((fst (sample_remote Remote_reset None, running_net))
      \<lparr>rm_socketMessage := None, rm_hdl := Some 3\<rparr>, snd (sample_remote Remote_reset None, running_net)))"
    by (rule mp [OF conjunct2 [OF client_message_handled]]) (simp_all add: sample_remote_def running_net_def)
  then show ?thesis by (simp add: moves_to_def sample_remote_def)
qed

lemma remote_hears_both_or_none_witness:
  "\<exists>s. run_actions (remote_event_step (\<lambda>_. Inl Parse_error)) [Client_opens 1, Thread_moves]
      (sample_remote Remote_message None, \<lambda>_. service_new) = Some s \<and>
     hears (snd s) = {PerceptionService, RobotControllerService}"
proof -
  obtain s where run: "run_actions (remote_event_step (\<lambda>_. Inl Parse_error)) [Client_opens 1, Thread_moves]
      (sample_remote Remote_message None, \<lambda>_. service_new) = Some s"
    and net: "snd s = fold (subscribe_to_service RemoteConnectionService) remote_services (\<lambda>_. service_new)"
    by (simp add: remote_step_def sample_remote_def handle_websocket_open_def remote_notify_def
        handle_message_def moves_to_def)
  have "hears (snd s) \<noteq> {}"
    using hears_open(2) [OF net_ok_new] unfolding net by (simp add: remote_services_def)
  then show ?thesis using remote_hears_both_or_none [OF run] run by blast
qed

end
