(* ===== verification/Startup.thy ===== *)
theory Startup
  imports Robot_Service Landmark_Tracker Expression Interactive_Chat Rag Perception Voice_Agent Remote_Connection
begin

text \<open>
  \<open>main.cpp\<close>: the command line and the services it starts, over the net of services and their
  thread objects; the sources each service subscribes to when it initialises; and what this
  wiring means for the snapshots the voice agent asks for.
\<close>

section \<open>The command line\<close>

record main_options =
  mn_showFrame :: bool
  mn_asService :: bool
  mn_stopAllServices :: bool
  mn_logLevel :: nat

definition default_options :: main_options where
  "default_options = \<lparr>mn_showFrame = False, mn_asService = False, mn_stopAllServices = False, mn_logLevel = 1\<rparr>"

text \<open>
  The loop over the arguments; \<open>None\<close>: the usage is printed and main returns 0. A log level is
  compared as a pointer with the literals, which an argument is never equal to, so the level stays.
\<close>

fun main_arguments :: "string list \<Rightarrow> main_options \<Rightarrow> main_options option" where
  "main_arguments [] opts = Some opts"
| "main_arguments (arg # args) opts =
     (if arg = ''--help'' then None
      else if arg = ''--stop-all-services'' then Some (opts\<lparr>mn_stopAllServices := True\<rparr>)
      else main_arguments args
        (opts\<lparr>mn_showFrame := mn_showFrame opts \<or> arg = ''--show-frame'',
              mn_asService := mn_asService opts \<or> arg = ''--as-service''\<rparr>))"

section \<open>Starting the services\<close>

text \<open>
  What each service subscribes to in \<open>initialize()\<close>; the mapping service, which does nothing else, as
  the first act of its thread.
\<close>

fun service_targets :: "service_id \<Rightarrow> service_id list" where
  "service_targets ExpressionService = expression_subscriptions"
| "service_targets PerceptionService = perception_subscriptions"
| "service_targets LandmarkTrackerService = tracker_subscriptions"
| "service_targets MappingService = [RobotControllerService]"
| "service_targets TuiService = [RobotControllerService, InteractiveChatService, PerceptionService]"
| "service_targets RobotControllerService = robot_subscriptions"
| "service_targets RemoteConnectionService = []"
| "service_targets InteractiveChatService = chat_subscriptions"
| "service_targets RagService = [TuiService, RemoteConnectionService, ExpressionService, LandmarkTrackerService]"
| "service_targets VoiceAgentService = agent_subscriptions"

definition main_services :: "service_id list" where
  "main_services =
     [ExpressionService, PerceptionService, RobotControllerService, LandmarkTrackerService, VoiceAgentService]"

text \<open>In order, until one fails; \<open>ok\<close> says which initialisations succeed.\<close>

fun start_services ::
    "(service_id \<Rightarrow> bool) \<Rightarrow> service_id list \<Rightarrow> service_id program_state \<Rightarrow> (bool \<times> service_id program_state) option" where
  "start_services ok [] p = Some (True, p)"
| "start_services ok (s # ss) p =
     Option.bind (thread_start (init_by_list service_targets ok s) s p)
       (\<lambda>(ret, p). if ret then start_services ok ss p else Some (False, p))"

datatype main_result = Main_returns nat | Main_waits

definition started_by :: "main_options \<Rightarrow> service_id list" where
  "started_by opts =
     (if mn_stopAllServices opts then [] else main_services) @ (if mn_asService opts then [] else [TuiService])"

definition main_program ::
    "string list \<Rightarrow> (service_id \<Rightarrow> bool) \<Rightarrow> (main_result \<times> service_id program_state) option" where
  "main_program args ok =
     (case main_arguments args default_options of
        None \<Rightarrow> Some (Main_returns 0, program_new)
      | Some opts \<Rightarrow>
          map_option (\<lambda>(ret, p). (if ret then Main_waits else Main_returns 1, p))
            (start_services ok (started_by opts) program_new))"

section \<open>What runs and who hears whom\<close>

text \<open>The state after the services \<open>ss\<close> were started and nothing else was done.\<close>

definition wired :: "service_id list \<Rightarrow> service_id program_state \<Rightarrow> bool" where
  "wired ss p \<longleftrightarrow>
     net_ok (pg_net p) \<and> subscribed (pg_net p) = {(s, q). s \<in> set ss \<and> q \<in> set (service_targets s)} \<and>
     (\<forall>s. (sc_running (pg_net p s) \<longleftrightarrow> s \<in> set ss) \<and> (pg_thread p s \<noteq> Not_joinable \<longleftrightarrow> s \<in> set ss) \<and>
        \<not> sc_disabled (pg_net p s) \<and> (sc_initialized (pg_net p s) \<longleftrightarrow> s \<in> set ss))"

lemma wired_new: "wired [] program_new"
  by (simp add: wired_def program_new_def net_ok_new subscribed_new) (simp add: service_new_def)

lemma subscribed_fold:
  "net_ok n \<Longrightarrow> net_ok (fold (subscribe_to_service s) qs n) \<and>
     subscribed (fold (subscribe_to_service s) qs n) = subscribed n \<union> {s} \<times> set qs"
  by (induction qs arbitrary: n) (auto simp: net_ok_subscribe_to)

lemma subscribed_flags [simp]:
  "subscribed (n(q := (n q)\<lparr>sc_initialized := b, sc_running := c\<rparr>)) = subscribed n"
  "subscribed (n(q := (n q)\<lparr>sc_initialized := b\<rparr>)) = subscribed n"
  "subscribed (n(q := (n q)\<lparr>sc_running := b\<rparr>)) = subscribed n"
  by (auto simp: subscribed_def split: if_splits)

lemma start_wired:
  assumes "wired ss p" and "s \<notin> set ss"
  shows "\<exists>p'. thread_start (init_by_list service_targets ok s) s p = Some (ok s, p') \<and>
    (ok s \<longrightarrow> wired (ss @ [s]) p') \<and> (\<forall>q. \<not> ok s \<longrightarrow> sc_running (pg_net p' q) = sc_running (pg_net p q))"
proof (cases "ok s")
  case True
  then show ?thesis
    using assms subscribed_fold [of "pg_net p" s "service_targets s"]
    by (auto simp: wired_def life_defs)
next
  case False
  then show ?thesis using assms by (simp add: wired_def life_defs)
qed

lemma start_services_wired:
  assumes "wired ss p" and "distinct (ss @ rest)"
  shows "\<exists>p'. start_services ok rest p = Some (list_all ok rest, p') \<and>
    (list_all ok rest \<longrightarrow> wired (ss @ rest) p') \<and>
    (\<forall>s. sc_running (pg_net p' s) \<longleftrightarrow> s \<in> set ss \<union> set (takeWhile ok rest))"
  using assms
proof (induction rest arbitrary: ss p)
  case Nil
  then show ?case by (simp add: wired_def)
next
  case (Cons s rest)
  then have "s \<notin> set ss" by auto
  then obtain p1 where p1: "thread_start (init_by_list service_targets ok s) s p = Some (ok s, p1)"
    "ok s \<Longrightarrow> wired (ss @ [s]) p1" "\<And>q. \<not> ok s \<Longrightarrow> sc_running (pg_net p1 q) = sc_running (pg_net p q)"
    using start_wired [OF Cons.prems(1)] by blast
  show ?case
  proof (cases "ok s")
    case True
    with Cons.IH [OF p1(2)] Cons.prems(2) show ?thesis by (simp add: p1(1))
  next
    case False
    with Cons.prems(1) p1(3) show ?thesis by (simp add: p1(1) wired_def)
  qed
qed

lemma distinct_started: "distinct (started_by opts)"
  by (simp add: started_by_def main_services_def)

text \<open>C17: main starts its services in order and waits exactly when each of them initialises: then
these run, subscribed to their sources and nothing else; otherwise it returns 1, and the services
before the first that failed are running.\<close>

theorem main_outcome:
  assumes "main_arguments args default_options = Some opts"
  shows "\<exists>p. main_program args ok =
      Some (if list_all ok (started_by opts) then Main_waits else Main_returns 1, p) \<and>
    (\<forall>s. sc_running (pg_net p s) \<longleftrightarrow> s \<in> set (takeWhile ok (started_by opts))) \<and>
    (list_all ok (started_by opts) \<longrightarrow>
       subscribed (pg_net p) = {(s, q). s \<in> set (started_by opts) \<and> q \<in> set (service_targets s)})"
proof -
  obtain p where "start_services ok (started_by opts) program_new = Some (list_all ok (started_by opts), p)"
    "list_all ok (started_by opts) \<longrightarrow> wired (started_by opts) p"
    "\<forall>s. sc_running (pg_net p s) \<longleftrightarrow> s \<in> set (takeWhile ok (started_by opts))"
    using start_services_wired [OF wired_new, of "started_by opts" ok] distinct_started by auto
  then show ?thesis using assms by (simp add: main_program_def wired_def)
qed

lemma main_outcome_witness:
  "\<exists>p. main_program [''--as-service'', ''--log-level'', ''trace''] (\<lambda>s. s \<noteq> RobotControllerService) =
     Some (Main_returns 1, p) \<and> sc_running (pg_net p PerceptionService) \<and> \<not> sc_running (pg_net p VoiceAgentService)"
proof -
  have "main_arguments [''--as-service'', ''--log-level'', ''trace''] default_options =
      Some (default_options\<lparr>mn_asService := True\<rparr>)"
    by (simp add: default_options_def)
  from main_outcome [OF this, of "\<lambda>s. s \<noteq> RobotControllerService"] show ?thesis
    by (auto simp: started_by_def main_services_def default_options_def)
qed

section \<open>The voice agent's snapshots\<close>

text \<open>
  The agent among the services: a publication, which it receives when it is subscribed, or a pass of
  its own thread, with the publications that arrive in the ten milliseconds it may wait.
\<close>

datatype agent_event =
    Published_by service_id message
  | Agent_passes "(string \<times> nat) option" "(service_id \<times> message) list"

definition agent_hears :: "service_id net \<Rightarrow> service_id \<Rightarrow> message \<Rightarrow> voice_agent \<Rightarrow> voice_agent" where
  "agent_hears n q m v =
     (if (VoiceAgentService, m) \<in> set (publish q m n) then agent_receive m v else v)"

fun agent_session ::
    "codec \<Rightarrow> service_id net \<Rightarrow> agent_event list \<Rightarrow> voice_agent \<Rightarrow> (voice_action list \<times> voice_agent) option" where
  "agent_session C n [] v = Some ([], v)"
| "agent_session C n (Published_by q m # es) v = agent_session C n es (agent_hears n q m v)"
| "agent_session C n (Agent_passes d ms # es) v =
     (let v1 = fold (\<lambda>(q, m). agent_hears n q m) ms v
      in Option.bind (agent_pass C d (va_cameraSnapShot v1) v)
           (\<lambda>(acts, v2). map_option (\<lambda>(acts', v3). (acts @ acts', v3))
              (agent_session C n es (v2\<lparr>va_sensorData := va_sensorData v1, va_cameraSnapShot := va_cameraSnapShot v1\<rparr>))))"

text \<open>The publications of an event.\<close>

fun publications :: "agent_event \<Rightarrow> (service_id \<times> message) list" where
  "publications (Published_by q m) = [(q, m)]"
| "publications (Agent_passes d ms) = ms"

text \<open>The robot controller service publishes nothing but sensor reports.\<close>

definition robot_reports_only :: "(service_id \<times> message) list \<Rightarrow> bool" where
  "robot_reports_only ps \<longleftrightarrow> (\<forall>(q, m) \<in> set ps. q = RobotControllerService \<longrightarrow> (\<exists>d. m = M_sensor d))"

text \<open>Whatever services are started and stopped, the agent hears the robot controller at most.\<close>

definition agent_wiring :: "service_id program_state \<Rightarrow> bool" where
  "agent_wiring p \<longleftrightarrow> net_ok (pg_net p) \<and>
     (\<forall>(s, q) \<in> subscribed (pg_net p). q \<in> set (service_targets s))"

lemma init_wiring:
  "net_ok n \<Longrightarrow> \<forall>(s, q) \<in> subscribed n. q \<in> set (service_targets s) \<Longrightarrow>
   net_ok (snd (init_by_list service_targets ok s n)) \<and>
   (\<forall>(s, q) \<in> subscribed (snd (init_by_list service_targets ok s n)). q \<in> set (service_targets s))"
  using subscribed_fold [of n s "service_targets s"] by (auto simp: init_by_list_def)

interpretation wiring: stable_condition "life_step service_targets" "\<lambda>_. True" agent_wiring
proof
  fix p a p'
  assume p: "agent_wiring p" and step: "life_step service_targets a p = Some p'"
  show "agent_wiring p'"
  proof (cases a)
    case (Life_start s ok)
    with step p init_wiring [of "pg_net p" "\<lambda>_. ok" s] show ?thesis
      by (auto simp: agent_wiring_def thread_start_def service_start_def case_prod_beta Let_def split: if_splits)
  next
    case (Life_stop s)
    with step have "p' = thread_stop s p" by simp
    then show ?thesis using p by (simp add: agent_wiring_def thread_stop_def service_stop_def)
  next
    case (Life_gives_up s)
    with step have "p' = gives_up s p" by (simp split: if_splits)
    then show ?thesis using p by (simp add: agent_wiring_def gives_up_def)
  qed
qed

lemma agent_wiring_new: "agent_wiring program_new"
  by (simp add: agent_wiring_def program_new_def net_ok_new subscribed_new)

lemma published_subscribed: "net_ok n \<Longrightarrow> (s, m) \<in> set (publish q m n) \<Longrightarrow> (s, q) \<in> subscribed n"
  by (auto simp: publish_def net_ok_def subscribed_def)

lemma agent_hears_path:
  assumes "agent_wiring p" and "q = RobotControllerService \<longrightarrow> (\<exists>d. m = M_sensor d)"
  shows "va_cameraSnapShot (agent_hears (pg_net p) q m v) = va_cameraSnapShot v"
proof (cases "(VoiceAgentService, m) \<in> set (publish q m (pg_net p))")
  case True
  with assms(1) have "(VoiceAgentService, q) \<in> subscribed (pg_net p)"
    using published_subscribed by (auto simp: agent_wiring_def)
  with assms(1) have "q \<in> set (service_targets VoiceAgentService)" by (auto simp: agent_wiring_def)
  then show ?thesis using assms(2) by (auto simp: agent_subscriptions_def agent_hears_def)
qed (simp add: agent_hears_def)

lemma agent_hears_all_path:
  "agent_wiring p \<Longrightarrow> robot_reports_only ms \<Longrightarrow>
   va_cameraSnapShot (fold (\<lambda>(q, m). agent_hears (pg_net p) q m) ms v) = va_cameraSnapShot v"
  by (induction ms arbitrary: v) (auto simp: robot_reports_only_def agent_hears_path)

lemma agent_session_path:
  assumes "agent_wiring p" and "robot_reports_only (concat (map publications es))"
    and "agent_session C (pg_net p) es v = Some (acts, v')"
  shows "va_cameraSnapShot v' = va_cameraSnapShot v"
  using assms(2,3)
proof (induction es arbitrary: v acts)
  case Nil
  then show ?case by simp
next
  case (Cons e es)
  have rest: "robot_reports_only (concat (map publications es))" and here: "robot_reports_only (publications e)"
    using Cons.prems(1) by (auto simp: robot_reports_only_def)
  show ?case
  proof (cases e)
    case (Published_by q m)
    then show ?thesis
      using Cons.prems(2) Cons.IH [OF rest] here agent_hears_path [OF assms(1), of q m v]
      by (simp add: robot_reports_only_def)
  next
    case (Agent_passes d ms)
    then show ?thesis
      using Cons.prems(2) Cons.IH [OF rest] here agent_hears_all_path [OF assms(1), of ms v]
      by (auto simp: bind_eq_Some_conv)
  qed
qed

text \<open>C40: however the services are started and stopped, the agent's snapshot request is delivered to
nobody who takes pictures, it would be ignored there, and the snapshot path the agent answers with
stays the one it has, the empty one at first.\<close>

theorem snapshot_path_never_changes:
  assumes "run_actions (life_step service_targets) as program_new = Some p"
    and "robot_reports_only (concat (map publications es))"
    and "agent_session C (pg_net p) es v = Some (acts, v')"
  shows "va_cameraSnapShot v' = va_cameraSnapShot v \<and>
    (PerceptionService, M_bare Msg_CameraSnapShotRequest)
       \<notin> set (publish VoiceAgentService (M_bare Msg_CameraSnapShotRequest) (pg_net p)) \<and>
    perception_receive P (M_bare Msg_CameraSnapShotRequest) s = Some ([], s)"
proof -
  have p: "agent_wiring p"
    using wiring.kept_run [OF assms(1)] agent_wiring_new by simp
  have "(PerceptionService, VoiceAgentService) \<notin> subscribed (pg_net p)"
    using p by (auto simp: agent_wiring_def perception_subscriptions_def)
  then have "(PerceptionService, M_bare Msg_CameraSnapShotRequest)
      \<notin> set (publish VoiceAgentService (M_bare Msg_CameraSnapShotRequest) (pg_net p))"
    using published_subscribed [of "pg_net p" PerceptionService] p unfolding agent_wiring_def by metis
  then show ?thesis
    using agent_session_path [OF p assms(2,3)] by (simp add: perception_receive_def)
qed

lemma snapshot_path_never_changes_witness:
  "\<exists>p acts v. run_actions (life_step service_targets) [Life_start VoiceAgentService True, Life_start PerceptionService True]
      program_new = Some p \<and>
     agent_session sample_codec (pg_net p)
       [Published_by PerceptionService (M_snapshot_response (Snapshot_blank\<lparr>sn_imagePath := ''a.jpg''\<rparr>)), Agent_passes None []]
       sample_agent = Some (acts, v) \<and> va_cameraSnapShot v = ''''"
proof -
  let ?as = "[Life_start VoiceAgentService True, Life_start PerceptionService True]"
  let ?es = "[Published_by PerceptionService (M_snapshot_response (Snapshot_blank\<lparr>sn_imagePath := ''a.jpg''\<rparr>)),
     Agent_passes None []]"
  obtain p where p: "run_actions (life_step service_targets) ?as program_new = Some p"
    using orderly_run [of ?as program_new service_targets] threads_agree_new by auto
  obtain acts v where session: "agent_session sample_codec (pg_net p) ?es sample_agent = Some (acts, v)"
    by (simp add: agent_pass_def receiveData_def)
  have "robot_reports_only (concat (map publications ?es))" by (simp add: robot_reports_only_def)
  then have "va_cameraSnapShot v = va_cameraSnapShot sample_agent"
    using snapshot_path_never_changes [OF p _ session] by blast
  then show ?thesis using p session by (auto simp: sample_agent_def)
qed

section \<open>The plot of the mapping service\<close>

text \<open>\<open>polarToCartesian\<close>, the only function of the mapping service with a body; nothing calls it.\<close>

definition polarToCartesian :: "libm \<Rightarrow> int \<Rightarrow> int \<Rightarrow> flt \<Rightarrow> int \<Rightarrow> int \<times> int" where
  "polarToCartesian L centerX centerY angle magnitude =
     (let rad = fdiv dbl_prec (fmul dbl_prec angle M_PI) (fof_int dbl_prec 180);
          along = (\<lambda>f. fmul dbl_prec (fof_int dbl_prec magnitude) (f rad))
      in (ftrunc (fadd dbl_prec (fof_int dbl_prec centerX) (along (lib_cos L))),
          ftrunc (fsub dbl_prec (fof_int dbl_prec centerY) (along (lib_sin L)))))"

end
