(* ===== verification/Tui_Commands.thy ===== *)
theory Tui_Commands
  imports Service_Handlers
begin

text \<open>
  \<open>services/tui_service.cpp\<close>: the lines typed at the console and what each does, the messages the
  service remembers, and the commands its windows send. Terminal output and the windows themselves
  are not modelled.
\<close>

section \<open>Reading a line\<close>

text \<open>\<open>std::isspace\<close> in the classic locale, and reading a decimal \<open>int\<close> the way \<open>strtol\<close> does.\<close>

definition blanks :: "char set" where
  "blanks = {CHR '' '', CHR 0x09, CHR 0x0A, CHR 0x0B, CHR 0x0C, CHR 0x0D}"

definition digits_value :: "string \<Rightarrow> int" where
  "digits_value ds = foldl (\<lambda>n c. 10 * n + (int (of_char c) - 48)) 0 ds"

text \<open>The sign and digits at the front, if there is a digit.\<close>

definition leading_int :: "string \<Rightarrow> int option" where
  "leading_int s =
     (let (neg, r) = (case s of [] \<Rightarrow> (False, []) | c # cs \<Rightarrow>
            if c = CHR ''-'' then (True, cs) else if c = CHR ''+'' then (False, cs) else (False, s));
          ds = takeWhile (\<lambda>c. of_char c \<in> {48..57 :: nat}) r
      in if ds = [] then None else Some (if neg then - digits_value ds else digits_value ds))"

definition int_range :: "int \<Rightarrow> bool" where
  "int_range i \<longleftrightarrow> - 2147483648 \<le> i \<and> i \<le> 2147483647"

text \<open>\<open>std::stoi\<close>: \<open>None\<close> when it raises, for no number or one out of range.\<close>

definition stoi :: "string \<Rightarrow> int option" where
  "stoi s =
     (case leading_int (dropWhile (\<lambda>c. c \<in> blanks) s) of
        Some i \<Rightarrow> if int_range i then Some i else None
      | None \<Rightarrow> None)"

text \<open>The blank-separated words of a line.\<close>

fun next_word :: "string \<Rightarrow> string \<times> string" where
  "next_word s =
     (let r = dropWhile (\<lambda>c. c \<in> blanks) s
      in (takeWhile (\<lambda>c. c \<notin> blanks) r, dropWhile (\<lambda>c. c \<notin> blanks) r))"

text \<open>
  \<open>iss >> angle\<close>: at the end of the line the variable keeps its uninitialised value, a text that is
  no number gives 0, a number out of range the nearest \<open>int\<close>.
\<close>

definition read_angle :: "int \<Rightarrow> string \<Rightarrow> int" where
  "read_angle uninitialised s =
     (let r = dropWhile (\<lambda>c. c \<in> blanks) s
      in if r = [] then uninitialised
         else (case leading_int r of
                 None \<Rightarrow> 0
               | Some i \<Rightarrow> max (- 2147483648) (min 2147483647 i)))"

text \<open>The text after the first occurrence of a word, and cutting characters off both ends.\<close>

fun after_word :: "string \<Rightarrow> string \<Rightarrow> string" where
  "after_word w [] = []"
| "after_word w (c # cs) = (if take (length w) (c # cs) = w then drop (length w) (c # cs) else after_word w cs)"

definition strip :: "char set \<Rightarrow> string \<Rightarrow> string" where
  "strip cs s = rev (dropWhile (\<lambda>c. c \<in> cs) (rev (dropWhile (\<lambda>c. c \<in> cs) s)))"

section \<open>Commands\<close>

datatype tui_outcome =
    Tui_nothing
  | Tui_exits
  | Tui_opens_windows
  | Tui_prints_help
  | Tui_starts "service_id list"
  | Tui_stops "service_id list"
  | Tui_prints_log string
  | Tui_prints_sensors
  | Tui_prints_gestures int
  | Tui_publishes message
  | Tui_warns
  | Tui_throws
  | Tui_undefined

text \<open>The services \<open>exit\<close> stops and \<open>startAll\<close> starts, in order, and the names \<open>start\<close> and \<open>stop\<close> look for.\<close>

definition all_services :: "service_id list" where
  "all_services =
     [RobotControllerService, RemoteConnectionService, InteractiveChatService, ExpressionService,
      PerceptionService, MappingService]"

definition service_names :: "(string \<times> service_id) list" where
  "service_names =
     [(''RobotControllerService'', RobotControllerService), (''InteractiveChatService'', InteractiveChatService),
      (''RemoteConnectionService'', RemoteConnectionService), (''PerceptionService'', PerceptionService),
      (''MappingService'', MappingService), (''ExpressionService'', ExpressionService), (''RagService'', RagService)]"

fun named_service :: "(string \<times> service_id) list \<Rightarrow> string \<Rightarrow> service_id list" where
  "named_service [] input = []"
| "named_service ((name, s) # ps) input = (if occurs_in name input then [s] else named_service ps input)"

definition joint_names :: "(string \<times> ServoMotorJoint) list" where
  "joint_names =
     [(''rightArm'', J_rightArm), (''leftArm'', J_leftArm), (''neck'', J_neck), (''headUpDown'', J_headUpDown),
      (''headLeftRight'', J_headLeftRight), (''eyeLeft'', J_eyeLeft), (''eyeRight'', J_eyeRight)]"

definition joint_command :: "ServoMotorJoint \<Rightarrow> int \<Rightarrow> message" where
  "joint_command j angle =
     M_control (ControlData_empty\<lparr>ctl_source := Some Src_tuiService, ctl_jointAngle := Some (j, u8_of_int angle)\<rparr>)"

definition set_command :: "int \<Rightarrow> string \<Rightarrow> tui_outcome" where
  "set_command uninitialised input =
     (let (command, r1) = next_word input; (joint, r2) = next_word r1; angle = read_angle uninitialised r2
      in case map_of joint_names joint of
           None \<Rightarrow> Tui_warns
         | Some j \<Rightarrow> Tui_publishes (joint_command j angle))"

definition speak_command :: "string \<Rightarrow> tui_outcome" where
  "speak_command input =
     (let t = strip {CHR '' '', CHR 0x09, CHR 0x22, CHR 0x27} (after_word ''speak'' input)
      in if t = [] then Tui_warns else Tui_publishes (M_speak t))"

definition emotion_names :: "(string \<times> EmotionType) list" where
  "emotion_names =
     [(''happy'', Em_happy), (''angry'', Em_angry), (''funny'', Em_funny), (''serious'', Em_serious),
      (''curious'', Em_curious), (''worried'', Em_worried), (''surprised'', Em_surprised), (''confident'', Em_confident)]"

definition reaction_names :: "(string \<times> ReactionType) list" where
  "reaction_names =
     [(''greeting'', Re_greeting), (''listening'', Re_listening), (''talking'', Re_talking),
      (''accepting'', Re_accepting), (''rejecting'', Re_rejecting), (''thinking'', Re_thinking), (''agreeing'', Re_agreeing)]"

text \<open>\<open>blank\<close> holds what the fields that are not set contain.\<close>

definition expression_command :: "LLMResponseData \<Rightarrow> string \<Rightarrow> tui_outcome" where
  "expression_command blank input =
     (let target = strip {CHR '' '', CHR 0x09, CHR 0x0D, CHR 0x0A, CHR 0x22, CHR 0x27} (after_word ''expression'' input);
          data = blank\<lparr>lr_endMarker := True, lr_sentence := ''Testing '' @ target\<rparr>
      in if target = [] \<or> target = ''help'' then Tui_nothing
         else if target = ''list'' then Tui_nothing
         else case map_of emotion_names target of
                Some e \<Rightarrow> Tui_publishes (M_llm_response (data\<lparr>lr_emotion := emotion_number e,
                            lr_emotionSimilarity := Flt 1 0, lr_reactionSimilarity := Flt 0 0\<rparr>))
              | None \<Rightarrow>
                  (case map_of reaction_names target of
                     Some r \<Rightarrow> Tui_publishes (M_llm_response (data\<lparr>lr_reaction := reaction_number r,
                                 lr_reactionSimilarity := Flt 1 0, lr_emotionSimilarity := Flt 0 0\<rparr>))
                   | None \<Rightarrow> Tui_warns))"

text \<open>
  One line. \<open>Tui_throws\<close>: \<open>substr\<close> or \<open>stoi\<close> raises in the thread, which ends the program;
  \<open>Tui_undefined\<close>: the range \<open>[begin + 4, end)\<close> of a line of three characters.
\<close>

definition tui_command :: "bool \<Rightarrow> int \<Rightarrow> LLMResponseData \<Rightarrow> string \<Rightarrow> tui_outcome" where
  "tui_command robot_running uninitialised blank input =
     (if input = [] then Tui_nothing
      else if input = ''exit'' then Tui_exits
      else if input = ''openTui'' then Tui_opens_windows
      else if input = ''help'' then Tui_prints_help
      else if input = ''startAll'' then Tui_starts all_services
      else if occurs_in ''start'' input then Tui_starts (named_service service_names input)
      else if occurs_in ''stop'' input then Tui_stops (named_service service_names input)
      else if occurs_in ''log'' input
      then if length input < 4 then Tui_throws else Tui_prints_log (drop 4 input)
      else if input = ''sensors'' then Tui_prints_sensors
      else if occurs_in ''gestures'' input
      then if length input < 9 then Tui_throws
           else (case stoi (drop 9 input) of None \<Rightarrow> Tui_throws | Some n \<Rightarrow> Tui_prints_gestures n)
      else if occurs_in ''llm'' input
      then if length input < 4 then Tui_undefined else Tui_publishes (M_llm_query (drop 4 input))
      else if occurs_in ''set'' input
      then if robot_running then set_command uninitialised input else Tui_warns
      else if occurs_in ''rag update'' input then Tui_publishes (M_bare Msg_UpdateRAGDatabaseRequest)
      else if occurs_in ''rag clear'' input then Tui_publishes (M_bare Msg_ClearRAGDatabaseRequest)
      else if occurs_in ''rag show'' input then Tui_publishes (M_bare Msg_ShowRAGDatabaseRequest)
      else if occurs_in ''speak'' input then speak_command input
      else if occurs_in ''expression'' input then expression_command blank input
      else Tui_nothing)"

section \<open>Messages and windows\<close>

record tui =
  tu_currentSensorData :: SensorData
  tu_recognizedGestureData :: "RecognizedGesture option"
  tu_recognizedSpeech :: string

text \<open>A language model's response is only printed.\<close>

fun tui_receive :: "message \<Rightarrow> tui \<Rightarrow> tui" where
  "tui_receive (M_sensor d) t = t\<lparr>tu_currentSensorData := d\<rparr>"
| "tui_receive (M_gesture g) t = t\<lparr>tu_recognizedGestureData := Some g\<rparr>"
| "tui_receive (M_speech s) t = t\<lparr>tu_recognizedSpeech := s\<rparr>"
| "tui_receive _ t = t"

definition tui_control_function_callback :: "ControlData \<Rightarrow> message" where
  "tui_control_function_callback c = M_control (c\<lparr>ctl_source := Some Src_tuiService\<rparr>)"

definition tui_llm_query_callback :: "string \<Rightarrow> message" where
  "tui_llm_query_callback query = M_llm_query query"

text \<open>\<open>printGestureData\<close> prints every 100 ms: how often, for a positive number of seconds.\<close>

function gesture_prints :: "int \<Rightarrow> nat" where
  "gesture_prints ms = (if 0 < ms then Suc (gesture_prints (ms - 100)) else 0)"
  by auto
termination by (relation "measure nat") auto

declare gesture_prints.simps [simp del]

section \<open>Which lines speak\<close>

text \<open>The words that are looked for before \<open>speak\<close>.\<close>

definition earlier_words :: "string list" where
  "earlier_words =
     [''start'', ''stop'', ''log'', ''gestures'', ''llm'', ''set'', ''rag update'', ''rag clear'', ''rag show'']"

lemma occurs_skip:
  assumes "take 2 w \<noteq> take 2 (c # cs)" and "2 \<le> length w"
  shows "occurs_in w (c # cs) = occurs_in w cs"
proof -
  have "take (length w) (c # cs) \<noteq> w"
  proof
    assume eq: "take (length w) (c # cs) = w"
    have "take 2 (take (length w) (c # cs)) = take 2 (c # cs)" using assms(2) by (simp add: min_def)
    with eq assms(1) show False by simp
  qed
  then show ?thesis by simp
qed

lemma occurs_after_speak:
  assumes "w \<in> set earlier_words"
  shows "occurs_in w (''speak '' @ t) = occurs_in w t"
proof -
  have starts: "take 2 w \<in> {''st'', ''lo'', ''ge'', ''ll'', ''se'', ''ra''}" "2 \<le> length w"
    using assms by (auto simp: earlier_words_def)
  have skip: "occurs_in w (c # cs) = occurs_in w cs"
    if "take 2 (c # cs) \<notin> {''st'', ''lo'', ''ge'', ''ll'', ''se'', ''ra''}" for c cs
    using starts that by (intro occurs_skip) auto
  show ?thesis by (simp add: skip del: occurs_in.simps)
qed

lemma strip_empty: "strip cs s = [] \<longleftrightarrow> set s \<subseteq> cs"
proof -
  have "strip cs s = [] \<longleftrightarrow> (\<forall>c \<in> set (dropWhile (\<lambda>c. c \<in> cs) s). c \<in> cs)"
    by (simp add: strip_def)
  also have "\<dots> \<longleftrightarrow> (\<forall>c \<in> set s. c \<in> cs)"
    by (induction s) auto
  finally show ?thesis by blast
qed

lemma speak_after: "after_word ''speak'' (''speak '' @ t) = CHR '' '' # t"
  by simp

definition whole_lines :: "string list" where
  "whole_lines = [[], ''exit'', ''openTui'', ''help'', ''startAll'', ''sensors'']"

lemma set_command_silent: "set_command u l \<noteq> Tui_publishes (M_speak x)"
  by (simp add: set_command_def joint_command_def case_prod_beta Let_def split: option.splits)

lemma other_command:
  assumes "w \<in> set earlier_words" and "occurs_in w l"
  shows "tui_command running u blank l \<noteq> Tui_publishes (M_speak x)"
  using assms set_command_silent
  by (auto simp: tui_command_def earlier_words_def split: option.splits)

lemma speak_reached:
  assumes "\<forall>w \<in> set earlier_words. \<not> occurs_in w l" and "occurs_in ''speak'' l" and "l \<notin> set whole_lines"
  shows "tui_command running u blank l = speak_command l"
  using assms by (simp add: tui_command_def earlier_words_def whole_lines_def)

lemma speak_command_speaks:
  "(\<exists>x. speak_command (''speak '' @ t) = Tui_publishes (M_speak x)) \<longleftrightarrow>
     \<not> set t \<subseteq> {CHR '' '', CHR 0x09, CHR 0x22, CHR 0x27}"
  using strip_empty [of "{CHR '' '', CHR 0x09, CHR 0x22, CHR 0x27}" "CHR '' '' # t"]
  unfolding speak_command_def speak_after Let_def by simp

text \<open>A line that says speak followed by a text speaks the text, without the blanks and quotes around it,
exactly when none of nine other command words occurs anywhere in the text and something is left
of it; otherwise the text is taken for another command, or refused.\<close>

lemma speak_line_spoken:
  "(\<exists>x. tui_command running u blank (''speak '' @ t) = Tui_publishes (M_speak x)) \<longleftrightarrow>
     list_all (\<lambda>w. \<not> occurs_in w t) earlier_words \<and> \<not> set t \<subseteq> {CHR '' '', CHR 0x09, CHR 0x22, CHR 0x27}"
proof (cases "list_all (\<lambda>w. \<not> occurs_in w t) earlier_words")
  case False
  then obtain w where "w \<in> set earlier_words" "occurs_in w (''speak '' @ t)"
    using occurs_after_speak by (auto simp: list_all_iff)
  then show ?thesis using False other_command by blast
next
  case True
  then have "\<forall>w \<in> set earlier_words. \<not> occurs_in w (''speak '' @ t)"
    using occurs_after_speak by (auto simp: list_all_iff)
  moreover have "occurs_in ''speak'' (''speak '' @ t)" "''speak '' @ t \<notin> set whole_lines"
    by (simp_all add: whole_lines_def)
  ultimately have "tui_command running u blank (''speak '' @ t) = speak_command (''speak '' @ t)"
    by (rule speak_reached)
  then show ?thesis using True speak_command_speaks by presburger
qed

end
