(* ===== verification/Graph_Window.thy ===== *)
theory Graph_Window
  imports World
begin

text \<open>
  \<open>tui/graph_window.cpp\<close> and \<open>tui/compass_rt_graph_window.cpp\<close>: the points a graph keeps, the map
  from coordinates to character cells, the axes and scales it draws, the line between two points
  and the direction line of the compass. What a method prints is the list of cells it writes, in
  order; a loop that never ends, a conversion to \<open>int\<close> without a meaning or an overflow is \<open>None\<close>.
  Colours and the terminal itself are not modelled.
\<close>

section \<open>State\<close>

type_synonym cell = "int \<times> int"

datatype glyph = Gl_circle | Gl_blank | Gl_horizontal | Gl_vertical | Gl_number int

type_synonym writes = "(cell \<times> glyph) list"

record graph =
  gw_points :: "(flt \<times> flt) list"
  gw_lastLinePoints :: "cell list"
  gw_xMin :: flt
  gw_xMax :: flt
  gw_yMin :: flt
  gw_yMax :: flt

definition maxPoints :: nat where
  "maxPoints = 40"

definition graph_new :: "flt \<Rightarrow> flt \<Rightarrow> flt \<Rightarrow> flt \<Rightarrow> graph" where
  "graph_new x0 x1 y0 y1 =
     \<lparr>gw_points = [], gw_lastLinePoints = [], gw_xMin = x0, gw_xMax = x1, gw_yMin = y0, gw_yMax = y1\<rparr>"

definition add_point :: "flt \<Rightarrow> flt \<Rightarrow> graph \<Rightarrow> graph" where
  "add_point x y g =
     g\<lparr>gw_points := (if maxPoints \<le> length (gw_points g) then tl (gw_points g) else gw_points g) @ [(x, y)]\<rparr>"

text \<open>
  The next abscissa is a static variable of the method: one for all graphs, set to the left end of
  the first graph that uses it (\<open>None\<close> before that).
\<close>

definition add_realtime_point :: "flt \<Rightarrow> flt \<Rightarrow> flt option \<Rightarrow> graph \<Rightarrow> flt option \<times> graph" where
  "add_realtime_point val interval next g =
     (let x = (case next of None \<Rightarrow> gw_xMin g | Some x \<Rightarrow> x);
          x' = fadd dbl_prec x interval
      in (Some (if flt_less (gw_xMax g) x' then gw_xMin g else x'), add_point x val g))"

text \<open>
  Values of \<open>int\<close>: \<open>None\<close> for a result out of range, in arithmetic or in the conversion of a
  \<open>double\<close>, which the language leaves undefined.
\<close>

definition as_int :: "int \<Rightarrow> int option" where
  "as_int i = (if - (2 ^ 31) \<le> i \<and> i < 2 ^ 31 then Some i else None)"

definition to_int :: "flt \<Rightarrow> int option" where
  "to_int a = as_int (ftrunc a)"

text \<open>
  \<open>width\<close> and \<open>height\<close> are those of the window at the moment. With equal limits the quotient is
  infinite or no number, and its conversion undefined.
\<close>

definition transform_to_screen :: "int \<Rightarrow> int \<Rightarrow> graph \<Rightarrow> flt \<Rightarrow> flt \<Rightarrow> cell option" where
  "transform_to_screen width height g x y =
     (let xSpan = fsub dbl_prec (gw_xMax g) (gw_xMin g);
          ySpan = fsub dbl_prec (gw_yMax g) (gw_yMin g)
      in if fmant xSpan = 0 \<or> fmant ySpan = 0 then None
         else Option.bind (to_int (fmul dbl_prec (fdiv dbl_prec (fsub dbl_prec x (gw_xMin g)) xSpan)
                                     (fof_int dbl_prec (width - 1)))) (\<lambda>screenX.
              Option.bind (to_int (fsub dbl_prec (fof_int dbl_prec (height - 1))
                                     (fmul dbl_prec (fdiv dbl_prec (fsub dbl_prec y (gw_yMin g)) ySpan)
                                        (fof_int dbl_prec (height - 1))))) (\<lambda>screenY.
              Some (screenX, screenY))))"

section \<open>Axes, scales and points\<close>

text \<open>\<open>for (double x = first; x <= stop; x += step)\<close>.\<close>

partial_function (option) scale_from :: "flt \<Rightarrow> flt \<Rightarrow> flt \<Rightarrow> flt list option" where
  "scale_from x stop step =
     (if flt_less stop x then Some []
      else Option.bind (scale_from (fadd dbl_prec x step) stop step) (\<lambda>xs. Some (x # xs)))"

definition scale_step :: "flt \<Rightarrow> flt \<Rightarrow> int option" where
  "scale_step first stop = to_int (fdiv dbl_prec (fsub dbl_prec stop first) (fof_int dbl_prec 10))"

definition scale :: "flt \<Rightarrow> flt \<Rightarrow> flt list option" where
  "scale first stop = Option.bind (scale_step first stop) (\<lambda>step. scale_from first stop (fof_int dbl_prec step))"

text \<open>A number or a point written at the cell of its coordinates.\<close>

definition label_at :: "cell option \<Rightarrow> flt \<Rightarrow> (cell \<times> glyph) option" where
  "label_at place v = Option.bind place (\<lambda>c. map_option (\<lambda>n. (c, Gl_number n)) (to_int v))"

definition draw :: "int \<Rightarrow> int \<Rightarrow> graph \<Rightarrow> writes option" where
  "draw width height g =
     (let cell_of = transform_to_screen width height g
      in Option.bind (cell_of (Flt 0 0) (Flt 0 0)) (\<lambda>(zeroX, zeroY).
         Option.bind (scale (gw_xMin g) (gw_xMax g)) (\<lambda>xs.
         Option.bind (those (map (\<lambda>x. label_at (cell_of x (Flt 0 0)) x) xs)) (\<lambda>xLabels.
         Option.bind (scale (gw_yMin g) (gw_yMax g)) (\<lambda>ys.
         Option.bind (those (map (\<lambda>y. label_at (cell_of (Flt 0 0) y) y) ys)) (\<lambda>yLabels.
         Option.bind (those (map (\<lambda>(x, y). cell_of x y) (gw_points g))) (\<lambda>cells.
           Some (map (\<lambda>x. ((x, zeroY), Gl_horizontal)) [0..width - 1]
               @ map (\<lambda>y. ((zeroX, y), Gl_vertical)) [0..height - 1]
               @ xLabels @ yLabels
               @ map (\<lambda>c. (c, Gl_circle)) cells))))))))"

section \<open>The line between two points\<close>

text \<open>
  The loop of \<open>draw_line\<close>: \<open>ex, ey\<close> is the last cell, \<open>dx, dy\<close> the distances, \<open>sx, sy\<close> the
  directions, \<open>err\<close> the error term. It ends only in the last cell.
\<close>

partial_function (option) line_loop ::
    "int \<Rightarrow> int \<Rightarrow> int \<Rightarrow> int \<Rightarrow> int \<Rightarrow> int \<Rightarrow> int \<Rightarrow> int \<Rightarrow> int \<Rightarrow> cell list option" where
  "line_loop ex ey dx dy sx sy err x y =
     (if x = ex \<and> y = ey then Some [(x, y)]
      else Option.bind (as_int (2 * err)) (\<lambda>e2.
           Option.bind (if e2 > - dy then as_int (err - dy) else Some err) (\<lambda>err1.
           Option.bind (if e2 > - dy then as_int (x + sx) else Some x) (\<lambda>x1.
           Option.bind (if e2 < dx then as_int (err1 + dx) else Some err1) (\<lambda>err2.
           Option.bind (if e2 < dx then as_int (y + sy) else Some y) (\<lambda>y1.
           Option.bind (line_loop ex ey dx dy sx sy err2 x1 y1) (\<lambda>cs. Some ((x, y) # cs))))))))"

definition distance_between :: "int \<Rightarrow> int \<Rightarrow> int option" where
  "distance_between a b = Option.bind (as_int (b - a)) (\<lambda>d. as_int \<bar>d\<bar>)"

definition line_cells :: "cell \<Rightarrow> cell \<Rightarrow> cell list option" where
  "line_cells start finish =
     (let (x0, y0) = start; (x1, y1) = finish
      in Option.bind (distance_between x0 x1) (\<lambda>dx.
         Option.bind (distance_between y0 y1) (\<lambda>dy.
         let sx = (if x0 < x1 then 1 else -1);
             sy = (if y0 < y1 then 1 else -1)
         in Option.bind (as_int (dx - dy)) (\<lambda>err. line_loop x1 y1 dx dy sx sy err x0 y0))))"

definition draw_line :: "int \<Rightarrow> int \<Rightarrow> graph \<Rightarrow> flt \<Rightarrow> flt \<Rightarrow> flt \<Rightarrow> flt \<Rightarrow> writes option" where
  "draw_line width height g x1 y1 x2 y2 =
     Option.bind (transform_to_screen width height g x1 y1) (\<lambda>start.
     Option.bind (transform_to_screen width height g x2 y2) (\<lambda>finish.
     map_option (map (\<lambda>c. (c, Gl_circle))) (line_cells start finish)))"

section \<open>The direction line\<close>

text \<open>
  One cell per row. The slope of a line inside one row is zero and the column is \<open>0.0 / 0.0\<close>,
  which no \<open>int\<close> represents: \<open>None\<close>. The differences of cells and the columns, which lie between those
  of the ends, are computed without bound.
\<close>

definition row_cell :: "int \<Rightarrow> flt \<Rightarrow> flt \<Rightarrow> int \<Rightarrow> cell list" where
  "row_cell width slope intercept y =
     (let x = ftrunc (fdiv dbl_prec (fsub dbl_prec (fof_int dbl_prec y) intercept) slope)
      in if 0 \<le> x \<and> x < width then [(x, y)] else [])"

definition direction_cells :: "int \<Rightarrow> cell \<Rightarrow> cell \<Rightarrow> cell list option" where
  "direction_cells width start finish =
     (let (x0, y0) = start; (x1, y1) = finish; rows = [min y0 y1..max y0 y1]
      in if x0 = x1 then Some (map (\<lambda>y. (x0, y)) rows)
         else if y0 = y1 then None
         else let slope = fdiv dbl_prec (fof_int dbl_prec (y1 - y0)) (fof_int dbl_prec (x1 - x0));
                  intercept = fsub dbl_prec (fof_int dbl_prec y0) (fmul dbl_prec slope (fof_int dbl_prec x0))
              in Some (concat (map (row_cell width slope intercept) rows)))"

definition draw_direction ::
    "libm \<Rightarrow> int \<Rightarrow> int \<Rightarrow> flt \<Rightarrow> flt \<Rightarrow> bool \<Rightarrow> graph \<Rightarrow> (writes \<times> graph) option" where
  "draw_direction L width height angle magnitude overWritePrevious g =
     (let erased = (if overWritePrevious then map (\<lambda>c. (c, Gl_blank)) (gw_lastLinePoints g) else []);
          radians = fmul dbl_prec angle (fdiv dbl_prec M_PI (fof_int dbl_prec 180));
          xEnd = fmul dbl_prec magnitude (lib_cos L radians);
          yEnd = fmul dbl_prec magnitude (lib_sin L radians)
      in Option.bind (transform_to_screen width height g (Flt 0 0) (Flt 0 0)) (\<lambda>start.
         Option.bind (transform_to_screen width height g xEnd yEnd) (\<lambda>finish.
         map_option (\<lambda>cs. (erased @ map (\<lambda>c. (c, Gl_circle)) cs, g\<lparr>gw_lastLinePoints := cs\<rparr>))
           (direction_cells width start finish))))"

definition update_compas_direction_callback ::
    "libm \<Rightarrow> int \<Rightarrow> int \<Rightarrow> int \<Rightarrow> graph \<Rightarrow> (writes \<times> graph) option" where
  "update_compas_direction_callback L width height angle =
     draw_direction L width height (fof_int dbl_prec angle) (fof_int dbl_prec 80) True"

section \<open>The line is drawn\<close>

text \<open>The loop over integers without bound, which the one of the code agrees with in range.\<close>

partial_function (option) ideal_loop ::
    "int \<Rightarrow> int \<Rightarrow> int \<Rightarrow> int \<Rightarrow> int \<Rightarrow> int \<Rightarrow> int \<Rightarrow> int \<Rightarrow> int \<Rightarrow> cell list option" where
  "ideal_loop ex ey dx dy sx sy err x y =
     (if x = ex \<and> y = ey then Some [(x, y)]
      else let e2 = 2 * err;
               err1 = (if e2 > - dy then err - dy else err);
               x1 = (if e2 > - dy then x + sx else x);
               err2 = (if e2 < dx then err1 + dx else err1);
               y1 = (if e2 < dx then y + sy else y)
           in Option.bind (ideal_loop ex ey dx dy sx sy err2 x1 y1) (\<lambda>cs. Some ((x, y) # cs)))"

text \<open>Neighbouring cells, and the distance of a cell from the ideal line, scaled by the line's extent.\<close>

definition neighbours :: "cell \<Rightarrow> cell \<Rightarrow> bool" where
  "neighbours a b \<longleftrightarrow> a \<noteq> b \<and> \<bar>fst a - fst b\<bar> \<le> 1 \<and> \<bar>snd a - snd b\<bar> \<le> 1"

definition deviation :: "cell \<Rightarrow> cell \<Rightarrow> cell \<Rightarrow> int" where
  "deviation a b c = \<bar>(fst c - fst a) * (snd b - snd a) - (snd c - snd a) * (fst b - fst a)\<bar>"

definition extent :: "cell \<Rightarrow> cell \<Rightarrow> int" where
  "extent a b = max \<bar>fst b - fst a\<bar> \<bar>snd b - snd a\<bar>"

text \<open>The rectangle with \<open>a\<close> and \<open>b\<close> at its corners.\<close>

definition in_box :: "cell \<Rightarrow> cell \<Rightarrow> cell \<Rightarrow> bool" where
  "in_box a b c \<longleftrightarrow> min (fst a) (fst b) \<le> fst c \<and> fst c \<le> max (fst a) (fst b) \<and>
     min (snd a) (snd b) \<le> snd c \<and> snd c \<le> max (snd a) (snd b)"

text \<open>What a list of cells must be to be the line from \<open>a\<close> to \<open>b\<close>, seen from its cell \<open>c\<close> on.\<close>

definition rest_of_line :: "cell \<Rightarrow> cell \<Rightarrow> cell \<Rightarrow> nat \<Rightarrow> cell list \<Rightarrow> bool" where
  "rest_of_line a b c n cs \<longleftrightarrow>
     cs \<noteq> [] \<and> hd cs = c \<and> last cs = b \<and> length cs = n + 1 \<and> successively neighbours cs \<and>
     list_all (\<lambda>c. 2 * deviation a b c \<le> extent a b) cs \<and> list_all (in_box a b) cs"

lemma rest_of_line_end: "2 * deviation a b b \<le> extent a b \<Longrightarrow> rest_of_line a b b 0 [b]"
  by (simp add: rest_of_line_def in_box_def)

lemma rest_of_line_step:
  assumes "rest_of_line a b c n cs" and "neighbours c' c" and "2 * deviation a b c' \<le> extent a b"
    and "in_box a b c'"
  shows "rest_of_line a b c' (Suc n) (c' # cs)"
  using assms by (cases cs) (auto simp: rest_of_line_def)

text \<open>After \<open>i\<close> columns and \<open>j\<close> rows of a flat line, \<open>j\<close> is \<open>i * dy / dx\<close> rounded.\<close>

definition on_track :: "int \<Rightarrow> int \<Rightarrow> int \<Rightarrow> int \<Rightarrow> bool" where
  "on_track dx dy i j \<longleftrightarrow> 2 * (j * dx) - dx < 2 * (i * dy) \<and> 2 * (i * dy) \<le> 2 * (j * dx) + dx"

lemma on_track_end:
  assumes "0 < dx" and "on_track dx dy dx j"
  shows "j = dy"
proof -
  have "(2 * j - 1) * dx < (2 * dy) * dx" "(2 * dy) * dx \<le> (2 * j + 1) * dx"
    using assms(2) by (simp_all add: on_track_def algebra_simps)
  then have "2 * j - 1 < 2 * dy" "2 * dy \<le> 2 * j + 1"
    using assms(1) by (simp_all only: mult_less_cancel_right_pos mult_le_cancel_right_pos)
  then show ?thesis by simp
qed

lemma on_track_column:
  assumes "0 < dx" and "0 \<le> dy" and "dy \<le> dx" and "on_track dx dy i j"
  shows "2 * ((j + 1) * dx - (i + 1) * dy) > - dy"
proof -
  have u: "2 * (i * dy) \<le> 2 * (j * dx) + dx" using assms(4) by (simp add: on_track_def)
  have "\<not> (dy = dx \<and> 2 * (i * dy) = 2 * (j * dx) + dx)"
  proof
    assume eq: "dy = dx \<and> 2 * (i * dy) = 2 * (j * dx) + dx"
    then have "2 * (i * dx) = 2 * (j * dx) + dx" by blast
    then have "(2 * i) * dx = (2 * j + 1) * dx" by (simp only: distrib_right mult.assoc mult_1)
    then have "2 * i = 2 * j + 1" using assms(1) by (simp only: mult_cancel_right) simp
    then show False by presburger
  qed
  with u assms(3) show ?thesis by (cases "dy = dx") (simp_all add: distrib_right)
qed

lemma on_track_next:
  assumes "0 \<le> dy" and "dy \<le> dx" and "on_track dx dy i j"
  shows "on_track dx dy (i + 1) (if 2 * ((j + 1) * dx - (i + 1) * dy) < dx then j + 1 else j)"
  using assms by (simp add: on_track_def distrib_right)

lemma on_track_near: "on_track dx dy i j \<Longrightarrow> 2 * \<bar>i * dy - j * dx\<bar> \<le> dx"
  by (auto simp: on_track_def abs_if)

lemma on_track_rows:
  assumes "0 < dx" and "0 \<le> dy" and "0 \<le> i" and "i \<le> dx" and "on_track dx dy i j"
  shows "0 \<le> j" "j \<le> dy"
proof -
  have "0 \<le> i * dy" "i * dy \<le> dx * dy" using assms(2-4) by (simp_all add: mult_right_mono)
  then have "0 \<le> (2 * j + 1) * dx" "(2 * j - 1) * dx < (2 * dy) * dx"
    using assms(5) by (simp_all add: on_track_def algebra_simps)
  then have "0 \<le> 2 * j + 1" "2 * j - 1 < 2 * dy"
    using assms(1) by (simp_all only: zero_le_mult_iff mult_less_cancel_right_pos) auto
  then show "0 \<le> j" "j \<le> dy" by simp_all
qed

lemma flat_in_box:
  assumes "sx \<in> {1, -1}" and "sy \<in> {1, -1}" and "0 \<le> i" and "i \<le> dx" and "0 \<le> j" and "j \<le> dy"
  shows "in_box (x0, y0) (x0 + sx * dx, y0 + sy * dy) (x0 + sx * i, y0 + sy * j)"
  using assms by (auto simp: in_box_def min_def max_def)

text \<open>The loop from the cell after \<open>i\<close> columns and \<open>j\<close> rows, on a flat line.\<close>

lemma flat_deviation:
  assumes "sx \<in> {1, -1}" and "sy \<in> {1, -1}" and "on_track dx dy i j" and "0 < dx" and "0 \<le> dy" and "dy \<le> dx"
  shows "2 * deviation (x0, y0) (x0 + sx * dx, y0 + sy * dy) (x0 + sx * i, y0 + sy * j)
           \<le> extent (x0, y0) (x0 + sx * dx, y0 + sy * dy)"
  using assms on_track_near [OF assms(3)]
  by (auto simp: deviation_def extent_def mult.commute abs_minus_commute)

lemma flat_loop:
  assumes s: "sx \<in> {1, -1}" "sy \<in> {1, -1}" and d: "0 < dx" "0 \<le> dy" "dy \<le> dx"
  shows "on_track dx dy i j \<Longrightarrow> 0 \<le> i \<Longrightarrow> i \<le> dx \<Longrightarrow> n = nat (dx - i) \<Longrightarrow>
    \<exists>cs. ideal_loop (x0 + sx * dx) (y0 + sy * dy) dx dy sx sy ((j + 1) * dx - (i + 1) * dy)
           (x0 + sx * i) (y0 + sy * j) = Some cs \<and>
         rest_of_line (x0, y0) (x0 + sx * dx, y0 + sy * dy) (x0 + sx * i, y0 + sy * j) n cs"
proof (induction n arbitrary: i j)
  case 0
  then have "i = dx" by simp
  moreover have "j = dy" using on_track_end [OF d(1)] 0 calculation by blast
  ultimately show ?case
    using rest_of_line_end flat_deviation [OF s 0(1) d] by (subst ideal_loop.simps) simp
next
  case (Suc n)
  let ?j = "if 2 * ((j + 1) * dx - (i + 1) * dy) < dx then j + 1 else j"
  have i: "i < dx" "0 \<le> i + 1" "i + 1 \<le> dx" "n = nat (dx - (i + 1))" using Suc.prems by simp_all
  have rows: "0 \<le> j" "j \<le> dy" using on_track_rows [OF d(1,2) Suc.prems(2,3,1)] by simp_all
  have col: "2 * ((j + 1) * dx - (i + 1) * dy) > - dy"
    using on_track_column [OF d] Suc.prems(1) by blast
  obtain cs where cs: "ideal_loop (x0 + sx * dx) (y0 + sy * dy) dx dy sx sy ((?j + 1) * dx - (i + 1 + 1) * dy)
           (x0 + sx * (i + 1)) (y0 + sy * ?j) = Some cs"
    "rest_of_line (x0, y0) (x0 + sx * dx, y0 + sy * dy) (x0 + sx * (i + 1), y0 + sy * ?j) n cs"
    using Suc.IH [OF on_track_next [OF d(2,3) Suc.prems(1)] i(2-4)] by blast
  have nb: "neighbours (x0 + sx * i, y0 + sy * j) (x0 + sx * (i + 1), y0 + sy * ?j)"
    using s by (auto simp: neighbours_def)
  have "ideal_loop (x0 + sx * dx) (y0 + sy * dy) dx dy sx sy ((j + 1) * dx - (i + 1) * dy)
           (x0 + sx * i) (y0 + sy * j) = Some ((x0 + sx * i, y0 + sy * j) # cs)"
    using s i(1) col cs(1)
    by (subst ideal_loop.simps) (auto simp: Let_def algebra_simps)
  then show ?case
    using rest_of_line_step [OF cs(2) nb flat_deviation [OF s Suc.prems(1) d]
          flat_in_box [OF s Suc.prems(2,3) rows]] by simp
qed

text \<open>A steep line is a flat one with rows and columns exchanged.\<close>

lemma ideal_loop_step:
  assumes "\<not> (x = ex \<and> y = ey)"
    and "err' = err - (if 2 * err > - dy then dy else 0) + (if 2 * err < dx then dx else 0)"
    and "x' = (if 2 * err > - dy then x + sx else x)" and "y' = (if 2 * err < dx then y + sy else y)"
  shows "ideal_loop ex ey dx dy sx sy err x y =
    Option.bind (ideal_loop ex ey dx dy sx sy err' x' y') (\<lambda>cs. Some ((x, y) # cs))"
proof -
  have e: "err' = (let err1 = (if 2 * err > - dy then err - dy else err)
                   in if 2 * err < dx then err1 + dx else err1)"
    using assms(2) by simp
  show ?thesis using assms(1,3,4) by (subst ideal_loop.simps) (auto simp: e Let_def)
qed

lemma mirrored_loop:
  "ideal_loop ex ey dx dy sx sy err x y = Some cs \<Longrightarrow>
   ideal_loop ey ex dy dx sy sx (- err) y x = Some (map prod.swap cs)"
proof (induction cs arbitrary: err x y)
  case Nil
  then show ?case by (subst (asm) ideal_loop.simps) (auto simp: Let_def bind_eq_Some_conv split: if_splits)
next
  case (Cons c cs)
  show ?case
  proof (cases "x = ex \<and> y = ey")
    case True
    then show ?thesis using Cons.prems by (subst ideal_loop.simps, subst (asm) ideal_loop.simps) auto
  next
    case False
    define err' where "err' = err - (if 2 * err > - dy then dy else 0) + (if 2 * err < dx then dx else 0)"
    let ?x = "if 2 * err > - dy then x + sx else x" and ?y = "if 2 * err < dx then y + sy else y"
    have "ideal_loop ex ey dx dy sx sy err' ?x ?y = Some cs" "c = (x, y)"
      using Cons.prems ideal_loop_step [OF False err'_def refl refl] by (auto simp: bind_eq_Some_conv)
    moreover have "ideal_loop ey ex dy dx sy sx (- err) y x =
        Option.bind (ideal_loop ey ex dy dx sy sx (- err') ?y ?x) (\<lambda>cs. Some ((y, x) # cs))"
      using False by (intro ideal_loop_step) (auto simp: err'_def)
    ultimately show ?thesis using Cons.IH by simp
  qed
qed

lemma mirrored_rest:
  "rest_of_line a b c n cs \<Longrightarrow> rest_of_line (prod.swap a) (prod.swap b) (prod.swap c) n (map prod.swap cs)"
  by (auto simp: rest_of_line_def hd_map last_map successively_map neighbours_def deviation_def extent_def
      in_box_def list_all_iff max.commute mult.commute abs_minus_commute elim!: successively_mono)

text \<open>The line of \<open>line_cells\<close> over unbounded integers.\<close>

definition ideal_cells :: "cell \<Rightarrow> cell \<Rightarrow> cell list option" where
  "ideal_cells a b =
     (let dx = \<bar>fst b - fst a\<bar>; dy = \<bar>snd b - snd a\<bar>
      in ideal_loop (fst b) (snd b) dx dy (if fst a < fst b then 1 else -1) (if snd a < snd b then 1 else -1)
           (dx - dy) (fst a) (snd a))"

lemma ideal_cells_line: "\<exists>cs. ideal_cells a b = Some cs \<and> rest_of_line a b a (nat (extent a b)) cs"
proof -
  obtain x0 y0 x1 y1 where ab: "a = (x0, y0)" "b = (x1, y1)" by (cases a, cases b)
  define dx dy sx sy where
    d: "dx = \<bar>x1 - x0\<bar>" "dy = \<bar>y1 - y0\<bar>" "sx = (if x0 < x1 then 1 else - 1 :: int)"
      "sy = (if y0 < y1 then 1 else - 1 :: int)"
  have b: "x1 = x0 + sx * dx" "y1 = y0 + sy * dy" and s: "sx \<in> {1, -1}" "sy \<in> {1, -1}" by (auto simp: d)
  have ext: "extent a b = max dx dy" and "0 \<le> dx" "0 \<le> dy" by (simp_all add: ab extent_def d)
  have cells: "ideal_cells a b = ideal_loop x1 y1 dx dy sx sy (dx - dy) x0 y0"
    by (simp add: ideal_cells_def ab d Let_def)
  note cells = cells [unfolded ab] and ext = ext [unfolded ab]
  consider (point) "dx = 0" "dy = 0" | (flat) "0 < dx" "dy \<le> dx" | (steep) "0 < dy" "dx \<le> dy"
    using \<open>0 \<le> dx\<close> \<open>0 \<le> dy\<close> by linarith
  then show ?thesis
  proof cases
    case point
    then show ?thesis
      using b rest_of_line_end [of b a] cells
      by (simp add: ab ext extent_def deviation_def ideal_loop.simps [of x0 y0 0 0 sx sy 0 x0 y0])
  next
    case flat
    then show ?thesis
      using flat_loop [OF s flat(1) \<open>0 \<le> dy\<close> flat(2), of 0 0 "nat dx" x0 y0] \<open>0 \<le> dx\<close>
      by (simp add: on_track_def cells ext ab flip: b)
  next
    case steep
    have "on_track dy dx 0 0" using steep by (simp add: on_track_def)
    then obtain cs where cs: "ideal_loop y1 x1 dy dx sy sx (dy - dx) y0 x0 = Some cs"
      "rest_of_line (y0, x0) (y1, x1) (y0, x0) (nat dy) cs"
      using flat_loop [OF s(2,1) steep(1) \<open>0 \<le> dx\<close> steep(2), of 0 0 "nat dy" y0 x0] steep
      by (auto simp flip: b)
    show ?thesis
      using mirrored_loop [OF cs(1)] mirrored_rest [OF cs(2)] steep by (simp add: cells ext ab max_def)
  qed
qed

text \<open>In range, the loop over \<open>int\<close> agrees with the unbounded one: the error term stays between
one and a half times the distances.\<close>

lemma as_int_Some [simp]: "- (2 ^ 31) \<le> i \<Longrightarrow> i < 2 ^ 31 \<Longrightarrow> as_int i = Some i"
  by (simp add: as_int_def)

lemma as_int_range: "as_int i = Some j \<Longrightarrow> j = i \<and> - (2 ^ 31) \<le> i \<and> i < 2 ^ 31"
  by (simp add: as_int_def split: if_splits)

definition in_range :: "cell \<Rightarrow> bool" where
  "in_range c \<longleftrightarrow> - (2 ^ 31) \<le> fst c \<and> fst c < 2 ^ 31 \<and> - (2 ^ 31) \<le> snd c \<and> snd c < 2 ^ 31"

lemma ideal_loop_hd: "ideal_loop ex ey dx dy sx sy err x y = Some cs \<Longrightarrow> \<exists>cs'. cs = (x, y) # cs'"
  by (subst (asm) ideal_loop.simps) (auto simp: Let_def bind_eq_Some_conv split: if_splits)

lemma line_loop_in_range:
  assumes d: "0 \<le> dx" "0 \<le> dy" "dx < 2 ^ 29" "dy < 2 ^ 29"
  shows "ideal_loop ex ey dx dy sx sy err x y = Some cs \<Longrightarrow> - 3 * dy \<le> 2 * err \<Longrightarrow> 2 * err \<le> 3 * dx \<Longrightarrow>
    list_all in_range cs \<Longrightarrow> line_loop ex ey dx dy sx sy err x y = Some cs"
proof (induction cs arbitrary: err x y)
  case Nil
  then show ?case using ideal_loop_hd by blast
next
  case (Cons c cs)
  show ?case
  proof (cases "x = ex \<and> y = ey")
    case True
    then show ?thesis
      using Cons.prems(1) by (subst line_loop.simps, subst (asm) ideal_loop.simps) auto
  next
    case False
    define err' where "err' = err - (if 2 * err > - dy then dy else 0) + (if 2 * err < dx then dx else 0)"
    define x' where "x' = (if 2 * err > - dy then x + sx else x)"
    define y' where "y' = (if 2 * err < dx then y + sy else y)"
    have rest: "ideal_loop ex ey dx dy sx sy err' x' y' = Some cs" "c = (x, y)"
      using Cons.prems(1) ideal_loop_step [OF False err'_def x'_def y'_def] by (auto simp: bind_eq_Some_conv)
    have bounds: "- 3 * dy \<le> 2 * err'" "2 * err' \<le> 3 * dx"
      using Cons.prems(2,3) d by (auto simp: err'_def)
    obtain cs' where "cs = (x', y') # cs'" using ideal_loop_hd [OF rest(1)] by blast
    then have cell: "as_int x' = Some x'" "as_int y' = Some y'"
      using Cons.prems(4) by (simp_all add: in_range_def)
    have ints: "as_int (2 * err) = Some (2 * err)"
      "2 * err > - dy \<Longrightarrow> as_int (err - dy) = Some (err - dy)"
      "2 * err < dx \<Longrightarrow> as_int (err + dx) = Some (err + dx)"
      "2 * err < dx \<Longrightarrow> 2 * err > - dy \<Longrightarrow> as_int (err - dy + dx) = Some (err - dy + dx)"
      using Cons.prems(2,3) d by (auto intro!: as_int_Some)
    have "line_loop ex ey dx dy sx sy err x y =
        Option.bind (line_loop ex ey dx dy sx sy err' x' y') (\<lambda>cs. Some ((x, y) # cs))"
      using False ints cell by (subst line_loop.simps) (auto simp: err'_def x'_def y'_def)
    then show ?thesis using Cons.IH [OF rest(1) bounds] Cons.prems(4) rest(2) by simp
  qed
qed

lemma line_cells_line:
  assumes "in_range a" and "in_range b" and "extent a b < 2 ^ 29"
  shows "\<exists>cs. line_cells a b = Some cs \<and> rest_of_line a b a (nat (extent a b)) cs"
proof -
  obtain cs where cs: "ideal_cells a b = Some cs" "rest_of_line a b a (nat (extent a b)) cs"
    using ideal_cells_line by blast
  have "list_all (in_box a b) cs" using cs(2) by (simp add: rest_of_line_def)
  then have "list_all in_range cs"
    using assms(1,2) by (auto simp: list_all_iff in_box_def in_range_def min_def max_def split: if_splits)
  moreover have near: "\<bar>fst b - fst a\<bar> < 2 ^ 29" "\<bar>snd b - snd a\<bar> < 2 ^ 29"
    using assms(3) by (simp_all add: extent_def)
  moreover have error: "- 3 * s \<le> 2 * (r - s)" "2 * (r - s) \<le> 3 * r"
    if "r = \<bar>fst b - fst a\<bar>" "s = \<bar>snd b - snd a\<bar>" for r s
  proof -
    have "0 \<le> r" "0 \<le> s" using that by simp_all
    then show "- 3 * s \<le> 2 * (r - s)" "2 * (r - s) \<le> 3 * r" by simp_all
  qed
  ultimately have "line_loop (fst b) (snd b) \<bar>fst b - fst a\<bar> \<bar>snd b - snd a\<bar> (if fst a < fst b then 1 else - 1)
      (if snd a < snd b then 1 else - 1) (\<bar>fst b - fst a\<bar> - \<bar>snd b - snd a\<bar>) (fst a) (snd a) = Some cs"
    using cs(1) error [OF refl refl]
    by (intro line_loop_in_range) (simp_all only: ideal_cells_def Let_def abs_ge_zero)
  then have "line_cells a b = Some cs"
    using near by (simp add: line_cells_def distance_between_def case_prod_beta)
  then show ?thesis using cs(2) by blast
qed

lemma transform_in_range: "transform_to_screen width height g x y = Some c \<Longrightarrow> in_range c"
  by (auto simp: transform_to_screen_def to_int_def in_range_def bind_eq_Some_conv Let_def dest!: as_int_range
      split: if_splits)

text \<open>C32: where its two ends have cells less than 2 ^ 29 apart, the loop of the line ends without
overflow; it writes one circle in each of as many neighbouring cells as the longer side of the line
has steps, from the cell of the first end to that of the second, all of them in the rectangle of the
two and none more than half a cell off the ideal line.\<close>

theorem line_is_drawn:
  assumes "transform_to_screen width height g x1 y1 = Some a" and "transform_to_screen width height g x2 y2 = Some b"
    and "extent a b < 2 ^ 29"
  shows "\<exists>cs. draw_line width height g x1 y1 x2 y2 = Some (map (\<lambda>c. (c, Gl_circle)) cs) \<and>
    hd cs = a \<and> last cs = b \<and> length cs = nat (extent a b) + 1 \<and> successively neighbours cs \<and>
    list_all (\<lambda>c. 2 * deviation a b c \<le> extent a b) cs \<and> list_all (in_box a b) cs"
  using line_cells_line [OF transform_in_range [OF assms(1)] transform_in_range [OF assms(2)] assms(3)] assms(1,2)
  by (auto simp: draw_line_def rest_of_line_def)

section \<open>The scales\<close>

lemma scale_from_end: "fval stop < fval x \<Longrightarrow> scale_from x stop step = Some []"
  by (subst scale_from.simps) (simp add: flt_less_iff)

lemma scale_from_more:
  "\<not> fval stop < fval x \<Longrightarrow>
   scale_from x stop step =
     Option.bind (scale_from (fadd dbl_prec x step) stop step) (\<lambda>xs. Some (x # xs))"
  by (subst scale_from.simps) (simp add: flt_less_iff)

lemma scale_stuck:
  assumes "fval step = 0" and "\<bar>k\<bar> < 2 ^ 53"
  shows "scale_from x stop step = Some xs \<Longrightarrow> fval x = of_int k \<Longrightarrow> fval stop < fval x"
proof (induction xs arbitrary: x)
  case Nil
  then show ?case by (rule_tac ccontr) (simp add: scale_from_more bind_eq_Some_conv)
next
  case (Cons y ys)
  have n: "fval (fadd dbl_prec x step) = of_int k"
    using fadd_exact [of dbl_prec x step k] assms Cons.prems(2) by (simp add: dbl_prec_def)
  show ?case
  proof (rule ccontr)
    assume "\<not> fval stop < fval x"
    then have "scale_from (fadd dbl_prec x step) stop step = Some ys"
      using Cons.prems(1) by (auto simp: scale_from_more bind_eq_Some_conv)
    then have "fval stop < fval (fadd dbl_prec x step)" using Cons.IH n by blast
    then show False using n Cons.prems(2) \<open>\<not> fval stop < fval x\<close> by simp
  qed
qed

lemma scale_moves:
  assumes s: "fval step = of_int d" "0 < d" and stop: "fval stop = of_int b" and big: "\<bar>b\<bar> + d < 2 ^ 53"
  shows "fval x = of_int a \<Longrightarrow> - (2 ^ 52) \<le> a \<Longrightarrow> n = nat (b + d - a) \<Longrightarrow>
    \<exists>xs. scale_from x stop step = Some xs"
proof (induction n arbitrary: x a rule: less_induct)
  case (less n)
  show ?case
  proof (cases "b < a")
    case True
    then show ?thesis using less.prems(1) stop by (simp add: scale_from_end)
  next
    case False
    then have "fval (fadd dbl_prec x step) = of_int (a + d)"
      using fadd_exact [of dbl_prec x step "a + d"] s big less.prems(1,2) by (simp add: dbl_prec_def)
    moreover have "nat (b + d - (a + d)) < n" using False s(2) less.prems(3) by simp
    ultimately obtain xs where "scale_from (fadd dbl_prec x step) stop step = Some xs"
      using less.IH less.prems(2) s(2) by (metis add_increasing2 less_imp_le)
    then show ?thesis using False less.prems(1) stop by (simp add: scale_from_more)
  qed
qed

text \<open>A tenth of an \<open>int\<close> distance, as the code computes it.\<close>

lemma ten: "fval (fof_int dbl_prec 10) = 10" "0 < fmant (fof_int dbl_prec 10)"
  by (simp add: fval_dbl_int) (simp add: fof_int_def, code_simp)

lemma scale_step_tenth:
  assumes "fval first = of_int a" and "fval stop = of_int b" and "a \<le> b" and "b - a < 2 ^ 32"
  shows "scale_step first stop = Some ((b - a) div 10)"
proof -
  let ?d = "fsub dbl_prec stop first" and ?q = "fdiv dbl_prec (fsub dbl_prec stop first) (fof_int dbl_prec 10)"
  have d: "fval ?d = of_int (b - a)"
    using assms by (intro fsub_exact) (simp_all add: dbl_prec_def)
  have unit: "(2 :: real) powi (- dbl_prec) = 2 powi (- 53)" by (simp add: dbl_prec_def)
  have "\<bar>real_of_int (b - a) / 10\<bar> = of_int (b - a) / 10" using assms(3) by simp
  then have q: "\<bar>fval ?q - of_int (b - a) / 10\<bar> \<le> of_int (b - a) / 10 * 2 powi (- 53)"
    using fdiv_error [OF dbl_prec_nonneg ten(2), of ?d] by (simp only: d ten unit)
  have "0 \<le> real_of_int (b - a) / 10" "real_of_int (b - a) / 10 * 2 powi (- 53) < 1 / 10"
    using assms(3,4) by (simp_all add: power_int_minus field_simps)
  with q have near: "\<bar>fval ?q - of_int (b - a) / of_int 10\<bar> < 1 / of_int 10" by simp
  have floor: "\<lfloor>fval ?q\<rfloor> = (b - a) div 10"
  proof (cases "(b - a) mod 10 = 0")
    case True
    then obtain k where k: "b - a = 10 * k" by auto
    have "fval ?q = of_int k"
    proof (rule fdiv_exact [OF dbl_prec_nonneg ten(2)])
      show "fval ?d / fval (fof_int dbl_prec 10) = of_int k" by (simp add: d ten k)
      show "\<bar>k\<bar> < 2 ^ nat dbl_prec" using k assms(3,4) by (simp add: dbl_prec_def)
    qed
    then show ?thesis using k by simp
  next
    case False
    then show ?thesis by (intro floor_near_fraction [OF _ _ near]) simp_all
  qed
  have "0 \<le> fval ?q"
  proof -
    have "real_of_int (b - a) / 10 * 2 powi (- 53) \<le> real_of_int (b - a) / 10 * 1"
      using assms(3) by (intro mult_left_mono) (simp_all add: power_int_minus)
    with q have "\<bar>fval ?q - of_int (b - a) / 10\<bar> \<le> real_of_int (b - a) / 10" by linarith
    then have "- (fval ?q - of_int (b - a) / 10) \<le> real_of_int (b - a) / 10" by (rule abs_le_D2)
    then show ?thesis by linarith
  qed
  moreover have "0 \<le> (b - a) div 10" "(b - a) div 10 < 2 ^ 31" using assms(3,4) by simp_all
  ultimately show ?thesis using floor by (simp add: scale_step_def to_int_def ftrunc_floor)
qed

lemma scale_returns_iff:
  assumes "fval first = of_int a" and "fval stop = of_int b" and "a \<le> b"
    and "\<bar>a\<bar> < 2 ^ 31" and "\<bar>b\<bar> < 2 ^ 31"
  shows "(\<exists>xs. scale first stop = Some xs) \<longleftrightarrow> 10 \<le> b - a"
proof -
  have step: "scale_step first stop = Some ((b - a) div 10)"
    using assms by (intro scale_step_tenth) simp_all
  have "0 \<le> (b - a) div 10" "(b - a) div 10 \<le> b - a" using assms(3) by presburger+
  then have small: "\<bar>(b - a) div 10\<bar> < 2 ^ 32" using assms(4,5) by simp
  then have val: "fval (fof_int dbl_prec ((b - a) div 10)) = of_int ((b - a) div 10)"
    by (simp add: fval_dbl_int)
  show ?thesis
  proof (cases "10 \<le> b - a")
    case True
    have "\<exists>xs. scale_from first stop (fof_int dbl_prec ((b - a) div 10)) = Some xs"
      using True small assms by (intro scale_moves [OF val _ assms(2) _ assms(1) _ refl]) simp_all
    then show ?thesis using True by (simp add: scale_def step)
  next
    case False
    then have "(b - a) div 10 = 0" using assms(3) by simp
    then show ?thesis
      using False scale_stuck [of "fof_int dbl_prec 0" a first stop] val assms
      by (cases "scale_from first stop (fof_int dbl_prec 0)") (auto simp: scale_def step)
  qed
qed

text \<open>A graph whose limits are whole numbers has both scales exactly when it spans at least ten units in
both directions; otherwise the step of a scale is zero, its loop never ends, and nothing is drawn.\<close>

lemma scales_return_iff:
  assumes "fval (gw_xMin g) = of_int x0" and "fval (gw_xMax g) = of_int x1" and "x0 \<le> x1"
    and "fval (gw_yMin g) = of_int y0" and "fval (gw_yMax g) = of_int y1" and "y0 \<le> y1"
    and "\<bar>x0\<bar> < 2 ^ 31" and "\<bar>x1\<bar> < 2 ^ 31" and "\<bar>y0\<bar> < 2 ^ 31" and "\<bar>y1\<bar> < 2 ^ 31"
  shows "scale (gw_xMin g) (gw_xMax g) \<noteq> None \<and> scale (gw_yMin g) (gw_yMax g) \<noteq> None \<longleftrightarrow>
    10 \<le> x1 - x0 \<and> 10 \<le> y1 - y0"
  using scale_returns_iff assms by auto

lemma drawn_has_scales:
  "draw width height g = Some ws \<Longrightarrow> scale (gw_xMin g) (gw_xMax g) \<noteq> None \<and> scale (gw_yMin g) (gw_yMax g) \<noteq> None"
  by (auto simp: draw_def Let_def bind_eq_Some_conv)

lemma narrow_graph_never_drawn:
  assumes "fval (gw_xMin g) = of_int x0" and "fval (gw_xMax g) = of_int x1" and "x0 \<le> x1"
    and "\<bar>x0\<bar> < 2 ^ 31" and "\<bar>x1\<bar> < 2 ^ 31" and "x1 - x0 < 10"
  shows "draw width height g = None"
  using drawn_has_scales [of width height g] scale_returns_iff [OF assms(1-5)] assms(6)
  by (cases "draw width height g") auto

text \<open>The graph of the compass, whose limits the main window gives.\<close>

definition compass_graph :: graph where
  "compass_graph =
     graph_new (fof_int dbl_prec (-200)) (fof_int dbl_prec 200) (fof_int dbl_prec (-200)) (fof_int dbl_prec 200)"

text \<open>Its scales and labels are drawn, and so is a line, in the window as the program opens it.\<close>

lemma compass_scales:
  "scale (gw_xMin compass_graph) (gw_xMax compass_graph) \<noteq> None \<and> scale (gw_yMin compass_graph) (gw_yMax compass_graph) \<noteq> None"
  by (rule scales_return_iff [of compass_graph "-200" 200 "-200" 200, THEN iffD2])
     (simp_all add: compass_graph_def graph_new_def fval_dbl_int)

lemma compass_cells:
  "transform_to_screen 60 30 compass_graph (Flt 0 0) (Flt 0 0) = Some (29, 14)"
  "transform_to_screen 60 30 compass_graph (Flt 100 0) (Flt 50 0) = Some (44, 10)"
  by code_simp+

lemma line_is_drawn_witness:
  "\<exists>cs. draw_line 60 30 compass_graph (Flt 0 0) (Flt 0 0) (Flt 100 0) (Flt 50 0) =
      Some (map (\<lambda>c. (c, Gl_circle)) cs) \<and>
    hd cs = (29, 14) \<and> last cs = (44, 10) \<and> length cs = nat (extent (29, 14) (44, 10)) + 1 \<and>
    successively neighbours cs \<and> list_all (\<lambda>c. 2 * deviation (29, 14) (44, 10) c \<le> extent (29, 14) (44, 10)) cs \<and>
    list_all (in_box (29, 14) (44, 10)) cs"
  by (rule line_is_drawn [OF compass_cells]) (simp add: extent_def)

section \<open>The direction line on the screen\<close>

text \<open>The cells of the window that show a circle after some writes.\<close>

fun write_circle :: "cell \<times> glyph \<Rightarrow> cell set \<Rightarrow> cell set" where
  "write_circle (c, gl) shown = (if gl = Gl_circle then insert c shown else shown - {c})"

definition shown_after :: "writes \<Rightarrow> cell set \<Rightarrow> cell set" where
  "shown_after ws shown = fold write_circle ws shown"

fun compass_updates :: "libm \<Rightarrow> int \<Rightarrow> int \<Rightarrow> int list \<Rightarrow> cell set \<times> graph \<Rightarrow> (cell set \<times> graph) option" where
  "compass_updates L width height [] sg = Some sg"
| "compass_updates L width height (a # as) sg =
     Option.bind (update_compas_direction_callback L width height a (snd sg))
       (\<lambda>(ws, g). compass_updates L width height as (shown_after ws (fst sg), g))"

lemma shown_erased: "shown_after (map (\<lambda>c. (c, Gl_blank)) cs) S = S - set cs"
  by (induction cs arbitrary: S) (auto simp: shown_after_def)

lemma shown_drawn: "shown_after (map (\<lambda>c. (c, Gl_circle)) cs) S = S \<union> set cs"
  by (induction cs arbitrary: S) (auto simp: shown_after_def)

lemma shown_append: "shown_after (ws @ vs) S = shown_after vs (shown_after ws S)"
  by (simp add: shown_after_def)

lemma update_shows_line:
  assumes "update_compas_direction_callback L width height a g = Some (ws, g')" and "S \<subseteq> set (gw_lastLinePoints g)"
  shows "shown_after ws S = set (gw_lastLinePoints g')"
  using assms
  by (auto simp: update_compas_direction_callback_def draw_direction_def Let_def bind_eq_Some_conv
      shown_append shown_erased shown_drawn)

lemma updates_show_line:
  "compass_updates L width height as (S, g) = Some (S', g') \<Longrightarrow> S = set (gw_lastLinePoints g) \<Longrightarrow>
   S' = set (gw_lastLinePoints g')"
  by (induction as arbitrary: S g) (auto simp: bind_eq_Some_conv dest: update_shows_line)

text \<open>After any number of compass readings the window shows circles in exactly the cells of the last
direction line: every line is wiped off, cell by cell, before the next one is drawn.\<close>

lemma last_direction_shown:
  assumes "compass_updates L width height as ({}, compass_graph) = Some (shown, g)"
  shows "shown = set (gw_lastLinePoints g)"
  using updates_show_line [OF assms] by (simp add: compass_graph_def graph_new_def)

text \<open>A mathematics library that answers the two directions of the witness: up for 90 degrees, down otherwise.\<close>

definition upright_libm :: libm where
  "upright_libm =
     \<lparr>lib_sin = (\<lambda>a. if flt_less (Flt 2 0) a then Flt (-1) 0 else Flt 1 0), lib_cos = (\<lambda>a. Flt 0 0),
      lib_atan2 = (\<lambda>_ _. Flt 0 0)\<rparr>"

lemma transform_keeps_line [simp]:
  "transform_to_screen width height (g\<lparr>gw_lastLinePoints := cs\<rparr>) x y = transform_to_screen width height g x y"
  by (simp add: transform_to_screen_def Let_def)

definition upright_end :: "int \<Rightarrow> cell option" where
  "upright_end angle =
     (let radians = fmul dbl_prec (fof_int dbl_prec angle) (fdiv dbl_prec M_PI (fof_int dbl_prec 180))
      in transform_to_screen 60 10 compass_graph
           (fmul dbl_prec (fof_int dbl_prec 80) (lib_cos upright_libm radians))
           (fmul dbl_prec (fof_int dbl_prec 80) (lib_sin upright_libm radians)))"

lemma upright_cells:
  "transform_to_screen 60 10 compass_graph (Flt 0 0) (Flt 0 0) = Some (29, 4)"
  "upright_end 90 = Some (29, 2)"
  "upright_end 270 = Some (29, 6)"
  "direction_cells 60 (29, 4) (29, 2) = Some [(29, 2), (29, 3), (29, 4)]"
  "direction_cells 60 (29, 4) (29, 6) = Some [(29, 4), (29, 5), (29, 6)]"
  by code_simp+

lemma upright_updates:
  "compass_updates upright_libm 60 10 [90, 270] ({}, compass_graph) =
     Some ({(29, 4), (29, 5), (29, 6)}, compass_graph\<lparr>gw_lastLinePoints := [(29, 4), (29, 5), (29, 6)]\<rparr>)"
proof -
  have "gw_lastLinePoints compass_graph = []" by (simp add: compass_graph_def graph_new_def)
  then show ?thesis
    using upright_cells
    by (simp add: update_compas_direction_callback_def draw_direction_def upright_end_def Let_def shown_after_def)
       auto
qed

lemma last_direction_shown_witness:
  "{(29, 4), (29, 5), (29, 6)} =
   set (gw_lastLinePoints (compass_graph\<lparr>gw_lastLinePoints := [(29, 4), (29, 5), (29, 6)]\<rparr>))"
  by (rule last_direction_shown [OF upright_updates])

text \<open>
  A direction that runs along a row has no cell: for a heading of zero degrees, in the window as the
  program opens it, the column of the line is computed as zero divided by zero.
\<close>

lemma flat_direction_undefined:
  "direction_cells width (x0, y) (x1, y) = None \<longleftrightarrow> x0 \<noteq> x1"
  by (simp add: direction_cells_def Let_def)

lemma map_option_bind_none:
  "Option.bind m (\<lambda>a. Option.bind n (\<lambda>b. f a b)) = None \<Longrightarrow>
   Option.bind m (\<lambda>a. Option.bind n (\<lambda>b. map_option h (f a b))) = None"
  by (auto simp: bind_eq_None_conv)

lemma heading_zero_undefined:
  assumes "lib_sin L (Flt 0 0) = Flt 0 0" and "lib_cos L (Flt 0 0) = Flt 1 0"
  shows "update_compas_direction_callback L 60 30 0 compass_graph = None"
proof -
  have zero: "fmul dbl_prec (fof_int dbl_prec 0) (fdiv dbl_prec M_PI (fof_int dbl_prec 180)) = Flt 0 0"
    by code_simp
  have cells: "Option.bind (transform_to_screen 60 30 compass_graph (Flt 0 0) (Flt 0 0)) (\<lambda>start.
      Option.bind (transform_to_screen 60 30 compass_graph (fmul dbl_prec (fof_int dbl_prec 80) (Flt 1 0))
         (fmul dbl_prec (fof_int dbl_prec 80) (Flt 0 0))) (\<lambda>finish.
      direction_cells 60 start finish)) = None"
    by code_simp
  show ?thesis
    by (simp add: update_compas_direction_callback_def draw_direction_def Let_def zero assms map_option_bind_none [OF cells])
qed

end
