(* ===== verification/Tui_Windows.thy ===== *)
theory Tui_Windows
  imports Tui_Commands Graph_Window
begin

text \<open>
  The windows of the terminal interface (\<open>tui/*_window.cpp\<close>) and their wiring in
  \<open>TuiService::openTui\<close>: the commands the buttons send, the fields they show, the queues the main
  window fills from other threads and empties on its timer. Widgets of the finalcut library are
  their contents: a spin box its value, a line edit its text, a text view its lines. Layout, colours,
  focus and the scroll position are not modelled; a logged line is kept without the time and thread
  number in front of it. What raises an exception, which leaves the event loop and ends the program,
  or has no defined meaning is \<open>None\<close>.
\<close>

section \<open>Numbers as text\<close>

text \<open>\<open>std::to_string\<close> of an \<open>int\<close>, and a number printed with a fixed count of decimals.\<close>

definition decimal_int :: "int \<Rightarrow> string" where
  "decimal_int i = (if i < 0 then CHR ''-'' # decimal (nat (- i)) else decimal (nat i))"

definition fixed :: "nat \<Rightarrow> flt \<Rightarrow> string" where
  "fixed digits x =
     (let m = \<bar>fmant x\<bar> * 10 ^ digits;
          q = nat (if 0 \<le> fexp x then m * 2 ^ nat (fexp x) else round_even m (2 ^ nat (- fexp x)));
          frac = decimal (q mod 10 ^ digits)
      in (if fmant x < 0 then [CHR ''-''] else []) @ decimal (q div 10 ^ digits) @
         (if digits = 0 then [] else CHR ''.'' # replicate (digits - length frac) (CHR ''0'') @ frac))"

section \<open>The body window\<close>

record body_window =
  bw_dcMotorSpeed :: int
  bw_servoMotorSpeed :: int
  bw_angles :: "ServoMotorJoint \<Rightarrow> string"

definition body_window_new :: body_window where
  "body_window_new = \<lparr>bw_dcMotorSpeed = 100, bw_servoMotorSpeed = 100, bw_angles = (\<lambda>_. [])\<rparr>"

definition UP :: int where "UP = 90"
definition DOWN :: int where "DOWN = -90"
definition LEFT :: int where "LEFT = 180"
definition RIGHT :: int where "RIGHT = 0"

lemmas directions = UP_def DOWN_def LEFT_def RIGHT_def

datatype body_button =
    Bt_forward | Bt_backward | Bt_stop | Bt_turnRight | Bt_turnLeft
  | Bt_headUp | Bt_headDown | Bt_headLeft | Bt_headRight | Bt_headDefaultPos

definition body_joystick :: "int \<Rightarrow> int \<Rightarrow> ControlData" where
  "body_joystick angle strength =
     ControlData_empty\<lparr>ctl_bodyJoystick := Some \<lparr>js_angle = angle, js_strength = strength\<rparr>\<rparr>"

definition head_joystick :: "int \<Rightarrow> int \<Rightarrow> ControlData" where
  "head_joystick angle strength =
     ControlData_empty\<lparr>ctl_headJoystick := Some \<lparr>js_angle = angle, js_strength = strength\<rparr>\<rparr>"

text \<open>The command of each button.\<close>

fun body_command :: "body_window \<Rightarrow> body_button \<Rightarrow> ControlData" where
  "body_command b Bt_forward = body_joystick UP (bw_dcMotorSpeed b)"
| "body_command b Bt_backward = body_joystick DOWN (bw_dcMotorSpeed b)"
| "body_command b Bt_stop = body_joystick 0 0"
| "body_command b Bt_turnRight = body_joystick RIGHT (bw_dcMotorSpeed b)"
| "body_command b Bt_turnLeft = body_joystick LEFT (bw_dcMotorSpeed b)"
| "body_command b Bt_headUp = head_joystick UP (bw_dcMotorSpeed b)"
| "body_command b Bt_headDown = head_joystick DOWN (bw_dcMotorSpeed b)"
| "body_command b Bt_headLeft = head_joystick LEFT (bw_dcMotorSpeed b)"
| "body_command b Bt_headRight = head_joystick RIGHT (bw_dcMotorSpeed b)"
| "body_command b Bt_headDefaultPos = head_joystick 0 (bw_dcMotorSpeed b)"

text \<open>\<open>jointAngles.at\<close> raises for a joint that is not in the map.\<close>

definition shown_order :: "ServoMotorJoint list" where
  "shown_order =
     [J_rightArm, J_leftArm, J_neck, J_headUpDown, J_headLeftRight, J_eyeLeft, J_eyeRight]"

fun show_joints :: "joint_angles \<Rightarrow> ServoMotorJoint list \<Rightarrow> body_window \<Rightarrow> body_window option" where
  "show_joints angles [] b = Some b"
| "show_joints angles (j # js) b =
     (case angles j of
        None \<Rightarrow> None
      | Some a \<Rightarrow> show_joints angles js (b\<lparr>bw_angles := (bw_angles b)(j := decimal (unat a))\<rparr>))"

definition update_servo_joints_callback :: "joint_angles \<Rightarrow> body_window \<Rightarrow> body_window option" where
  "update_servo_joints_callback angles = show_joints angles shown_order"

section \<open>The servo window\<close>

type_synonym servo_window = "ServoMotorJoint \<Rightarrow> int"

definition servo_window_onShow :: "servo_window \<Rightarrow> servo_window" where
  "servo_window_onShow s =
     s(J_rightArm := 15, J_leftArm := 170, J_neck := 78, J_headUpDown := 15, J_headLeftRight := 90,
       J_eyeLeft := 20, J_eyeRight := 160)"

definition set_servo_values :: "servo_window \<Rightarrow> ControlData" where
  "set_servo_values s =
     ControlData_empty\<lparr>ctl_jointAngles :=
       Some [J_rightArm \<mapsto> u8_of_int (s J_rightArm), J_leftArm \<mapsto> u8_of_int (s J_leftArm),
             J_neck \<mapsto> u8_of_int (s J_neck), J_headUpDown \<mapsto> u8_of_int (s J_headUpDown),
             J_headLeftRight \<mapsto> u8_of_int (s J_headLeftRight), J_eyeLeft \<mapsto> u8_of_int (s J_eyeLeft),
             J_eyeRight \<mapsto> u8_of_int (s J_eyeRight)]\<rparr>"

section \<open>The measurements window\<close>

record measurements =
  ms_compassAngle :: string
  ms_distance :: string
  ms_current :: string
  ms_voltage :: string

text \<open>A reading that is missing is dereferenced all the same.\<close>

definition update_sensor_data_callback :: "SensorData \<Rightarrow> measurements \<Rightarrow> measurements option" where
  "update_sensor_data_callback d m =
     (case (sd_compassData d, sd_distanceData d, sd_powerData d) of
        (Some c, Some far, Some p) \<Rightarrow>
          Some (m\<lparr>ms_compassAngle := decimal (unat (cd_angle c)) @ [CHR '' '', CHR 0xC2, CHR 0xB0],
                  ms_distance := decimal_int (dd_distance far) @ '' cm'',
                  ms_current := fixed 2 (pd_current p) @ '' mA'',
                  ms_voltage := fixed 6 (pd_busVoltage p) @ ''  V''\<rparr>)
      | _ \<Rightarrow> None)"

section \<open>The chat window\<close>

record chat_window =
  cw_prompt :: string
  cw_answers :: "string list"

definition llm_response_callback :: "string \<Rightarrow> chat_window \<Rightarrow> chat_window" where
  "llm_response_callback response c = c\<lparr>cw_answers := cw_answers c @ [response]\<rparr>"

text \<open>Every key adds a line to the answers; the enter key also sends the prompt, which stays.\<close>

definition chat_onKeyPress :: "bool \<Rightarrow> chat_window \<Rightarrow> string option \<times> chat_window" where
  "chat_onKeyPress is_enter c =
     (if is_enter then Some (cw_prompt c) else None, c\<lparr>cw_answers := cw_answers c @ [''entered'']\<rparr>)"

section \<open>The main window\<close>

datatype LogLevel = Log_trace | Log_info | Log_debug | Log_warn | Log_error | Log_critical

fun Log_Level_Strings :: "LogLevel \<Rightarrow> string" where
  "Log_Level_Strings Log_trace = ''trace''"
| "Log_Level_Strings Log_info = ''info ''"
| "Log_Level_Strings Log_debug = ''debug''"
| "Log_Level_Strings Log_warn = ''warn.''"
| "Log_Level_Strings Log_error = ''error''"
| "Log_Level_Strings Log_critical = ''crit.''"

type_synonym log_entry = "string \<times> LogLevel \<times> string"

text \<open>\<open>mw_requests\<close> are the moments at which sensor values were requested, \<open>mw_sent\<close> the other messages sent.\<close>

record main_window =
  mw_lines :: "string list"
  mw_chat :: chat_window
  mw_measurements :: measurements
  mw_compass :: graph
  mw_body :: body_window
  mw_servo :: servo_window
  mw_pendingLogs :: "log_entry list"
  mw_pendingLlmResponses :: "string list"
  mw_pendingSensorData :: "SensorData option"
  mw_pendingCompassDirection :: "int option"
  mw_pendingServoJointAngles :: "joint_angles option"
  mw_lastSensorRefreshTime :: int
  mw_requests :: "int list"
  mw_sent :: "message list"

definition main_window_new :: "int \<Rightarrow> main_window" where
  "main_window_new now =
     \<lparr>mw_lines = [], mw_chat = \<lparr>cw_prompt = [], cw_answers = []\<rparr>,
      mw_measurements = \<lparr>ms_compassAngle = [], ms_distance = [], ms_current = [], ms_voltage = []\<rparr>,
      mw_compass = compass_graph, mw_body = body_window_new, mw_servo = servo_window_onShow (\<lambda>_. 0),
      mw_pendingLogs = [], mw_pendingLlmResponses = [], mw_pendingSensorData = None,
      mw_pendingCompassDirection = None, mw_pendingServoJointAngles = None,
      mw_lastSensorRefreshTime = now, mw_requests = [], mw_sent = []\<rparr>"

definition log_text :: "log_entry \<Rightarrow> string" where
  "log_text e =
     (case e of (line, level, className) \<Rightarrow>
        ''['' @ Log_Level_Strings level @ ''] <'' @ className @ ''> '' @ line)"

definition append_log_line :: "log_entry \<Rightarrow> main_window \<Rightarrow> main_window" where
  "append_log_line e m = m\<lparr>mw_lines := mw_lines m @ [log_text e]\<rparr>"

text \<open>The queues, filled under the mutex.\<close>

definition window_log :: "string \<Rightarrow> LogLevel \<Rightarrow> string \<Rightarrow> main_window \<Rightarrow> main_window" where
  "window_log line level className m =
     m\<lparr>mw_pendingLogs := mw_pendingLogs m @ [(line, level, className)]\<rparr>"

definition queue_sensor_data :: "SensorData \<Rightarrow> main_window \<Rightarrow> main_window" where
  "queue_sensor_data d m = m\<lparr>mw_pendingSensorData := Some d\<rparr>"

definition queue_llm_response :: "string \<Rightarrow> main_window \<Rightarrow> main_window" where
  "queue_llm_response r m = m\<lparr>mw_pendingLlmResponses := mw_pendingLlmResponses m @ [r]\<rparr>"

definition queue_compass_direction :: "int \<Rightarrow> main_window \<Rightarrow> main_window" where
  "queue_compass_direction angle m = m\<lparr>mw_pendingCompassDirection := Some angle\<rparr>"

definition queue_servo_joints :: "joint_angles \<Rightarrow> main_window \<Rightarrow> main_window" where
  "queue_servo_joints angles m = m\<lparr>mw_pendingServoJointAngles := Some angles\<rparr>"

text \<open>
  \<open>subcribed_data_receive\<close> with the callbacks of \<open>openTui\<close>. \<open>symbols\<close> are the texts the emotion and
  the reaction of a response carry.
\<close>

definition response_text :: "string \<times> string \<Rightarrow> LLMResponseData \<Rightarrow> string" where
  "response_text symbols r =
     lr_sentence r @ '' '' @ fst symbols @ '' similarity: '' @ fixed 6 (lr_emotionSimilarity r) @
     '' '' @ snd symbols @ '' similarity: '' @ fixed 6 (lr_reactionSimilarity r) @ '' ''"

fun window_receive :: "string \<times> string \<Rightarrow> message \<Rightarrow> main_window \<Rightarrow> main_window" where
  "window_receive symbols (M_llm_response r) m = queue_llm_response (response_text symbols r) m"
| "window_receive symbols (M_sensor d) m =
     (let m1 = queue_sensor_data d m;
          m2 = (case sd_compassData d of None \<Rightarrow> m1
                | Some c \<Rightarrow> queue_compass_direction (uint (cd_angle c)) m1)
      in case sd_currentJointAngles d of None \<Rightarrow> m2 | Some a \<Rightarrow> queue_servo_joints a m2)"
| "window_receive symbols _ m = m"

section \<open>The timer\<close>

text \<open>Times in nanoseconds; \<open>L, width, height\<close> are the mathematics library and the compass window's size.\<close>

definition take_pending :: "main_window \<Rightarrow> main_window" where
  "take_pending m =
     m\<lparr>mw_pendingLogs := [], mw_pendingLlmResponses := [], mw_pendingSensorData := None,
       mw_pendingCompassDirection := None, mw_pendingServoJointAngles := None\<rparr>"

definition show_sensor_data :: "SensorData option \<Rightarrow> main_window \<Rightarrow> main_window option" where
  "show_sensor_data p m =
     (case p of None \<Rightarrow> Some m
      | Some d \<Rightarrow> map_option (\<lambda>x. m\<lparr>mw_measurements := x\<rparr>) (update_sensor_data_callback d (mw_measurements m)))"

definition show_compass :: "libm \<Rightarrow> int \<Rightarrow> int \<Rightarrow> int option \<Rightarrow> main_window \<Rightarrow> main_window option" where
  "show_compass L width height p m =
     (case p of None \<Rightarrow> Some m
      | Some a \<Rightarrow> map_option (\<lambda>(ws, g). m\<lparr>mw_compass := g\<rparr>)
                    (update_compas_direction_callback L width height a (mw_compass m)))"

definition show_body :: "joint_angles option \<Rightarrow> main_window \<Rightarrow> main_window option" where
  "show_body p m =
     (case p of None \<Rightarrow> Some m
      | Some a \<Rightarrow> map_option (\<lambda>b. m\<lparr>mw_body := b\<rparr>) (update_servo_joints_callback a (mw_body m)))"

definition refresh_sensors :: "int \<Rightarrow> main_window \<Rightarrow> main_window" where
  "refresh_sensors now m =
     (if (now - mw_lastSensorRefreshTime m) sdiv 1000000 \<ge> 250
      then m\<lparr>mw_requests := mw_requests m @ [now], mw_lastSensorRefreshTime := now\<rparr> else m)"

definition onTimer :: "libm \<Rightarrow> int \<Rightarrow> int \<Rightarrow> int \<Rightarrow> main_window \<Rightarrow> main_window option" where
  "onTimer L width height now m =
     (let m1 = fold append_log_line (mw_pendingLogs m) (take_pending m);
          m2 = fold (\<lambda>r m. m\<lparr>mw_chat := llm_response_callback r (mw_chat m)\<rparr>) (mw_pendingLlmResponses m) m1
      in Option.bind (show_sensor_data (mw_pendingSensorData m) m2) (\<lambda>m3.
         Option.bind (show_compass L width height (mw_pendingCompassDirection m) m3) (\<lambda>m4.
         Option.bind (show_body (mw_pendingServoJointAngles m) m4) (\<lambda>m5.
           Some (refresh_sensors now m5)))))"

section \<open>What can happen to the windows\<close>

datatype window_action =
    Wa_log string LogLevel string
  | Wa_receive "string \<times> string" message
  | Wa_timer int
  | Wa_button body_button
  | Wa_body_speed int
  | Wa_servo_value ServoMotorJoint int
  | Wa_show_servo
  | Wa_save
  | Wa_prompt string
  | Wa_query
  | Wa_chat_key bool

definition window_sends :: "message \<Rightarrow> main_window \<Rightarrow> main_window" where
  "window_sends x m = m\<lparr>mw_sent := mw_sent m @ [x]\<rparr>"

text \<open>One action. The ranges are those the spin boxes are given.\<close>

fun window_step :: "libm \<Rightarrow> int \<Rightarrow> int \<Rightarrow> window_action \<Rightarrow> main_window \<Rightarrow> main_window option" where
  "window_step L width height (Wa_log line level className) m = Some (window_log line level className m)"
| "window_step L width height (Wa_receive symbols x) m = Some (window_receive symbols x m)"
| "window_step L width height (Wa_timer now) m = onTimer L width height now m"
| "window_step L width height (Wa_button b) m =
     Some (window_sends (tui_control_function_callback (body_command (mw_body m) b)) m)"
| "window_step L width height (Wa_body_speed v) m =
     Some (m\<lparr>mw_body := (mw_body m)\<lparr>bw_dcMotorSpeed := max 0 (min 100 v)\<rparr>\<rparr>)"
| "window_step L width height (Wa_servo_value j v) m =
     Some (m\<lparr>mw_servo := (mw_servo m)(j := max 0 (min 180 v))\<rparr>)"
| "window_step L width height Wa_show_servo m = Some (m\<lparr>mw_servo := servo_window_onShow (mw_servo m)\<rparr>)"
| "window_step L width height Wa_save m =
     Some (window_sends (tui_control_function_callback (set_servo_values (mw_servo m))) m)"
| "window_step L width height (Wa_prompt t) m = Some (m\<lparr>mw_chat := (mw_chat m)\<lparr>cw_prompt := t\<rparr>\<rparr>)"
| "window_step L width height Wa_query m = Some (window_sends (tui_llm_query_callback (cw_prompt (mw_chat m))) m)"
| "window_step L width height (Wa_chat_key is_enter) m =
     (let (q, c) = chat_onKeyPress is_enter (mw_chat m); m1 = m\<lparr>mw_chat := c\<rparr>
      in Some (case q of None \<Rightarrow> m1 | Some t \<Rightarrow> window_sends (tui_llm_query_callback t) m1))"

section \<open>What the queues show\<close>

fun logged :: "window_action \<Rightarrow> log_entry list" where
  "logged (Wa_log line level className) = [(line, level, className)]"
| "logged _ = []"

fun responses :: "window_action \<Rightarrow> string list" where
  "responses (Wa_receive symbols (M_llm_response r)) = [response_text symbols r]"
| "responses _ = []"

lemma lines_appended:
  "fold append_log_line es m = m\<lparr>mw_lines := mw_lines m @ map log_text es\<rparr>"
  by (induction es arbitrary: m) (simp_all add: append_log_line_def)

lemma answers_appended:
  "fold (\<lambda>r m. m\<lparr>mw_chat := llm_response_callback r (mw_chat m)\<rparr>) rs m =
   m\<lparr>mw_chat := (mw_chat m)\<lparr>cw_answers := cw_answers (mw_chat m) @ rs\<rparr>\<rparr>"
  by (induction rs arbitrary: m) (simp_all add: llm_response_callback_def)

text \<open>What the timer leaves behind.\<close>

lemma refresh_fields [simp]:
  "mw_lines (refresh_sensors now m) = mw_lines m" "mw_chat (refresh_sensors now m) = mw_chat m"
  "mw_pendingLogs (refresh_sensors now m) = mw_pendingLogs m"
  "mw_pendingLlmResponses (refresh_sensors now m) = mw_pendingLlmResponses m"
  by (simp_all add: refresh_sensors_def)

lemma onTimer_result:
  assumes "onTimer L width height now m = Some m'"
  shows "mw_lines m' = mw_lines m @ map log_text (mw_pendingLogs m)" and "mw_pendingLogs m' = []"
    and "cw_answers (mw_chat m') = cw_answers (mw_chat m) @ mw_pendingLlmResponses m"
    and "mw_pendingLlmResponses m' = []"
    and "mw_requests m' = mw_requests m @
      (if (now - mw_lastSensorRefreshTime m) sdiv 1000000 \<ge> 250 then [now] else [])"
    and "mw_lastSensorRefreshTime m' =
      (if (now - mw_lastSensorRefreshTime m) sdiv 1000000 \<ge> 250 then now else mw_lastSensorRefreshTime m)"
  using assms
  by (auto simp: onTimer_def Let_def lines_appended answers_appended take_pending_def bind_eq_Some_conv
      show_sensor_data_def show_compass_def show_body_def refresh_sensors_def split: option.splits)

text \<open>With something new for all three windows, the timer pass returns when each window takes it.\<close>

lemma onTimer_returns:
  assumes "mw_pendingSensorData m = Some d" and "mw_pendingCompassDirection m = Some a"
    and "mw_pendingServoJointAngles m = Some j"
  shows "(\<exists>m'. onTimer L width height now m = Some m') \<longleftrightarrow>
    (\<exists>x. update_sensor_data_callback d (mw_measurements m) = Some x) \<and>
    (\<exists>r. update_compas_direction_callback L width height a (mw_compass m) = Some r) \<and>
    (\<exists>b. update_servo_joints_callback j (mw_body m) = Some b)"
proof -
  define m2 where "m2 = fold (\<lambda>r m. m\<lparr>mw_chat := llm_response_callback r (mw_chat m)\<rparr>) (mw_pendingLlmResponses m)
      (fold append_log_line (mw_pendingLogs m) (take_pending m))"
  have m2: "mw_measurements m2 = mw_measurements m" "mw_compass m2 = mw_compass m" "mw_body m2 = mw_body m"
    by (simp_all add: m2_def answers_appended lines_appended take_pending_def)
  have chain: "onTimer L width height now m =
      Option.bind (show_sensor_data (Some d) m2) (\<lambda>m3.
      Option.bind (show_compass L width height (Some a) m3) (\<lambda>m4.
      Option.bind (show_body (Some j) m4) (\<lambda>m5. Some (refresh_sensors now m5))))"
    by (simp only: onTimer_def Let_def assms m2_def)
  show ?thesis
    unfolding chain
    by (cases "update_sensor_data_callback d (mw_measurements m)";
        cases "update_compas_direction_callback L width height a (mw_compass m)";
        cases "update_servo_joints_callback j (mw_body m)")
       (simp_all add: show_sensor_data_def show_compass_def show_body_def m2 case_prod_beta)
qed

lemma response_is_no_key: "response_text symbols r \<noteq> ''entered''"
proof
  assume "response_text symbols r = ''entered''"
  then have "last (response_text symbols r) = last ''entered''" by simp
  then show False by (simp add: response_text_def)
qed

text \<open>What every action keeps: lines and answers shown or waiting are those logged and received, in order.\<close>

definition nothing_lost :: "log_entry list \<Rightarrow> string list \<Rightarrow> main_window \<Rightarrow> bool" where
  "nothing_lost es rs m \<longleftrightarrow>
     mw_lines m @ map log_text (mw_pendingLogs m) = map log_text es \<and>
     filter (\<lambda>t. t \<noteq> ''entered'') (cw_answers (mw_chat m)) @ mw_pendingLlmResponses m = rs \<and>
     ''entered'' \<notin> set (mw_pendingLlmResponses m)"

lemma receive_fields:
  "mw_lines (window_receive symbols x m) = mw_lines m"
  "mw_pendingLogs (window_receive symbols x m) = mw_pendingLogs m"
  "mw_chat (window_receive symbols x m) = mw_chat m"
  "mw_pendingLlmResponses (window_receive symbols x m) =
     mw_pendingLlmResponses m @ responses (Wa_receive symbols x)"
  "mw_requests (window_receive symbols x m) = mw_requests m"
  "mw_lastSensorRefreshTime (window_receive symbols x m) = mw_lastSensorRefreshTime m"
  by (cases x; simp add: queue_llm_response_def queue_sensor_data_def queue_compass_direction_def
      queue_servo_joints_def Let_def split: option.split)+

lemma received_report:
  assumes "sd_compassData d = Some c" and "sd_currentJointAngles d = Some a"
  shows "mw_pendingSensorData (window_receive symbols (M_sensor d) m) = Some d"
    and "mw_pendingCompassDirection (window_receive symbols (M_sensor d) m) = Some (uint (cd_angle c))"
    and "mw_pendingServoJointAngles (window_receive symbols (M_sensor d) m) = Some a"
    and "mw_compass (window_receive symbols (M_sensor d) m) = mw_compass m"
  using assms by (simp_all add: queue_sensor_data_def queue_compass_direction_def queue_servo_joints_def)

lemma responses_no_key: "''entered'' \<notin> set (responses a)"
  by (cases a rule: responses.cases) (auto dest: response_is_no_key [symmetric, THEN notE, rotated])

lemma step_loses_nothing:
  assumes "nothing_lost es rs m" and "window_step L width height a m = Some m'"
  shows "nothing_lost (es @ logged a) (rs @ responses a) m'"
proof (cases a)
  case (Wa_timer now)
  then have "onTimer L width height now m = Some m'" using assms(2) by simp
  note r = onTimer_result [OF this]
  have "filter (\<lambda>t. t \<noteq> ''entered'') (mw_pendingLlmResponses m) = mw_pendingLlmResponses m"
    using assms(1) by (auto simp: nothing_lost_def filter_id_conv)
  then show ?thesis using assms(1) Wa_timer by (simp add: nothing_lost_def r)
next
  case (Wa_receive symbols x)
  then show ?thesis
    using assms responses_no_key [of "Wa_receive symbols x"] by (auto simp: nothing_lost_def receive_fields)
qed (use assms in \<open>auto simp: nothing_lost_def window_log_def window_sends_def chat_onKeyPress_def Let_def
       split: if_splits\<close>)

lemma run_loses_nothing:
  "run_actions (window_step L width height) as m = Some m' \<Longrightarrow> nothing_lost es rs m \<Longrightarrow>
   nothing_lost (es @ concat (map logged as)) (rs @ concat (map responses as)) m'"
proof (induction as arbitrary: m es rs)
  case Nil
  then show ?case by simp
next
  case (Cons a as)
  then obtain m1 where m1: "window_step L width height a m = Some m1"
    "run_actions (window_step L width height) as m1 = Some m'"
    by (auto simp: bind_eq_Some_conv)
  show ?case using Cons.IH [OF m1(2) step_loses_nothing [OF Cons.prems(2) m1(1)]] by simp
qed

section \<open>How often sensor values are requested\<close>

definition well_spaced :: "int \<Rightarrow> main_window \<Rightarrow> bool" where
  "well_spaced t0 m \<longleftrightarrow>
     successively (\<lambda>a b. a + 250000000 \<le> b) (t0 # mw_requests m) \<and>
     mw_lastSensorRefreshTime m = last (t0 # mw_requests m)"

lemma quarter_second: "x sdiv 1000000 \<ge> (250 :: int) \<Longrightarrow> 250000000 \<le> x"
proof -
  assume x: "x sdiv 1000000 \<ge> 250"
  have "0 \<le> x"
  proof (rule ccontr)
    assume "\<not> 0 \<le> x"
    then have "x sdiv 1000000 = - ((- x) div 1000000)" by (simp add: signed_divide_int_def)
    moreover have "0 \<le> (- x) div 1000000" using \<open>\<not> 0 \<le> x\<close> by (simp add: pos_imp_zdiv_nonneg_iff)
    ultimately show False using x by simp
  qed
  then show "250000000 \<le> x" using x by (simp add: sdiv_nonneg)
qed

lemma step_spaced:
  assumes "well_spaced t0 m" and "window_step L width height a m = Some m'"
  shows "well_spaced t0 m'"
proof (cases a)
  case (Wa_timer now)
  then have "onTimer L width height now m = Some m'" using assms(2) by simp
  note r = onTimer_result [OF this]
  show ?thesis
    using assms(1) quarter_second [of "now - mw_lastSensorRefreshTime m"]
    by (auto simp: well_spaced_def r successively_Cons successively_append_iff split: if_splits)
qed (use assms in \<open>auto simp: well_spaced_def window_log_def window_sends_def chat_onKeyPress_def Let_def
       receive_fields split: if_splits\<close>)

interpretation spaced: stable_condition "window_step L width height" "\<lambda>_. True" "well_spaced t0"
  for L width height t0
  by unfold_locales (rule step_spaced)

section \<open>The windows over time\<close>

text \<open>C35: whatever happens to the windows, the lines of the log and the responses shown or waiting are exactly
those that were logged and received, in that order (apart from the lines the keys add to the
answers), and between two requests for sensor values lies at least a quarter of a second.\<close>

theorem shown_in_order:
  assumes "run_actions (window_step L width height) as (main_window_new t0) = Some m"
  shows "mw_lines m @ map log_text (mw_pendingLogs m) = map log_text (concat (map logged as)) \<and>
    filter (\<lambda>t. t \<noteq> ''entered'') (cw_answers (mw_chat m)) @ mw_pendingLlmResponses m = concat (map responses as) \<and>
    successively (\<lambda>a b. a + 250000000 \<le> b) (t0 # mw_requests m)"
proof -
  have "nothing_lost [] [] (main_window_new t0)" and "well_spaced t0 (main_window_new t0)"
    by (simp_all add: nothing_lost_def well_spaced_def main_window_new_def)
  then show ?thesis
    using run_loses_nothing [OF assms] spaced.kept_run [OF assms] by (auto simp: nothing_lost_def well_spaced_def)
qed

definition sample_actions :: "window_action list" where
  "sample_actions =
     [Wa_log ''one'' Log_info ''Robot'', Wa_timer 100000000, Wa_chat_key False, Wa_timer 260000000,
      Wa_log ''two'' Log_warn ''Robot'', Wa_timer 400000000]"

lemma sample_run:
  "run_actions (window_step upright_libm 60 30) sample_actions (main_window_new 0) =
     Some ((main_window_new 0)\<lparr>mw_lines := [''[info ] <Robot> one'', ''[warn.] <Robot> two''],
       mw_chat := \<lparr>cw_prompt = [], cw_answers = [''entered'']\<rparr>,
       mw_lastSensorRefreshTime := 260000000, mw_requests := [260000000]\<rparr>)"
  by (simp add: sample_actions_def main_window_new_def window_log_def onTimer_def take_pending_def append_log_line_def
      log_text_def show_sensor_data_def show_compass_def show_body_def refresh_sensors_def chat_onKeyPress_def
      signed_divide_int_def Let_def)

lemma shown_in_order_witness:
  "successively (\<lambda>a b. a + 250000000 \<le> b) (0 # [260000000 :: int]) \<and>
   [''[info ] <Robot> one'', ''[warn.] <Robot> two''] = map log_text (concat (map logged sample_actions))"
  using shown_in_order [OF sample_run] by (simp add: main_window_new_def)

end
