(* ===== verification/Window_Control.thy ===== *)
theory Window_Control
  imports Tui_Windows Robot_Service
begin

text \<open>
  The windows of the terminal interface and the robot together: what a button of the body window
  makes the wheels and the head do, what saving the servo window does, and what a sensor report of
  the robot does to the windows.
\<close>

section \<open>Buttons of the body window\<close>

text \<open>The control event the robot service makes of a window's command.\<close>

definition window_event :: "ControlData \<Rightarrow> ControlEvent" where
  "window_event c =
     (case tui_control_function_callback c of M_control c' \<Rightarrow> command_event c' | _ \<Rightarrow> command_event c)"

lemma window_event_simps [simp]:
  "ev_type (window_event c) = Ev_control" "ev_source (window_event c) = Src_tuiService"
  "ev_controlData (window_event c) = c\<lparr>ctl_source := Some Src_tuiService\<rparr>"
  by (simp_all add: window_event_def tui_control_function_callback_def command_event_def)

text \<open>The drive a button asks for.\<close>

fun button_drive :: "body_button \<Rightarrow> drive option" where
  "button_drive Bt_forward = Some Drive_forward"
| "button_drive Bt_backward = Some Drive_backward"
| "button_drive Bt_turnLeft = Some Drive_left"
| "button_drive Bt_turnRight = Some Drive_right"
| "button_drive _ = None"

text \<open>Under terminal control a command of the windows is executed at once.\<close>

lemma stamp_robot [simp]: "mc_robot (stamp P m) = mc_robot m"
  by (simp add: stamp_def case_prod_beta Let_def)

lemma window_command_executed:
  assumes "mc_currentState m = Some TuiControlState"
  shows "\<exists>w. dispatch P (window_event c) m =
    map_option (\<lambda>(r, w'). (if refreshes TuiControlState (mc_entrySource m) Src_tuiService then stamp P m else m)
        \<lparr>mc_robot := r, mc_world := w'\<rparr>)
      (control_motion (pf_env P) (pf_libm P) (c\<lparr>ctl_source := Some Src_tuiService\<rparr>) (mc_robot m) w)"
proof -
  let ?m = "if refreshes TuiControlState (mc_entrySource m) Src_tuiService then stamp P m else m"
  have "dispatch P (window_event c) m = perform P TuiControlState (window_event c) m"
    using dispatch_family_control [OF assms] by (simp add: moving_family_def moving_child_def accepts_def)
  then show ?thesis
    by (intro exI [of _ "mc_world ?m"]) (simp add: perform_def robot_command_def)
qed

fun button_angle :: "body_button \<Rightarrow> int" where
  "button_angle Bt_forward = UP"
| "button_angle Bt_backward = DOWN"
| "button_angle Bt_turnLeft = LEFT"
| "button_angle _ = RIGHT"

lemma body_command_joystick:
  "button_drive b = Some d \<Longrightarrow> sector (button_angle b) = d \<and> -180 \<le> button_angle b \<and>
     body_command win b = body_joystick (button_angle b) (bw_dcMotorSpeed win)"
  by (cases b) (auto simp: directions sector_def)

text \<open>C33: under terminal control, with the speed box above zero, each of the four arrow buttons of the body makes
the wheels do what its arrow says, at the speed of the box or at 95 where the box says 100, and
leaves the robot's controllers as they are.\<close>

theorem body_button_drives:
  assumes "mc_currentState m = Some TuiControlState" and "active (rb_dc (mc_robot m))"
    and "button_drive b = Some d" and "0 < bw_dcMotorSpeed win" and "bw_dcMotorSpeed win \<le> 100"
  shows "\<exists>m'. dispatch P (window_event (body_command win b)) m = Some m' \<and> mc_robot m' = mc_robot m \<and>
    wheels (mc_robot m) (mc_world m') =
      drive_wheels d (if bw_dcMotorSpeed win = 100 then 95 else bw_dcMotorSpeed win)"
proof -
  note a = body_command_joystick [OF assms(3)]
  obtain w where w: "dispatch P (window_event (body_command win b)) m =
    map_option (\<lambda>(r, w'). (if refreshes TuiControlState (mc_entrySource m) Src_tuiService then stamp P m else m)
        \<lparr>mc_robot := r, mc_world := w'\<rparr>)
      (control_motion (pf_env P) (pf_libm P) ((body_command win b)\<lparr>ctl_source := Some Src_tuiService\<rparr>) (mc_robot m) w)"
    using window_command_executed [OF assms(1)] by blast
  have "capped_magnitude (bw_dcMotorSpeed win) = (if bw_dcMotorSpeed win = 100 then 95 else bw_dcMotorSpeed win)"
    using assms(5) by (simp add: capped_magnitude_def)
  then show ?thesis
    using control_body_sector [OF assms(2), of "button_angle b" "bw_dcMotorSpeed win" "pf_env P" w] assms(4) a
    unfolding w by (simp add: body_joystick_def control_motion_def split: if_splits)
qed

lemma body_button_drives_witness:
  "\<exists>m'. dispatch sample_platform (window_event (body_command body_window_new Bt_turnLeft))
      (sample_machine TuiControlState) = Some m' \<and>
    wheels sample_robot (mc_world m') = drive_wheels Drive_left 95"
  using body_button_drives [of "sample_machine TuiControlState" Bt_turnLeft Drive_left body_window_new sample_platform]
  by (auto simp: sample_machine_def machine_new_def body_window_new_def)

text \<open>
  The round button between the head's arrows does not bring the head to a default position: its
  command is that of the right arrow, and it turns the head five degrees to the right, or to the stop.
\<close>

lemma angle_zero: "fdiv dbl_prec (fmul dbl_prec (fof_int dbl_prec 0) M_PI) (fof_int dbl_prec 180) = Flt 0 0"
  by code_simp

lemma head_zero_turns_right:
  assumes "active s" and "sv_angles s J_headLeftRight = Some c" and "5 \<le> v"
    and "lib_sin L (Flt 0 0) = Flt 0 0" and "lib_cos L (Flt 0 0) = Flt 1 0"
  shows "\<exists>s' w'. control_head E L l 0 v s w = Some (s', w') \<and>
    sv_angles s' J_headLeftRight = Some (u8_of_int (max 0 (uint c - 5)))"
proof -
  have five: "(if v > 5 then 5 else v) = 5" using assms(3) by simp
  have m: "\<bar>ftrunc (fmul dbl_prec (Flt 1 0) (fof_int dbl_prec 5))\<bar> = 5" by code_simp
  have cmp: "\<not> flt_less (flit dbl_prec 1 1000) (Flt 0 0)" "\<not> flt_less (Flt 0 0) (fneg (flit dbl_prec 1 1000))"
    "flt_less (flit dbl_prec 1 1000) (Flt 1 0)" by code_simp+
  have "control_head E L l 0 v s w = head_right E 5 s w"
    using assms(3-5) by (simp add: control_head_def angle_zero five m cmp Let_def)
  moreover have "head_right E 5 s w = setJoint E J_headLeftRight (max 0 (uint c - 5)) s w"
    using assms(2) by (auto simp: head_right_def at_least_one_def step_down_to_def getAllJointsAngle_def
        angle_of_def Let_def max_def)
  moreover obtain s' w' where "setJoint E J_headLeftRight (max 0 (uint c - 5)) s w = Some (s', w')"
    using setJointAngle_returns [of 1 E J_headLeftRight "max 0 (uint c - 5)" 5 s w] by (auto simp: setJoint_def)
  ultimately show ?thesis
    using setJointAngle_frame(6) [of E J_headLeftRight _ 1 5 s w s' w'] assms(1) by (auto simp: setJoint_def)
qed

text \<open>The round button at the window's default speed, under terminal control.\<close>

lemma center_button_turns_right:
  assumes "mc_currentState m = Some TuiControlState" and "active (rb_servo (mc_robot m))"
    and "sv_angles (rb_servo (mc_robot m)) J_headLeftRight = Some c" and "5 \<le> bw_dcMotorSpeed win"
    and "lib_sin (pf_libm P) (Flt 0 0) = Flt 0 0" and "lib_cos (pf_libm P) (Flt 0 0) = Flt 1 0"
  shows "\<exists>m'. dispatch P (window_event (body_command win Bt_headDefaultPos)) m = Some m' \<and>
    sv_angles (rb_servo (mc_robot m')) J_headLeftRight = Some (u8_of_int (max 0 (uint c - 5)))"
proof -
  obtain w where w: "dispatch P (window_event (body_command win Bt_headDefaultPos)) m =
    map_option (\<lambda>(r, w'). (if refreshes TuiControlState (mc_entrySource m) Src_tuiService then stamp P m else m)
        \<lparr>mc_robot := r, mc_world := w'\<rparr>)
      (control_motion (pf_env P) (pf_libm P) ((body_command win Bt_headDefaultPos)\<lparr>ctl_source := Some Src_tuiService\<rparr>)
         (mc_robot m) w)"
    using window_command_executed [OF assms(1)] by blast
  obtain s' w' where "control_head (pf_env P) (pf_libm P) (rb_jointPositionList (mc_robot m)) 0 (bw_dcMotorSpeed win)
      (rb_servo (mc_robot m)) w = Some (s', w')"
    "sv_angles s' J_headLeftRight = Some (u8_of_int (max 0 (uint c - 5)))"
    using head_zero_turns_right [OF assms(2-6)] by blast
  then show ?thesis
    unfolding w
    by (simp add: head_joystick_def control_motion_def on_servo_def servo_command_def ControlData_empty_def)
qed

section \<open>Saving the servo window\<close>

text \<open>Under terminal control, with every joint known, saving the servo window brings every one of the seven
joints to the angle its box shows; boxes hold 0 to 180, so no angle is cut off.\<close>

lemma saved_values_reached:
  assumes "mc_currentState m = Some TuiControlState" and "active (rb_servo (mc_robot m))"
    and "\<forall>j. sv_angles (rb_servo (mc_robot m)) j \<noteq> None" and "\<forall>j. 0 \<le> win j \<and> win j \<le> 180"
  shows "\<exists>m'. dispatch P (window_event (set_servo_values win)) m = Some m' \<and>
    (\<forall>j. map_option uint (sv_angles (rb_servo (mc_robot m')) j) = Some (win j))"
proof -
  obtain w where w: "dispatch P (window_event (set_servo_values win)) m =
    map_option (\<lambda>(r, w'). (if refreshes TuiControlState (mc_entrySource m) Src_tuiService then stamp P m else m)
        \<lparr>mc_robot := r, mc_world := w'\<rparr>)
      (control_motion (pf_env P) (pf_libm P) ((set_servo_values win)\<lparr>ctl_source := Some Src_tuiService\<rparr>)
         (mc_robot m) w)"
    using window_command_executed [OF assms(1)] by blast
  let ?targets = "the (ctl_jointAngles (set_servo_values win))"
  have c: "(set_servo_values win)\<lparr>ctl_source := Some Src_tuiService\<rparr> =
      ControlData_empty\<lparr>ctl_source := Some Src_tuiService, ctl_jointAngles := Some ?targets\<rparr>"
    by (simp add: set_servo_values_def)
  have t: "?targets j = Some (u8_of_int (win j))" for j
    by (cases j) (simp_all add: set_servo_values_def)
  obtain r' w' where "control_motion (pf_env P) (pf_libm P)
      ((set_servo_values win)\<lparr>ctl_source := Some Src_tuiService\<rparr>) (mc_robot m) w = Some (r', w')"
    "\<forall>j. sv_angles (rb_servo r') j = Some (u8_of_int (win j))"
    using joint_map_moves [OF assms(2,3) c, of "pf_env P" "pf_libm P" w] t by auto
  moreover have "uint (u8_of_int (win j)) = win j" for j
    using assms(4) [rule_format, of j] by simp
  ultimately show ?thesis unfolding w by (auto simp del: uint_u8_of_int)
qed

lemma saved_values_reached_witness:
  "\<exists>m'. dispatch sample_platform (window_event (set_servo_values (servo_window_onShow (\<lambda>_. 0))))
      (sample_machine TuiControlState) = Some m' \<and>
    (\<forall>j. map_option uint (sv_angles (rb_servo (mc_robot m')) j) = Some (servo_window_onShow (\<lambda>_. 0) j))"
proof (rule saved_values_reached)
  show "\<forall>j. 0 \<le> servo_window_onShow (\<lambda>_. 0) j \<and> servo_window_onShow (\<lambda>_. 0) j \<le> 180"
    by (simp add: servo_window_onShow_def)
qed (use default_joint_some in \<open>simp_all add: sample_machine_def machine_new_def\<close>)

section \<open>A sensor report in the windows\<close>

lemma shown_order_complete: "j \<in> set shown_order"
  by (cases j) (simp_all add: shown_order_def)

lemma show_joints_returns: "(\<exists>b'. show_joints a js b = Some b') \<longleftrightarrow> list_all (\<lambda>j. a j \<noteq> None) js"
  by (induction js arbitrary: b) (auto split: option.split)

lemma joints_shown_iff: "(\<exists>b'. update_servo_joints_callback a b = Some b') \<longleftrightarrow> (\<forall>j. a j \<noteq> None)"
  using shown_order_complete by (auto simp: update_servo_joints_callback_def show_joints_returns list_all_iff)

definition direction_end :: "libm \<Rightarrow> int \<Rightarrow> int \<Rightarrow> graph \<Rightarrow> int \<Rightarrow> cell option" where
  "direction_end L width height g angle =
     (let radians = fmul dbl_prec (fof_int dbl_prec angle) (fdiv dbl_prec M_PI (fof_int dbl_prec 180))
      in transform_to_screen width height g
           (fmul dbl_prec (fof_int dbl_prec 80) (lib_cos L radians))
           (fmul dbl_prec (fof_int dbl_prec 80) (lib_sin L radians)))"

lemma direction_cells_returns:
  "(\<exists>cs. direction_cells width a b = Some cs) \<longleftrightarrow> fst a = fst b \<or> snd a \<noteq> snd b"
  by (cases a; cases b) (simp add: direction_cells_def Let_def)

lemma bind_returns: "(\<exists>r. Option.bind s f = Some r) \<longleftrightarrow> (\<exists>a. s = Some a \<and> (\<exists>r. f a = Some r))"
  by (cases s) simp_all

lemma map_returns: "(\<exists>r. map_option f s = Some r) \<longleftrightarrow> (\<exists>a. s = Some a)"
  by (cases s) simp_all

lemma compass_shown_iff:
  "(\<exists>r. update_compas_direction_callback L width height angle g = Some r) \<longleftrightarrow>
   (\<exists>a b. transform_to_screen width height g (Flt 0 0) (Flt 0 0) = Some a \<and>
      direction_end L width height g angle = Some b \<and> \<not> (snd a = snd b \<and> fst a \<noteq> fst b))"
  unfolding update_compas_direction_callback_def draw_direction_def direction_end_def Let_def
    bind_returns map_returns direction_cells_returns by blast

text \<open>C34: whatever waits in the queues, the timer pass after a sensor report of the robot returns exactly when the
robot knows all seven joints, both ends of the compass line have a cell, and the line does not run
along a row of its window; otherwise the lookup of a joint raises, or a cell or the column of the
line is no int.\<close>

theorem report_shown_iff:
  "(\<exists>m'. onTimer L width height now
      (window_receive symbols (M_sensor (fst (getSensorValues E Lr garbage r w))) m) = Some m') \<longleftrightarrow>
   (\<forall>j. sv_angles (rb_servo r) j \<noteq> None) \<and>
   (\<exists>a b. transform_to_screen width height (mw_compass m) (Flt 0 0) (Flt 0 0) = Some a \<and>
      direction_end L width height (mw_compass m)
        (uint (cd_angle (fst (getCompassData E Lr (rb_compass r) w)))) = Some b \<and>
      \<not> (snd a = snd b \<and> fst a \<noteq> fst b))"
proof -
  obtain c w1 where c: "getCompassData E Lr (rb_compass r) w = (c, w1)" by fastforce
  let ?d = "fst (getSensorValues E Lr garbage r w)"
  have d: "sd_compassData ?d = Some c" "sd_currentJointAngles ?d = Some (sv_angles (rb_servo r))"
    "sd_distanceData ?d \<noteq> None" "sd_powerData ?d \<noteq> None"
    by (simp_all add: getSensorValues_def c getAllJointsAngle_def case_prod_beta Let_def)
  then have sensor: "\<exists>x. update_sensor_data_callback ?d y = Some x" for y
    by (auto simp: update_sensor_data_callback_def simp del: decimal.simps)
  show ?thesis
    unfolding onTimer_returns [OF received_report(1-3) [OF d(1,2)]] received_report(4) [OF d(1,2)]
      joints_shown_iff compass_shown_iff c fst_conv
    using sensor by (simp add: Let_def) blast
qed

end
