(* ===== verification/Llama_Operator.thy ===== *)
theory Llama_Operator
  imports Interactive_Chat
begin

text \<open>
  \<open>operators/llama_operator.cpp\<close>, the operator over llama.cpp that the chat and the stored answers
  use, and \<open>load_models\<close> of \<open>services/interactive_chat_service.cpp\<close>: loading and unloading, the
  conversation and the generation of a response, embeddings and their similarity. llama.cpp is not
  in the repository: what its functions answer are parameters.
\<close>

section \<open>Loading and unloading\<close>

text \<open>The calls that create and free what the library owns, latest first; pointers are numbers. A context
is created with the sizes of context and batch, the threads and, for embeddings, the pooling type.\<close>

datatype llama_call =
  Backend_init | Backend_free
| Load_model string int
| New_context nat int int int "int option"
| New_sampler "flt option"
| Free_sampler nat | Free_context nat | Free_model nat

record llama_lib =
  ll_model :: "llama_call list \<Rightarrow> nat option"
  ll_context :: "llama_call list \<Rightarrow> nat option"
  ll_sampler :: "llama_call list \<Rightarrow> nat"
  ll_has_encoder :: "nat \<Rightarrow> bool"
  ll_has_decoder :: "nat \<Rightarrow> bool"

text \<open>
  The operator. The memory of its context (the tokens evaluated so far) and the number of draws of
  its sampler belong to the library and are kept beside the pointers to them.
\<close>

record llama_operator =
  lo_nThreads :: int
  lo_ngl :: int
  lo_nCtx :: int
  lo_minP :: flt
  lo_temp :: flt
  lo_topK :: int
  lo_topP :: flt
  lo_modelLoaded :: bool
  lo_model :: "nat option"
  lo_ctx :: "nat option"
  lo_smpl :: "nat option"
  lo_vocab :: "nat option"
  lo_systemMessage :: string
  lo_messages :: "(string \<times> string) list"
  lo_memory :: "int list"
  lo_draws :: nat

definition llama_operator_new :: llama_operator where
  "llama_operator_new =
     \<lparr>lo_nThreads = 4, lo_ngl = 99, lo_nCtx = 2048, lo_minP = flit flt_prec 5 100,
      lo_temp = flit flt_prec 8 10, lo_topK = 50, lo_topP = flit flt_prec 9 10, lo_modelLoaded = False,
      lo_model = None, lo_ctx = None, lo_smpl = None, lo_vocab = None, lo_systemMessage = [],
      lo_messages = [], lo_memory = [], lo_draws = 0\<rparr>"

definition llama_isReady :: "llama_operator \<Rightarrow> bool" where
  "llama_isReady s \<longleftrightarrow> lo_modelLoaded s \<and> lo_model s \<noteq> None \<and> lo_ctx s \<noteq> None"

definition setOptions ::
    "int \<Rightarrow> int \<Rightarrow> int \<Rightarrow> flt \<Rightarrow> flt \<Rightarrow> int \<Rightarrow> flt \<Rightarrow> llama_operator \<Rightarrow> llama_operator" where
  "setOptions ngl nThreads n_ctx minP temp topK topP s =
     s\<lparr>lo_ngl := ngl, lo_nCtx := n_ctx, lo_minP := minP, lo_temp := temp, lo_topK := topK,
       lo_topP := topP, lo_nThreads := nThreads\<rparr>"

definition setSystemMessage :: "string \<Rightarrow> llama_operator \<Rightarrow> llama_operator" where
  "setSystemMessage systemMsg s = s\<lparr>lo_systemMessage := systemMsg\<rparr>"

type_synonym loading = "llama_operator \<times> llama_call list"

text \<open>
  \<open>loadEmbedModel\<close>. When the context is not created, or the model is an encoder-decoder model, the
  model is freed while \<open>_model\<close> keeps pointing to it.
\<close>

definition loadEmbedModel :: "llama_lib \<Rightarrow> string \<Rightarrow> int \<Rightarrow> loading \<Rightarrow> bool \<times> loading" where
  "loadEmbedModel L modelPath poolingType sc =
     (let (s, calls) = sc
      in if lo_modelLoaded s then (False, sc)
         else let calls = Load_model modelPath (lo_ngl s) # Backend_init # calls;
                  s = s\<lparr>lo_model := ll_model L calls\<rparr>
              in case lo_model s of None \<Rightarrow> (False, s, calls) | Some m \<Rightarrow>
                 let s = s\<lparr>lo_vocab := Some m\<rparr>;
                     calls = New_context m (lo_nCtx s) (lo_nCtx s) (lo_nThreads s) (Some poolingType) # calls;
                     s = s\<lparr>lo_ctx := ll_context L calls, lo_memory := []\<rparr>
                 in if lo_ctx s = None then (False, s, Free_model m # calls)
                    else if ll_has_encoder L m \<and> ll_has_decoder L m then (False, s, Free_model m # calls)
                    else let calls = New_sampler None # calls
                         in (True, s\<lparr>lo_smpl := Some (ll_sampler L calls), lo_draws := 0, lo_modelLoaded := True\<rparr>,
                             calls))"

definition loadChatModel :: "llama_lib \<Rightarrow> string \<Rightarrow> loading \<Rightarrow> bool \<times> loading" where
  "loadChatModel L modelPath sc =
     (let (s, calls) = sc
      in if lo_modelLoaded s then (False, sc)
         else let calls = Load_model modelPath (lo_ngl s) # calls;
                  s = s\<lparr>lo_model := ll_model L calls\<rparr>
              in case lo_model s of None \<Rightarrow> (False, s, calls) | Some m \<Rightarrow>
                 let s = s\<lparr>lo_vocab := Some m\<rparr>;
                     calls = New_context m (lo_nCtx s) (lo_nCtx s) (lo_nThreads s) None # calls;
                     s = s\<lparr>lo_ctx := ll_context L calls, lo_memory := []\<rparr>
                 in if lo_ctx s = None then (False, s, calls)
                    else let calls = New_sampler (Some (lo_temp s)) # calls
                         in (True, s\<lparr>lo_smpl := Some (ll_sampler L calls), lo_draws := 0, lo_modelLoaded := True\<rparr>,
                             calls))"

definition free_handle :: "(nat \<Rightarrow> llama_call) \<Rightarrow> nat option \<Rightarrow> llama_call list \<Rightarrow> llama_call list" where
  "free_handle f h calls = (case h of None \<Rightarrow> calls | Some p \<Rightarrow> f p # calls)"

definition unloadHandles :: "loading \<Rightarrow> loading" where
  "unloadHandles sc =
     (let (s, calls) = sc;
          calls = free_handle Free_sampler (lo_smpl s) calls;
          calls = free_handle Free_context (lo_ctx s) calls;
          calls = free_handle Free_model (lo_model s) calls
      in (s\<lparr>lo_smpl := None, lo_ctx := None, lo_model := None, lo_vocab := None, lo_modelLoaded := False\<rparr>, calls))"

definition unloadModel :: "loading \<Rightarrow> loading" where
  "unloadModel sc = unloadHandles ((fst sc)\<lparr>lo_messages := []\<rparr>, snd sc)"

definition unloadEmbedModel :: "loading \<Rightarrow> loading" where
  "unloadEmbedModel sc = (let (s, calls) = unloadHandles sc in (s, Backend_free # calls))"

text \<open>\<open>shutdown\<close>, which the destructor calls as well.\<close>

definition llama_shutdown :: "loading \<Rightarrow> loading" where
  "llama_shutdown sc =
     (let s = fst sc
      in if lo_ctx s \<noteq> None \<or> lo_model s \<noteq> None \<or> lo_smpl s \<noteq> None \<or> lo_modelLoaded s
         then unloadModel sc else sc)"

section \<open>Loading the models of the chat\<close>

text \<open>
  \<open>InteractiveChatService::load_models\<close> over the operator of the chat and the one of the
  embeddings; \<open>initialize\<close> calls it with the configuration read at the start.
\<close>

definition load_models ::
    "llama_lib \<Rightarrow> AiConfig option \<Rightarrow> llama_operator \<times> llama_operator \<times> llama_call list \<Rightarrow>
     bool \<times> llama_operator \<times> llama_operator \<times> llama_call list" where
  "load_models L aiConfig ops =
     (let (ch, em, calls) = ops
      in case aiConfig of None \<Rightarrow> (False, ops) | Some config \<Rightarrow>
         let ch = setSystemMessage (lc_systemMessage (ai_llmChatConfig config)) ch;
             (ok, ch, calls) = loadChatModel L (lc_modelPath (ai_llmChatConfig config)) (ch, calls)
         in if \<not> ok then (False, ch, em, calls)
            else let (ok, em, calls) = loadEmbedModel L (le_modelPath (ai_llmEmbeddingConfig config))
                       (le_poolingType (ai_llmEmbeddingConfig config)) (em, calls)
                 in (ok, ch, em, calls))"

section \<open>Generating a response\<close>

text \<open>
  What llama.cpp answers for the model and context of the chat: the size of the context, the text
  the model's template makes of the messages (\<open>None\<close> when it fails), the tokens of a text (the
  flag says whether it is the first), whether a batch is evaluated after the tokens in memory, the
  token drawn, whether a token ends the generation, and its text (\<open>None\<close> when it does not fit).
\<close>

record language_model =
  lm_n_ctx :: nat
  lm_template :: "(string \<times> string) list \<Rightarrow> string option"
  lm_tokenize :: "string \<Rightarrow> bool \<Rightarrow> int list"
  lm_decode :: "int list \<Rightarrow> int list \<Rightarrow> bool"
  lm_sample :: "nat \<Rightarrow> int list \<Rightarrow> int"
  lm_is_eog :: "int \<Rightarrow> bool"
  lm_piece :: "int \<Rightarrow> string option"

text \<open>
  A call returns, ends the process by \<open>exit(0)\<close>, aborts it (\<open>GGML_ABORT\<close>), or does something the
  language leaves undefined.
\<close>

datatype 'a run = Returned 'a | Exited | Aborted | Undefined

text \<open>
  The loop of \<open>generateResponse\<close>: \<open>running k\<close> is what its k-th test of \<open>_running\<close> reads, which
  \<open>stopGenerateResponse\<close> of another thread sets to false. Besides the outcome, with the memory
  and the draws after it, it yields the pieces handed to the callback.
\<close>

function generate_loop ::
    "language_model \<Rightarrow> (nat \<Rightarrow> bool) \<Rightarrow> nat \<Rightarrow> int list \<Rightarrow> int list \<Rightarrow> nat \<Rightarrow>
     string list \<times> (int list \<times> nat) run" where
  "generate_loop M running k batch memory draws =
     (if \<not> running k then ([], Returned (memory, draws))
      else if lm_n_ctx M < length memory + length batch then ([], Exited)
      else if \<not> lm_decode M memory batch then ([], Aborted)
      else let memory = memory @ batch; new_token_id = lm_sample M draws memory
           in if lm_is_eog M new_token_id then ([], Returned (memory, Suc draws))
              else case lm_piece M new_token_id of None \<Rightarrow> ([], Aborted) | Some piece \<Rightarrow>
                   let (pieces, r) = generate_loop M running (Suc k) [new_token_id] memory (Suc draws)
                   in (piece # pieces, r))"
  by auto
termination
  by (relation "measure (\<lambda>(M, running, k, batch, memory, draws).
        2 * (lm_n_ctx M - length memory) + (if batch = [] then 1 else 0))") (auto simp: neq_Nil_conv)

declare generate_loop.simps [simp del]

definition generateResponse ::
    "language_model \<Rightarrow> (nat \<Rightarrow> bool) \<Rightarrow> string \<Rightarrow> int list \<Rightarrow> nat \<Rightarrow>
     string list \<times> (string \<times> int list \<times> nat) run" where
  "generateResponse M running prompt memory draws =
     (let is_first = (memory = []);
          (pieces, r) = generate_loop M running 0 (lm_tokenize M prompt is_first) memory draws
      in case r of
           Returned (memory, draws) \<Rightarrow> (pieces @ [''<end>''], Returned (concat pieces, memory, draws))
         | Exited \<Rightarrow> (pieces, Exited) | Aborted \<Rightarrow> (pieces, Aborted) | Undefined \<Rightarrow> (pieces, Undefined))"

definition c_string :: "string \<Rightarrow> string" where
  "c_string str = takeWhile (\<lambda>c. c \<noteq> CHR 0x00) str"

text \<open>
  \<open>chat\<close>. The buffer has as many characters as the context has tokens; a template that fails or
  makes a longer text gives a range outside of it. \<open>prev_len\<close> is a local variable, always 0.
\<close>

definition llama_chat ::
    "language_model \<Rightarrow> (nat \<Rightarrow> bool) \<Rightarrow> string \<Rightarrow> llama_operator \<Rightarrow> string list \<times> llama_operator run" where
  "llama_chat M running userInput s =
     (if lo_ctx s = None then ([], Undefined)
      else if userInput = [] then ([], Returned s)
      else let messages = (if lo_messages s = [] \<and> lo_systemMessage s \<noteq> []
                           then [(''system'', c_string (lo_systemMessage s))] else lo_messages s);
               messages = messages @ [(''user'', c_string userInput)]
           in case lm_template M messages of None \<Rightarrow> ([], Undefined) | Some formatted \<Rightarrow>
              if lm_n_ctx M < length formatted then ([], Undefined)
              else let (pieces, r) = generateResponse M running formatted (lo_memory s) (lo_draws s)
                   in case r of
                        Returned (response, memory, draws) \<Rightarrow>
                          (pieces, Returned (s\<lparr>lo_messages := messages @ [(''assistant'', c_string response)],
                                               lo_memory := memory, lo_draws := draws\<rparr>))
                      | Exited \<Rightarrow> (pieces, Exited) | Aborted \<Rightarrow> (pieces, Aborted) | Undefined \<Rightarrow> (pieces, Undefined))"

text \<open>Queries one after the other, each with what its tests of \<open>_running\<close> read.\<close>

fun conversation ::
    "language_model \<Rightarrow> ((nat \<Rightarrow> bool) \<times> string) list \<Rightarrow> llama_operator \<Rightarrow> string list \<times> llama_operator run" where
  "conversation M [] s = ([], Returned s)"
| "conversation M ((running, query) # queries) s =
     (case llama_chat M running query s of
        (pieces, Returned s) \<Rightarrow> (let (more, r) = conversation M queries s in (pieces @ more, r))
      | (pieces, r) \<Rightarrow> (pieces, r))"

section \<open>Embeddings\<close>

text \<open>
  What llama.cpp answers for the model of the embeddings: the tokens of a text, the length of an
  embedding, the outputs of a classifier, the pooling type, what encoding or decoding a batch
  returns, the array of numbers for a token and for the sequence after the batch that ran (none when
  no batch did, or without a pointer), normalising, and the cosine of two embeddings of the same
  length.
\<close>

record embedding_model =
  em_tokenize :: "string \<Rightarrow> int list"
  em_n_embd :: nat
  em_n_cls_out :: nat
  em_pooling_type :: int
  em_has_encoder :: bool
  em_has_decoder :: bool
  em_encode :: "int list \<Rightarrow> int"
  em_decode :: "int list \<Rightarrow> int"
  em_embeddings_ith :: "int list option \<Rightarrow> nat \<Rightarrow> flt list option"
  em_embeddings_seq :: "int list option \<Rightarrow> nat \<Rightarrow> flt list option"
  em_normalize :: "flt list \<Rightarrow> nat \<Rightarrow> flt"
  em_similarity_cos :: "flt list \<Rightarrow> flt list \<Rightarrow> flt"

definition LLAMA_POOLING_TYPE_NONE :: int where "LLAMA_POOLING_TYPE_NONE = 0"

definition LLAMA_POOLING_TYPE_RANK :: int where "LLAMA_POOLING_TYPE_RANK = 4"

text \<open>A batch is a list of tokens with their positions, sequences and whether they give an output.\<close>

type_synonym llama_batch = "(int \<times> nat \<times> nat list \<times> bool) list"

definition batch_add_seq :: "int list \<Rightarrow> nat \<Rightarrow> llama_batch \<Rightarrow> llama_batch" where
  "batch_add_seq tokens seq_id batch = batch @ map (\<lambda>i. (tokens ! i, i, [seq_id], True)) [0..<length tokens]"

definition write_row :: "nat \<Rightarrow> 'a list \<Rightarrow> 'a list \<Rightarrow> 'a list" where
  "write_row pos row out = take pos out @ row @ drop (pos + length row) out"

text \<open>The embeddings are written into \<open>output\<close>; \<open>None\<close> is a read past the end of the array llama.cpp gives.\<close>

fun extract_embeddings ::
    "embedding_model \<Rightarrow> int list option \<Rightarrow> nat \<Rightarrow> llama_batch \<Rightarrow> flt list \<Rightarrow> flt list option" where
  "extract_embeddings E evaluated i [] output = Some output"
| "extract_embeddings E evaluated i ((token, pos, seq_id, logits) # batch) output =
     (if \<not> logits then extract_embeddings E evaluated (Suc i) batch output
      else let n_embd = em_n_embd E;
               (embd, embd_pos) = (if em_pooling_type E = LLAMA_POOLING_TYPE_NONE then (em_embeddings_ith E evaluated i, i)
                                   else (em_embeddings_seq E evaluated (hd seq_id), hd seq_id))
           in case embd of None \<Rightarrow> Some output | Some f \<Rightarrow>
              if length f < n_embd then None
              else extract_embeddings E evaluated (Suc i) batch
                     (write_row (embd_pos * n_embd) (map (em_normalize E (take n_embd f)) [0..<n_embd]) output))"

text \<open>Running the model on a batch: \<open>None\<close> when it fails, otherwise the batch that ran, if one did.\<close>

definition run_model :: "embedding_model \<Rightarrow> int list \<Rightarrow> int list option option" where
  "run_model E tokens =
     (if em_has_encoder E \<and> \<not> em_has_decoder E
      then if em_encode E tokens < 0 then None else Some (Some tokens)
      else if \<not> em_has_encoder E \<and> em_has_decoder E
      then if em_decode E tokens < 0 then None else Some (Some tokens)
      else Some None)"

definition batch_decode :: "embedding_model \<Rightarrow> llama_batch \<Rightarrow> flt list \<Rightarrow> flt list option" where
  "batch_decode E batch output =
     (case run_model E (map fst batch) of
        None \<Rightarrow> Some output
      | Some evaluated \<Rightarrow> extract_embeddings E evaluated 0 batch output)"

definition calculateEmbeddings :: "embedding_model \<Rightarrow> llama_operator \<Rightarrow> string \<Rightarrow> flt list option" where
  "calculateEmbeddings E s txt =
     (if \<not> lo_modelLoaded s \<or> lo_ctx s = None \<or> lo_model s = None then Some []
      else let tokens = em_tokenize E txt; batch_size = (word_of_int (lo_nCtx s) :: 64 word)
           in if unat batch_size < length tokens then Some []
              else let n_embd_count = (if em_pooling_type E = LLAMA_POOLING_TYPE_NONE then length tokens else 1)
                   in batch_decode E (batch_add_seq tokens 0 []) (replicate (n_embd_count * em_n_embd E) (Flt 0 0)))"

text \<open>
  \<open>getSimilarity\<close> reads as many numbers of the second embedding as the first one has; \<open>None\<close> is a
  read past its end or the first element of an empty vector.
\<close>

definition getSimilarity :: "embedding_model \<Rightarrow> flt list \<Rightarrow> flt list \<Rightarrow> flt option" where
  "getSimilarity E Emb1 Emb2 =
     (if Emb1 = [] \<or> Emb2 = [] \<or> length Emb2 < length Emb1 then None
      else Some (em_similarity_cos E Emb1 (take (length Emb1) Emb2)))"

section \<open>What a response leaves in memory\<close>

lemma generate_loop_memory:
  "generate_loop M running k batch memory draws = (pieces, Returned (memory', draws')) \<Longrightarrow>
   length memory \<le> length memory' \<and> (length memory \<le> lm_n_ctx M \<longrightarrow> length memory' \<le> lm_n_ctx M)"
proof (induction M running k batch memory draws arbitrary: pieces rule: generate_loop.induct)
  case (1 M running k batch memory draws)
  show ?case
    using 1(2) 1(1) [OF _ _ _ refl refl]
    by (subst (asm) generate_loop.simps) (force simp: Let_def split: if_splits option.splits prod.splits)
qed

lemma generate_loop_decodes:
  assumes "generate_loop M running k batch memory draws = (pieces, Returned (memory', draws'))" and "running k"
  shows "length memory + length batch \<le> length memory'" "length memory' \<le> lm_n_ctx M"
  using assms generate_loop_memory [of M running "Suc k" _ "memory @ batch"]
  by (subst (asm) generate_loop.simps; force simp: Let_def split: if_splits option.splits prod.splits)+

lemma llama_chat_returned:
  assumes "llama_chat M running query s = (pieces, Returned s')" and "query \<noteq> []"
  obtains messages formatted response
  where "length (lo_messages s) + 1 \<le> length messages" "lm_template M messages = Some formatted"
    "length formatted \<le> lm_n_ctx M"
    "lo_messages s' = messages @ [(''assistant'', c_string response)]"
    "generateResponse M running formatted (lo_memory s) (lo_draws s) =
       (pieces, Returned (response, lo_memory s', lo_draws s'))"
    "lo_ctx s' = lo_ctx s" "lo_systemMessage s' = lo_systemMessage s"
  using assms that
  by (auto simp: llama_chat_def Let_def split: if_splits option.splits prod.splits run.splits)

lemma generateResponse_returned:
  assumes "generateResponse M running prompt memory draws = (pieces, Returned (response, memory', draws'))"
  obtains ps where "generate_loop M running 0 (lm_tokenize M prompt (memory = [])) memory draws =
      (ps, Returned (memory', draws'))" "pieces = ps @ [''<end>'']" "response = concat ps"
  using assms that by (auto simp: generateResponse_def Let_def split: prod.splits run.splits)

text \<open>Every query is answered over the whole conversation, appended to the memory again.\<close>

lemma llama_chat_appends_conversation:
  assumes "llama_chat M running query s = (pieces, Returned s')" and "query \<noteq> []" and "running 0"
    and "\<And>messages formatted is_first. lm_template M messages = Some formatted \<Longrightarrow>
      length messages \<le> length (lm_tokenize M formatted is_first)"
  shows "length (lo_memory s) + length (lo_messages s) + 1 \<le> length (lo_memory s')"
    "length (lo_memory s') \<le> lm_n_ctx M" "length (lo_messages s) + 2 \<le> length (lo_messages s')"
proof -
  obtain messages formatted response where
    *: "length (lo_messages s) + 1 \<le> length messages" "lm_template M messages = Some formatted"
      "lo_messages s' = messages @ [(''assistant'', c_string response)]"
      "generateResponse M running formatted (lo_memory s) (lo_draws s) =
         (pieces, Returned (response, lo_memory s', lo_draws s'))"
    by (rule llama_chat_returned [OF assms(1,2)])
  obtain ps where ps: "generate_loop M running 0 (lm_tokenize M formatted (lo_memory s = [])) (lo_memory s) (lo_draws s) =
      (ps, Returned (lo_memory s', lo_draws s'))"
    by (rule generateResponse_returned [OF *(4)])
  note d = generate_loop_decodes [OF ps assms(3)]
  show "length (lo_memory s) + length (lo_messages s) + 1 \<le> length (lo_memory s')"
    using d(1) *(1) assms(4) [OF *(2), of "lo_memory s = []"] by simp
  show "length (lo_memory s') \<le> lm_n_ctx M" by (rule d(2))
  show "length (lo_messages s) + 2 \<le> length (lo_messages s')" using *(1,3) by simp
qed

lemma conversation_memory:
  assumes "\<And>messages formatted is_first. lm_template M messages = Some formatted \<Longrightarrow>
      length messages \<le> length (lm_tokenize M formatted is_first)"
  shows "\<forall>(running, query) \<in> set queries. running 0 \<and> query \<noteq> [] \<Longrightarrow>
    conversation M queries s = (pieces, Returned s') \<Longrightarrow> length (lo_memory s) \<le> lm_n_ctx M \<or> queries \<noteq> [] \<Longrightarrow>
    length (lo_memory s) + length queries * length (lo_messages s) + length queries * length queries
      \<le> length (lo_memory s') \<and> length (lo_memory s') \<le> lm_n_ctx M"
proof (induction queries arbitrary: s pieces)
  case Nil
  then show ?case by simp
next
  case (Cons rq queries)
  obtain running query where rq: "rq = (running, query)" by fastforce
  obtain ps s1 more where s1: "llama_chat M running query s = (ps, Returned s1)"
    "conversation M queries s1 = (more, Returned s')"
    using Cons(3) by (auto simp: rq Let_def split: prod.splits run.splits)
  note turn = llama_chat_appends_conversation [OF s1(1) _ _ assms]
  have first: "length (lo_memory s) + length (lo_messages s) + 1 \<le> length (lo_memory s1)"
    "length (lo_memory s1) \<le> lm_n_ctx M" "length (lo_messages s) + 2 \<le> length (lo_messages s1)"
    using turn Cons(2) by (simp_all add: rq)
  have "length (lo_memory s1) + length queries * length (lo_messages s1) + length queries * length queries
      \<le> length (lo_memory s')" "length (lo_memory s') \<le> lm_n_ctx M"
    using Cons(1) [OF _ s1(2)] Cons(2) first(2) by simp_all
  moreover have "length queries * (length (lo_messages s) + 2) \<le> length queries * length (lo_messages s1)"
    using first(3) by (rule mult_le_mono2)
  ultimately show ?case using first(1) by (simp add: algebra_simps)
qed

section \<open>Properties of the chat\<close>

text \<open>C36: a conversation of n queries that are all answered evaluates at least n squared tokens in a
context that never forgets, so with the 2048 tokens of the code no conversation gets past 45
queries: a later one ends the process, aborts it or reads past the buffer of the text. All that is
asked of the template is at least one token for each message.\<close>

theorem conversation_bounded:
  assumes "\<And>messages formatted is_first. lm_template M messages = Some formatted \<Longrightarrow>
      length messages \<le> length (lm_tokenize M formatted is_first)"
    and "\<forall>(running, query) \<in> set queries. running 0 \<and> query \<noteq> []"
    and "conversation M queries s = (pieces, Returned s')"
  shows "(length queries)\<^sup>2 \<le> lm_n_ctx M"
proof (cases "queries = []")
  case False
  then show ?thesis
    using conversation_memory [OF assms(1) assms(2,3)] by (simp add: power2_eq_square)
qed simp

text \<open>A model that answers every text with the end of the generation.\<close>

definition silent_model :: "nat \<Rightarrow> language_model" where
  "silent_model n_ctx =
     \<lparr>lm_n_ctx = n_ctx, lm_template = (\<lambda>messages. Some (concat (map (\<lambda>(role, txt). CHR ''>'' # txt) messages))),
      lm_tokenize = (\<lambda>txt is_first. map (\<lambda>c. 0) txt), lm_decode = (\<lambda>memory batch. True),
      lm_sample = (\<lambda>draws memory. 1), lm_is_eog = (\<lambda>token. token = 1), lm_piece = (\<lambda>token. Some ''a'')\<rparr>"

lemma silent_model_template:
  "lm_template (silent_model n) messages = Some formatted \<Longrightarrow>
   length messages \<le> length (lm_tokenize (silent_model n) formatted is_first)"
  by (induction messages arbitrary: formatted) (auto simp: silent_model_def)

abbreviation loaded_operator :: llama_operator where
  "loaded_operator \<equiv> llama_operator_new\<lparr>lo_modelLoaded := True, lo_model := Some 1, lo_ctx := Some 2, lo_smpl := Some 3\<rparr>"

lemma silent_conversation:
  "conversation (silent_model 100) [(\<lambda>k. True, ''hi''), (\<lambda>k. True, ''ho'')] loaded_operator =
   ([''<end>'', ''<end>''],
    Returned (loaded_operator\<lparr>lo_messages := [(''user'', ''hi''), (''assistant'', []), (''user'', ''ho''), (''assistant'', [])],
      lo_memory := replicate 10 0, lo_draws := 2\<rparr>))"
  by (simp add: silent_model_def llama_chat_def generateResponse_def generate_loop.simps llama_operator_new_def
      c_string_def Let_def eval_nat_numeral)

lemma conversation_bounded_witness: "(length [(\<lambda>k :: nat. True, ''hi''), (\<lambda>k. True, ''ho'')])\<^sup>2 \<le> lm_n_ctx (silent_model 100)"
  by (rule conversation_bounded [OF silent_model_template _ silent_conversation]) simp_all

lemma generate_loop_pieces:
  "generate_loop M running k batch memory draws = (pieces, r) \<Longrightarrow>
   \<forall>piece \<in> set pieces. \<exists>token. lm_piece M token = Some piece"
proof (induction M running k batch memory draws arbitrary: pieces r rule: generate_loop.induct)
  case (1 M running k batch memory draws)
  show ?case
    using 1(2) 1(1) [OF _ _ _ refl refl]
    by (subst (asm) generate_loop.simps) (fastforce simp: Let_def split: if_splits option.splits prod.splits)
qed

lemma generate_loop_defined: "snd (generate_loop M running k batch memory draws) \<noteq> Undefined"
proof (induction M running k batch memory draws rule: generate_loop.induct)
  case (1 M running k batch memory draws)
  show ?case
    using 1 [OF _ _ _ refl refl]
    by (subst generate_loop.simps) (auto simp: Let_def split: option.splits prod.splits)
qed

lemma callback_piece_running [simp]:
  "piece \<noteq> ''<end>'' \<Longrightarrow> ch_queryRunning (query_response_callback E blank piece s) = ch_queryRunning s"
  by (simp add: query_response_callback_def split: prod.splits)

lemma callback_end_running [simp]:
  "ch_queryRunning (query_response_callback E blank ''<end>'' s) = False"
  by (simp add: query_response_callback_def Let_def publish_sentence_def)

lemma callback_pieces_running:
  "\<forall>piece \<in> set pieces. piece \<noteq> ''<end>'' \<Longrightarrow>
   ch_queryRunning (fold (query_response_callback E blank) pieces s) = ch_queryRunning s"
  by (induction pieces arbitrary: s) simp_all

lemma llama_chat_pieces:
  assumes "llama_chat M running query s = (cb, r)" and "query \<noteq> []"
  obtains ps where "\<forall>piece \<in> set ps. \<exists>token. lm_piece M token = Some piece"
    "cb = ps @ (case r of Returned _ \<Rightarrow> [''<end>''] | _ \<Rightarrow> [])"
proof -
  have "\<exists>ps. (\<forall>piece \<in> set ps. \<exists>token. lm_piece M token = Some piece) \<and>
      cb = ps @ (case r of Returned _ \<Rightarrow> [''<end>''] | _ \<Rightarrow> [])"
    using assms
    by (auto simp: llama_chat_def generateResponse_def Let_def dest!: generate_loop_pieces
        split: if_splits option.splits prod.splits run.splits)
  then show ?thesis using that by blast
qed

text \<open>C37: a chat service busy with a query gets free exactly when the query is not empty and its
generation returns, however it was stopped; a model whose pieces never spell the end mark is asked
for.\<close>

theorem query_frees_service:
  assumes "\<And>token. lm_piece M token \<noteq> Some ''<end>''" and "ch_queryRunning c"
    and "llama_chat M running query s = (cb, r)"
  shows "\<not> ch_queryRunning (fold (query_response_callback E blank) cb c) \<longleftrightarrow>
    query \<noteq> [] \<and> (\<exists>s'. r = Returned s')"
proof (cases "query = []")
  case True
  then show ?thesis using assms by (auto simp: llama_chat_def split: if_splits)
next
  case False
  obtain ps where ps: "\<forall>piece \<in> set ps. \<exists>token. lm_piece M token = Some piece"
    "cb = ps @ (case r of Returned _ \<Rightarrow> [''<end>''] | _ \<Rightarrow> [])"
    by (rule llama_chat_pieces [OF assms(3) False])
  have "\<forall>piece \<in> set ps. piece \<noteq> ''<end>''" using ps(1) assms(1) by metis
  then show ?thesis using False assms(2) by (cases r) (simp_all add: ps(2) callback_pieces_running)
qed

lemma query_frees_service_witness:
  "\<not> ch_queryRunning (fold (query_response_callback sample_embedder blank_response)
      (fst (llama_chat (silent_model 100) (\<lambda>k. True) ''hi'' loaded_operator)) (sample_chat []\<lparr>ch_queryRunning := True\<rparr>))"
proof -
  have "llama_chat (silent_model 100) (\<lambda>k. True) ''hi'' loaded_operator = ([''<end>''],
      Returned (loaded_operator\<lparr>lo_messages := [(''user'', ''hi''), (''assistant'', [])],
        lo_memory := replicate 3 0, lo_draws := 1\<rparr>))"
    by (simp add: silent_model_def llama_chat_def generateResponse_def generate_loop.simps llama_operator_new_def
        c_string_def Let_def eval_nat_numeral)
  then show ?thesis
    using query_frees_service [of "silent_model 100" "sample_chat []\<lparr>ch_queryRunning := True\<rparr>" "\<lambda>k. True" "''hi''"
        loaded_operator, where E = sample_embedder and blank = blank_response]
    by (simp add: silent_model_def)
qed

text \<open>The pieces of an answered query are those the chat service is modelled with.\<close>

lemma answered_query_pieces:
  assumes "llama_chat M running query s = (cb, Returned s')"
  shows "\<exists>pieces. cb = chat_pieces (\<lambda>_. pieces) query"
proof (cases "query = []")
  case True
  then show ?thesis using assms by (auto simp: llama_chat_def chat_pieces_def split: if_splits)
next
  case False
  then show ?thesis
    by (rule llama_chat_pieces [OF assms]) (auto simp: chat_pieces_def False)
qed

section \<open>What is freed\<close>

text \<open>The pointers a sequence of calls holds, and that only held pointers are freed.\<close>

fun models_held :: "llama_lib \<Rightarrow> llama_call list \<Rightarrow> nat set" where
  "models_held L [] = {}"
| "models_held L (Load_model path n # calls) = set_option (ll_model L (Load_model path n # calls)) \<union> models_held L calls"
| "models_held L (Free_model m # calls) = models_held L calls - {m}"
| "models_held L (_ # calls) = models_held L calls"

fun contexts_held :: "llama_lib \<Rightarrow> llama_call list \<Rightarrow> nat set" where
  "contexts_held L [] = {}"
| "contexts_held L (New_context m n b t e # calls) =
     set_option (ll_context L (New_context m n b t e # calls)) \<union> contexts_held L calls"
| "contexts_held L (Free_context c # calls) = contexts_held L calls - {c}"
| "contexts_held L (_ # calls) = contexts_held L calls"

fun samplers_held :: "llama_lib \<Rightarrow> llama_call list \<Rightarrow> nat set" where
  "samplers_held L [] = {}"
| "samplers_held L (New_sampler t # calls) = insert (ll_sampler L (New_sampler t # calls)) (samplers_held L calls)"
| "samplers_held L (Free_sampler p # calls) = samplers_held L calls - {p}"
| "samplers_held L (_ # calls) = samplers_held L calls"

fun frees_held :: "llama_lib \<Rightarrow> llama_call list \<Rightarrow> bool" where
  "frees_held L [] = True"
| "frees_held L (Free_model m # calls) = (m \<in> models_held L calls \<and> frees_held L calls)"
| "frees_held L (Free_context c # calls) = (c \<in> contexts_held L calls \<and> frees_held L calls)"
| "frees_held L (Free_sampler p # calls) = (p \<in> samplers_held L calls \<and> frees_held L calls)"
| "frees_held L (_ # calls) = frees_held L calls"

definition owns :: "llama_lib \<Rightarrow> loading \<Rightarrow> bool" where
  "owns L sc \<longleftrightarrow> frees_held L (snd sc) \<and> set_option (lo_model (fst sc)) \<subseteq> models_held L (snd sc) \<and>
     set_option (lo_ctx (fst sc)) \<subseteq> contexts_held L (snd sc) \<and>
     set_option (lo_smpl (fst sc)) \<subseteq> samplers_held L (snd sc)"

lemma owns_new: "owns L (llama_operator_new, [])"
  by (simp add: owns_def llama_operator_new_def)

lemma free_handle_simps [simp]: "free_handle f None calls = calls" "free_handle f (Some p) calls = f p # calls"
  by (simp_all add: free_handle_def)

lemma unloadHandles_owns: "owns L sc \<Longrightarrow> owns L (unloadHandles sc)"
  by (cases "lo_smpl (fst sc)"; cases "lo_ctx (fst sc)"; cases "lo_model (fst sc)")
    (auto simp: owns_def unloadHandles_def Let_def case_prod_beta)

lemma unload_owns:
  "owns L sc \<Longrightarrow> owns L (unloadModel sc)" "owns L sc \<Longrightarrow> owns L (unloadEmbedModel sc)"
  "owns L sc \<Longrightarrow> owns L (llama_shutdown sc)"
  using unloadHandles_owns [of L sc] unloadHandles_owns [of L "((fst sc)\<lparr>lo_messages := []\<rparr>, snd sc)"]
  by (simp_all add: unloadModel_def unloadEmbedModel_def llama_shutdown_def Let_def case_prod_beta owns_def)

lemma loadChatModel_owns: "owns L sc \<Longrightarrow> owns L (snd (loadChatModel L modelPath sc))"
  by (auto simp: owns_def loadChatModel_def Let_def case_prod_beta split: option.splits)

lemma loadEmbedModel_owns:
  "owns L sc \<Longrightarrow> loadEmbedModel L modelPath p sc = (ok, sc') \<Longrightarrow> ok \<or> lo_model (fst sc') = None \<Longrightarrow> owns L sc'"
  by (auto simp: owns_def loadEmbedModel_def Let_def case_prod_beta split: option.splits if_splits)

text \<open>What the owner of an operator calls.\<close>

datatype loading_op = Load_chat string | Load_embed string int | Unload_model | Unload_embed | Shut_down

fun loading_step :: "llama_lib \<Rightarrow> loading_op \<Rightarrow> loading \<Rightarrow> loading" where
  "loading_step L (Load_chat path) sc = snd (loadChatModel L path sc)"
| "loading_step L (Load_embed path p) sc = snd (loadEmbedModel L path p sc)"
| "loading_step L Unload_model sc = unloadModel sc"
| "loading_step L Unload_embed sc = unloadEmbedModel sc"
| "loading_step L Shut_down sc = llama_shutdown sc"

text \<open>An embedding model that was read but could not be used.\<close>

fun embedding_unusable :: "llama_lib \<Rightarrow> loading_op \<Rightarrow> loading \<Rightarrow> bool" where
  "embedding_unusable L (Load_embed path p) sc =
     (case loadEmbedModel L path p sc of (ok, s, calls) \<Rightarrow>
        \<not> ok \<and> \<not> lo_modelLoaded (fst sc) \<and> lo_model s \<noteq> None)"
| "embedding_unusable L _ sc = False"

fun usable_run :: "llama_lib \<Rightarrow> loading_op list \<Rightarrow> loading \<Rightarrow> bool" where
  "usable_run L [] sc = True"
| "usable_run L (op # ops) sc = (\<not> embedding_unusable L op sc \<and> usable_run L ops (loading_step L op sc))"

lemma loadEmbedModel_loaded: "lo_modelLoaded (fst sc) \<Longrightarrow> loadEmbedModel L path p sc = (False, sc)"
  by (simp add: loadEmbedModel_def case_prod_beta)

lemma loading_step_owns:
  assumes "owns L sc" and "\<not> embedding_unusable L op sc"
  shows "owns L (loading_step L op sc)"
proof (cases op)
  case (Load_embed path p)
  obtain ok s calls where load: "loadEmbedModel L path p sc = (ok, s, calls)" by (metis prod.exhaust)
  then show ?thesis
    using assms loadEmbedModel_owns [OF assms(1) load]
    by (cases "lo_modelLoaded (fst sc)") (auto simp: Load_embed loadEmbedModel_loaded)
qed (use assms in \<open>simp_all add: loadChatModel_owns unload_owns\<close>)

lemma usable_run_owns: "usable_run L ops sc \<Longrightarrow> owns L sc \<Longrightarrow> owns L (fold (loading_step L) ops sc)"
  by (induction ops arbitrary: sc) (simp_all add: loading_step_owns)

lemma unusable_model_freed:
  assumes "embedding_unusable L op sc"
  obtains m calls where "snd (loading_step L op sc) = Free_model m # calls"
    "lo_model (fst (loading_step L op sc)) = Some m"
  using assms that
  by (cases op) (auto simp: loadEmbedModel_def Let_def case_prod_beta split: option.splits if_splits)

lemma freed_again:
  assumes "snd sc = Free_model m # calls" and "lo_model (fst sc) = Some m"
  shows "\<not> frees_held L (snd (llama_shutdown sc))"
  using assms
  by (cases "lo_smpl (fst sc)"; cases "lo_ctx (fst sc)")
    (simp_all add: llama_shutdown_def unloadModel_def unloadHandles_def Let_def case_prod_beta)

text \<open>C38: whatever was loaded and unloaded before, shutting the operator down after one more call
frees only what is held exactly when that call did not read an embedding model it could not use:
then the model is freed twice.\<close>

theorem shutdown_frees_held_iff:
  assumes "usable_run L ops (llama_operator_new, [])"
    and "sc = fold (loading_step L) ops (llama_operator_new, [])"
  shows "frees_held L (snd (llama_shutdown (loading_step L op sc))) \<longleftrightarrow> \<not> embedding_unusable L op sc"
proof (cases "embedding_unusable L op sc")
  case True
  then show ?thesis using unusable_model_freed freed_again by metis
next
  case False
  have "owns L sc" using usable_run_owns [OF assms(1) owns_new] assms(2) by simp
  then have "owns L (llama_shutdown (loading_step L op sc))"
    using False by (intro unload_owns loading_step_owns)
  then show ?thesis using False by (simp add: owns_def)
qed

definition sample_llama :: llama_lib where
  "sample_llama = \<lparr>ll_model = (\<lambda>calls. Some 1), ll_context = (\<lambda>calls. None), ll_sampler = length,
     ll_has_encoder = (\<lambda>m. True), ll_has_decoder = (\<lambda>m. False)\<rparr>"

lemma shutdown_frees_held_iff_witness:
  "\<not> frees_held sample_llama (snd (llama_shutdown (loading_step sample_llama (Load_embed ''bert'' 1)
      (loading_step sample_llama (Load_chat ''llama'') (llama_operator_new, [])))))"
  using shutdown_frees_held_iff [OF _ refl, of sample_llama "[Load_chat ''llama'']" "Load_embed ''bert'' 1"]
  by (simp add: sample_llama_def loadChatModel_def loadEmbedModel_def llama_operator_new_def Let_def)

text \<open>Once the model of the chat is loaded no attempt to load the models succeeds: after an
embedding model that failed, starting the chat again fails for ever.\<close>

lemma failed_embedding_load_is_final:
  assumes "lo_modelLoaded ch"
  shows "case load_models L aiConfig (ch, em, calls) of (ok, ch', _) \<Rightarrow> \<not> ok \<and> lo_modelLoaded ch'"
  using assms by (simp add: load_models_def loadChatModel_def setSystemMessage_def Let_def split: option.splits)

lemma load_models_loaded:
  assumes "load_models L (Some config) (ch, em, calls) = (ok, ch', em', calls')" and "\<not> ok"
    and "loadChatModel L (lc_modelPath (ai_llmChatConfig config))
      (setSystemMessage (lc_systemMessage (ai_llmChatConfig config)) ch, calls) = (True, ch1, calls1)"
  shows "lo_modelLoaded ch'"
proof -
  have "lo_modelLoaded ch1"
    using assms(3) by (auto simp: loadChatModel_def Let_def split: if_splits option.splits)
  then show ?thesis using assms by (simp add: load_models_def Let_def split: prod.splits if_splits)
qed

section \<open>Embeddings of texts\<close>

lemma length_write_row [simp]: "pos + length row \<le> length out \<Longrightarrow> length (write_row pos row out) = length out"
  by (simp add: write_row_def)

abbreviation batch_of :: "int list \<Rightarrow> nat \<Rightarrow> llama_batch" where
  "batch_of tokens k \<equiv> map (\<lambda>i. (tokens ! i, i, [0], True)) [k..<length tokens]"

definition embd_count :: "embedding_model \<Rightarrow> int list \<Rightarrow> nat" where
  "embd_count E tokens = (if em_pooling_type E = LLAMA_POOLING_TYPE_NONE then length tokens else 1)"

lemma batch_of_Cons: "k < length tokens \<Longrightarrow> batch_of tokens k = (tokens ! k, k, [0], True) # batch_of tokens (Suc k)"
  by (simp add: upt_conv_Cons)

text \<open>
  The arrays as \<open>llama.h\<close> documents them: \<open>n_embd\<close> numbers for a token, and for a sequence too, but
  \<open>n_cls_out\<close> ranks with the pooling type of a reranking model.
\<close>

definition documented_arrays :: "embedding_model \<Rightarrow> bool" where
  "documented_arrays E \<longleftrightarrow>
     (\<forall>evaluated i f. em_embeddings_ith E evaluated i = Some f \<longrightarrow> length f = em_n_embd E) \<and>
     (\<forall>evaluated q f. em_embeddings_seq E evaluated q = Some f \<longrightarrow>
        length f = (if em_pooling_type E = LLAMA_POOLING_TYPE_RANK then em_n_cls_out E else em_n_embd E))"

text \<open>The model answers the text with fewer ranks than the numbers of an embedding.\<close>

definition too_few_ranks :: "embedding_model \<Rightarrow> int list \<Rightarrow> bool" where
  "too_few_ranks E tokens \<longleftrightarrow>
     em_pooling_type E = LLAMA_POOLING_TYPE_RANK \<and> em_n_cls_out E < em_n_embd E \<and> tokens \<noteq> [] \<and>
     (case run_model E tokens of None \<Rightarrow> False | Some evaluated \<Rightarrow> em_embeddings_seq E evaluated 0 \<noteq> None)"

lemma extract_embeddings_returns:
  assumes "em_pooling_type E = LLAMA_POOLING_TYPE_NONE \<Longrightarrow> \<forall>i f. em_embeddings_ith E evaluated i = Some f \<longrightarrow> em_n_embd E \<le> length f"
    and "em_pooling_type E \<noteq> LLAMA_POOLING_TYPE_NONE \<Longrightarrow> \<forall>f. em_embeddings_seq E evaluated 0 = Some f \<longrightarrow> em_n_embd E \<le> length f"
  shows "k \<le> length tokens \<Longrightarrow> length out = embd_count E tokens * em_n_embd E \<Longrightarrow>
    \<exists>a. extract_embeddings E evaluated k (batch_of tokens k) out = Some a \<and> length a = length out"
proof (induction "length tokens - k" arbitrary: k out)
  case 0
  then show ?case by simp
next
  case (Suc d)
  let ?n = "em_n_embd E"
  let ?pos = "if em_pooling_type E = LLAMA_POOLING_TYPE_NONE then k else 0"
  have k: "k < length tokens" using Suc(2) by simp
  have "?pos + 1 \<le> embd_count E tokens" using k by (simp add: embd_count_def)
  then have "(?pos + 1) * ?n \<le> embd_count E tokens * ?n" by (rule mult_le_mono1)
  then have fits: "?pos * ?n + ?n \<le> length out" using Suc(4) by (simp add: algebra_simps)
  have "\<exists>a. extract_embeddings E evaluated (Suc k) (batch_of tokens (Suc k)) (write_row (?pos * ?n) row out) = Some a \<and>
      length a = length out" if "length row = ?n" for row
    using Suc(1) [of "Suc k" "write_row (?pos * ?n) row out"] Suc(2,4) k fits that by simp
  then show ?case
    unfolding batch_of_Cons [OF k] using assms
    by (cases "em_pooling_type E = LLAMA_POOLING_TYPE_NONE")
       (auto simp: Let_def simp flip: linorder_not_le split: option.splits)
qed

lemma extract_embeddings_short:
  assumes "em_pooling_type E \<noteq> LLAMA_POOLING_TYPE_NONE" and "em_embeddings_seq E evaluated 0 = Some f"
    and "length f < em_n_embd E" and "k < length tokens"
  shows "extract_embeddings E evaluated k (batch_of tokens k) out = None"
  unfolding batch_of_Cons [OF assms(4)] using assms(1-3) by (simp add: Let_def)

definition within_batch :: "llama_operator \<Rightarrow> int list \<Rightarrow> bool" where
  "within_batch s tokens \<longleftrightarrow> length tokens \<le> unat (word_of_int (lo_nCtx s) :: 64 word)"

lemma batch_tokens: "map fst (batch_of tokens 0) = tokens"
  by (simp add: o_def map_nth)

lemma calculateEmbeddings_run:
  assumes "llama_isReady s" and "within_batch s (em_tokenize E txt)"
  shows "calculateEmbeddings E s txt =
    batch_decode E (batch_of (em_tokenize E txt) 0) (replicate (embd_count E (em_tokenize E txt) * em_n_embd E) (Flt 0 0))"
  using assms
  by (auto simp: calculateEmbeddings_def llama_isReady_def within_batch_def embd_count_def batch_add_seq_def Let_def)

lemma calculateEmbeddings_refused:
  "\<not> (llama_isReady s \<and> within_batch s (em_tokenize E txt)) \<Longrightarrow> calculateEmbeddings E s txt = Some []"
  by (auto simp: calculateEmbeddings_def llama_isReady_def within_batch_def Let_def)

lemma calculateEmbeddings_too_few:
  assumes "documented_arrays E" and "llama_isReady s" and "within_batch s (em_tokenize E txt)"
    and "too_few_ranks E (em_tokenize E txt)"
  shows "calculateEmbeddings E s txt = None"
proof -
  obtain evaluated f where e: "run_model E (em_tokenize E txt) = Some evaluated" "em_embeddings_seq E evaluated 0 = Some f"
    and t: "em_pooling_type E = LLAMA_POOLING_TYPE_RANK" "em_n_cls_out E < em_n_embd E" "em_tokenize E txt \<noteq> []"
    using assms(4) by (auto simp: too_few_ranks_def split: option.splits)
  have "length f < em_n_embd E" using assms(1) e(2) t(1,2) by (simp add: documented_arrays_def)
  then have "extract_embeddings E evaluated 0 (batch_of (em_tokenize E txt) 0) out = None" for out
    using e(2) t by (intro extract_embeddings_short) (simp_all add: LLAMA_POOLING_TYPE_RANK_def LLAMA_POOLING_TYPE_NONE_def)
  then show ?thesis
    unfolding calculateEmbeddings_run [OF assms(2,3)] by (simp only: batch_decode_def batch_tokens e option.case)
qed

lemma calculateEmbeddings_length:
  assumes "documented_arrays E" and "llama_isReady s" and "within_batch s (em_tokenize E txt)"
    and "\<not> too_few_ranks E (em_tokenize E txt)"
  shows "\<exists>a. calculateEmbeddings E s txt = Some a \<and> length a = embd_count E (em_tokenize E txt) * em_n_embd E"
proof (cases "run_model E (em_tokenize E txt)")
  case None
  then show ?thesis
    unfolding calculateEmbeddings_run [OF assms(2,3)] by (simp add: batch_decode_def batch_tokens del: map_map)
next
  case (Some evaluated)
  let ?t = "em_tokenize E txt"
  have "\<exists>a. extract_embeddings E evaluated 0 (batch_of ?t 0) out = Some a \<and> length a = length out"
    if "length out = embd_count E ?t * em_n_embd E" for out
  proof (cases "?t = []")
    case False
    show ?thesis
      using assms(1,4) Some False that
      by (intro extract_embeddings_returns) (auto simp: documented_arrays_def too_few_ranks_def split: if_splits)
  qed simp
  then show ?thesis
    unfolding calculateEmbeddings_run [OF assms(2,3)]
    by (simp only: batch_decode_def batch_tokens Some option.case length_replicate)
qed

text \<open>With the pooling of a sequence, the embedding is the normalised one of the whole text.\<close>

lemma write_row_all: "length row = length out \<Longrightarrow> write_row 0 row out = row"
  by (simp add: write_row_def)

lemma extract_pooled:
  assumes "em_pooling_type E \<noteq> LLAMA_POOLING_TYPE_NONE" and "em_embeddings_seq E evaluated 0 = Some f"
    and "row = map (em_normalize E f) [0..<em_n_embd E]" and "length f = em_n_embd E"
  shows "length out = em_n_embd E \<Longrightarrow>
    extract_embeddings E evaluated k (batch_of tokens k) out = Some (if k < length tokens then row else out)"
proof (induction "length tokens - k" arbitrary: k out)
  case 0
  then show ?case by simp
next
  case (Suc d)
  have k: "k < length tokens" using Suc(2) by simp
  have "extract_embeddings E evaluated (Suc k) (batch_of tokens (Suc k)) row = Some row"
    using Suc(1) [of "Suc k" row] Suc(2) k assms(3) by simp
  moreover have "write_row 0 row out = row" using Suc(3) assms(3) by (intro write_row_all) simp
  ultimately show ?case
    unfolding batch_of_Cons [OF k] using assms k by (simp add: Let_def)
qed

lemma pooled_embedding:
  assumes "llama_isReady s" and "within_batch s (em_tokenize E txt)" and "em_tokenize E txt \<noteq> []"
    and "em_pooling_type E \<noteq> LLAMA_POOLING_TYPE_NONE" and "run_model E (em_tokenize E txt) = Some evaluated"
    and "em_embeddings_seq E evaluated 0 = Some f" and "length f = em_n_embd E"
  shows "calculateEmbeddings E s txt = Some (map (em_normalize E f) [0..<em_n_embd E])"
  unfolding calculateEmbeddings_run [OF assms(1,2)]
  using assms(3-5) extract_pooled [OF assms(4,6) refl assms(7), of "replicate (em_n_embd E) (Flt 0 0)" 0 "em_tokenize E txt"]
  by (simp add: batch_decode_def batch_tokens embd_count_def del: map_map)

text \<open>C39: with the arrays llama.cpp documents, the similarity of two texts is defined exactly when the
model is loaded, neither text has more tokens than the context, neither is answered with fewer ranks
than an embedding has numbers (a reranking model), and, where each token has its own embedding (the
pooling type taken when the configuration names none), the first text has at least one token and not
more than the second.\<close>

theorem similarity_defined_iff:
  assumes "documented_arrays E"
  shows "(\<exists>a b. calculateEmbeddings E s txt1 = Some a \<and> calculateEmbeddings E s txt2 = Some b \<and> getSimilarity E a b \<noteq> None) \<longleftrightarrow>
   llama_isReady s \<and> 0 < em_n_embd E \<and> within_batch s (em_tokenize E txt1) \<and> within_batch s (em_tokenize E txt2) \<and>
   \<not> too_few_ranks E (em_tokenize E txt1) \<and> \<not> too_few_ranks E (em_tokenize E txt2) \<and>
   (if em_pooling_type E = LLAMA_POOLING_TYPE_NONE
    then 0 < length (em_tokenize E txt1) \<and> length (em_tokenize E txt1) \<le> length (em_tokenize E txt2) else True)"
proof -
  have sim: "getSimilarity E a b \<noteq> None \<longleftrightarrow> 0 < length a \<and> length a \<le> length b" for a b
    by (auto simp: getSimilarity_def)
  let ?t = "em_tokenize E"
  consider (refused) "\<not> (llama_isReady s \<and> within_batch s (?t txt1))" | (refused2) "\<not> (llama_isReady s \<and> within_batch s (?t txt2))"
    | (few) "llama_isReady s" "within_batch s (?t txt1)" "within_batch s (?t txt2)" "too_few_ranks E (?t txt1) \<or> too_few_ranks E (?t txt2)"
    | (full) "llama_isReady s" "within_batch s (?t txt1)" "within_batch s (?t txt2)"
        "\<not> too_few_ranks E (?t txt1)" "\<not> too_few_ranks E (?t txt2)" by blast
  then show ?thesis
  proof cases
    case refused
    then show ?thesis using calculateEmbeddings_refused [OF refused] sim by auto
  next
    case refused2
    then show ?thesis using calculateEmbeddings_refused [OF refused2] sim by auto
  next
    case few
    then show ?thesis using calculateEmbeddings_too_few [OF assms few(1)] by fastforce
  next
    case full
    obtain a b where "calculateEmbeddings E s txt1 = Some a" "length a = embd_count E (?t txt1) * em_n_embd E"
      "calculateEmbeddings E s txt2 = Some b" "length b = embd_count E (?t txt2) * em_n_embd E"
      using calculateEmbeddings_length [OF assms full(1,2,4)] calculateEmbeddings_length [OF assms full(1,3,5)]
      by (elim exE conjE)
    note ab = this
    have "(\<exists>a b. calculateEmbeddings E s txt1 = Some a \<and> calculateEmbeddings E s txt2 = Some b \<and> getSimilarity E a b \<noteq> None)
        \<longleftrightarrow> 0 < length a \<and> length a \<le> length b"
      unfolding sim [symmetric] by (simp add: ab(1,3))
    also have "\<dots> \<longleftrightarrow> 0 < em_n_embd E \<and> (if em_pooling_type E = LLAMA_POOLING_TYPE_NONE
        then 0 < length (?t txt1) \<and> length (?t txt1) \<le> length (?t txt2) else True)"
      unfolding ab(2,4) embd_count_def by auto
    finally show ?thesis using full by simp
  qed
qed

text \<open>A model with embeddings of two numbers, and one rank for the pooling type of a reranking model.\<close>

definition small_embedding_model :: "int \<Rightarrow> embedding_model" where
  "small_embedding_model pooling =
     \<lparr>em_tokenize = map of_char, em_n_embd = 2, em_n_cls_out = 1, em_pooling_type = pooling,
      em_has_encoder = True, em_has_decoder = False, em_encode = (\<lambda>_. 0), em_decode = (\<lambda>_. 0),
      em_embeddings_ith = (\<lambda>_ i. Some [Flt 1 0, Flt (int i) 0]),
      em_embeddings_seq = (\<lambda>_ q. Some (if pooling = LLAMA_POOLING_TYPE_RANK then [Flt 1 0] else [Flt 1 0, Flt 0 0])),
      em_normalize = (\<lambda>f i. f ! i), em_similarity_cos = (\<lambda>_ _. Flt 1 0)\<rparr>"

lemma small_arrays: "documented_arrays (small_embedding_model p)"
  by (simp add: documented_arrays_def small_embedding_model_def)

lemma similarity_defined_iff_witness:
  "\<exists>a b. calculateEmbeddings (small_embedding_model LLAMA_POOLING_TYPE_NONE) loaded_operator ''hi'' = Some a \<and>
     calculateEmbeddings (small_embedding_model LLAMA_POOLING_TYPE_NONE) loaded_operator ''hey'' = Some b \<and>
     getSimilarity (small_embedding_model LLAMA_POOLING_TYPE_NONE) a b \<noteq> None"
  unfolding similarity_defined_iff [OF small_arrays]
  by (simp add: small_embedding_model_def too_few_ranks_def LLAMA_POOLING_TYPE_NONE_def LLAMA_POOLING_TYPE_RANK_def
      within_batch_def llama_operator_new_def llama_isReady_def)

text \<open>The reranking model is asked for the second of its one ranks.\<close>

lemma reranker_read_past_end:
  "calculateEmbeddings (small_embedding_model LLAMA_POOLING_TYPE_RANK) loaded_operator ''hi'' = None"
  by (rule calculateEmbeddings_too_few [OF small_arrays])
     (simp_all add: small_embedding_model_def too_few_ranks_def run_model_def
      within_batch_def llama_operator_new_def llama_isReady_def)

end
