(* ===== verification/Speech_Recognizer.thy ===== *)
theory Speech_Recognizer
  imports Prelude Binary_Float
begin

text \<open>
  \<open>operators/speech_recognizing_operator.cpp\<close>: voice activity detection in the audio callback, the
  queue of recorded utterances, and reading and recognising one. The audio library that calls the
  callback and the recogniser (PortAudio, vosk) are not in the repository: a call of the callback
  and its moment are inputs, and the recogniser's answer is a parameter. Times are nanoseconds of
  the steady clock.
\<close>

section \<open>State\<close>

type_synonym sample = "16 word"

record speech_recognizer =
  sr_model :: bool
  sr_recognizer :: bool
  sr_stream :: bool
  sr_streamActive :: bool
  sr_silenceThreshold :: nat
  sr_wakeCommand :: string
  sr_processBuffer :: "sample list"
  sr_bufferQueue :: "sample list list"
  sr_talking :: bool
  sr_lastTalkingFrameTime :: int
  sr_isSpeaking :: bool

text \<open>The two static variables of the callback belong to the state; the clock starts at its epoch.\<close>

definition speech_recognizer_new :: "nat \<Rightarrow> string \<Rightarrow> speech_recognizer" where
  "speech_recognizer_new threshold wake =
     \<lparr>sr_model = False, sr_recognizer = False, sr_stream = False, sr_streamActive = False,
      sr_silenceThreshold = threshold, sr_wakeCommand = wake, sr_processBuffer = [],
      sr_bufferQueue = [], sr_talking = False, sr_lastTalkingFrameTime = 0, sr_isSpeaking = False\<rparr>"

section \<open>Is it speech?\<close>

text \<open>
  The mean of the absolute values against the threshold. Both numbers are exact in a \<open>double\<close>, the
  quotient is rounded; without samples it is \<open>0.0 / 0.0\<close>, which is not below any threshold.
\<close>

definition energy :: "sample list \<Rightarrow> int" where
  "energy audio = sum_list (map (\<lambda>s. \<bar>sint s\<bar>) audio)"

definition is_human_speech_hybrid :: "nat \<Rightarrow> sample list \<Rightarrow> bool" where
  "is_human_speech_hybrid threshold audio \<longleftrightarrow>
     audio = [] \<or>
     \<not> flt_less (fdiv dbl_prec (fof_int dbl_prec (energy audio)) (fof_int dbl_prec (int (length audio))))
         (fof_int dbl_prec (int threshold))"

text \<open>\<open>::tolower\<close> in the classic locale.\<close>

definition lower :: "char \<Rightarrow> char" where
  "lower c = (if of_char c \<in> {65..90 :: nat} then char_of (of_char c + 32 :: nat) else c)"

definition contains_wake_word :: "string \<Rightarrow> string \<Rightarrow> bool" where
  "contains_wake_word wake text = occurs_in wake (map lower text)"

section \<open>The audio callback\<close>

datatype callback_result = Pa_continue | Pa_complete | Pa_abort

text \<open>A call: the samples (the pointer may be null), whether input was lost before, and the clock's answer.\<close>

record audio_call =
  ac_input :: "sample list option"
  ac_overflow :: bool
  ac_now :: int

definition paCallback :: "audio_call \<Rightarrow> speech_recognizer \<Rightarrow> callback_result \<times> speech_recognizer" where
  "paCallback a s =
     (case ac_input a of
        None \<Rightarrow> (Pa_abort, s)
      | Some audio \<Rightarrow>
          if ac_overflow a then (Pa_complete, s)
          else if sr_isSpeaking s then (Pa_continue, s)
          else if is_human_speech_hybrid (sr_silenceThreshold s) audio
          then (Pa_continue,
                s\<lparr>sr_talking := True, sr_processBuffer := sr_processBuffer s @ audio,
                  sr_lastTalkingFrameTime := ac_now a\<rparr>)
          else let s1 = (if sr_talking s then s\<lparr>sr_processBuffer := sr_processBuffer s @ audio\<rparr> else s)
               in (Pa_continue,
                   if sr_talking s1 \<and> ac_now a - sr_lastTalkingFrameTime s1 > 1000000000
                   then s1\<lparr>sr_bufferQueue := sr_bufferQueue s1 @ [sr_processBuffer s1],
                           sr_processBuffer := [], sr_talking := False\<rparr>
                   else s1))"

section \<open>Opening, listening, reading\<close>

text \<open>Whether the libraries' calls succeed are the parameters.\<close>

definition load_model :: "bool \<Rightarrow> bool \<Rightarrow> speech_recognizer \<Rightarrow> speech_recognizer" where
  "load_model model_ok recognizer_ok s =
     (if sr_model s \<and> sr_recognizer s then s
      else if \<not> model_ok then s\<lparr>sr_model := False\<rparr>
      else if \<not> recognizer_ok then s\<lparr>sr_recognizer := False, sr_model := False\<rparr>
      else s\<lparr>sr_model := True, sr_recognizer := True\<rparr>)"

definition open_stream :: "bool \<Rightarrow> bool \<Rightarrow> speech_recognizer \<Rightarrow> bool \<times> speech_recognizer" where
  "open_stream library_ok stream_ok s =
     (if sr_stream s then (True, s)
      else if \<not> library_ok then (False, s)
      else if \<not> stream_ok then (False, s)
      else (True, s\<lparr>sr_stream := True\<rparr>))"

definition start_listen :: "bool \<Rightarrow> speech_recognizer \<Rightarrow> bool \<times> speech_recognizer" where
  "start_listen started s =
     (if \<not> sr_stream s then (False, s)
      else if sr_streamActive s then (True, s)
      else if \<not> started then (False, s)
      else (True, s\<lparr>sr_streamActive := True\<rparr>))"

definition stop_listen :: "speech_recognizer \<Rightarrow> speech_recognizer" where
  "stop_listen s = (if sr_stream s \<and> sr_streamActive s then s\<lparr>sr_streamActive := False\<rparr> else s)"

definition recognizer_close :: "speech_recognizer \<Rightarrow> speech_recognizer" where
  "recognizer_close s =
     s\<lparr>sr_stream := False, sr_streamActive := sr_streamActive s \<and> \<not> sr_stream s, sr_recognizer := False,
       sr_model := False\<rparr>"

definition recognizer_isReady :: "speech_recognizer \<Rightarrow> bool" where
  "recognizer_isReady s \<longleftrightarrow> sr_model s \<and> sr_recognizer s \<and> sr_stream s"

definition get_buffer :: "speech_recognizer \<Rightarrow> sample list \<times> speech_recognizer" where
  "get_buffer s =
     (case sr_bufferQueue s of
        [] \<Rightarrow> ([], s)
      | b # bs \<Rightarrow> (replicate 1500 0 @ b, s\<lparr>sr_bufferQueue := bs\<rparr>))"

text \<open>
  Recognition: the recogniser \<open>vosk\<close> is handed the samples and a length, and answers with a text when
  it is sure. While it works the callback drops what is heard.
\<close>

definition get_text :: "(sample list \<Rightarrow> int \<Rightarrow> string option) \<Rightarrow> sample list \<Rightarrow> speech_recognizer \<Rightarrow> string \<times> speech_recognizer" where
  "get_text vosk audio s =
     (if \<not> sr_recognizer s \<or> \<not> sr_model s \<or> audio = [] then ([], s)
      else ((case vosk audio (int (length audio) * 2) of None \<Rightarrow> [] | Some text \<Rightarrow> text),
            s\<lparr>sr_isSpeaking := False\<rparr>))"

section \<open>Listening over time\<close>

text \<open>
  Calls of the callback, another thread that begins or ends to speak, and reads of the queue, in any
  order; the buffers read so far are kept beside the state.
\<close>

datatype listen_action = La_audio audio_call | La_speaking bool | La_read

fun listen_step :: "listen_action \<Rightarrow> speech_recognizer \<times> sample list list \<Rightarrow> speech_recognizer \<times> sample list list" where
  "listen_step (La_audio a) (s, r) = (snd (paCallback a s), r)"
| "listen_step (La_speaking b) (s, r) = (s\<lparr>sr_isSpeaking := b\<rparr>, r)"
| "listen_step La_read (s, r) =
     (let (b, s') = get_buffer s in (s', if b = [] then r else r @ [b]))"

definition listen :: "listen_action list \<Rightarrow> speech_recognizer \<times> sample list list \<Rightarrow> speech_recognizer \<times> sample list list" where
  "listen as sr = fold listen_step as sr"

section \<open>What an utterance is\<close>

text \<open>A frame that reaches the recorder: whether it is speech, its samples, its time.\<close>

type_synonym frame = "bool \<times> sample list \<times> int"

definition voiced :: "frame \<Rightarrow> bool" where "voiced f = fst f"
definition samples :: "frame \<Rightarrow> sample list" where "samples f = fst (snd f)"
definition time_of :: "frame \<Rightarrow> int" where "time_of f = snd (snd f)"

text \<open>A recording that has come to rest: its last frame is quiet, more than a second after the last speech.\<close>

definition at_rest :: "frame list \<Rightarrow> bool" where
  "at_rest u \<longleftrightarrow> \<not> voiced (last u) \<and> time_of (last u) - time_of (last (filter voiced u)) > 1000000000"

text \<open>An open recording starts with speech and has not come to rest; an utterance ends the moment it does.\<close>

definition open_recording :: "frame list \<Rightarrow> bool" where
  "open_recording p \<longleftrightarrow> p \<noteq> [] \<and> voiced (hd p) \<and> (\<forall>k \<le> length p. 0 < k \<longrightarrow> \<not> at_rest (take k p))"

definition utterance :: "frame list \<Rightarrow> bool" where
  "utterance u \<longleftrightarrow> (\<exists>p f. u = p @ [f] \<and> open_recording p \<and> at_rest u)"

text \<open>
  \<open>splits fs us p\<close>: the frames are quiet stretches around the utterances \<open>us\<close>, with the recording \<open>p\<close>
  open at the end, if any.
\<close>

inductive splits :: "frame list \<Rightarrow> frame list list \<Rightarrow> frame list \<Rightarrow> bool" where
  splits_quiet: "list_all (\<lambda>f. \<not> voiced f) g \<Longrightarrow> splits g [] []"
| splits_open: "list_all (\<lambda>f. \<not> voiced f) g \<Longrightarrow> open_recording p \<Longrightarrow> splits (g @ p) [] p"
| splits_utterance: "list_all (\<lambda>f. \<not> voiced f) g \<Longrightarrow> utterance u \<Longrightarrow> splits fs us p \<Longrightarrow>
    splits (g @ u @ fs) (u # us) p"

text \<open>The frames that reach the recorder: calls with samples, without loss, while nobody speaks.\<close>

fun heard :: "nat \<Rightarrow> bool \<Rightarrow> listen_action list \<Rightarrow> frame list" where
  "heard threshold speaking [] = []"
| "heard threshold speaking (La_audio a # as) =
     (case ac_input a of
        None \<Rightarrow> heard threshold speaking as
      | Some audio \<Rightarrow>
          if ac_overflow a \<or> speaking then heard threshold speaking as
          else (is_human_speech_hybrid threshold audio, audio, ac_now a) # heard threshold speaking as)"
| "heard threshold speaking (La_speaking b # as) = heard threshold b as"
| "heard threshold speaking (La_read # as) = heard threshold speaking as"

section \<open>Splitting one frame further\<close>

lemma splits_snoc_quiet: "splits fs us p \<Longrightarrow> p = [] \<Longrightarrow> \<not> voiced f \<Longrightarrow> splits (fs @ [f]) us []"
  by (induction rule: splits.induct)
     (auto simp: open_recording_def intro: splits_quiet splits_utterance)

lemma splits_snoc_open:
  "splits fs us p \<Longrightarrow> open_recording (p @ [f]) \<Longrightarrow> splits (fs @ [f]) us (p @ [f])"
proof (induction rule: splits.induct)
  case (splits_quiet g)
  then show ?case using splits_open [of g "[f]"] by simp
next
  case (splits_open g p)
  then show ?case using splits.splits_open [of g "p @ [f]"] by simp
next
  case (splits_utterance g u fs us p)
  then show ?case using splits.splits_utterance [of g u "fs @ [f]" us "p @ [f]"] by simp
qed

lemma splits_snoc_rest:
  "splits fs us p \<Longrightarrow> p \<noteq> [] \<Longrightarrow> at_rest (p @ [f]) \<Longrightarrow> splits (fs @ [f]) (us @ [p @ [f]]) []"
proof (induction rule: splits.induct)
  case (splits_open g p)
  then have "utterance (p @ [f])" unfolding utterance_def by blast
  then show ?case
    using splits.splits_utterance [OF splits_open(1) _ splits_quiet, of "p @ [f]" "[]"] by simp
next
  case (splits_utterance g u fs us p)
  then show ?case using splits.splits_utterance [of g u "fs @ [f]" "us @ [p @ [f]]" "[]"] by simp
qed simp

lemma splits_open_end: "splits fs us p \<Longrightarrow> p \<noteq> [] \<Longrightarrow> open_recording p"
  by (induction rule: splits.induct) auto

lemma open_snoc:
  "open_recording (p @ [f]) \<longleftrightarrow> (if p = [] then voiced f else open_recording p \<and> \<not> at_rest (p @ [f]))"
  by (auto simp: open_recording_def at_rest_def le_Suc_eq)

section \<open>The recorder splits speech into utterances\<close>

text \<open>The buffer handed out for an utterance: a moment of silence, then its samples.\<close>

definition spoken :: "frame list \<Rightarrow> sample list" where
  "spoken u = replicate 1500 0 @ concat (map samples u)"

text \<open>How the recorder's state stands for the frames heard so far.\<close>

definition recording :: "nat \<Rightarrow> frame list \<Rightarrow> frame list list \<Rightarrow> frame list \<Rightarrow> speech_recognizer \<times> sample list list \<Rightarrow> bool" where
  "recording threshold fs us p sr \<longleftrightarrow>
     (case sr of (s, r) \<Rightarrow>
        splits fs us p \<and> sr_silenceThreshold s = threshold \<and>
        r @ map (\<lambda>b. replicate 1500 0 @ b) (sr_bufferQueue s) = map spoken us \<and>
        sr_processBuffer s = concat (map samples p) \<and> sr_talking s = (p \<noteq> []) \<and>
        (p \<noteq> [] \<longrightarrow> sr_lastTalkingFrameTime s = time_of (last (filter voiced p))))"

lemma callback_unheard:
  assumes "ac_input a = None \<or> ac_overflow a \<or> sr_isSpeaking s"
  shows "snd (paCallback a s) = s"
  using assms by (auto simp: paCallback_def split: option.split)

lemma callback_fields [simp]:
  "sr_isSpeaking (snd (paCallback a s)) = sr_isSpeaking s"
  "sr_silenceThreshold (snd (paCallback a s)) = sr_silenceThreshold s"
  by (auto simp: paCallback_def Let_def split: option.split)

lemma callback_records:
  assumes "ac_input a = Some audio" and "\<not> ac_overflow a" and "\<not> sr_isSpeaking s"
    and f: "f = (is_human_speech_hybrid threshold audio, audio, ac_now a)"
    and "recording threshold fs us p (s, r)"
  shows "\<exists>us' p'. recording threshold (fs @ [f]) us' p' (snd (paCallback a s), r)"
proof -
  have inv: "splits fs us p" "sr_silenceThreshold s = threshold"
    "r @ map (\<lambda>b. replicate 1500 0 @ b) (sr_bufferQueue s) = map spoken us"
    "sr_processBuffer s = concat (map samples p)" "sr_talking s = (p \<noteq> [])"
    "p \<noteq> [] \<longrightarrow> sr_lastTalkingFrameTime s = time_of (last (filter voiced p))"
    using assms(5) by (simp_all add: recording_def)
  have ff: "samples f = audio" "time_of f = ac_now a" "voiced f = is_human_speech_hybrid threshold audio"
    by (simp_all add: f samples_def time_of_def voiced_def)
  note cb = paCallback_def assms(1-3) inv(2) Let_def
  show ?thesis
  proof (cases "voiced f")
    case True
    then have "open_recording (p @ [f])"
      using splits_open_end [OF inv(1)] by (simp add: open_snoc at_rest_def)
    then have "splits (fs @ [f]) us (p @ [f])" by (rule splits_snoc_open [OF inv(1)])
    then have "recording threshold (fs @ [f]) us (p @ [f]) (snd (paCallback a s), r)"
      using True inv ff by (simp add: recording_def cb)
    then show ?thesis by blast
  next
    case quiet: False
    show ?thesis
    proof (cases "p = []")
      case True
      then have "recording threshold (fs @ [f]) us [] (snd (paCallback a s), r)"
        using quiet inv ff splits_snoc_quiet [OF inv(1)] by (simp add: recording_def cb)
      then show ?thesis by blast
    next
      case False
      then have rest: "at_rest (p @ [f]) \<longleftrightarrow> ac_now a - sr_lastTalkingFrameTime s > 1000000000"
        using quiet inv ff by (simp add: at_rest_def)
      show ?thesis
      proof (cases "at_rest (p @ [f])")
        case True
        then have "recording threshold (fs @ [f]) (us @ [p @ [f]]) [] (snd (paCallback a s), r)"
          using False quiet inv ff rest splits_snoc_rest [OF inv(1) False True]
          by (simp add: recording_def cb spoken_def flip: inv(3))
        then show ?thesis by blast
      next
        case still: False
        then have "splits (fs @ [f]) us (p @ [f])"
          using splits_snoc_open [OF inv(1)] splits_open_end [OF inv(1)] False by (simp add: open_snoc)
        then have "recording threshold (fs @ [f]) us (p @ [f]) (snd (paCallback a s), r)"
          using False still quiet inv ff rest by (simp add: recording_def cb)
        then show ?thesis by blast
      qed
    qed
  qed
qed

lemma read_records:
  "recording threshold fs us p (s, r) \<Longrightarrow> recording threshold fs us p (listen_step La_read (s, r))"
  by (cases "sr_bufferQueue s") (auto simp: recording_def get_buffer_def)

lemma listen_records:
  "recording threshold fs us p (s, r) \<Longrightarrow>
   \<exists>us' p'. recording threshold (fs @ heard threshold (sr_isSpeaking s) as) us' p' (listen as (s, r))"
proof (induction as arbitrary: fs us p s r)
  case Nil
  then show ?case by (auto simp: listen_def)
next
  case (Cons x as)
  have rest: "listen (x # as) (s, r) = listen as (listen_step x (s, r))" by (simp add: listen_def)
  show ?case
  proof (cases x)
    case (La_audio a)
    show ?thesis
    proof (cases "ac_input a = None \<or> ac_overflow a \<or> sr_isSpeaking s")
      case True
      then have "heard threshold (sr_isSpeaking s) (x # as) = heard threshold (sr_isSpeaking s) as"
        by (auto simp: La_audio split: option.split)
      then show ?thesis
        using Cons.IH [OF Cons.prems] callback_unheard [OF True] rest by (simp add: La_audio)
    next
      case False
      then obtain audio where a: "ac_input a = Some audio" "\<not> ac_overflow a" "\<not> sr_isSpeaking s" by auto
      from callback_records [OF this refl Cons.prems] obtain us' p' where
        "recording threshold (fs @ [(is_human_speech_hybrid threshold audio, audio, ac_now a)]) us' p'
           (snd (paCallback a s), r)" by blast
      from Cons.IH [OF this] show ?thesis using a rest by (simp add: La_audio)
    qed
  next
    case (La_speaking b)
    have "recording threshold fs us p (s\<lparr>sr_isSpeaking := b\<rparr>, r)"
      using Cons.prems by (simp add: recording_def)
    from Cons.IH [OF this] show ?thesis using rest by (simp add: La_speaking)
  next
    case La_read
    obtain s' r' where s': "listen_step La_read (s, r) = (s', r')" by fastforce
    then have "sr_isSpeaking s' = sr_isSpeaking s"
      by (auto simp: get_buffer_def split: list.splits)
    then show ?thesis using Cons.IH [of fs us p s' r'] read_records [OF Cons.prems] s' rest
      by (simp add: La_read)
  qed
qed

text \<open>C31: whatever the order of audio calls, reads of the queue and moments in which the robot speaks, the frames
heard are quiet stretches around utterances: each begins with speech and ends with the first quiet frame
more than a second after its last speech; the buffers read and queued are exactly these utterances in
order, and an utterance that has not ended is in the process buffer. No frame of speech is lost.\<close>

theorem speech_split_into_utterances:
  "\<exists>us p. splits (heard threshold False as) us p \<and>
     (case listen as (speech_recognizer_new threshold wake, []) of (s, r) \<Rightarrow>
        r @ map (\<lambda>b. replicate 1500 0 @ b) (sr_bufferQueue s) = map spoken us \<and>
        sr_processBuffer s = concat (map samples p) \<and> sr_talking s = (p \<noteq> []))"
proof -
  have "recording threshold [] [] [] (speech_recognizer_new threshold wake, [])"
    using splits_quiet [of "[]"] by (simp add: recording_def speech_recognizer_new_def)
  from listen_records [OF this, of as] obtain us p where
    "recording threshold (heard threshold False as) us p (listen as (speech_recognizer_new threshold wake, []))"
    by (auto simp: speech_recognizer_new_def)
  then show ?thesis
    by (intro exI [of _ us] exI [of _ p]) (simp add: recording_def split: prod.splits)
qed

section \<open>The wake word\<close>

text \<open>
  The text is put in lower case, the wake word is not: a wake word with a capital letter, such as the
  default one, is never found.
\<close>

lemma lower_no_capital: "of_char (lower c) \<notin> {65..90 :: nat}"
  by (simp add: lower_def of_char_mod_256)

lemma occurs_chars: "occurs_in w t \<Longrightarrow> set w \<subseteq> set t"
proof (induction t)
  case (Cons c cs)
  then show ?case by (auto dest: in_set_takeD) (metis in_set_takeD set_ConsD)
qed simp

lemma capital_wake_word_never_found:
  assumes "c \<in> set wake" and "of_char c \<in> {65..90 :: nat}"
  shows "\<not> contains_wake_word wake text"
proof
  assume "contains_wake_word wake text"
  then have "c \<in> set (map lower text)"
    using assms(1) occurs_chars [of wake "map lower text"] unfolding contains_wake_word_def by blast
  then show False using assms(2) lower_no_capital by auto
qed

lemma default_wake_word_never_found: "\<not> contains_wake_word ''Kofi'' text"
  by (rule capital_wake_word_never_found [of "CHR ''K''"]) simp_all

end
