(* ===== verification/Side_Operators.thy ===== *)
theory Side_Operators
  imports Tui_Windows Speech_Recognizer
begin

text \<open>
  Smaller parts of the program. \<open>logger.h\<close>: the cache of log lines and where a line goes.
  \<open>operators/http_request_operator.cpp\<close>: reading a streamed answer. \<open>operators/cmdline_execution_operator.cpp\<close>:
  the command handed to the shell. \<open>operators/speech_performing_operator.cpp\<close>: handing synthesised
  audio to the player. \<open>operators/udp_server_operator.cpp\<close>: the socket and its receiving thread.
  spdlog, curl, the shell, piper, ALSA and the sockets are not in the repository: what they answer
  is a parameter.
\<close>

section \<open>Logger\<close>

record logger =
  lg_useTui :: bool
  lg_window :: "main_window option"
  lg_cachedLogs :: "log_entry list"
  lg_console :: "(LogLevel \<times> string) list"

definition LOG_CACHE :: nat where
  "LOG_CACHE = 1000"

text \<open>The six logging functions differ in the level only.\<close>

definition cache_line :: "log_entry \<Rightarrow> log_entry list \<Rightarrow> log_entry list" where
  "cache_line e es = (if length es \<le> LOG_CACHE then es @ [e] else tl es @ [e])"

definition full_message :: "log_entry \<Rightarrow> string" where
  "full_message e = (case e of (line, level, className) \<Rightarrow> ''<'' @ className @ ''> '' @ line)"

definition log_line :: "log_entry \<Rightarrow> logger \<Rightarrow> logger" where
  "log_line e l =
     (let l1 = l\<lparr>lg_cachedLogs := cache_line e (lg_cachedLogs l)\<rparr>
      in case lg_window l of
           Some w \<Rightarrow> if lg_useTui l
             then l1\<lparr>lg_window := Some (window_log (fst e) (fst (snd e)) (snd (snd e)) w)\<rparr>
             else l1\<lparr>lg_console := lg_console l @ [(fst (snd e), full_message e)]\<rparr>
         | None \<Rightarrow> l1\<lparr>lg_console := lg_console l @ [(fst (snd e), full_message e)]\<rparr>)"

text \<open>\<open>print_cached_logs\<close>: a critical line has no case, it is erased without being printed.\<close>

definition print_cached_logs :: "string \<Rightarrow> logger \<Rightarrow> logger" where
  "print_cached_logs className l =
     l\<lparr>lg_console := lg_console l @
         map (\<lambda>e. (fst (snd e), full_message e))
           (filter (\<lambda>e. snd (snd e) = className \<and> fst (snd e) \<noteq> Log_critical) (lg_cachedLogs l)),
       lg_cachedLogs := filter (\<lambda>e. snd (snd e) \<noteq> className) (lg_cachedLogs l)\<rparr>"

definition replay_cached_logs_to_tui :: "logger \<Rightarrow> logger" where
  "replay_cached_logs_to_tui l =
     (case lg_window l of None \<Rightarrow> l
      | Some w \<Rightarrow> l\<lparr>lg_window :=
          Some (fold (\<lambda>(line, level, className). window_log line level className) (lg_cachedLogs l) w)\<rparr>)"

section \<open>Streamed answers\<close>

text \<open>
  \<open>member\<close> parses a text as JSON and reads the string \<open>response\<close>: \<open>None\<close> when either raises.
\<close>

function parse_response_llm :: "(string \<Rightarrow> string option) \<Rightarrow> string \<Rightarrow> string option" where
  "parse_response_llm member s =
     (let rest = dropWhile (\<lambda>c. c \<noteq> CHR 0x7B) s
      in if CHR 0x7D \<notin> set rest then Some []
         else Option.bind (member (takeWhile (\<lambda>c. c \<noteq> CHR 0x7D) rest @ [CHR 0x7D]))
                (\<lambda>t. map_option (\<lambda>u. t @ u) (parse_response_llm member (tl (dropWhile (\<lambda>c. c \<noteq> CHR 0x7D) rest)))))"
  by auto
termination
proof (relation "measure (\<lambda>(member, s). length s)", goal_cases)
  case (2 member s rest t)
  have "dropWhile (\<lambda>c. c \<noteq> CHR 0x7D) rest \<noteq> []" using 2 by (auto simp: dropWhile_eq_Nil_conv)
  then have "length (tl (dropWhile (\<lambda>c. c \<noteq> CHR 0x7D) rest)) < length (dropWhile (\<lambda>c. c \<noteq> CHR 0x7D) rest)"
    by simp
  also have "\<dots> \<le> length rest" by (rule length_dropWhile_le)
  also have "\<dots> \<le> length s" using 2 by (simp add: length_dropWhile_le)
  finally show ?case by simp
qed simp

declare parse_response_llm.simps [simp del]

text \<open>One piece arriving: the buffer is emptied when the piece ends a sentence.\<close>

definition write_callback :: "(string \<Rightarrow> string option) \<Rightarrow> string \<Rightarrow> string \<Rightarrow> (nat \<times> string) option" where
  "write_callback member data out =
     map_option (\<lambda>word.
         (length data,
          if occurs_in ''!'' word \<or> occurs_in ''.'' word \<or> occurs_in ''?'' word then [] else out @ word))
       (member data)"

definition query_payload :: "string \<Rightarrow> string" where
  "query_payload prompt =
     [CHR 0x7B] @ [CHR 0x22] @ ''model'' @ [CHR 0x22] @ '': '' @ [CHR 0x22] @ ''kufi'' @ [CHR 0x22] @ '', '' @
     [CHR 0x22] @ ''prompt'' @ [CHR 0x22] @ '':'' @ [CHR 0x22] @ prompt @ [CHR 0x22] @ [CHR 0x7D]"

section \<open>Commands for the shell\<close>

datatype ExecutionType = Ex_query | Ex_imageQuery | Ex_tunning

definition shell_command :: "string \<Rightarrow> string \<Rightarrow> string" where
  "shell_command path prompt =
     ''bash -c '' @ [CHR 0x27] @ ''python3 '' @ path @ '' '' @ [CHR 0x22] @ prompt @ [CHR 0x22] @ '' 2>&1'' @ [CHR 0x27]"

text \<open>\<open>popen\<close> answers with the whole output of the command, or fails.\<close>

definition run_script :: "(string \<Rightarrow> string option) \<Rightarrow> string \<Rightarrow> string \<Rightarrow> string" where
  "run_script popen path prompt =
     (case popen (shell_command path prompt) of None \<Rightarrow> ''Error'' | Some out \<Rightarrow> out)"

fun execute :: "(string \<Rightarrow> string option) \<Rightarrow> ExecutionType \<Rightarrow> string \<Rightarrow> string" where
  "execute popen Ex_query prompt = run_script popen ''../gemini/query.py'' prompt"
| "execute popen Ex_imageQuery prompt =
     run_script popen ''/home/kufi/workspace/kufibot.cpp/gemini/image_query.py'' prompt"
| "execute popen Ex_tunning prompt = run_script popen ''../gemini/tunning.py'' prompt"

section \<open>Speaking\<close>

text \<open>
  \<open>piper\<close> synthesises a text in pieces and calls back with each piece in the audio buffer. What
  the player wrote is \<open>sp_played\<close>; whether the recogniser is told to ignore sound is \<open>sp_speaking\<close>.
\<close>

record performer =
  sp_sharedAudioBuffer :: "sample list"
  sp_audioReady :: bool
  sp_played :: "sample list list"
  sp_speaking :: bool

definition performer_new :: performer where
  "performer_new = \<lparr>sp_sharedAudioBuffer = [], sp_audioReady = False, sp_played = [], sp_speaking = False\<rparr>"

definition audioCallbackFunc :: "sample list \<Rightarrow> performer \<Rightarrow> performer" where
  "audioCallbackFunc buffer s =
     s\<lparr>sp_sharedAudioBuffer := sp_sharedAudioBuffer s @ buffer, sp_audioReady := True\<rparr>"

definition synthesizeText :: "sample list list \<Rightarrow> performer \<Rightarrow> performer" where
  "synthesizeText pieces s = fold audioCallbackFunc pieces s"

text \<open>\<open>None\<close>: the wait for audio never ends.\<close>

definition playAudio :: "bool \<Rightarrow> performer \<Rightarrow> performer option" where
  "playAudio device_ok s =
     (if \<not> device_ok then Some s
      else if \<not> sp_audioReady s then None
      else Some (s\<lparr>sp_played := sp_played s @ [sp_sharedAudioBuffer s], sp_sharedAudioBuffer := [],
                   sp_audioReady := False\<rparr>))"

definition speakText :: "sample list list \<Rightarrow> bool \<Rightarrow> performer \<Rightarrow> performer option" where
  "speakText pieces device_ok s =
     map_option (\<lambda>s'. s'\<lparr>sp_speaking := False\<rparr>)
       (playAudio device_ok (synthesizeText pieces (s\<lparr>sp_speaking := True\<rparr>)))"

section \<open>The UDP server socket\<close>

text \<open>
  One caller and the receiving thread. \<open>Ca_joining close\<close>: the caller waits in \<open>join\<close>, and closes the
  socket afterwards when \<open>close\<close> holds. Opening does not close a socket that is open already.
\<close>

datatype receiver = Rc_none | Rc_check | Rc_receiving | Rc_ended

datatype caller = Ca_free | Ca_joining bool

record udp_server =
  uo_sock :: int
  uo_running :: bool
  uo_receiver :: receiver
  uo_caller :: caller
  uo_delivered :: "string list"
  uo_sent :: "string list"

definition udp_server_new :: udp_server where
  "udp_server_new =
     \<lparr>uo_sock = -1, uo_running = False, uo_receiver = Rc_none, uo_caller = Ca_free, uo_delivered = [],
      uo_sent = []\<rparr>"

datatype udp_action =
    Uo_openSocket int int bool
  | Uo_startReceive
  | Uo_stopReceive
  | Uo_closeSocket
  | Uo_sendData string bool
  | Uo_joined
  | Uo_receiver_checks
  | Uo_recvfrom "string option"

definition stop_receive :: "bool \<Rightarrow> udp_server \<Rightarrow> udp_server" where
  "stop_receive close s =
     (let s1 = s\<lparr>uo_running := False\<rparr>
      in if uo_receiver s = Rc_none then (if close then s1\<lparr>uo_sock := -1\<rparr> else s1)
         else s1\<lparr>uo_caller := Ca_joining close\<rparr>)"

fun udp_step :: "udp_action \<Rightarrow> udp_server \<Rightarrow> udp_server option" where
  "udp_step (Uo_openSocket fd port binds) s =
     (if uo_caller s \<noteq> Ca_free then None
      else Some (if fd < 0 \<or> port \<le> 0 \<or> binds then s\<lparr>uo_sock := fd\<rparr>
                 else stop_receive True (s\<lparr>uo_sock := fd\<rparr>)))"
| "udp_step Uo_startReceive s =
     (if uo_caller s \<noteq> Ca_free then None
      else Some (if uo_running s then s else s\<lparr>uo_running := True, uo_receiver := Rc_check\<rparr>))"
| "udp_step Uo_stopReceive s = (if uo_caller s \<noteq> Ca_free then None else Some (stop_receive False s))"
| "udp_step Uo_closeSocket s = (if uo_caller s \<noteq> Ca_free then None else Some (stop_receive True s))"
| "udp_step (Uo_sendData bytes sent) s =
     (if uo_caller s \<noteq> Ca_free then None
      else Some (if 0 \<le> uo_sock s \<and> sent then s\<lparr>uo_sent := uo_sent s @ [bytes]\<rparr> else s))"
| "udp_step Uo_joined s =
     (case uo_caller s of
        Ca_free \<Rightarrow> None
      | Ca_joining close \<Rightarrow>
          if uo_receiver s = Rc_ended
          then Some (s\<lparr>uo_receiver := Rc_none, uo_caller := Ca_free, uo_sock := (if close then -1 else uo_sock s)\<rparr>)
          else None)"
| "udp_step Uo_receiver_checks s =
     (if uo_receiver s = Rc_check
      then Some (s\<lparr>uo_receiver := (if uo_running s then Rc_receiving else Rc_ended)\<rparr>) else None)"
| "udp_step (Uo_recvfrom answer) s =
     (if uo_receiver s = Rc_receiving
      then Some (case answer of
          Some bytes \<Rightarrow> if bytes = [] then s\<lparr>uo_receiver := Rc_check\<rparr>
            else s\<lparr>uo_receiver := Rc_check, uo_delivered := uo_delivered s @ [bytes]\<rparr>
        | None \<Rightarrow> s\<lparr>uo_receiver := Rc_check\<rparr>)
      else None)"

section \<open>Properties\<close>

lemma cache_fold: "lg_cachedLogs (fold log_line es l) = fold cache_line es (lg_cachedLogs l)"
  by (induction es arbitrary: l) (simp_all add: log_line_def Let_def split: option.split)

lemma cache_latest:
  "length cs \<le> 1001 \<Longrightarrow> fold cache_line es cs = drop (length cs + length es - 1001) (cs @ es)"
proof (induction es arbitrary: cs)
  case (Cons e es)
  show ?case
  proof (cases "length cs \<le> 1000")
    case True
    then show ?thesis using Cons.IH [of "cs @ [e]"] by (simp add: cache_line_def LOG_CACHE_def)
  next
    case False
    then obtain c list where cs: "cs = c # list" "length list = 1000"
      using Cons.prems by (cases cs) auto
    then show ?thesis using Cons.IH [of "list @ [e]"] by (simp add: cache_line_def LOG_CACHE_def)
  qed
qed simp

text \<open>After any number of log lines the cache holds the latest 1001 of them, in order, one more than its
limit says.\<close>

lemma cache_holds_latest:
  "lg_cachedLogs (fold log_line es (l\<lparr>lg_cachedLogs := []\<rparr>)) = drop (length es - 1001) es"
  using cache_latest [of "[]" es] by (simp add: cache_fold)

text \<open>Speaking, in one equation.\<close>

lemma synthesized:
  "synthesizeText pieces s =
     s\<lparr>sp_sharedAudioBuffer := sp_sharedAudioBuffer s @ concat pieces,
       sp_audioReady := (sp_audioReady s \<or> pieces \<noteq> [])\<rparr>"
  by (induction pieces arbitrary: s) (simp_all add: synthesizeText_def audioCallbackFunc_def)

text \<open>Speaking a text that piper turns into nothing never returns when no audio is left over; otherwise it plays
what is left of texts whose playing failed and then its own, and where the device fails to open it
keeps its audio for the next text.\<close>

lemma speak_result:
  "speakText pieces device_ok s =
     (if \<not> device_ok
      then Some (s\<lparr>sp_sharedAudioBuffer := sp_sharedAudioBuffer s @ concat pieces,
                   sp_audioReady := sp_audioReady s \<or> pieces \<noteq> [], sp_speaking := False\<rparr>)
      else if pieces = [] \<and> \<not> sp_audioReady s then None
      else Some (s\<lparr>sp_played := sp_played s @ [sp_sharedAudioBuffer s @ concat pieces],
                   sp_sharedAudioBuffer := [], sp_audioReady := False, sp_speaking := False\<rparr>))"
  by (simp add: speakText_def playAudio_def synthesized)

lemma failed_text_played_later:
  assumes "pieces \<noteq> []"
  shows "Option.bind (speakText pieces False performer_new) (speakText [p] True) =
    Some (performer_new\<lparr>sp_played := [concat pieces @ p]\<rparr>)"
  using assms by (simp add: speak_result performer_new_def)

section \<open>Combining a streamed answer\<close>

lemma dropWhile_none: "c \<notin> set g \<Longrightarrow> dropWhile (\<lambda>x. x \<noteq> c) (g @ c # r) = c # r"
  by (induction g) auto

lemma takeWhile_none: "c \<notin> set g \<Longrightarrow> takeWhile (\<lambda>x. x \<noteq> c) (g @ c # r) = g"
  by (induction g) auto

text \<open>An object of the stream: what stands before it and what its braces hold.\<close>

type_synonym piece = "string \<times> string"

definition object_text :: "piece \<Rightarrow> string" where
  "object_text p = [CHR 0x7B] @ snd p @ [CHR 0x7D]"

definition plain_piece :: "piece \<Rightarrow> bool" where
  "plain_piece p \<longleftrightarrow> CHR 0x7B \<notin> set (fst p) \<and> CHR 0x7D \<notin> set (snd p)"

definition stream_text :: "piece list \<Rightarrow> string" where
  "stream_text ps = concat (map (\<lambda>p. fst p @ object_text p) ps)"

lemma parse_piece:
  assumes "plain_piece p"
  shows "parse_response_llm member (fst p @ object_text p @ r) =
    Option.bind (member (object_text p)) (\<lambda>t. map_option (\<lambda>u. t @ u) (parse_response_llm member r))"
proof -
  have p: "CHR 0x7B \<notin> set (fst p)" "CHR 0x7D \<notin> set (CHR 0x7B # snd p)"
    using assms by (simp_all add: plain_piece_def)
  have rest: "dropWhile (\<lambda>c. c \<noteq> CHR 0x7B) (fst p @ object_text p @ r) = (CHR 0x7B # snd p) @ CHR 0x7D # r"
    using dropWhile_none [OF p(1)] by (simp add: object_text_def)
  show ?thesis
    unfolding parse_response_llm.simps [of member "fst p @ object_text p @ r"] rest Let_def
      dropWhile_none [OF p(2)] takeWhile_none [OF p(2)]
    by (simp add: object_text_def)
qed

lemma parse_nothing: "CHR 0x7B \<notin> set s \<Longrightarrow> parse_response_llm member s = Some []"
proof -
  assume "CHR 0x7B \<notin> set s"
  then have none: "dropWhile (\<lambda>c. c \<noteq> CHR 0x7B) s = []" by (auto simp: dropWhile_eq_Nil_conv)
  show ?thesis unfolding parse_response_llm.simps [of member s] none Let_def by simp
qed

text \<open>An answer made of objects without a closing brace inside, with no opening brace between them, is the
concatenation of the objects' texts in order, and raises exactly when one of them cannot be read.\<close>

lemma stream_combined:
  assumes "list_all plain_piece ps" and "CHR 0x7B \<notin> set after"
  shows "parse_response_llm member (stream_text ps @ after) =
    map_option concat (those (map (\<lambda>p. member (object_text p)) ps))"
  using assms(1)
proof (induction ps)
  case Nil
  then show ?case using parse_nothing [OF assms(2)] by (simp add: stream_text_def)
next
  case (Cons p ps)
  then have "parse_response_llm member (stream_text (p # ps) @ after) =
      Option.bind (member (object_text p)) (\<lambda>t. map_option (\<lambda>u. t @ u) (map_option concat (those (map (\<lambda>p. member (object_text p)) ps))))"
    using parse_piece [of p member "stream_text ps @ after"] by (simp add: stream_text_def)
  then show ?case
    by (cases "member (object_text p)") (simp_all add: option.map_comp o_def)
qed

lemma stream_combined_witness:
  "parse_response_llm (\<lambda>s. if length s < 9 then Some (drop 1 (butlast s)) else None)
     (stream_text [(''x '', ''Hel''), ([], ''lo'')] @ '' end'') = Some ''Hello''"
  using stream_combined [of "[(''x '', ''Hel''), ([], ''lo'')]" "'' end''"
      "\<lambda>s. if length s < 9 then Some (drop 1 (butlast s)) else None"]
  by (simp add: plain_piece_def object_text_def)

section \<open>Closing the UDP server\<close>

text \<open>The caller waits for the receiving thread, which waits for a datagram.\<close>

definition closing_blocked :: "int \<Rightarrow> udp_server \<Rightarrow> bool" where
  "closing_blocked fd s \<longleftrightarrow>
     uo_caller s = Ca_joining True \<and> uo_receiver s = Rc_receiving \<and> \<not> uo_running s \<and> uo_sock s = fd"

fun is_recvfrom :: "udp_action \<Rightarrow> bool" where
  "is_recvfrom (Uo_recvfrom _) = True"
| "is_recvfrom _ = False"

interpretation closing: stable_condition udp_step "\<lambda>a. \<not> is_recvfrom a" "closing_blocked fd" for fd
proof unfold_locales
  fix s a s'
  assume "closing_blocked fd s" "\<not> is_recvfrom a" "udp_step a s = Some s'"
  then show "closing_blocked fd s'"
    by (cases a) (auto simp: closing_blocked_def split: caller.splits)
qed

text \<open>Closing the socket while its thread waits for a datagram does not return, whatever the threads do,
until one arrives or the read fails; then it returns with the socket closed.\<close>

lemma close_waits_for_datagram:
  assumes "uo_caller s = Ca_free" and "uo_receiver s = Rc_receiving"
    and "run_actions udp_step (Uo_closeSocket # as) s = Some s'" and "\<forall>a \<in> set as. \<not> is_recvfrom a"
  shows "uo_caller s' \<noteq> Ca_free \<and> uo_sock s' = uo_sock s \<and>
    (\<exists>s''. run_actions udp_step [Uo_recvfrom answer, Uo_receiver_checks, Uo_joined] s' = Some s'' \<and>
       uo_caller s'' = Ca_free \<and> uo_sock s'' = -1)"
proof -
  let ?s1 = "s\<lparr>uo_running := False, uo_caller := Ca_joining True\<rparr>"
  have "closing_blocked (uo_sock s) ?s1" "run_actions udp_step as ?s1 = Some s'"
    using assms(1-3) by (simp_all add: closing_blocked_def stop_receive_def Let_def)
  then have "closing_blocked (uo_sock s) s'" using closing.kept_run assms(4) by blast
  then show ?thesis by (auto simp: closing_blocked_def split: option.split)
qed

lemma close_waits_for_datagram_witness:
  "\<exists>s'. run_actions udp_step [Uo_closeSocket]
      (udp_server_new\<lparr>uo_sock := 3, uo_running := True, uo_receiver := Rc_receiving\<rparr>) = Some s' \<and>
    uo_caller s' \<noteq> Ca_free"
  using close_waits_for_datagram
    [of "udp_server_new\<lparr>uo_sock := 3, uo_running := True, uo_receiver := Rc_receiving\<rparr>" "[]"]
  by (simp add: udp_server_new_def stop_receive_def)

end
