(* ===== verification/Speech_Performer.thy ===== *)
theory Speech_Performer
  imports Side_Operators
begin

text \<open>
  The rest of \<open>operators/speech_performing_operator.cpp\<close> beside the handing over of synthesised audio
  (theory Side_Operators): the life of the operator with its voice and its keep-alive thread, and
  playing buffers, music and the keep-alive tone. ALSA, mpg123 and piper are not in the repository:
  the calls made are recorded, what they answer are arguments.
\<close>

section \<open>Playing\<close>

text \<open>
  Calls of the sound device, in order. A device is opened for a number of channels and a rate; a
  write hands over frames of one 16-bit sample for each channel.
\<close>

datatype pcm_call =
  Pcm_open | Pcm_set_params nat nat | Pcm_prepare | Pcm_write "sample list" | Pcm_drain | Pcm_close

text \<open>\<open>opens\<close>, \<open>accepts\<close> and \<open>written\<close> say whether opening, the parameters and the write succeed.\<close>

definition playAudioBuffer :: "bool \<Rightarrow> bool \<Rightarrow> bool \<Rightarrow> sample list \<Rightarrow> pcm_call list" where
  "playAudioBuffer opens accepts written buffer =
     (if \<not> opens then [Pcm_open]
      else if \<not> accepts then [Pcm_open, Pcm_set_params 1 16000, Pcm_close]
      else [Pcm_open, Pcm_set_params 1 16000, Pcm_write buffer] @
           (if written then [] else [Pcm_prepare]) @ [Pcm_drain, Pcm_close])"

text \<open>
  \<open>playMusic\<close>. mpg123 gives the channels and the rate of the file and its decoded blocks, as lists
  of samples of two bytes, as long as reading answers OK. A quarter of the bytes of a block is
  handed over as its number of frames, whatever the number of channels.
\<close>

definition music_write :: "nat \<Rightarrow> sample list \<times> bool \<Rightarrow> pcm_call list" where
  "music_write channels block_ok =
     (let (block, written) = block_ok; frames = 2 * length block div 4
      in Pcm_write (take (frames * channels) block) # (if written then [] else [Pcm_prepare]))"

definition playMusic ::
    "bool \<Rightarrow> bool \<Rightarrow> nat \<Rightarrow> nat \<Rightarrow> (sample list \<times> bool) list \<Rightarrow> pcm_call list" where
  "playMusic file_opens opens channels rate blocks =
     (if \<not> file_opens then []
      else if \<not> opens then [Pcm_open]
      else [Pcm_open, Pcm_set_params channels rate, Pcm_prepare] @
           concat (map (music_write channels) blocks) @ [Pcm_drain, Pcm_close])"

text \<open>One block of the keep-alive tone, the same each time, and the loop over \<open>n\<close> rounds.\<close>

definition keep_alive_buffer :: "libm \<Rightarrow> int list" where
  "keep_alive_buffer L =
     (let twoPiF = fdiv dbl_prec (fmul dbl_prec (fmul dbl_prec (fof_int dbl_prec 2) M_PI) (fof_int dbl_prec 20))
                     (fof_int dbl_prec 22050)
      in map (\<lambda>i. ftrunc (fmul dbl_prec (fof_int dbl_prec 100)
                            (lib_sin L (fmul dbl_prec twoPiF (fof_int dbl_prec (int i)))))) [0..<256])"

definition keepAliveLoop :: "libm \<Rightarrow> (int list \<Rightarrow> sample list) \<Rightarrow> bool \<Rightarrow> nat \<Rightarrow> pcm_call list" where
  "keepAliveLoop L to_samples opens n =
     (if \<not> opens then [Pcm_open]
      else [Pcm_open, Pcm_set_params 1 22050, Pcm_prepare] @
           replicate n (Pcm_write (to_samples (keep_alive_buffer L))) @ [Pcm_drain, Pcm_close])"

section \<open>The life of the operator\<close>

text \<open>
  The keep-alive thread object: none, a thread in its loop, or a thread that has returned and is
  not joined yet. \<open>Opened\<close> says whether the thread got the device; when it does not, it returns at
  once, with the flag still set.
\<close>

datatype keep_alive = Ka_none | Ka_running | Ka_returned

record speech_performer = performer +
  so_mh :: bool
  so_mpg123Initialized :: bool
  so_voiceLoaded :: bool
  so_modelPath :: string
  so_keepAliveRunning :: bool
  so_keepAliveThread :: keep_alive

text \<open>\<open>created\<close> and \<open>no_error\<close>: a new handle of mpg123 is returned, and no error is set.\<close>

definition performer_initialize :: "bool \<Rightarrow> bool \<Rightarrow> speech_performer \<Rightarrow> bool \<times> speech_performer" where
  "performer_initialize created no_error s =
     (if so_mh s then (True, s)
      else let s = s\<lparr>so_mpg123Initialized := True, so_mh := created\<rparr> in (created \<and> no_error, s))"

text \<open>\<open>None\<close>: a thread is assigned to an object whose thread was not joined, which terminates.\<close>

definition startKeepAlive :: "bool \<Rightarrow> speech_performer \<Rightarrow> speech_performer option" where
  "startKeepAlive opened s =
     (if so_keepAliveRunning s then Some s
      else if so_keepAliveThread s \<noteq> Ka_none then None
      else Some (s\<lparr>so_keepAliveRunning := True, so_keepAliveThread := if opened then Ka_running else Ka_returned\<rparr>))"

definition stopKeepAlive :: "speech_performer \<Rightarrow> speech_performer" where
  "stopKeepAlive s = s\<lparr>so_keepAliveRunning := False, so_keepAliveThread := Ka_none\<rparr>"

definition performer_shutdown :: "speech_performer \<Rightarrow> speech_performer" where
  "performer_shutdown s =
     (stopKeepAlive s)\<lparr>so_voiceLoaded := False, so_mh := False, so_mpg123Initialized := False\<rparr>"

definition performer_isReady :: "speech_performer \<Rightarrow> bool" where
  "performer_isReady s \<longleftrightarrow> so_voiceLoaded s"

text \<open>\<open>loadModel\<close>; loading a voice is piper's and throws where it fails, which is not modelled.\<close>

definition performer_loadModel :: "bool \<Rightarrow> bool \<Rightarrow> bool \<Rightarrow> string \<Rightarrow> speech_performer \<Rightarrow> speech_performer option" where
  "performer_loadModel created no_error opened modelPath s =
     (case performer_initialize created no_error s of (ok, s) \<Rightarrow>
        if \<not> ok then Some s else startKeepAlive opened (s\<lparr>so_modelPath := modelPath, so_voiceLoaded := True\<rparr>))"

text \<open>The constructor initialises, and only warns where that fails.\<close>

definition speech_performer_new :: "bool \<Rightarrow> bool \<Rightarrow> speech_performer" where
  "speech_performer_new created no_error =
     snd (performer_initialize created no_error
       (performer.extend performer_new (speech_performer.fields False False False [] False Ka_none)))"

section \<open>Properties\<close>

datatype performer_op = Po_load bool bool bool string | Po_shutdown

fun performer_step :: "performer_op \<Rightarrow> speech_performer \<Rightarrow> speech_performer option" where
  "performer_step (Po_load created no_error opened path) s = performer_loadModel created no_error opened path s"
| "performer_step Po_shutdown s = Some (performer_shutdown s)"

fun performer_run :: "performer_op list \<Rightarrow> speech_performer \<Rightarrow> speech_performer option" where
  "performer_run [] s = Some s"
| "performer_run (op # ops) s = Option.bind (performer_step op s) (performer_run ops)"

definition keep_alive_owned :: "speech_performer \<Rightarrow> bool" where
  "keep_alive_owned s \<longleftrightarrow> (so_keepAliveRunning s \<longleftrightarrow> so_keepAliveThread s \<noteq> Ka_none) \<and>
     (so_voiceLoaded s \<longrightarrow> so_keepAliveRunning s)"

lemma keep_alive_owned_new: "keep_alive_owned (speech_performer_new created no_error)"
  by (simp add: keep_alive_owned_def speech_performer_new_def performer_initialize_def performer_new_def
      performer.defs speech_performer.defs Let_def)

lemma performer_step_owned:
  assumes "keep_alive_owned s"
  shows "\<exists>s'. performer_step op s = Some s' \<and> keep_alive_owned s'"
  using assms
  by (cases op) (auto simp: keep_alive_owned_def performer_loadModel_def performer_initialize_def startKeepAlive_def
      performer_shutdown_def stopKeepAlive_def Let_def)

text \<open>No sequence of loading and shutting down terminates the program by its thread object, and a
loaded voice always has the keep-alive flag set.\<close>

lemma performer_run_returns:
  "keep_alive_owned s \<Longrightarrow> \<exists>s'. performer_run ops s = Some s' \<and> keep_alive_owned s'"
proof (induction ops arbitrary: s)
  case (Cons op ops)
  then show ?case using performer_step_owned [OF Cons(2), of op] by auto
qed simp

text \<open>A keep-alive thread that did not get the device stays returned through every later loading:
the flag keeps it from being started again until a shutdown.\<close>

lemma keep_alive_not_restarted:
  assumes "so_keepAliveRunning s" and "so_keepAliveThread s = Ka_returned"
  shows "\<exists>s'. performer_loadModel created no_error opened path s = Some s' \<and> so_keepAliveThread s' = Ka_returned"
  using assms by (auto simp: performer_loadModel_def performer_initialize_def startKeepAlive_def Let_def)

text \<open>What is heard of a piece of music.\<close>

definition pcm_heard :: "pcm_call list \<Rightarrow> sample list" where
  "pcm_heard calls = concat (map (\<lambda>c. case c of Pcm_write xs \<Rightarrow> xs | _ \<Rightarrow> []) calls)"

lemma pcm_heard_append [simp]: "pcm_heard (xs @ ys) = pcm_heard xs @ pcm_heard ys" "pcm_heard [] = []"
  by (simp_all add: pcm_heard_def)

lemma heard_music:
  "pcm_heard (concat (map (music_write channels) blocks)) =
   concat (map (\<lambda>(block, _). take (length block div 2 * channels) block) blocks)"
  by (induction blocks) (auto simp: music_write_def pcm_heard_def Let_def)

text \<open>Stereo music with whole frames in every block is heard in full; of mono music only the first
half of every block is.\<close>

lemma stereo_music_heard:
  assumes "\<forall>(block, _) \<in> set blocks. even (length block)"
  shows "pcm_heard (playMusic True True 2 rate blocks) = concat (map fst blocks)"
proof -
  have "pcm_heard (playMusic True True 2 rate blocks) = pcm_heard (concat (map (music_write 2) blocks))"
    by (simp add: playMusic_def) (simp add: pcm_heard_def)
  also have "\<dots> = concat (map fst blocks)"
    unfolding heard_music using assms by (intro arg_cong [of _ _ concat] map_cong) auto
  finally show ?thesis .
qed

lemma mono_music_half_heard:
  "pcm_heard (playMusic True True 1 rate blocks) = concat (map (\<lambda>(block, _). take (length block div 2) block) blocks)"
proof -
  have "pcm_heard (playMusic True True 1 rate blocks) = pcm_heard (concat (map (music_write 1) blocks))"
    by (simp add: playMusic_def) (simp add: pcm_heard_def)
  then show ?thesis by (simp add: heard_music)
qed

end
