(* ===== verification/Discovery.thy ===== *)
theory Discovery
  imports Web_Socket
begin

text \<open>
  The rest of \<open>operators/web_socket_operator.cpp\<close> beside its threads and locks (theory Web_Socket): what
  the broadcast responder answers, and the handlers the connections are reported to.
\<close>

section \<open>The broadcast responder\<close>

text \<open>
  \<open>recvfrom\<close> delivers at most 1023 bytes of a datagram; a datagram without bytes, an error and a
  timeout are passed over. The text ends at the first zero byte.
\<close>

definition discovery_answer :: "16 word \<Rightarrow> string \<Rightarrow> string option" where
  "discovery_answer port datagram =
     (let received = take 1023 datagram
      in if received = [] then None
         else let message = takeWhile (\<lambda>c. c \<noteq> CHR 0x00) received
              in if message = ''DISCOVER_WEBSOCKET_SERVER''
                 then Some (''WEBSOCKET_SERVER:'' @ decimal (unat port)) else None)"

text \<open>
  The datagrams received while \<open>_running\<close> is set, with their senders (\<open>None\<close> for a timeout or an
  error), and what is sent back to whom.
\<close>

fun broadcast_loop :: "16 word \<Rightarrow> ('a \<times> string) option list \<Rightarrow> ('a \<times> string) list" where
  "broadcast_loop port [] = []"
| "broadcast_loop port (None # rs) = broadcast_loop port rs"
| "broadcast_loop port (Some (client, datagram) # rs) =
     (case discovery_answer port datagram of
        None \<Rightarrow> broadcast_loop port rs
      | Some response \<Rightarrow> (client, response) # broadcast_loop port rs)"

definition broadcast_session ::
    "bool \<Rightarrow> bool \<Rightarrow> 16 word \<Rightarrow> ('a \<times> string) option list \<Rightarrow> ('a \<times> string) list" where
  "broadcast_session socket_ok bind_ok port rs = (if \<not> socket_ok \<or> \<not> bind_ok then [] else broadcast_loop port rs)"

section \<open>Handlers\<close>

text \<open>A handler is a function of the client that acts on the client's state \<open>'s\<close>, or is not set.\<close>

record ('c, 's) socket_handlers =
  sh_openHandler :: "('c \<Rightarrow> 's \<Rightarrow> 's) option"
  sh_closeHandler :: "('c \<Rightarrow> 's \<Rightarrow> 's) option"
  sh_messageHandler :: "('c \<Rightarrow> string \<Rightarrow> 's \<Rightarrow> 's) option"

definition setOpenHandler :: "('c \<Rightarrow> 's \<Rightarrow> 's) option \<Rightarrow> ('c, 's) socket_handlers \<Rightarrow> ('c, 's) socket_handlers" where
  "setOpenHandler handler H = H\<lparr>sh_openHandler := handler\<rparr>"

definition setCloseHandler :: "('c \<Rightarrow> 's \<Rightarrow> 's) option \<Rightarrow> ('c, 's) socket_handlers \<Rightarrow> ('c, 's) socket_handlers" where
  "setCloseHandler handler H = H\<lparr>sh_closeHandler := handler\<rparr>"

definition setMessageHandler ::
    "('c \<Rightarrow> string \<Rightarrow> 's \<Rightarrow> 's) option \<Rightarrow> ('c, 's) socket_handlers \<Rightarrow> ('c, 's) socket_handlers" where
  "setMessageHandler handler H = H\<lparr>sh_messageHandler := handler\<rparr>"

definition onOpen :: "('c, 's) socket_handlers \<Rightarrow> 'c \<Rightarrow> 's \<Rightarrow> 's" where
  "onOpen H hdl s = (case sh_openHandler H of None \<Rightarrow> s | Some handler \<Rightarrow> handler hdl s)"

definition onClose :: "('c, 's) socket_handlers \<Rightarrow> 'c \<Rightarrow> 's \<Rightarrow> 's" where
  "onClose H hdl s = (case sh_closeHandler H of None \<Rightarrow> s | Some handler \<Rightarrow> handler hdl s)"

definition onMessage :: "('c, 's) socket_handlers \<Rightarrow> 'c \<Rightarrow> string \<Rightarrow> 's \<Rightarrow> 's" where
  "onMessage H hdl payload s = (case sh_messageHandler H of None \<Rightarrow> s | Some handler \<Rightarrow> handler hdl payload s)"

section \<open>Lemmas\<close>

text \<open>Exactly the datagrams that say the request, alone or before a zero byte, are answered.\<close>

lemma takeWhile_is_prefix:
  assumes "d \<notin> set req"
  shows "takeWhile (\<lambda>c. c \<noteq> d) xs = req \<longleftrightarrow> xs = req \<or> (\<exists>rest. xs = req @ d # rest)"
proof
  assume req: "takeWhile (\<lambda>c. c \<noteq> d) xs = req"
  show "xs = req \<or> (\<exists>rest. xs = req @ d # rest)"
  proof (cases "dropWhile (\<lambda>c. c \<noteq> d) xs")
    case Nil
    then have "xs = req @ []" using takeWhile_dropWhile_id [of "\<lambda>c. c \<noteq> d" xs] req by metis
    then show ?thesis by simp
  next
    case (Cons c cs)
    then have "c = d" by (simp add: dropWhile_eq_Cons_conv)
    then show ?thesis using takeWhile_dropWhile_id [of "\<lambda>c. c \<noteq> d" xs] req Cons by metis
  qed
next
  assume "xs = req \<or> (\<exists>rest. xs = req @ d # rest)"
  then show "takeWhile (\<lambda>c. c \<noteq> d) xs = req"
    using assms by (auto simp: takeWhile_eq_all_conv takeWhile_append)
qed

lemma discovery_answered_iff:
  "discovery_answer port datagram \<noteq> None \<longleftrightarrow>
   take 1023 datagram = ''DISCOVER_WEBSOCKET_SERVER'' \<or>
   (\<exists>rest. take 1023 datagram = ''DISCOVER_WEBSOCKET_SERVER'' @ CHR 0x00 # rest)"
proof -
  define req where "req = ''DISCOVER_WEBSOCKET_SERVER''"
  have req: "CHR 0x00 \<notin> set req" "req \<noteq> []" by (simp_all add: req_def)
  define received where "received = take 1023 datagram"
  have "discovery_answer port datagram \<noteq> None \<longleftrightarrow> takeWhile (\<lambda>c. c \<noteq> CHR 0x00) received = req"
    unfolding discovery_answer_def Let_def req_def [symmetric] received_def [symmetric]
    using req(2) by (cases "received = []") simp_all
  then show ?thesis
    unfolding req_def [symmetric] received_def [symmetric] by (simp only: takeWhile_is_prefix [OF req(1)])
qed

lemma broadcast_answers:
  "broadcast_loop port rs =
   List.map_filter (\<lambda>r. Option.bind r (\<lambda>(client, datagram). map_option (Pair client) (discovery_answer port datagram))) rs"
  by (induction port rs rule: broadcast_loop.induct) (simp_all add: List.map_filter_simps split: option.splits)

end
