(* ===== verification/Perception_Input.thy ===== *)
theory Perception_Input
  imports Perception Speech_Recognizer
begin

text \<open>
  Functions of \<open>services/perception_service.cpp\<close> that nothing calls at present: passing recognised speech
  on, reading a face description, publishing a frame, the frame rate shown.
\<close>

section \<open>Recognised speech\<close>

definition processSpeechInput ::
    "(sample list \<Rightarrow> int \<Rightarrow> string option) \<Rightarrow> speech_recognizer \<Rightarrow> message list \<times> speech_recognizer" where
  "processSpeechInput vosk s =
     (let (buffer, s) = get_buffer s
      in if buffer = [] then ([], s)
         else let (recognizedText, s) = get_text vosk buffer s
              in (if recognizedText = [] then [] else [M_speech recognizedText], s))"

section \<open>Reading a face description\<close>

text \<open>\<open>std::getline\<close> over the whole text: a separator at the end begins no further segment.\<close>

function segments :: "char \<Rightarrow> string \<Rightarrow> string list" where
  "segments d str = (if str = [] then []
     else takeWhile (\<lambda>c. c \<noteq> d) str # segments d (drop 1 (dropWhile (\<lambda>c. c \<noteq> d) str)))"
  by auto
termination
proof (relation "measure (\<lambda>(d, str). length str)")
  fix d :: char and str :: string
  assume "str \<noteq> []"
  then have "length (drop 1 (dropWhile (\<lambda>c. c \<noteq> d) str)) < length str"
    using length_dropWhile_le [of "\<lambda>c. c \<noteq> d" str] by (cases str) (auto simp: less_Suc_eq_le)
  then show "((d, drop 1 (dropWhile (\<lambda>c. c \<noteq> d) str)), d, str) \<in> measure (\<lambda>(d, str). length str)" by simp
qed simp

declare segments.simps [simp del]

text \<open>
  \<open>stof\<close> is the conversion of a text to a float, \<open>None\<close> where it raises, which the loop passes over;
  a later value of a key replaces an earlier one.
\<close>

definition face_info_segment :: "(string \<Rightarrow> flt option) \<Rightarrow> string \<Rightarrow> (string \<rightharpoonup> flt) \<Rightarrow> (string \<rightharpoonup> flt)" where
  "face_info_segment stof segment infoMap =
     (if CHR '':'' \<notin> set segment then infoMap
      else let key = takeWhile (\<lambda>c. c \<noteq> CHR '':'') segment;
               valueStr = drop 1 (dropWhile (\<lambda>c. c \<noteq> CHR '':'') segment)
           in case stof valueStr of None \<Rightarrow> infoMap | Some v \<Rightarrow> infoMap(key \<mapsto> v))"

definition removed :: "char \<Rightarrow> bool" where
  "removed c \<longleftrightarrow> c = CHR ''{'' \<or> c = CHR ''}'' \<or> c = CHR 0x27 \<or> c = CHR '' ''"

definition parseFaceInfoString :: "(string \<Rightarrow> flt option) \<Rightarrow> string \<Rightarrow> (string \<rightharpoonup> flt)" where
  "parseFaceInfoString stof faceInfoStr =
     (let cleanedStr = filter (\<lambda>c. \<not> removed c) faceInfoStr
      in fold (face_info_segment stof) (segments (CHR '','') cleanedStr) Map.empty)"

section \<open>Frames\<close>

text \<open>\<open>publishVideoFrame\<close> publishes a copy of the frame; the frame rate is that of one pass.\<close>

definition publishVideoFrame :: "'f \<Rightarrow> MessageType \<times> SourceService \<times> 'f" where
  "publishVideoFrame frame = (Msg_VideoFrame, Src_perceptionService, frame)"

text \<open>\<open>displayFPS\<close>: the number shown and the time kept, from the seconds of the clock; dividing by no time at
all gives no number (\<open>None\<close>).\<close>

definition displayFPS :: "flt \<Rightarrow> flt \<Rightarrow> (int \<times> flt) option" where
  "displayFPS ctime ptime =
     (let elapsed = fsub dbl_prec ctime ptime
      in if fmant elapsed = 0 then None
         else Some (ftrunc (fdiv dbl_prec (fof_int dbl_prec 1) elapsed), ctime))"

section \<open>Lemmas\<close>

text \<open>Each utterance recorded is taken from the queue and published at most once, in its order.\<close>

lemma speech_input_takes_one:
  "sr_bufferQueue (snd (processSpeechInput vosk s)) = drop 1 (sr_bufferQueue s)"
  by (simp add: processSpeechInput_def get_buffer_def get_text_def Let_def split: list.splits)

lemma speech_input_publishes:
  assumes "sr_recognizer s" and "sr_model s" and "sr_bufferQueue s = b # bs"
  shows "fst (processSpeechInput vosk s) =
    (case vosk (replicate 1500 0 @ b) (int (1500 + length b) * 2) of
       None \<Rightarrow> [] | Some [] \<Rightarrow> [] | Some text \<Rightarrow> [M_speech text])"
  using assms by (simp add: processSpeechInput_def get_buffer_def get_text_def Let_def split: option.splits list.splits)

lemma segments_Nil [simp]: "segments d [] = []"
  by (simp add: segments.simps)

lemma segments_one: "str \<noteq> [] \<Longrightarrow> d \<notin> set str \<Longrightarrow> segments d str = [str]"
proof -
  assume str: "str \<noteq> []" "d \<notin> set str"
  then have "takeWhile (\<lambda>c. c \<noteq> d) str = str" "dropWhile (\<lambda>c. c \<noteq> d) str = []"
    by (auto simp: takeWhile_eq_all_conv)
  then have "segments d str = str # segments d (drop 1 [])"
    using str(1) by (subst segments.simps) (simp only: if_False)
  then show ?thesis by simp
qed

lemma segments_append: "d \<notin> set str \<Longrightarrow> segments d (str @ d # rest) = str # segments d rest"
proof -
  assume "d \<notin> set str"
  then have "takeWhile (\<lambda>c. c \<noteq> d) (str @ d # rest) = str" "dropWhile (\<lambda>c. c \<noteq> d) (str @ d # rest) = d # rest"
    by (induction str) auto
  then show ?thesis by (subst segments.simps) simp
qed

text \<open>A description of keys with values that are numbers, with blanks, quotes and braces around them,
is read to the map of these keys and values.\<close>

definition plain_text :: "string \<Rightarrow> bool" where
  "plain_text str \<longleftrightarrow> list_all (\<lambda>c. \<not> removed c \<and> c \<noteq> CHR '','' \<and> c \<noteq> CHR '':'') str"

definition pair_text :: "string \<times> string \<Rightarrow> string" where
  "pair_text kv = CHR 0x27 # fst kv @ CHR 0x27 # '': '' @ snd kv"

definition pair_segment :: "string \<times> string \<Rightarrow> string" where
  "pair_segment kv = fst kv @ CHR '':'' # snd kv"

fun face_info_text :: "(string \<times> string) list \<Rightarrow> string" where
  "face_info_text [] = []"
| "face_info_text [kv] = pair_text kv"
| "face_info_text (kv # kvs) = pair_text kv @ '', '' @ face_info_text kvs"

lemma plain_not_removed: "plain_text str \<Longrightarrow> filter (\<lambda>c. \<not> removed c) str = str"
  by (rule filter_True) (simp add: plain_text_def list_all_iff)

lemma plain_separators: "plain_text str \<Longrightarrow> CHR '','' \<notin> set str \<and> CHR '':'' \<notin> set str"
  by (auto simp: plain_text_def list_all_iff)

lemma removed_chars [simp]:
  "removed (CHR ''{'')" "removed (CHR ''}'')" "removed (CHR 0x27)" "removed (CHR '' '')"
  "\<not> removed (CHR '','')" "\<not> removed (CHR '':'')"
  by (simp_all add: removed_def)

lemma cleaned_pair:
  "plain_text (fst kv) \<Longrightarrow> plain_text (snd kv) \<Longrightarrow> filter (\<lambda>c. \<not> removed c) (pair_text kv) = pair_segment kv"
  by (simp add: pair_text_def pair_segment_def plain_not_removed)

lemma pair_segment_whole:
  assumes "plain_text (fst kv)" and "plain_text (snd kv)"
  shows "CHR '','' \<notin> set (pair_segment kv)" "pair_segment kv \<noteq> []"
  using plain_separators [OF assms(1)] plain_separators [OF assms(2)] by (simp_all add: pair_segment_def)

abbreviation plain_pair :: "string \<times> string \<Rightarrow> bool" where
  "plain_pair kv \<equiv> plain_text (fst kv) \<and> plain_text (snd kv)"

lemma segments_text:
  "\<forall>kv \<in> set kvs. plain_pair kv \<Longrightarrow>
   segments (CHR '','') (filter (\<lambda>c. \<not> removed c) (face_info_text kvs)) = map pair_segment kvs"
proof (induction kvs rule: face_info_text.induct)
  case (2 kv)
  then show ?case by (simp add: cleaned_pair segments_one pair_segment_whole)
next
  case (3 kv kv' kvs)
  then show ?case by (simp add: cleaned_pair segments_append pair_segment_whole del: face_info_text.simps(2))
qed simp

lemma segment_of_pair:
  assumes "plain_text (fst kv)"
  shows "face_info_segment stof (pair_segment kv) infoMap =
    (case stof (snd kv) of None \<Rightarrow> infoMap | Some x \<Rightarrow> infoMap(fst kv \<mapsto> x))"
proof -
  have "takeWhile (\<lambda>c. c \<noteq> CHR '':'') (k @ CHR '':'' # v) = k \<and> dropWhile (\<lambda>c. c \<noteq> CHR '':'') (k @ CHR '':'' # v) = CHR '':'' # v"
    if "CHR '':'' \<notin> set k" for k v :: string
    using that by (induction k) auto
  then show ?thesis
    using plain_separators [OF assms] by (simp add: face_info_segment_def pair_segment_def Let_def)
qed

lemma fold_pairs:
  "\<forall>kv \<in> set kvs. plain_pair kv \<and> stof (snd kv) \<noteq> None \<Longrightarrow>
   fold (face_info_segment stof) (map pair_segment kvs) m =
   m ++ map_of (rev (map (\<lambda>kv. (fst kv, the (stof (snd kv)))) kvs))"
proof (induction kvs arbitrary: m)
  case (Cons kv kvs)
  then obtain x where x: "stof (snd kv) = Some x" by auto
  have "fold (face_info_segment stof) (map pair_segment (kv # kvs)) m =
      fold (face_info_segment stof) (map pair_segment kvs) (m(fst kv \<mapsto> x))"
    using Cons(2) x by (simp add: segment_of_pair)
  also have "\<dots> = m(fst kv \<mapsto> x) ++ map_of (rev (map (\<lambda>kv. (fst kv, the (stof (snd kv)))) kvs))"
    using Cons(2) by (intro Cons(1)) simp
  also have "\<dots> = m ++ map_of (rev (map (\<lambda>kv. (fst kv, the (stof (snd kv)))) (kv # kvs)))"
    by (simp add: x)
  finally show ?case .
qed simp

lemma face_info_read_back:
  assumes "\<forall>kv \<in> set kvs. plain_pair kv \<and> stof (snd kv) \<noteq> None"
  shows "parseFaceInfoString stof (CHR ''{'' # face_info_text kvs @ ''}'') =
    map_of (rev (map (\<lambda>kv. (fst kv, the (stof (snd kv)))) kvs))"
proof -
  have "segments (CHR '','') (filter (\<lambda>c. \<not> removed c) (CHR ''{'' # face_info_text kvs @ ''}'')) = map pair_segment kvs"
    using segments_text [of kvs] assms by simp
  then show ?thesis
    using fold_pairs [OF assms, of Map.empty] by (simp only: parseFaceInfoString_def Let_def map_add_empty empty_map_add)
qed

end
