(* ===== verification/Spec2Isabelle.thy ===== *)
theory Spec2Isabelle
  imports Sensor_Properties Config_Parser Web_Socket Startup Window_Control Llama_Operator Speech_Performer
    Discovery Perception_Input
begin

text \<open>
  Kufibot is the C++ program of a small robot: a raspberry with wheels, a head, two arms, a camera
  and a loudspeaker. Its own code is the directory src/src; src/include holds libraries. This
  development models the program's own code, component by component, and proves what makes the
  components correct, or where they are not, what happens instead.

  The program. \<open>main.cpp\<close> starts a handful of services (src/src/services), each a singleton with a
  thread. Services are joined by a publish-subscribe fabric (\<open>publisher.cpp\<close>, \<open>services/service.cpp\<close>): a
  service publishes messages (\<open>public_data_messages.h\<close>), and each subscriber's handler runs on the
  publisher's thread. The perception service turns camera frames into gestures, the landmark tracker
  turns gestures into head commands, the expression service plays motions, the chat and RAG services
  answer questions, the terminal, the remote connection and the voice agent bring in commands from
  outside. All commands end at the robot controller service, which hands them to a hierarchical
  state machine (src/src/statemachines); its states drive the robot, whose controllers
  (src/src/controllers) use the chip drivers (src/src/drivers).

  How it is modelled. State is a record with the fields of the class, a method a function on the
  record, an enumeration a datatype. A function that cannot go on, because of an uncaught exception,
  an access the language leaves undefined or a loop that does not end, is None (or a constructor
  that says so); JSON exceptions are values of a sum. What the code gets from outside is an argument:
  the answers of devices, clock and operating system (\<open>environ\<close> in World, a function of all requests
  made so far, so every behaviour of the outside is covered), the C mathematics library (\<open>libm\<close>,
  \<open>hypot\<close>), the language model's embeddings, sorting of equal keys, random numbers, MediaPipe's and
  OpenCV's answers, parsing and printing of JSON text. Where a property needs something of these, it
  is a hypothesis. Threads are interleaved step by step: a thread has an explicit position, and what
  other threads do happens between its steps. A lock that is held only inside a step is left out;
  the WebSocket server, which waits inside a locked block, has its lock modelled. Floating-point
  numbers are exact binary fractions, rounded to nearest even after each operation
  (Binary_Float); infinities, NaN and the limits of the exponent are left out.

  The theories.

  Prelude: machine integers, shared lemmas, runs of a step function and the interface
  \<open>stable_condition\<close> (a condition every step keeps holds after every run).
  Binary_Float: float and double arithmetic with error bounds.
  Data_Types: \<open>controller_data_structures.h\<close>, \<open>gesture_defs.h\<close>, the enumerations and plain structs of
  \<open>public_data_messages.h\<close>, \<open>statemachines/event.h\<close>. World: the trace of requests to the outside.

  I2C_Drivers, Sensor_Drivers: src/src/drivers (the bus, PWM chip, power sensor, two compass chips,
  median filter). DC_Motor, Servo, Sensors: src/src/controllers. Sensor_Properties shows that a lidar
  frame is decoded to the words it encodes, what the power sensor's configuration word and readings
  are. Servo shows the paths of joints and pulse widths; a joint's loop is bounded by the 256 angles,
  each step comes nearer to the target.

  Robot: \<open>statemachines/robot.cpp\<close>; Motion_Properties shows which wheels turn for which heading (a
  refinement of the sector of the heading), that a command touches only what it names, and that
  joint angles saved are loaded back.

  State_Machine: \<open>statemachines/state_machine.cpp\<close>, \<open>state.h\<close> and the state classes: event queue, delayed
  events, dispatch along the parents, transitions over the common ancestor. Machine_Behaviour
  evaluates the transitions, Machine_Invariants has the invariant of reachable configurations by
  rule induction over \<open>machine_step\<close>, Machine_Properties the properties of the machine.
  The depth of the hierarchy bounds the walks along parents; the tree has three levels.

  Services: \<open>publisher.cpp\<close>, \<open>services/service.cpp\<close>; the interface \<open>service_operation\<close> (an operation that
  keeps the two subscription lists in agreement) is interpreted for each operation. Service_Threads:
  the thread objects of services. Service_Handlers: the messages in flight and the interface
  \<open>service_handler\<close>, interpreted for the tracker, the expression and the chat service.
  Robot_Service: \<open>robot_controller_service.cpp\<close> with its mailbox and thread.
  Json_Value, Messages: the JSON documents and the messages with their own JSON form.
  Landmark_Tracker, Expression, Interactive_Chat, Rag, Perception, Remote_Connection, Voice_Agent,
  Tui_Commands: the services of these names. Sentences: what chat and RAG share, trimming and the most
  similar gesture. A motion's loop over a polled clock ends exactly when every item comes due, and
  the theory proves it; the loop picking an answer ends when the random numbers hit an answer that
  is similar enough, which is a hypothesis there.
  Hand_Gesture, Face_Gesture, Web_Socket, Config_Parser: the operators of these names
  (src/src/operators); the video operator is part of Perception, the UDP socket of Voice_Agent. The
  discovery answers and handlers of the WebSocket operator are in Discovery; Perception_Input has what
  the perception service does with recognised speech and face descriptions. The interface \<open>motion_kind\<close> of Config_Parser is what the loading of the three kinds of motion shares.
  Graph_Window, Tui_Windows: the windows of the terminal (src/src/tui): what their fields hold, the
  commands of their buttons, the queues other threads fill and the timer empties, the lines and scales
  of a graph. Its conversions to \<open>int\<close> and the arithmetic of its line loop are checked against the
  32-bit range. The line loop and the scale loops are partial functions: the line loop is shown to end
  without overflow when the cells of its two ends are less than \<open>2 ^ 29\<close> apart, the scale loops to end
  exactly when the graph spans ten units. Window_Control: the windows together with the state machine
  and the robot.
  Speech_Recognizer: \<open>speech_recognizing_operator.cpp\<close>, the recording of utterances in the audio
  callback. Side_Operators: the logger's cache, the HTTP, command line and UDP server operators, and
  speaking; Speech_Performer: the rest of \<open>speech_performing_operator.cpp\<close>, playing and the keep-alive
  thread. Llama_Operator: \<open>llama_operator.cpp\<close>, the models loaded and freed, conversations (whose
  generating loop ends because the context is finite) and embeddings, with \<open>load_models\<close> of the chat.
  Startup: \<open>main.cpp\<close>, the sources of every service, and the wiring of the voice agent.
  This theory: properties of services that interact through messages.

  What the properties say together: the state machine never reaches a configuration in which its
  loop crashes, keeps the controllers enabled as its state requires and always has a timeout
  pending while it moves; commands from each source end in the state of that source and are
  executed as the source may; motions send what the configuration says and silence the tracker
  meanwhile; texts are cut into sentences, and recorded speech into utterances, without loss; the
  buttons of the windows do what they say, but for one of the head. Several properties show
  defects at the place where they are: a stopped robot service whose machine never runs again, a
  chat that an empty query blocks for ever and that does not survive a conversation of 46 queries,
  models freed twice, a WebSocket server that shuts out everybody who wants to send or stop it, a
  camera failure or an empty frame that ends the program, snapshots that are never taken.

  Not modelled: layout, colours, focus and scrolling of the windows, which belong to the finalcut
  library, and the time and thread number in front of a logged line; what happens inside audio
  devices, MP3 decoding, the recognition and synthesis of speech, the evaluation, sampling and
  templates of language models, MediaPipe graphs and drawing into frames, the shell and HTTP: these are
  calls of libraries that are not part of the repository's source, and their outcome is an argument
  where a modelled component uses it. \<open>getJointLimits\<close> of the configuration parser, which no
  code calls, and functions without effect are left out. Integer overflow of plain \<open>int\<close> arithmetic
  is not modelled where the operands are pixels, angles, counters and the cells of the compass line;
  the whole numbers of JSON documents are taken to be in the range of \<open>int\<close>, and texts written to
  files to be UTF-8; conversions to 8 and 16 bits are words.
\<close>

section \<open>Expression service and landmark tracker\<close>

lemma tracker_ignores_commands:
  "\<forall>m \<in> set ms. \<exists>a. m = joints_command a \<Longrightarrow> fold tracker_receive ms s = s"
  by (induction ms arbitrary: s) (auto simp: joints_command_def)

text \<open>C25: while a mimic plays, the tracker that receives the mimic's messages is stopped at every
joint command, so it sends no head command of its own, and it runs again at the end.\<close>

theorem mimic_silences_tracker:
  assumes "makeMimic clock r e = Some (acts, e')" and "\<not> sc_disabled (snd s LandmarkTrackerService)"
  shows "(\<forall>i < length (published acts). (\<exists>c. published acts ! i = M_control c) \<longrightarrow>
      \<not> sc_running (snd (fold tracker_receive (take i (published acts)) s) LandmarkTrackerService)) \<and>
    sc_running (snd (fold tracker_receive (published acts) s) LandmarkTrackerService)"
proof -
  obtain ms where pub: "published acts = M_bare Msg_StopPerceptionRequest # ms @ [M_bare Msg_StartPerceptionRequest]"
    and ms: "\<forall>m \<in> set ms. \<exists>a. m = joints_command a"
    using assms(1) by (rule published_mimic)
  have "\<not> sc_running (snd (fold tracker_receive (take i (published acts)) s) LandmarkTrackerService)"
    if i: "i < length (published acts)" and c: "published acts ! i = M_control c" for i c
  proof -
    obtain k where k: "i = Suc k" using c by (cases i) (simp_all add: pub)
    have "k < length ms"
      using i c k by (cases "k < length ms") (auto simp: pub nth_append split: if_splits)
    with k have "fold tracker_receive (take i (published acts)) s = stop_self LandmarkTrackerService s"
      using ms set_take_subset [of k ms] by (simp add: pub tracker_ignores_commands subset_iff)
    then show ?thesis by simp
  qed
  moreover have "fold tracker_receive (published acts) s =
      start_self True tracker_subscriptions LandmarkTrackerService (stop_self LandmarkTrackerService s)"
    using ms by (simp add: pub tracker_ignores_commands)
  moreover have "\<not> sc_disabled (snd (stop_self LandmarkTrackerService s) LandmarkTrackerService)"
    using assms(2) by (simp add: stop_self_def service_stop_def)
  ultimately show ?thesis by (auto simp: start_self_runs)
qed

definition sample_response :: LLMResponseData where
  "sample_response =
     \<lparr>lr_sentence = ''hi'', lr_emotion = 0, lr_reaction = 0, lr_directive = '''', lr_endMarker = False,
      lr_emotionSimilarity = Flt 1 0, lr_reactionSimilarity = Flt 0 0, lr_directiveSimilarity = Flt 0 0\<rparr>"

definition sample_player :: expression where
  "sample_player = sample_expression\<lparr>ex_emotionalMotions :=
     [Em_happy \<mapsto> \<lparr>mo_name = ''n'', mo_description = ''d'', mo_duration = 10, mo_joints = Map.empty, mo_sequence = []\<rparr>]\<rparr>"

lemma sample_mimic: "\<exists>acts e'. makeMimic sample_clock sample_response sample_player = Some (acts, e')"
  by (auto simp: makeMimic_def sample_response_def flt_less_def aligned_def executeEmotionalMotion_def
      emotion_of_number_def sample_player_def play_def executeMotionSequence_def case_prod_beta)

lemma mimic_silences_tracker_witness:
  "\<exists>acts e'. makeMimic sample_clock sample_response sample_player = Some (acts, e') \<and>
     sc_running (snd (fold tracker_receive (published acts) (sample_tracker [], \<lambda>_. service_new)) LandmarkTrackerService)"
proof -
  obtain acts e' where m: "makeMimic sample_clock sample_response sample_player = Some (acts, e')"
    using sample_mimic by blast
  then show ?thesis
    using mimic_silences_tracker [OF m, of "(sample_tracker [], \<lambda>_. service_new)"] by (auto simp: service_new_def)
qed

section \<open>Configuration and expression service\<close>

text \<open>What the expression service asks the configuration for when it starts.\<close>

definition expression_config_of :: "config_operator \<Rightarrow> expression_config" where
  "expression_config_of c =
     \<lparr>ec_jointAngles = co_jointAngles c, ec_emotionalMotions = co_emotionalMotions c,
      ec_reactionalMotions = co_reactionalMotions c, ec_directiveMotions = co_directiveMotions c,
      ec_idlePosition = co_idlePosition c, ec_aiConfig = (co_aiConfig c \<noteq> None)\<rparr>"

text \<open>A configuration that reports ready lets the expression service initialise, and the motions
it plays are those of the configuration.\<close>

lemma ready_config_initialises_expression:
  assumes "config_isReady c"
  shows "\<exists>e'. expression_initialize (expression_config_of c) e = (True, e') \<and>
    co_emotionalMotions c = Some (ex_emotionalMotions e') \<and> co_reactionalMotions c = Some (ex_reactionalMotions e') \<and>
    co_jointAngles c = Some (ex_jointPositionList e') \<and> ex_currentPositions e' = ex_currentPositions e"
  using assms by (auto simp: config_isReady_def expression_initialize_def expression_config_of_def Let_def)

definition ready_operator :: config_operator where
  "ready_operator =
     \<lparr>co_ragDataset = Some [], co_emotionalMotions = Some Map.empty, co_reactionalMotions = Some Map.empty,
      co_directiveMotions = Some Map.empty, co_idlePosition = Some Map.empty, co_emotionalList = Some [],
      co_reactionalList = Some [], co_directiveList = Some [], co_faceReactionList = Some [],
      co_jointAngles = Some (\<lambda>_ _. None), co_configPaths = Some sample_config_paths,
      co_aiConfig = Some AiConfig_empty\<rparr>"

lemma ready_config_initialises_expression_witness:
  "\<exists>e'. expression_initialize (expression_config_of ready_operator) sample_expression = (True, e') \<and>
     ex_emotionalMotions e' = Map.empty"
  using ready_config_initialises_expression [of ready_operator sample_expression]
  by (auto simp: config_isReady_def ready_operator_def)

section \<open>Expression and perception service\<close>

lemma perception_ignores_commands:
  "\<forall>m \<in> set ms. \<exists>a. m = joints_command a \<Longrightarrow> perception_receives P ms s = Some ([], s)"
  by (induction ms) (auto simp: joints_command_def perception_receive_def)

lemma perception_receives_append:
  "perception_receives P (ms @ ns) s =
     Option.bind (perception_receives P ms s)
       (\<lambda>(out, s1). map_option (\<lambda>(outs, s2). (out @ outs, s2)) (perception_receives P ns s1))"
  by (induction ms arbitrary: s)
    (auto simp: case_prod_beta' option.map_comp comp_def option.map_ident_strong split: bind_split)

text \<open>C10: when the camera cannot be opened and the perception service has given up, the next mimic
the expression service plays terminates the program.\<close>

theorem mimic_after_camera_failure_terminates:
  assumes "run_actions (life_step targets) as program_new = Some p" and "\<forall>a \<in> set as. orderly a"
    and "sc_running (pg_net p PerceptionService)" and "sc_initialized (pg_net p PerceptionService)"
    and "\<not> sc_disabled (pg_net p PerceptionService)"
    and "perception_begin opens now c = None" and "makeMimic clock r e = Some (acts, e')"
  shows "\<not> opens \<and> perception_receives P (published acts) (c, gives_up PerceptionService p) = None"
proof -
  let ?s = "(c, gives_up PerceptionService p)"
  obtain ms where pub: "published acts = M_bare Msg_StopPerceptionRequest # ms @ [M_bare Msg_StartPerceptionRequest]"
    and ms: "\<forall>m \<in> set ms. \<exists>a. m = joints_command a"
    using assms(7) by (rule published_mimic)
  have "threads_agree p"
    using agreeing.kept_run [OF assms(1,2) threads_agree_new] .
  then have gone: "gone PerceptionService (gives_up PerceptionService p)"
    using assms(3-5) by (auto simp: threads_agree_def gone_def gives_up_def split: thread_object.splits)
  have "perception_receive P (M_bare Msg_StopPerceptionRequest) ?s = Some ([], ?s)"
    by (simp add: perception_receive_def gone_stop [OF gone])
  moreover have "perception_receive P (M_bare Msg_StartPerceptionRequest) ?s = None"
    using gone by (simp add: perception_receive_def start_unless_running_def perception_start_def gone_start [OF gone])
      (simp add: gone_def)
  ultimately have "perception_receives P (published acts) ?s = None"
    by (simp add: pub perception_receives_append perception_ignores_commands [OF ms])
  moreover have "\<not> opens"
    using assms(6) by (auto simp: perception_begin_def openLocked_def split: if_splits)
  ultimately show ?thesis by blast
qed

lemma mimic_after_camera_failure_terminates_witness:
  "\<exists>p acts e'. run_actions (life_step service_targets) [Life_start PerceptionService True] program_new = Some p \<and>
     makeMimic sample_clock sample_response sample_player = Some (acts, e') \<and>
     (\<forall>P. perception_receives P (published acts)
       ((sample_perception True)\<lparr>pc_cap := None\<rparr>, gives_up PerceptionService p) = None)"
proof -
  let ?as = "[Life_start PerceptionService True]"
  obtain acts e' where m: "makeMimic sample_clock sample_response sample_player = Some (acts, e')"
    using sample_mimic by blast
  obtain p where p: "run_actions (life_step service_targets) ?as program_new = Some p"
    using orderly_run [of ?as program_new service_targets] threads_agree_new by auto
  have flags: "sc_running (pg_net p PerceptionService)" "sc_initialized (pg_net p PerceptionService)"
    "\<not> sc_disabled (pg_net p PerceptionService)"
    using p by (auto simp: life_defs program_new_def service_new_def)
  have closed: "perception_begin False 0 ((sample_perception True)\<lparr>pc_cap := None\<rparr>) = None"
    by (simp add: perception_begin_def openLocked_def)
  show ?thesis
    using mimic_after_camera_failure_terminates [OF p _ flags closed m] p m by auto
qed

end
